(* ===== verification/Dwrt_Prelude.thy ===== *)
theory Dwrt_Prelude
  imports Main "HOL-Library.Word" "HOL-Library.Monad_Syntax"
begin

section \<open>Shared types, automation and lemmas\<close>

text \<open>
  The machine types the native code uses, the collections of rewrite rules the component
  theories feed, and the generic facts on lists, options and words that more than one
  component needs.  \<open>std::uint8_t\<close>, \<open>std::uint32_t\<close> and \<open>std::uint64_t\<close> are words of their
  width, so \<open>fetch_add\<close> wraps as the atomics do; \<open>std::size_t\<close> values that only count container
  elements are natural numbers; a raw pointer is a 64 bit word and \<open>nullptr\<close> is \<open>0\<close>.
\<close>

unbundle bit_operations_syntax

type_synonym u8 = "8 word"
type_synonym u16 = "16 word"
type_synonym u32 = "32 word"
type_synonym u64 = "64 word"
type_synonym ptr = "64 word"

abbreviation nullptr :: ptr where "nullptr \<equiv> 0"

text \<open>
  \<open>counting\<close> collects the equations that say which counters an operation moves,
  \<open>mem_simps\<close> the rewrite rules of the byte memory, and \<open>invariants\<close> the facts that an
  operation keeps the invariant of its component.
\<close>

named_theorems counting
named_theorems mem_simps
named_theorems invariants

subsection \<open>Counters\<close>

text \<open>
  \<open>inc\<close> is \<open>fetch_add(1)\<close> on the counter of a record given by its update function, \<open>inc_if\<close>
  the same under a condition.
\<close>

abbreviation inc :: "((u64 \<Rightarrow> u64) \<Rightarrow> 's \<Rightarrow> 's) \<Rightarrow> 's \<Rightarrow> 's" where
  "inc upd \<equiv> upd (\<lambda>n. n + 1)"

abbreviation inc_if :: "bool \<Rightarrow> ((u64 \<Rightarrow> u64) \<Rightarrow> 's \<Rightarrow> 's) \<Rightarrow> 's \<Rightarrow> 's" where
  "inc_if b upd \<equiv> upd (\<lambda>n. n + of_bool b)"

text \<open>One more in slot \<open>i\<close> of an array of counters.\<close>

definition bump :: "u32 \<Rightarrow> u64 list \<Rightarrow> u64 list" where
  "bump i xs = xs[unat i := xs ! unat i + 1]"

lemma length_bump [simp]: "length (bump i xs) = length xs"
  by (simp add: bump_def)

lemma sum_list_Suc_at: "k < length (xs :: u64 list) \<Longrightarrow> sum_list (xs[k := xs ! k + 1]) = sum_list xs + 1"
proof (induction xs arbitrary: k)
  case (Cons x xs)
  then show ?case by (cases k) (simp_all add: ac_simps)
qed simp

lemma sum_list_bump: "unat i < length xs \<Longrightarrow> sum_list (bump i xs) = sum_list xs + 1"
  by (simp add: bump_def sum_list_Suc_at)

subsection \<open>Booleans stored in integers\<close>

definition flag32 :: "bool \<Rightarrow> u32" where
  "flag32 b = (if b then 1 else 0)"

lemma flag32_simps [simp]:
  "flag32 True = 1" "flag32 False = 0" "flag32 b = 0 \<longleftrightarrow> \<not> b" "flag32 b = 1 \<longleftrightarrow> b"
  "flag32 b = flag32 c \<longleftrightarrow> b = c"
  by (simp_all add: flag32_def)

subsection \<open>Characters and bytes\<close>

definition byte_char :: "u8 \<Rightarrow> char" where
  "byte_char b = char_of (unat b)"

definition char_byte :: "char \<Rightarrow> u8" where
  "char_byte c = of_nat (of_char c)"

lemma byte_char_byte [simp]: "byte_char (char_byte c) = c"
  by (simp add: byte_char_def char_byte_def unat_of_nat)

lemma unat_lt_8: "unat (x :: u8) < 256"
proof -
  have "unat x < 2 ^ LENGTH(8)" by (rule unsigned_less)
  then show ?thesis by simp
qed

lemma char_byte_char [simp]: "char_byte (byte_char b) = b"
  using unat_lt_8 [of b] by (simp add: byte_char_def char_byte_def)

lemma byte_char_inject [simp]: "byte_char a = byte_char b \<longleftrightarrow> a = b"
  by (metis char_byte_char)

subsection \<open>Lists\<close>

lemma take_filter_upt_Suc:
  "take m (filter P [0..<Suc n]) =
     (if length (filter P [0..<n]) < m \<and> P n then filter P [0..<n] @ [n]
      else take m (filter P [0..<n]))"
  by (auto simp: take_append not_less)

lemma length_filter_le_one:
  assumes "length (filter P [0..<n]) = 1" "i < n" "j < n" "P i" "P j"
  shows "i = j"
proof -
  from assms(1) obtain k where k: "filter P [0..<n] = [k]"
    by (auto simp: length_Suc_conv)
  have "i \<in> set (filter P [0..<n])" "j \<in> set (filter P [0..<n])"
    using assms by auto
  then show ?thesis unfolding k by simp
qed

subsection \<open>Words\<close>

lemma unat_lt_64: "unat (x :: u64) < 18446744073709551616"
proof -
  have "unat x < 2 ^ LENGTH(64)" by (rule unsigned_less)
  then show ?thesis by simp
qed

lemma unat_lt_32: "unat (x :: u32) < 4294967296"
proof -
  have "unat x < 2 ^ LENGTH(32)" by (rule unsigned_less)
  then show ?thesis by simp
qed

lemma unat_of_nat_u32: "n \<le> 4294967295 \<Longrightarrow> unat (of_nat n :: u32) = n"
  by (simp add: unat_of_nat)

lemma unat_Suc_u32: "unat (d :: u32) < 4294967295 \<Longrightarrow> unat (d + 1) = Suc (unat d)"
  using unat_of_nat_u32 [of "Suc (unat d)"] by (simp add: add.commute)

end
