(* ===== verification/Engine_Memory.thy ===== *)
theory Engine_Memory
  imports Dwrt_Prelude
begin

section \<open>The memory of the server process\<close>

text \<open>
  The probes read and write the objects of a running game server through raw pointers.  The
  engine is not part of the repository, so its memory is a parameter of the model: a partial
  map from 64 bit addresses to bytes (an unmapped address faults) with a set of writable
  addresses.  Reads of wider integers are little endian.  A fault is \<open>None\<close>: inside a
  structured exception handler it is caught and becomes the \<open>false\<close> branch of the source,
  outside one it ends the process and is passed on.  The locale \<open>restorable_cell\<close> states what
  the team spoofing code relies on: a cell that is overwritten and written back leaves no trace.
\<close>

record engine_memory =
  mem_byte :: "ptr \<Rightarrow> u8 option"
  mem_writable :: "ptr \<Rightarrow> bool"

definition load8 :: "engine_memory \<Rightarrow> ptr \<Rightarrow> u8 option" where
  "load8 m a = mem_byte m a"

primrec load_bytes :: "engine_memory \<Rightarrow> ptr \<Rightarrow> nat \<Rightarrow> u8 list option" where
  "load_bytes m a 0 = Some []"
| "load_bytes m a (Suc n) =
     (case load8 m a of None \<Rightarrow> None | Some b \<Rightarrow> map_option ((#) b) (load_bytes m (a + 1) n))"

lemma load_bytes_numeral:
  "load_bytes m a (numeral k) =
     (case load8 m a of None \<Rightarrow> None
      | Some b \<Rightarrow> map_option ((#) b) (load_bytes m (a + 1) (pred_numeral k)))"
  by (simp only: numeral_eq_Suc load_bytes.simps)

primrec le_word :: "u8 list \<Rightarrow> 'a::len word" where
  "le_word [] = 0"
| "le_word (b # bs) = (ucast b OR push_bit 8 (le_word bs))"

definition load16 :: "engine_memory \<Rightarrow> ptr \<Rightarrow> u16 option" where
  "load16 m a = map_option le_word (load_bytes m a 2)"

definition load32 :: "engine_memory \<Rightarrow> ptr \<Rightarrow> u32 option" where
  "load32 m a = map_option le_word (load_bytes m a 4)"

definition load64 :: "engine_memory \<Rightarrow> ptr \<Rightarrow> u64 option" where
  "load64 m a = map_option le_word (load_bytes m a 8)"

definition can_write :: "engine_memory \<Rightarrow> ptr \<Rightarrow> bool" where
  "can_write m a \<longleftrightarrow> mem_byte m a \<noteq> None \<and> mem_writable m a"

definition store8 :: "engine_memory \<Rightarrow> ptr \<Rightarrow> u8 \<Rightarrow> engine_memory option" where
  "store8 m a v =
     (if can_write m a then Some (m\<lparr>mem_byte := (mem_byte m)(a \<mapsto> v)\<rparr>) else None)"

primrec store_bytes :: "engine_memory \<Rightarrow> ptr \<Rightarrow> u8 list \<Rightarrow> engine_memory option" where
  "store_bytes m a [] = Some m"
| "store_bytes m a (b # bs) =
     (case store8 m a b of None \<Rightarrow> None | Some m' \<Rightarrow> store_bytes m' (a + 1) bs)"

definition word_bytes32 :: "u32 \<Rightarrow> u8 list" where
  "word_bytes32 w = [ucast w, ucast (drop_bit 8 w), ucast (drop_bit 16 w), ucast (drop_bit 24 w)]"

definition store32 :: "engine_memory \<Rightarrow> ptr \<Rightarrow> u32 \<Rightarrow> engine_memory option" where
  "store32 m a w = store_bytes m a (word_bytes32 w)"

text \<open>
  A C string is read byte by byte up to its terminator.  The loop has no bound in the source,
  so running into an unmapped byte, or never meeting a terminator, is the value \<open>None\<close>.
\<close>

partial_function (option) c_string :: "engine_memory \<Rightarrow> ptr \<Rightarrow> string option" where
  "c_string m p =
     (case load8 m p of
        None \<Rightarrow> None
      | Some b \<Rightarrow>
          (if b = 0 then Some []
           else Option.bind (c_string m (p + 1)) (\<lambda>s. Some (byte_char b # s))))"

subsection \<open>Laws of loads and stores\<close>

lemma store8_SomeD: "store8 m a v = Some m' \<Longrightarrow> can_write m a"
  by (auto simp: store8_def split: if_splits)

lemma load8_store8_same [mem_simps]: "store8 m a v = Some m' \<Longrightarrow> load8 m' a = Some v"
  by (auto simp: store8_def load8_def split: if_splits)

lemma load8_store8_other [mem_simps]:
  "store8 m a v = Some m' \<Longrightarrow> b \<noteq> a \<Longrightarrow> load8 m' b = load8 m b"
  by (auto simp: store8_def load8_def split: if_splits)

lemma can_write_store8 [mem_simps]: "store8 m a v = Some m' \<Longrightarrow> can_write m' b = can_write m b"
  by (auto simp: store8_def can_write_def split: if_splits)

lemma store8_back:
  "load8 m a = Some v \<Longrightarrow> store8 m a w = Some m' \<Longrightarrow> store8 m' a v = Some m"
  by (auto simp: store8_def load8_def can_write_def fun_upd_idem split: if_splits)

lemma store8_comm:
  assumes "a \<noteq> b" "store8 m a x = Some m1" "store8 m1 b y = Some m2"
  shows "\<exists>n. store8 m b y = Some n \<and> store8 n a x = Some m2"
  using assms
  by (auto simp: store8_def can_write_def fun_upd_twist split: if_splits)

lemma store8_eq_None_iff: "store8 m a v = None \<longleftrightarrow> \<not> can_write m a"
  by (simp add: store8_def)

subsection \<open>Cells that can be overwritten and restored\<close>

text \<open>
  The interface the spoofing scopes are clients of: a cell addressed by \<open>'a\<close> that is read by
  \<open>rd\<close> and written by \<open>wr\<close>, both of which may fault.
\<close>

locale restorable_cell =
  fixes rd :: "'m \<Rightarrow> 'a \<Rightarrow> 'v option"
    and wr :: "'m \<Rightarrow> 'a \<Rightarrow> 'v \<Rightarrow> 'm option"
  assumes rd_wr_same: "wr m a v = Some m' \<Longrightarrow> rd m' a = Some v"
    and rd_wr_other: "wr m a v = Some m' \<Longrightarrow> b \<noteq> a \<Longrightarrow> rd m' b = rd m b"
    and wr_back: "rd m a = Some v \<Longrightarrow> wr m a w = Some m' \<Longrightarrow> wr m' a v = Some m"
    and wr_comm: "a \<noteq> b \<Longrightarrow> wr m a x = Some m1 \<Longrightarrow> wr m1 b y = Some m2
                    \<Longrightarrow> \<exists>n. wr m b y = Some n \<and> wr n a x = Some m2"
begin

lemma spoof_restore:
  assumes "rd m a = Some v" "wr m a w = Some m'"
  shows "\<exists>n. wr m' a v = Some n \<and> n = m"
  using wr_back [OF assms] by blast

text \<open>Two different cells spoofed in turn are restored in the order they were spoofed in.\<close>

lemma spoof_restore_two:
  assumes ne: "a \<noteq> b"
    and rda: "rd m a = Some va" and rdb: "rd m b = Some vb"
    and w1: "wr m a x = Some m1" and w2: "wr m1 b y = Some m2"
  shows "\<exists>n. wr m2 a va = Some n \<and> wr n b vb = Some m"
proof -
  obtain n where n: "wr m b y = Some n" and m2: "wr n a x = Some m2"
    using wr_comm [OF ne w1 w2] by blast
  have "rd n a = Some va" using rd_wr_other [OF n ne] rda by simp
  then have "wr m2 a va = Some n" using m2 by (rule wr_back)
  moreover have "wr n b vb = Some m" using rdb n by (rule wr_back)
  ultimately show ?thesis by blast
qed

text \<open>A cell keeps the value it was given while other cells are written.\<close>

lemma rd_after_two:
  assumes "a \<noteq> b" "wr m a x = Some m1" "wr m1 b y = Some m2"
  shows "rd m2 a = Some x"
  using rd_wr_other [OF assms(3) assms(1)] rd_wr_same [OF assms(2)] by simp

end

interpretation byte_cell: restorable_cell load8 store8
proof unfold_locales
  show "store8 m a v = Some m' \<Longrightarrow> load8 m' a = Some v" for m a v m'
    by (rule load8_store8_same)
  show "store8 m a v = Some m' \<Longrightarrow> b \<noteq> a \<Longrightarrow> load8 m' b = load8 m b" for m a v m' b
    by (rule load8_store8_other)
  show "load8 m a = Some v \<Longrightarrow> store8 m a w = Some m' \<Longrightarrow> store8 m' a v = Some m" for m a v w m'
    by (rule store8_back)
  show "a \<noteq> b \<Longrightarrow> store8 m a x = Some m1 \<Longrightarrow> store8 m1 b y = Some m2
          \<Longrightarrow> \<exists>n. store8 m b y = Some n \<and> store8 n a x = Some m2" for a b m x m1 y m2
    by (rule store8_comm)
qed

subsection \<open>Byte order\<close>

lemma le_word_word_bytes32 [mem_simps]: "le_word (word_bytes32 w) = w"
proof (rule bit_word_eqI)
  fix n assume "n < LENGTH(32)"
  then have "n < 32" by simp
  then consider "n < 8" | "8 \<le> n" "n < 16" | "16 \<le> n" "n < 24" | "24 \<le> n" "n < 32"
    by linarith
  then show "bit (le_word (word_bytes32 w) :: u32) n = bit w n"
    by cases (simp_all add: word_bytes32_def bit_simps not_le less_diff_conv2)
qed

subsection \<open>C strings\<close>

lemma c_string_list:
  assumes "\<And>i. i \<le> length bs \<Longrightarrow> load8 m (p + of_nat i) = Some ((bs @ [0]) ! i)" "0 \<notin> set bs"
  shows "c_string m p = Some (map byte_char bs)"
  using assms
proof (induction bs arbitrary: p)
  case Nil
  then have "load8 m p = Some 0" using Nil.prems(1) [of 0] by simp
  then show ?case by (subst c_string.simps) simp
next
  case (Cons b bs)
  have b: "load8 m p = Some b" using Cons.prems(1) [of 0] by simp
  have "c_string m (p + 1) = Some (map byte_char bs)"
  proof (rule Cons.IH)
    fix i assume "i \<le> length bs"
    then show "load8 m (p + 1 + of_nat i) = Some ((bs @ [0]) ! i)"
      using Cons.prems(1) [of "Suc i"] by (simp add: add.assoc)
  qed (use Cons.prems in simp)
  then show ?case using b Cons.prems(2) by (subst c_string.simps) simp
qed

subsection \<open>Laying out memory\<close>

text \<open>A C string and a pointer laid over a memory map, for concrete memories.\<close>

definition with_text :: "ptr \<Rightarrow> string \<Rightarrow> (ptr \<Rightarrow> u8 option) \<Rightarrow> ptr \<Rightarrow> u8 option" where
  "with_text p s f a =
     (if unat (a - p) \<le> length s then Some ((map char_byte s @ [0]) ! unat (a - p)) else f a)"

definition with_ptr :: "ptr \<Rightarrow> u64 \<Rightarrow> (ptr \<Rightarrow> u8 option) \<Rightarrow> ptr \<Rightarrow> u8 option" where
  "with_ptr p w f a =
     (if unat (a - p) < 8 then Some (ucast (drop_bit (8 * unat (a - p)) w)) else f a)"

lemma char_byte_0_iff: "char_byte c = 0 \<longleftrightarrow> c = CHR 0x00"
proof
  assume "char_byte c = 0"
  moreover have "c = byte_char (char_byte c)" by simp
  ultimately have "c = byte_char 0" by (simp only:)
  then show "c = CHR 0x00" by (simp add: byte_char_def char_of_def)
qed (simp add: char_byte_def)

lemma c_string_with_text:
  assumes "CHR 0x00 \<notin> set s" "length s < 18446744073709551615" "mem_byte m = with_text p s f"
  shows "c_string m p = Some s"
proof -
  have "c_string m p = Some (map byte_char (map char_byte s))"
  proof (rule c_string_list)
    fix i assume "i \<le> length (map char_byte s)"
    then have "unat (of_nat i :: u64) = i" "i \<le> length s" using assms(2) by (simp_all add: unat_of_nat)
    then show "load8 m (p + of_nat i) = Some ((map char_byte s @ [0]) ! i)"
      by (simp add: load8_def assms(3) with_text_def)
  next
    show "0 \<notin> set (map char_byte s)" using assms(1) by (auto simp: char_byte_0_iff dest: sym)
  qed
  then show ?thesis by (simp add: comp_def)
qed

end
