(* ===== verification/Signature_Scanner.thy ===== *)
theory Signature_Scanner
  imports Engine_Memory
begin

section \<open>Signature patterns: compiling, scanning, hashing, escaping\<close>

text \<open>
  Model of the portable half of \<open>native/dwrt-host/dwrt_signature_scanner.cpp\<close>: the pattern
  compiler \<open>compile_pattern\<close>, the scanner \<open>find_pattern\<close>, the hash \<open>fnv1a64\<close> and
  \<open>json_escape\<close>.  A span is read through an accessor that is \<open>None\<close> outside it, so that the
  bounds of every read are part of the model.  The locale \<open>pattern_finder\<close> is the contract the
  signature resolvers use: the finder returns the first \<open>m\<close> matching offsets in order.
\<close>

subsection \<open>Patterns\<close>

record pattern_byte =
  pb_value :: u8
  pb_wildcard :: bool

record compiled_pattern =
  cp_bytes :: "pattern_byte list"

definition is_hex_digit :: "char \<Rightarrow> bool" where
  "is_hex_digit c \<longleftrightarrow>
     (let n = of_char c :: nat
      in (48 \<le> n \<and> n \<le> 57) \<or> (65 \<le> n \<and> n \<le> 70) \<or> (97 \<le> n \<and> n \<le> 102))"

definition is_space :: "char \<Rightarrow> bool" where
  "is_space c \<longleftrightarrow> (let n = of_char c :: nat in n = 32 \<or> (9 \<le> n \<and> n \<le> 13))"

definition nibble :: "char \<Rightarrow> u8" where
  "nibble c =
     (let n = of_char c :: nat
      in if 48 \<le> n \<and> n \<le> 57 then of_nat (n - 48)
         else if 97 \<le> n \<and> n \<le> 102 then of_nat (10 + n - 97)
         else of_nat (10 + n - 65))"

fun parse_hex_byte :: "string \<Rightarrow> u8 option" where
  "parse_hex_byte [c, d] =
     (if \<not> is_hex_digit c \<or> \<not> is_hex_digit d then None
      else Some (push_bit 4 (nibble c) OR nibble d))"
| "parse_hex_byte _ = None"

text \<open>
  The two inner loops of the compiler skip spaces and collect a token; \<open>pos\<close> is represented
  by the part of the pattern it has not passed.  The left alternative is the text the source
  leaves in \<open>error\<close>.
\<close>

function compile_loop :: "string \<Rightarrow> pattern_byte list \<Rightarrow> string + pattern_byte list" where
  "compile_loop s acc =
     (let rest = dropWhile is_space s
      in if rest = [] then Inr acc
         else
           let token = takeWhile (\<lambda>c. \<not> is_space c) rest;
               rest' = dropWhile (\<lambda>c. \<not> is_space c) rest
           in if token = ''?'' \<or> token = ''??''
              then compile_loop rest' (acc @ [\<lparr>pb_value = 0, pb_wildcard = True\<rparr>])
              else (case parse_hex_byte token of
                      None \<Rightarrow> Inl (''invalid signature token: '' @ token)
                    | Some b \<Rightarrow>
                        compile_loop rest' (acc @ [\<lparr>pb_value = b, pb_wildcard = False\<rparr>])))"
  by pat_completeness auto

lemma length_after_token:
  assumes "dropWhile is_space s \<noteq> []"
  shows "length (dropWhile (\<lambda>c. \<not> is_space c) (dropWhile is_space s)) < length s"
proof -
  have "length (dropWhile (\<lambda>c. \<not> is_space c) (dropWhile is_space s)) < length (dropWhile is_space s)"
    using assms hd_dropWhile [OF assms]
    by (cases "dropWhile is_space s") (auto simp: le_imp_less_Suc length_dropWhile_le)
  also have "\<dots> \<le> length s" by (rule length_dropWhile_le)
  finally show ?thesis .
qed

termination compile_loop
  by (relation "measure (\<lambda>(s, acc). length s)") (auto simp: length_after_token)

declare compile_loop.simps [simp del]

definition compile_pattern :: "string \<Rightarrow> string + compiled_pattern" where
  "compile_pattern s =
     (case compile_loop s [] of
        Inl e \<Rightarrow> Inl e
      | Inr bytes \<Rightarrow>
          if bytes = [] then Inl ''empty signature pattern'' else Inr \<lparr>cp_bytes = bytes\<rparr>)"

subsection \<open>Scanning\<close>

text \<open>
  \<open>match_at\<close> is the inner loop over the pattern, \<open>scan\<close> the outer loop over the offsets
  (\<open>k\<close> of them are left, starting at \<open>off\<close>).  \<open>None\<close> means that a byte outside the span was
  read.
\<close>

primrec match_at :: "(nat \<Rightarrow> u8 option) \<Rightarrow> pattern_byte list \<Rightarrow> nat \<Rightarrow> bool option" where
  "match_at rd [] pos = Some True"
| "match_at rd (b # bs) pos =
     (if pb_wildcard b then match_at rd bs (Suc pos)
      else (case rd pos of
              None \<Rightarrow> None
            | Some v \<Rightarrow> if v \<noteq> pb_value b then Some False else match_at rd bs (Suc pos)))"

primrec scan ::
  "(nat \<Rightarrow> u8 option) \<Rightarrow> pattern_byte list \<Rightarrow> nat \<Rightarrow> nat \<Rightarrow> nat \<Rightarrow> nat list \<Rightarrow> nat list option" where
  "scan rd bytes max_matches 0 off acc = Some acc"
| "scan rd bytes max_matches (Suc k) off acc =
     (case match_at rd bytes off of
        None \<Rightarrow> None
      | Some matched \<Rightarrow>
          (let acc' = (if matched then acc @ [off] else acc)
           in if matched \<and> max_matches \<le> length acc' then Some acc'
              else scan rd bytes max_matches k (Suc off) acc'))"

definition find_pattern_span ::
  "(nat \<Rightarrow> u8 option) \<Rightarrow> nat \<Rightarrow> compiled_pattern \<Rightarrow> nat \<Rightarrow> nat list option" where
  "find_pattern_span rd n p max_matches =
     (let bytes = cp_bytes p
      in if bytes = [] \<or> n < length bytes \<or> max_matches = 0 then Some []
         else scan rd bytes max_matches (Suc (n - length bytes)) 0 [])"

definition list_span :: "u8 list \<Rightarrow> nat \<Rightarrow> u8 option" where
  "list_span h i = (if i < length h then Some (h ! i) else None)"

definition find_pattern :: "u8 list \<Rightarrow> compiled_pattern \<Rightarrow> nat \<Rightarrow> nat list option" where
  "find_pattern h p max_matches = find_pattern_span (list_span h) (length h) p max_matches"

subsection \<open>Hash\<close>

definition fnv_step :: "u64 \<Rightarrow> u8 \<Rightarrow> u64" where
  "fnv_step hash byte = (hash XOR ucast byte) * 1099511628211"

definition fnv1a64 :: "u8 list \<Rightarrow> u64" where
  "fnv1a64 bytes = foldl fnv_step 14695981039346656037 bytes"

subsection \<open>JSON escaping\<close>

definition hex_char :: "nat \<Rightarrow> char" where
  "hex_char n = ''0123456789abcdef'' ! n"

definition hex4 :: "nat \<Rightarrow> string" where
  "hex4 n = [hex_char (n div 4096 mod 16), hex_char (n div 256 mod 16),
             hex_char (n div 16 mod 16), hex_char (n mod 16)]"

definition json_escape_char :: "char \<Rightarrow> string" where
  "json_escape_char ch =
     (if ch = CHR 0x5C then [CHR 0x5C, CHR 0x5C]
      else if ch = CHR 0x22 then [CHR 0x5C, CHR 0x22]
      else if ch = CHR 0x08 then [CHR 0x5C, CHR ''b'']
      else if ch = CHR 0x0C then [CHR 0x5C, CHR ''f'']
      else if ch = CHR 0x0A then [CHR 0x5C, CHR ''n'']
      else if ch = CHR 0x0D then [CHR 0x5C, CHR ''r'']
      else if ch = CHR 0x09 then [CHR 0x5C, CHR ''t'']
      else if of_char ch < (32 :: nat) then [CHR 0x5C, CHR ''u''] @ hex4 (of_char ch)
      else [ch])"

definition json_escape :: "string \<Rightarrow> string" where
  "json_escape value = concat (map json_escape_char value)"

subsection \<open>The scanner against its specification\<close>

text \<open>
  The specification: an offset matches when the bytes from it on agree with the pattern byte by
  byte, and the result is the first \<open>m\<close> matching offsets, in order.
\<close>

definition byte_agrees :: "pattern_byte \<Rightarrow> u8 \<Rightarrow> bool" where
  "byte_agrees b v \<longleftrightarrow> pb_wildcard b \<or> v = pb_value b"

definition pattern_matches :: "u8 list \<Rightarrow> pattern_byte list \<Rightarrow> nat \<Rightarrow> bool" where
  "pattern_matches h bytes off \<longleftrightarrow> list_all2 byte_agrees bytes (take (length bytes) (drop off h))"

definition pattern_offsets :: "u8 list \<Rightarrow> pattern_byte list \<Rightarrow> nat list" where
  "pattern_offsets h bytes =
     (if bytes = [] then []
      else filter (pattern_matches h bytes) [0..<Suc (length h) - length bytes])"

lemma match_at_in_bounds:
  assumes "off + length bytes \<le> length h"
  shows "match_at (list_span h) bytes off = Some (pattern_matches h bytes off)"
  using assms
proof (induction bytes arbitrary: off)
  case Nil
  then show ?case by (simp add: pattern_matches_def)
next
  case (Cons b bs)
  then have off: "off < length h" by simp
  then have "drop off h = h ! off # drop (Suc off) h" by (simp add: Cons_nth_drop_Suc)
  with Cons off show ?case
    by (auto simp: pattern_matches_def byte_agrees_def list_span_def)
qed

lemma scan_takes_first:
  assumes rd: "\<And>i. i < k \<Longrightarrow> match_at rd bytes (off + i) = Some (P (off + i))"
    and acc: "length acc < m"
  shows "scan rd bytes m k off acc = Some (take m (acc @ filter P [off..<off + k]))"
  using assms
proof (induction k arbitrary: off acc)
  case 0
  then show ?case by simp
next
  case (Suc k)
  have here: "match_at rd bytes off = Some (P off)" using Suc.prems(1) [of 0] by simp
  have later: "match_at rd bytes (Suc off + i) = Some (P (Suc off + i))" if "i < k" for i
    using Suc.prems(1) [of "Suc i"] that by simp
  have upt: "[off..<off + Suc k] = off # [Suc off..<Suc off + k]"
    by (simp add: upt_conv_Cons)
  have fil: "filter P [off..<off + Suc k] = (if P off then [off] else []) @ filter P [Suc off..<Suc off + k]"
    by (simp only: upt filter.simps) simp
  show ?case
  proof (cases "P off \<and> m \<le> Suc (length acc)")
    case True
    with Suc.prems(2) have "m = Suc (length acc)" by simp
    with True here show ?thesis unfolding fil by simp
  next
    case False
    with Suc.prems(2) have "length (if P off then acc @ [off] else acc) < m" by auto
    with False here Suc.IH [OF later] show ?thesis
      unfolding fil by (auto simp: Let_def simp del: upt_Suc)
  qed
qed

lemma find_pattern_eq:
  "find_pattern h p m = Some (take m (pattern_offsets h (cp_bytes p)))"
proof (cases "cp_bytes p = [] \<or> length h < length (cp_bytes p) \<or> m = 0")
  case True
  then show ?thesis
    by (auto simp: find_pattern_def find_pattern_span_def pattern_offsets_def Let_def)
next
  case False
  let ?n = "Suc (length h - length (cp_bytes p))"
  have "match_at (list_span h) (cp_bytes p) (0 + i) = Some (pattern_matches h (cp_bytes p) (0 + i))"
    if "i < ?n" for i
    by (rule match_at_in_bounds) (use that False in linarith)
  then have "scan (list_span h) (cp_bytes p) m ?n 0 []
      = Some (take m ([] @ filter (pattern_matches h (cp_bytes p)) [0..<0 + ?n]))"
    by (rule scan_takes_first) (use False in auto)
  with False show ?thesis
    unfolding find_pattern_def find_pattern_span_def pattern_offsets_def Let_def
    by (simp add: Suc_diff_le del: upt_Suc scan.simps)
qed

lemma sorted_pattern_offsets: "sorted_wrt (<) (pattern_offsets h bytes)"
  by (simp add: pattern_offsets_def sorted_wrt_filter)

lemma pattern_offsets_bound:
  "off \<in> set (pattern_offsets h bytes) \<Longrightarrow> off + length bytes \<le> length h"
  by (auto simp: pattern_offsets_def split: if_splits)

subsection \<open>The contract of a finder\<close>

text \<open>
  What the resolvers rely on.  \<open>offs\<close> is the full list of matches of the haystack; a bounded
  search reports a prefix of it, so a limit of at least two tells a unique match from several.
\<close>

locale pattern_finder =
  fixes find :: "'h \<Rightarrow> 'p \<Rightarrow> nat \<Rightarrow> nat list option"
    and offs :: "'h \<Rightarrow> 'p \<Rightarrow> nat list"
  assumes find_eq: "find h p m = Some (take m (offs h p))"
    and offs_sorted: "sorted_wrt (<) (offs h p)"
begin

lemma find_total: "\<exists>xs. find h p m = Some xs \<and> length xs \<le> m \<and> sorted_wrt (<) xs"
  by (simp add: find_eq sorted_wrt_take offs_sorted)

lemma find_unique_iff:
  assumes "2 \<le> m"
  shows "find h p m = Some [off] \<longleftrightarrow> offs h p = [off]"
proof
  assume "find h p m = Some [off]"
  then have t: "take m (offs h p) = [off]" by (simp add: find_eq)
  then have "length (take m (offs h p)) = 1" by simp
  then have "length (offs h p) \<le> m" using assms by (simp add: min_def split: if_splits)
  with t show "offs h p = [off]" by simp
next
  assume "offs h p = [off]"
  with assms show "find h p m = Some [off]" by (cases m) (simp_all add: find_eq)
qed

lemma find_none_iff: "0 < m \<Longrightarrow> find h p m = Some [] \<longleftrightarrow> offs h p = []"
  by (auto simp: find_eq)

lemma find_prefix: "m \<le> n \<Longrightarrow> \<exists>xs. find h p n = Some xs \<and> find h p m = Some (take m xs)"
  by (simp add: find_eq min_absorb1)

end

interpretation scanner: pattern_finder find_pattern "\<lambda>h p. pattern_offsets h (cp_bytes p)"
  by unfold_locales (simp_all add: find_pattern_eq sorted_pattern_offsets)

lemma is_space_blank [simp]: "is_space (CHR '' '')"
  by (simp add: is_space_def)

subsection \<open>Patterns and their notation\<close>

text \<open>
  The notation of the manifest, written back by a reference printer: two hexadecimal digits per
  literal byte, two question marks per wildcard, separated by single spaces.
\<close>

definition print_byte :: "pattern_byte \<Rightarrow> string" where
  "print_byte b =
     (if pb_wildcard b then ''??''
      else [hex_char (unat (pb_value b) div 16), hex_char (unat (pb_value b) mod 16)])"

primrec print_pattern :: "pattern_byte list \<Rightarrow> string" where
  "print_pattern [] = []"
| "print_pattern (b # bs) = print_byte b @ CHR '' '' # print_pattern bs"

text \<open>A wildcard carries the value zero, as the compiler builds it.\<close>

definition normal_byte :: "pattern_byte \<Rightarrow> bool" where
  "normal_byte b \<longleftrightarrow> (pb_wildcard b \<longrightarrow> pb_value b = 0)"

lemma less_16_cases:
  fixes n :: nat
  assumes "n < 16"
  shows "n \<in> {0, 1, 2, 3, 4, 5, 6, 7, 8, 9, 10, 11, 12, 13, 14, 15}"
  using assms by (simp, arith)

lemma hex_char_facts:
  assumes "n < 16"
  shows "is_hex_digit (hex_char n) \<and> \<not> is_space (hex_char n)
     \<and> nibble (hex_char n) = of_nat n \<and> hex_char n \<noteq> CHR ''?''"
  using less_16_cases [OF assms]
  by (elim insertE emptyE)
    (simp_all add: is_hex_digit_def is_space_def nibble_def hex_char_def)

lemma join_nibbles: "push_bit 4 (of_nat (unat b div 16) :: u8) OR of_nat (unat b mod 16) = b"
proof (rule bit_word_eqI)
  fix n assume "n < LENGTH(8)"
  have "of_nat (unat b div 16) = (drop_bit 4 b :: u8)"
    by (simp add: drop_bit_eq_div word_arith_nat_div)
  moreover have "of_nat (unat b mod 16) = (take_bit 4 b :: u8)"
    by (simp add: take_bit_eq_mod word_arith_nat_mod)
  ultimately show "bit (push_bit 4 (of_nat (unat b div 16) :: u8) OR of_nat (unat b mod 16)) n = bit b n"
    using \<open>n < LENGTH(8)\<close> by (auto simp: bit_simps not_less)
qed

lemma parse_print_literal:
  "\<not> pb_wildcard b \<Longrightarrow> parse_hex_byte (print_byte b) = Some (pb_value b)"
proof -
  have "unat (pb_value b) div 16 < 16" "unat (pb_value b) mod 16 < 16"
    using unat_lt_8 [of "pb_value b"] by auto
  then show "\<not> pb_wildcard b \<Longrightarrow> ?thesis"
    by (simp add: print_byte_def hex_char_facts join_nibbles)
qed

lemma print_byte_shape:
  obtains c d where "print_byte b = [c, d]" "\<not> is_space c" "\<not> is_space d"
    "pb_wildcard b \<longleftrightarrow> c = CHR ''?''" "pb_wildcard b \<Longrightarrow> d = CHR ''?''"
proof (cases "pb_wildcard b")
  case True
  then show ?thesis by (intro that [of "CHR ''?''" "CHR ''?''"]) (auto simp: print_byte_def is_space_def)
next
  case False
  have "unat (pb_value b) div 16 < 16" "unat (pb_value b) mod 16 < 16"
    using unat_lt_8 [of "pb_value b"] by auto
  with False show ?thesis
    by (intro that [of "hex_char (unat (pb_value b) div 16)" "hex_char (unat (pb_value b) mod 16)"])
      (auto simp: print_byte_def hex_char_facts)
qed

lemma compile_loop_print:
  assumes "\<forall>b\<in>set bs. normal_byte b"
  shows "compile_loop (print_pattern bs) acc = Inr (acc @ bs)"
  using assms
proof (induction bs arbitrary: acc)
  case Nil
  then show ?case by (subst compile_loop.simps) simp
next
  case (Cons b bs)
  obtain c d where cd: "print_byte b = [c, d]" "\<not> is_space c" "\<not> is_space d"
    "pb_wildcard b \<longleftrightarrow> c = CHR ''?''" "pb_wildcard b \<Longrightarrow> d = CHR ''?''"
    using print_byte_shape by metis
  have skip: "compile_loop (CHR '' '' # s) acc' = compile_loop s acc'" for s acc'
    by (subst (1 2) compile_loop.simps) (simp add: is_space_def)
  have norm: "b = (if pb_wildcard b then \<lparr>pb_value = 0, pb_wildcard = True\<rparr>
                   else \<lparr>pb_value = pb_value b, pb_wildcard = False\<rparr>)"
    using Cons.prems by (simp add: normal_byte_def)
  have token: "compile_loop (print_pattern (b # bs)) acc = compile_loop (CHR '' '' # print_pattern bs) (acc @ [b])"
  proof (cases "pb_wildcard b")
    case True
    with cd have "compile_loop (print_pattern (b # bs)) acc
        = compile_loop (CHR '' '' # print_pattern bs) (acc @ [\<lparr>pb_value = 0, pb_wildcard = True\<rparr>])"
      by (subst compile_loop.simps) simp
    with True norm show ?thesis by simp
  next
    case False
    with cd parse_print_literal [OF False]
    have "compile_loop (print_pattern (b # bs)) acc
        = compile_loop (CHR '' '' # print_pattern bs)
            (acc @ [\<lparr>pb_value = pb_value b, pb_wildcard = False\<rparr>])"
      by (subst compile_loop.simps) (simp del: parse_hex_byte.simps)
    also have "\<lparr>pb_value = pb_value b, pb_wildcard = False\<rparr> = b" using False by simp
    finally show ?thesis .
  qed
  with Cons.IH [of "acc @ [b]"] Cons.prems show ?case
    by (simp only: token skip) simp
qed

subsection \<open>Escaping is invertible\<close>

text \<open>
  A reference decoder for the body of a JSON string.  It rejects a raw quote and a raw control
  character, so decoding what \<open>json_escape\<close> produced also shows that its output can stand
  between quotes.
\<close>

definition hex_value :: "char \<Rightarrow> nat option" where
  "hex_value c =
     (let n = of_char c
      in if 48 \<le> n \<and> n \<le> 57 then Some (n - 48)
         else if 97 \<le> n \<and> n \<le> 102 then Some (n - 87)
         else if 65 \<le> n \<and> n \<le> 70 then Some (n - 55) else None)"

definition short_escape :: "char \<Rightarrow> char option" where
  "short_escape e =
     (if e = CHR 0x5C \<or> e = CHR 0x22 \<or> e = CHR ''/'' then Some e
      else if e = CHR ''b'' then Some (CHR 0x08)
      else if e = CHR ''f'' then Some (CHR 0x0C)
      else if e = CHR ''n'' then Some (CHR 0x0A)
      else if e = CHR ''r'' then Some (CHR 0x0D)
      else if e = CHR ''t'' then Some (CHR 0x09) else None)"

fun hex4_value :: "string \<Rightarrow> nat option" where
  "hex4_value [a, b, c, d] =
     (case (hex_value a, hex_value b, hex_value c, hex_value d) of
        (Some w, Some x, Some y, Some z) \<Rightarrow> Some (4096 * w + 256 * x + 16 * y + z)
      | _ \<Rightarrow> None)"
| "hex4_value _ = None"

fun json_unescape :: "string \<Rightarrow> string option" where
  "json_unescape [] = Some []"
| "json_unescape (c # r) =
     (if c = CHR 0x5C then
        (case r of
           [] \<Rightarrow> None
         | e # r2 \<Rightarrow>
             (if e = CHR ''u'' then
                (case hex4_value (take 4 r2) of
                   None \<Rightarrow> None
                 | Some n \<Rightarrow> if n < 256 then map_option ((#) (char_of n)) (json_unescape (drop 4 r2))
                             else None)
              else
                (case short_escape e of
                   None \<Rightarrow> None
                 | Some ch \<Rightarrow> map_option ((#) ch) (json_unescape r2))))
      else if c = CHR 0x22 \<or> of_char c < (32 :: nat) then None
      else map_option ((#) c) (json_unescape r))"

lemma hex_value_hex_char:
  assumes "n < 16"
  shows "hex_value (hex_char n) = Some n"
  using less_16_cases [OF assms]
  by (elim insertE emptyE) (simp_all add: hex_value_def hex_char_def)

lemma hex4_value_hex4:
  assumes "n < 65536"
  shows "hex4_value (hex4 n) = Some n"
proof -
  have d1: "n div 256 = n div 16 div 16" and d2: "n div 4096 = n div 16 div 16 div 16"
    by (simp_all flip: div_mult2_eq)
  have "n div 16 div 16 div 16 < 16" using assms by (simp flip: div_mult2_eq)
  then have top: "n div 16 div 16 div 16 mod 16 = n div 16 div 16 div 16" by simp
  have "n = 16 * (n div 16) + n mod 16"
    and "n div 16 = 16 * (n div 16 div 16) + n div 16 mod 16"
    and "n div 16 div 16 = 16 * (n div 16 div 16 div 16) + n div 16 div 16 mod 16"
    by simp_all
  then have sum: "4096 * (n div 4096 mod 16) + 256 * (n div 256 mod 16) + 16 * (n div 16 mod 16) + n mod 16 = n"
    unfolding d1 d2 top by linarith
  have "hex4_value (hex4 n)
      = Some (4096 * (n div 4096 mod 16) + 256 * (n div 256 mod 16) + 16 * (n div 16 mod 16) + n mod 16)"
    by (simp add: hex4_def hex_value_hex_char)
  then show ?thesis by (simp only: sum)
qed

lemma json_unescape_char:
  "json_unescape (json_escape_char c @ rest) = map_option ((#) c) (json_unescape rest)"
proof (cases "c \<in> {CHR 0x5C, CHR 0x22, CHR 0x08, CHR 0x0C, CHR 0x0A, CHR 0x0D, CHR 0x09}")
  case True
  then show ?thesis by (elim insertE) (simp_all add: json_escape_char_def short_escape_def)
next
  case False
  have len: "length (hex4 n) = 4" for n by (simp add: hex4_def)
  have "hex4_value (take 4 (hex4 (of_char c) @ rest)) = Some (of_char c)" if "of_char c < (32::nat)"
    using that by (simp add: len hex4_value_hex4)
  moreover have "drop 4 (hex4 (of_char c) @ rest) = rest" by (simp add: len)
  ultimately show ?thesis using False by (auto simp: json_escape_char_def)
qed

lemma json_unescape_escape: "json_unescape (json_escape s) = Some s"
  by (induction s) (simp_all add: json_escape_def json_unescape_char)

subsection \<open>The hash separates single byte changes\<close>

lemma fnv_prime_inverse: "(1099511628211 :: u64) * 14886173955864302971 = 1"
  by simp

lemma fnv_prime_invertible:
  "(x :: u64) * 1099511628211 = y * 1099511628211 \<longleftrightarrow> x = y"
proof
  assume "x * 1099511628211 = y * 1099511628211"
  then have "x * (1099511628211 * 14886173955864302971) = y * (1099511628211 * 14886173955864302971)"
    by (simp only: mult.assoc [symmetric])
  then show "x = y" by (simp only: fnv_prime_inverse mult_1_right)
qed simp

lemma fnv_step_inject_hash: "fnv_step g b = fnv_step h b \<longleftrightarrow> g = h"
  by (auto simp: fnv_step_def fnv_prime_invertible dest: arg_cong [where f = "\<lambda>x. x XOR ucast b"]
      simp: xor.assoc)

lemma fnv_step_inject_byte: "fnv_step h b = fnv_step h c \<longleftrightarrow> b = c"
proof
  assume "fnv_step h b = fnv_step h c"
  then have "h XOR (h XOR ucast b) = h XOR (h XOR ucast c)"
    by (simp add: fnv_step_def fnv_prime_invertible)
  then have "(ucast b :: u64) = ucast c" by (simp flip: xor.assoc)
  then have eq: "bit (ucast b :: u64) n = bit (ucast c :: u64) n" for n by simp
  show "b = c"
  proof (rule bit_word_eqI)
    fix n assume "n < LENGTH(8)"
    then show "bit b n = bit c n" using eq [of n] by (simp add: bit_simps)
  qed
qed simp

lemma fnv_fold_inject: "foldl fnv_step g bs = foldl fnv_step h bs \<longleftrightarrow> g = h"
  by (induction bs arbitrary: g h) (simp_all add: fnv_step_inject_hash)

subsection \<open>Properties\<close>

lemma pattern_offsets_set:
  "sorted_list_of_set {off. bytes \<noteq> [] \<and> off + length bytes \<le> length h \<and> pattern_matches h bytes off}
     = pattern_offsets h bytes"
proof -
  have "{off. bytes \<noteq> [] \<and> off + length bytes \<le> length h \<and> pattern_matches h bytes off}
      = set (pattern_offsets h bytes)"
    by (auto simp: pattern_offsets_def)
  then show ?thesis
    using sorted_pattern_offsets [of h bytes]
    by (simp add: strict_sorted_iff sorted_list_of_set.idem_if_sorted_distinct)
qed

text \<open>C23. A bounded search never reads outside the haystack and returns the first \<open>m\<close> of the
  offsets at which every non-wildcard byte of the pattern agrees, in increasing order.\<close>

theorem find_pattern_first_matches:
  "find_pattern h p m =
     Some (take m (sorted_list_of_set
       {off. cp_bytes p \<noteq> [] \<and> off + length (cp_bytes p) \<le> length h
             \<and> pattern_matches h (cp_bytes p) off}))"
  by (simp only: pattern_offsets_set scanner.find_eq)

text \<open>A limit of two or more tells a unique match from several: one offset is reported
  exactly when it is the only match of the haystack.\<close>

theorem find_pattern_unique:
  "find_pattern h p (m + 2) = Some [off] \<longleftrightarrow>
     {j. cp_bytes p \<noteq> [] \<and> j + length (cp_bytes p) \<le> length h \<and> pattern_matches h (cp_bytes p) j} = {off}"
proof -
  have "pattern_offsets h (cp_bytes p) = [off] \<longleftrightarrow>
      {j. cp_bytes p \<noteq> [] \<and> j + length (cp_bytes p) \<le> length h \<and> pattern_matches h (cp_bytes p) j} = {off}"
    (is "_ \<longleftrightarrow> ?S = _")
  proof
    assume "?S = {off}"
    then show "pattern_offsets h (cp_bytes p) = [off]"
      using pattern_offsets_set [of "cp_bytes p" h] by simp
  next
    assume "pattern_offsets h (cp_bytes p) = [off]"
    moreover have "?S = set (pattern_offsets h (cp_bytes p))" by (auto simp: pattern_offsets_def)
    ultimately show "?S = {off}" by simp
  qed
  then show ?thesis using scanner.find_unique_iff [of "m + 2" h p off] by simp
qed

text \<open>C36. Compiling the printed form of a pattern gives the pattern back, wildcards included.\<close>

theorem compile_print_roundtrip:
  assumes "bs \<noteq> []" "\<forall>b\<in>set bs. normal_byte b"
  shows "compile_pattern (print_pattern bs) = Inr \<lparr>cp_bytes = bs\<rparr>"
  using assms compile_loop_print [of bs "[]"] by (simp add: compile_pattern_def)

theorem compile_print_roundtrip_witness:
  "compile_pattern (print_pattern [\<lparr>pb_value = 0x48, pb_wildcard = False\<rparr>,
       \<lparr>pb_value = 0, pb_wildcard = True\<rparr>])
     = Inr \<lparr>cp_bytes = [\<lparr>pb_value = 0x48, pb_wildcard = False\<rparr>, \<lparr>pb_value = 0, pb_wildcard = True\<rparr>]\<rparr>"
  by (rule compile_print_roundtrip) (simp_all add: normal_byte_def)

text \<open>Escaped text decodes to the original, so distinct strings stay distinct in the summary
  and no escaped text ends its JSON string early.\<close>

theorem json_escape_decodes: "json_unescape (json_escape s) = Some s"
  by (rule json_unescape_escape)

text \<open>The image hash changes whenever exactly one byte of the image changes.\<close>

theorem fnv1a64_detects_change:
  "fnv1a64 (xs @ b # ys) = fnv1a64 (xs @ c # ys) \<longleftrightarrow> b = c"
  by (simp add: fnv1a64_def fnv_fold_inject fnv_step_inject_byte)

end
