(* ===== verification/Pe_Image.thy ===== *)
theory Pe_Image
  imports Signature_Scanner
begin

section \<open>PE images, on disk and mapped\<close>

text \<open>
  Model of \<open>PeImageFile\<close>, \<open>PeModuleView\<close> and \<open>find_pattern_rvas\<close> of
  \<open>native/dwrt-host/dwrt_signature_scanner.cpp\<close>.  The headers are read through an accessor from
  offsets to bytes: for a file it is \<open>None\<close> outside the buffer, for a mapped module it is the
  memory of the process from the module base.  A \<open>None\<close> result of an operation is a read the
  source performs outside what it may read; the sum type inside carries its own error text.
  The layout constants are those of the Windows SDK structures the source casts to.
\<close>

record section_range =
  sr_name :: string
  sr_virtual_address :: u32
  sr_virtual_size :: u32
  sr_raw_offset :: u32
  sr_raw_size :: u32
  sr_characteristics :: u32

record pe_image_file =
  pi_path :: string
  pi_bytes :: "u8 list"
  pi_image_base :: u64
  pi_image_size :: u32
  pi_timestamp :: u32
  pi_sections :: "section_range list"

record pe_module_view =
  pm_path :: string
  pm_base :: ptr
  pm_image_base :: u64
  pm_image_size :: u32
  pm_timestamp :: u32
  pm_sections :: "section_range list"

subsection \<open>Header fields\<close>

primrec rd_bytes :: "(nat \<Rightarrow> u8 option) \<Rightarrow> nat \<Rightarrow> nat \<Rightarrow> u8 list option" where
  "rd_bytes rd off 0 = Some []"
| "rd_bytes rd off (Suc n) =
     (case rd off of None \<Rightarrow> None | Some b \<Rightarrow> map_option ((#) b) (rd_bytes rd (Suc off) n))"

lemma rd_bytes_numeral:
  "rd_bytes rd off (numeral k) =
     (case rd off of None \<Rightarrow> None
      | Some b \<Rightarrow> map_option ((#) b) (rd_bytes rd (Suc off) (pred_numeral k)))"
  by (simp only: numeral_eq_Suc rd_bytes.simps)

definition rd16 :: "(nat \<Rightarrow> u8 option) \<Rightarrow> nat \<Rightarrow> u16 option" where
  "rd16 rd off = map_option le_word (rd_bytes rd off 2)"

definition rd32 :: "(nat \<Rightarrow> u8 option) \<Rightarrow> nat \<Rightarrow> u32 option" where
  "rd32 rd off = map_option le_word (rd_bytes rd off 4)"

definition rd64 :: "(nat \<Rightarrow> u8 option) \<Rightarrow> nat \<Rightarrow> u64 option" where
  "rd64 rd off = map_option le_word (rd_bytes rd off 8)"

abbreviation sizeof_dos_header :: nat where "sizeof_dos_header \<equiv> 64"
abbreviation sizeof_nt_headers64 :: nat where "sizeof_nt_headers64 \<equiv> 264"
abbreviation sizeof_section_header :: nat where "sizeof_section_header \<equiv> 40"

text \<open>\<open>section_name\<close>: eight bytes copied behind a terminator, read back as a C string.\<close>

definition section_name :: "u8 list \<Rightarrow> string" where
  "section_name bytes = map byte_char (takeWhile (\<lambda>b. b \<noteq> 0) bytes)"

definition read_section :: "(nat \<Rightarrow> u8 option) \<Rightarrow> nat \<Rightarrow> section_range option" where
  "read_section rd pos =
     do {
       name \<leftarrow> rd_bytes rd pos 8;
       va \<leftarrow> rd32 rd (pos + 12);
       vs \<leftarrow> rd32 rd (pos + 8);
       ro \<leftarrow> rd32 rd (pos + 20);
       rs \<leftarrow> rd32 rd (pos + 16);
       ch \<leftarrow> rd32 rd (pos + 36);
       Some \<lparr>sr_name = section_name name, sr_virtual_address = va, sr_virtual_size = vs,
             sr_raw_offset = ro, sr_raw_size = rs, sr_characteristics = ch\<rparr>
     }"

text \<open>The loop over \<open>NumberOfSections\<close> headers that starts at \<open>IMAGE_FIRST_SECTION\<close>.\<close>

primrec read_sections :: "(nat \<Rightarrow> u8 option) \<Rightarrow> nat \<Rightarrow> nat \<Rightarrow> section_range list option" where
  "read_sections rd pos 0 = Some []"
| "read_sections rd pos (Suc k) =
     (case read_section rd pos of
        None \<Rightarrow> None
      | Some s \<Rightarrow> map_option ((#) s) (read_sections rd (pos + sizeof_section_header) k))"

record nt_fields =
  nt_sections :: nat
  nt_timestamp :: u32
  nt_optional_size :: nat
  nt_image_base :: u64
  nt_image_size :: u32

definition read_nt_fields :: "(nat \<Rightarrow> u8 option) \<Rightarrow> nat \<Rightarrow> nt_fields option" where
  "read_nt_fields rd nt =
     do {
       n \<leftarrow> rd16 rd (nt + 6);
       ts \<leftarrow> rd32 rd (nt + 8);
       os \<leftarrow> rd16 rd (nt + 20);
       ib \<leftarrow> rd64 rd (nt + 48);
       sz \<leftarrow> rd32 rd (nt + 80);
       Some \<lparr>nt_sections = unat n, nt_timestamp = ts, nt_optional_size = unat os,
             nt_image_base = ib, nt_image_size = sz\<rparr>
     }"

text \<open>The checks on the two signatures and the optional header magic, in the source's order.\<close>

definition check_nt :: "(nat \<Rightarrow> u8 option) \<Rightarrow> nat \<Rightarrow> string \<Rightarrow> string \<Rightarrow> (string + unit) option" where
  "check_nt rd nt bad_signature bad_magic =
     do {
       sig \<leftarrow> rd32 rd nt;
       if sig \<noteq> 0x4550 then Some (Inl bad_signature)
       else do {
         magic \<leftarrow> rd16 rd (nt + 24);
         Some (if magic \<noteq> 0x20b then Inl bad_magic else Inr ())
       }
     }"

text \<open>What both readers do once the signatures are accepted: the fields, then the section table.\<close>

definition read_body :: "(nat \<Rightarrow> u8 option) \<Rightarrow> nat \<Rightarrow> (nt_fields \<times> section_range list) option" where
  "read_body rd nt =
     do {
       f \<leftarrow> read_nt_fields rd nt;
       secs \<leftarrow> read_sections rd (nt + 24 + nt_optional_size f) (nt_sections f);
       Some (f, secs)
     }"

subsection \<open>Loading a file\<close>

text \<open>
  What the file system gives: \<open>None\<close> when the file cannot be opened, else the size
  \<open>tellg\<close> reports and the bytes, or \<open>None\<close> when reading them failed.
\<close>

record file_content =
  fc_size :: int
  fc_bytes :: "u8 list option"

definition parse_image :: "string \<Rightarrow> u8 list \<Rightarrow> (string + pe_image_file) option" where
  "parse_image path bytes =
     (if length bytes < sizeof_dos_header then Some (Inl ''PE image too small for DOS header'')
      else do {
        magic \<leftarrow> rd16 (list_span bytes) 0;
        if magic \<noteq> 0x5A4D then Some (Inl ''PE image missing MZ signature'')
        else do {
          lfanew \<leftarrow> rd32 (list_span bytes) 60;
          if sint lfanew < 0 \<or> nat (sint lfanew) + sizeof_nt_headers64 > length bytes
          then Some (Inl ''PE image has invalid NT header offset'')
          else do {
            checked \<leftarrow> check_nt (list_span bytes) (nat (sint lfanew))
                         ''PE image missing NT signature'' ''PE image is not PE32+'';
            (case checked of
               Inl e \<Rightarrow> Some (Inl e)
             | Inr _ \<Rightarrow> do {
                 (f, secs) \<leftarrow> read_body (list_span bytes) (nat (sint lfanew));
                 Some (Inr \<lparr>pi_path = path, pi_bytes = bytes,
                            pi_image_base = nt_image_base f, pi_image_size = nt_image_size f,
                            pi_timestamp = nt_timestamp f, pi_sections = secs\<rparr>)
               })
          }
        }
      })"

definition pe_image_load :: "string \<Rightarrow> file_content option \<Rightarrow> (string + pe_image_file) option" where
  "pe_image_load path file =
     (case file of
        None \<Rightarrow> Some (Inl (''failed to open PE image: '' @ path))
      | Some fc \<Rightarrow>
          if fc_size fc \<le> 0 \<or> fc_size fc > 4294967295
          then Some (Inl ''PE image has invalid size'')
          else (case fc_bytes fc of
                  None \<Rightarrow> Some (Inl ''failed to read PE image'')
                | Some bytes \<Rightarrow> parse_image path bytes))"

subsection \<open>From file offsets to RVAs\<close>

fun rva_loop :: "nat \<Rightarrow> section_range list \<Rightarrow> u32 option option" where
  "rva_loop offset [] = None"
| "rva_loop offset (s # ss) =
     (let raw_begin = unat (sr_raw_offset s);
          raw_end = raw_begin + unat (sr_raw_size s)
      in if raw_begin \<le> offset \<and> offset < raw_end
         then (let delta = offset - raw_begin
               in if delta > unat (0xffffffff - sr_virtual_address s) then Some None
                  else Some (Some (sr_virtual_address s + of_nat delta)))
         else rva_loop offset ss)"

definition rva_from_file_offset :: "pe_image_file \<Rightarrow> nat \<Rightarrow> u32 option" where
  "rva_from_file_offset img offset =
     (if offset > 0xffffffff then None
      else (case rva_loop offset (pi_sections img) of
              Some r \<Rightarrow> r
            | None \<Rightarrow>
                (let first_section_offset =
                       (case pi_sections img of [] \<Rightarrow> 0 | s # _ \<Rightarrow> unat (sr_raw_offset s))
                 in if offset < first_section_offset then Some (of_nat offset) else None)))"

subsection \<open>Viewing a mapped module\<close>

definition module_span :: "engine_memory \<Rightarrow> ptr \<Rightarrow> nat \<Rightarrow> u8 option" where
  "module_span m base i = load8 m (base + of_nat i)"

definition from_module_handle ::
  "engine_memory \<Rightarrow> ptr \<Rightarrow> string \<Rightarrow> (string + pe_module_view) option" where
  "from_module_handle m handle path_hint =
     (if handle = nullptr then Some (Inl ''module handle is null'')
      else do {
        magic \<leftarrow> rd16 (module_span m handle) 0;
        if magic \<noteq> 0x5A4D then Some (Inl ''loaded module missing MZ signature'')
        else do {
          lfanew \<leftarrow> rd32 (module_span m handle) 60;
          if sint lfanew < 0 then Some (Inl ''loaded module has invalid NT header offset'')
          else do {
            checked \<leftarrow> check_nt (module_span m handle) (nat (sint lfanew))
                         ''loaded module missing NT signature'' ''loaded module is not PE32+'';
            (case checked of
               Inl e \<Rightarrow> Some (Inl e)
             | Inr _ \<Rightarrow> do {
                 (f, secs) \<leftarrow> read_body (module_span m handle) (nat (sint lfanew));
                 Some (Inr \<lparr>pm_path = path_hint, pm_base = handle, pm_image_base = handle,
                            pm_image_size = nt_image_size f, pm_timestamp = nt_timestamp f,
                            pm_sections = secs\<rparr>)
               })
          }
        }
      })"

subsection \<open>Scanning a mapped module\<close>

definition section_executable :: "section_range \<Rightarrow> bool" where
  "section_executable s \<longleftrightarrow> sr_characteristics s AND (0x20 OR 0x20000000) \<noteq> 0"

definition section_extent :: "section_range \<Rightarrow> u32" where
  "section_extent s = (if sr_virtual_size s \<noteq> 0 then sr_virtual_size s else sr_raw_size s)"

definition section_scan_size :: "pe_module_view \<Rightarrow> section_range \<Rightarrow> u32" where
  "section_scan_size view s = min (section_extent s) (pm_image_size view - sr_virtual_address s)"

text \<open>The guards that make the loop \<open>continue\<close> with the next section.\<close>

definition section_scanned :: "pe_module_view \<Rightarrow> compiled_pattern \<Rightarrow> section_range \<Rightarrow> bool" where
  "section_scanned view p s \<longleftrightarrow>
     section_executable s \<and>
     \<not> (section_extent s = 0 \<or> sr_virtual_address s \<ge> pm_image_size view) \<and>
     \<not> unat (section_scan_size view s) < length (cp_bytes p)"

definition section_span :: "engine_memory \<Rightarrow> pe_module_view \<Rightarrow> section_range \<Rightarrow> nat \<Rightarrow> u8 option" where
  "section_span m view s i =
     (if i < unat (section_scan_size view s)
      then load8 m (pm_base view + ucast (sr_virtual_address s) + of_nat i) else None)"

text \<open>
  The inner loop over the matches of one section: the second component says whether the limit
  was reached, in which case the source returns.
\<close>

fun push_matches :: "nat \<Rightarrow> u32 \<Rightarrow> nat list \<Rightarrow> u32 list \<Rightarrow> u32 list \<times> bool" where
  "push_matches max_matches va [] acc = (acc, False)"
| "push_matches max_matches va (off # offs) acc =
     (let acc' = (if off \<le> unat (0xffffffff - va) then acc @ [va + of_nat off] else acc)
      in if max_matches \<le> length acc' then (acc', True)
         else push_matches max_matches va offs acc')"

fun rvas_loop ::
  "engine_memory \<Rightarrow> pe_module_view \<Rightarrow> compiled_pattern \<Rightarrow> nat \<Rightarrow> section_range list \<Rightarrow> u32 list
     \<Rightarrow> u32 list option" where
  "rvas_loop m view p max_matches [] acc = Some acc"
| "rvas_loop m view p max_matches (s # ss) acc =
     (if \<not> section_scanned view p s then rvas_loop m view p max_matches ss acc
      else
        (case find_pattern_span (section_span m view s) (unat (section_scan_size view s)) p
                (max_matches - length acc) of
           None \<Rightarrow> None
         | Some offs \<Rightarrow>
             (case push_matches max_matches (sr_virtual_address s) offs acc of
                (acc', True) \<Rightarrow> Some acc'
              | (acc', False) \<Rightarrow> rvas_loop m view p max_matches ss acc')))"

definition find_pattern_rvas ::
  "engine_memory \<Rightarrow> pe_module_view \<Rightarrow> compiled_pattern \<Rightarrow> nat \<Rightarrow> u32 list option" where
  "find_pattern_rvas m view p max_matches =
     (if cp_bytes p = [] \<or> max_matches = 0 \<or> pm_base view = nullptr then Some []
      else rvas_loop m view p max_matches (pm_sections view) [])"

subsection \<open>When a file read leaves the buffer\<close>

lemma rd_bytes_None_iff:
  "rd_bytes (list_span h) off n = None \<longleftrightarrow> 0 < n \<and> length h < off + n"
  by (induction n arbitrary: off) (auto simp: list_span_def split: option.splits)

lemma rd_fields_None_iff [simp]:
  "rd16 (list_span h) off = None \<longleftrightarrow> length h < off + 2"
  "rd32 (list_span h) off = None \<longleftrightarrow> length h < off + 4"
  "rd64 (list_span h) off = None \<longleftrightarrow> length h < off + 8"
  by (simp_all add: rd16_def rd32_def rd64_def rd_bytes_None_iff)

lemma bind_None_iff: "Option.bind x f = None \<longleftrightarrow> x = None \<or> (\<exists>v. x = Some v \<and> f v = None)"
  by (cases x) auto

lemma read_section_None_iff: "read_section (list_span h) pos = None \<longleftrightarrow> length h < pos + 40"
proof
  assume "read_section (list_span h) pos = None"
  then show "length h < pos + 40"
    by (auto simp: read_section_def bind_None_iff rd_bytes_None_iff)
next
  assume "length h < pos + 40"
  then have "rd32 (list_span h) (pos + 36) = None" by simp
  then show "read_section (list_span h) pos = None"
    by (simp add: read_section_def Option.bind_eq_None_conv)
qed

lemma read_sections_None_iff:
  "read_sections (list_span h) pos k = None \<longleftrightarrow> 0 < k \<and> length h < pos + 40 * k"
proof (induction k arbitrary: pos)
  case 0
  then show ?case by simp
next
  case (Suc k)
  show ?case
  proof (cases "length h < pos + 40")
    case True
    then have "read_section (list_span h) pos = None" by (simp add: read_section_None_iff)
    then show ?thesis using True by simp
  next
    case False
    then obtain s where "read_section (list_span h) pos = Some s"
      using read_section_None_iff [of h pos] by (cases "read_section (list_span h) pos") auto
    then show ?thesis using Suc.IH [of "pos + 40"] False by auto
  qed
qed

text \<open>A header that passes every check of \<open>PeImageFile::load\<close>, and the fields read from it.\<close>

definition accepted_header :: "u8 list \<Rightarrow> nat \<Rightarrow> nt_fields \<Rightarrow> bool" where
  "accepted_header bytes nt f \<longleftrightarrow>
     sizeof_dos_header \<le> length bytes \<and>
     rd16 (list_span bytes) 0 = Some 0x5A4D \<and>
     (\<exists>lfanew. rd32 (list_span bytes) 60 = Some lfanew \<and> 0 \<le> sint lfanew \<and> nt = nat (sint lfanew)) \<and>
     nt + sizeof_nt_headers64 \<le> length bytes \<and>
     rd32 (list_span bytes) nt = Some 0x4550 \<and>
     rd16 (list_span bytes) (nt + 24) = Some 0x20b \<and>
     read_nt_fields (list_span bytes) nt = Some f"

lemma parse_image_accepted:
  assumes "accepted_header bytes nt f"
  shows "parse_image path bytes =
    map_option (\<lambda>secs. Inr \<lparr>pi_path = path, pi_bytes = bytes, pi_image_base = nt_image_base f,
        pi_image_size = nt_image_size f, pi_timestamp = nt_timestamp f, pi_sections = secs\<rparr>)
      (read_sections (list_span bytes) (nt + 24 + nt_optional_size f) (nt_sections f))"
  using assms
  by (cases "read_sections (list_span bytes) (nt + 24 + nt_optional_size f) (nt_sections f)")
    (auto simp: accepted_header_def parse_image_def check_nt_def read_body_def not_less)

lemma parse_image_rejected:
  assumes "\<nexists>nt f. accepted_header bytes nt f"
  shows "\<exists>e. parse_image path bytes = Some (Inl e)"
proof (cases "sizeof_dos_header \<le> length bytes")
  case False
  then show ?thesis by (simp add: parse_image_def)
next
  case dos: True
  then obtain magic lfanew where m: "rd16 (list_span bytes) 0 = Some magic"
    and l: "rd32 (list_span bytes) 60 = Some lfanew"
    using rd_fields_None_iff [of bytes 0] rd_fields_None_iff [of bytes 60] by fastforce
  show ?thesis
  proof (cases "magic = 0x5A4D \<and> 0 \<le> sint lfanew \<and> nat (sint lfanew) + sizeof_nt_headers64 \<le> length bytes")
    case False
    then show ?thesis using dos m l by (auto simp: parse_image_def)
  next
    case True
    let ?nt = "nat (sint lfanew)"
    from True obtain sig om where sig: "rd32 (list_span bytes) ?nt = Some sig"
      and om: "rd16 (list_span bytes) (?nt + 24) = Some om"
      using rd_fields_None_iff(2) [of bytes ?nt] rd_fields_None_iff(1) [of bytes "?nt + 24"] by fastforce
    have "read_nt_fields (list_span bytes) ?nt \<noteq> None"
      using True by (auto simp: read_nt_fields_def bind_None_iff)
    then obtain f where "read_nt_fields (list_span bytes) ?nt = Some f" by blast
    then have "\<not> (sig = 0x4550 \<and> om = 0x20b)"
      using assms dos m l True sig om by (auto simp: accepted_header_def)
    then show ?thesis using dos m l True sig om
      by (auto simp: parse_image_def check_nt_def)
  qed
qed

lemma parse_image_None_iff:
  "parse_image path bytes = None \<longleftrightarrow>
     (\<exists>nt f. accepted_header bytes nt f \<and> 0 < nt_sections f \<and>
        length bytes < nt + 24 + nt_optional_size f + sizeof_section_header * nt_sections f)"
proof (cases "\<exists>nt f. accepted_header bytes nt f")
  case True
  then obtain nt f where a: "accepted_header bytes nt f" by blast
  have unique: "nt' = nt \<and> f' = f" if "accepted_header bytes nt' f'" for nt' f'
    using a that by (auto simp: accepted_header_def)
  have "parse_image path bytes = None \<longleftrightarrow> 0 < nt_sections f \<and>
      length bytes < nt + 24 + nt_optional_size f + sizeof_section_header * nt_sections f"
    by (simp add: parse_image_accepted [OF a] read_sections_None_iff)
  then show ?thesis using a unique by blast
next
  case False
  then obtain e where "parse_image path bytes = Some (Inl e)"
    using parse_image_rejected by blast
  with False show ?thesis by auto
qed

subsection \<open>The RVA of a file offset\<close>

lemma unat_sub_max: "unat (0xffffffff - (a :: u32)) = 4294967295 - unat a"
proof -
  have "a \<le> 0xffffffff" using unat_lt_32 [of a] by (simp add: word_le_nat_alt)
  then show ?thesis by (simp add: unat_sub)
qed

lemma unat_add_small:
  assumes "unat (a :: u32) + n \<le> 4294967295"
  shows "unat (a + of_nat n) = unat a + n"
proof -
  have "unat (of_nat n :: u32) = n" using assms by (simp add: unat_of_nat_u32)
  then show ?thesis using assms by (subst unat_add_lem [THEN iffD1]) simp_all
qed

definition in_raw_range :: "nat \<Rightarrow> section_range \<Rightarrow> bool" where
  "in_raw_range offset s \<longleftrightarrow>
     unat (sr_raw_offset s) \<le> offset \<and> offset < unat (sr_raw_offset s) + unat (sr_raw_size s)"

lemma rva_loop_eq:
  "rva_loop offset ss =
     (case find (in_raw_range offset) ss of
        None \<Rightarrow> None
      | Some s \<Rightarrow>
          let delta = offset - unat (sr_raw_offset s)
          in if unat (sr_virtual_address s) + delta \<le> 4294967295
             then Some (Some (sr_virtual_address s + of_nat delta)) else Some None)"
proof (induction ss)
  case Nil
  then show ?case by simp
next
  case (Cons s ss)
  have "unat (sr_virtual_address s) \<le> 4294967295" using unat_lt_32 [of "sr_virtual_address s"] by simp
  then show ?case
    using Cons by (auto simp: in_raw_range_def Let_def unat_sub_max)
qed

lemma rva_from_file_offset_cases:
  assumes "rva_from_file_offset img offset = Some r"
  obtains (section_hit) s where "s \<in> set (pi_sections img)" "in_raw_range offset s"
      "unat r = unat (sr_virtual_address s) + (offset - unat (sr_raw_offset s))"
  | (header) "\<forall>s\<in>set (pi_sections img). \<not> in_raw_range offset s" "unat r = offset"
      "\<exists>s ss. pi_sections img = s # ss \<and> offset < unat (sr_raw_offset s)"
proof (cases "find (in_raw_range offset) (pi_sections img)")
  case None
  with assms have "\<exists>s ss. pi_sections img = s # ss \<and> offset < unat (sr_raw_offset s)"
    and r: "r = of_nat offset" and le: "offset \<le> 4294967295"
    by (auto simp: rva_from_file_offset_def rva_loop_eq Let_def split: if_splits list.splits)
  moreover from r le have "unat r = offset" by (simp add: unat_of_nat_u32)
  moreover have "\<forall>s\<in>set (pi_sections img). \<not> in_raw_range offset s"
    using None by (simp add: find_None_iff)
  ultimately show ?thesis using header by blast
next
  case (Some s)
  with assms have r: "r = sr_virtual_address s + of_nat (offset - unat (sr_raw_offset s))"
    and le: "unat (sr_virtual_address s) + (offset - unat (sr_raw_offset s)) \<le> 4294967295"
    by (auto simp: rva_from_file_offset_def rva_loop_eq Let_def split: if_splits)
  from Some have "s \<in> set (pi_sections img)" "in_raw_range offset s"
    by (auto simp: find_Some_iff)
  then show ?thesis using r unat_add_small [OF le] by (intro section_hit) auto
qed

subsection \<open>Scanning a module finds the matches of its executable sections\<close>

lemma load_bytes_nth:
  assumes "load_bytes m a n = Some h"
  shows "length h = n \<and> (\<forall>i<n. load8 m (a + of_nat i) = Some (h ! i))"
  using assms
proof (induction n arbitrary: a h)
  case 0
  then show ?case by simp
next
  case (Suc n)
  then obtain b t where b: "load8 m a = Some b" and t: "load_bytes m (a + 1) n = Some t" and h: "h = b # t"
    by (auto split: option.splits)
  from Suc.IH [OF t] b show ?case
    by (auto simp: h less_Suc_eq_0_disj add.assoc)
qed

lemma section_span_list:
  assumes "load_bytes m (pm_base view + ucast (sr_virtual_address s)) (unat (section_scan_size view s)) = Some h"
  shows "section_span m view s = list_span h \<and> length h = unat (section_scan_size view s)"
  using load_bytes_nth [OF assms] by (auto simp: section_span_def list_span_def fun_eq_iff)

lemma push_matches_eq:
  assumes "length acc < k" "\<forall>off\<in>set offs. off \<le> unat (0xffffffff - va)"
  shows "push_matches k va offs acc =
    (let all = acc @ map (\<lambda>off. va + of_nat off) offs in (take k all, k \<le> length all))"
  using assms
proof (induction offs arbitrary: acc)
  case Nil
  then show ?case by simp
next
  case (Cons off offs)
  show ?case
  proof (cases "k \<le> Suc (length acc)")
    case True
    with Cons.prems(1) have "k = Suc (length acc)" by simp
    with Cons.prems show ?thesis by (simp add: Let_def)
  next
    case False
    with Cons.prems Cons.IH [of "acc @ [va + of_nat off]"] show ?thesis by (simp add: Let_def)
  qed
qed

lemma scanned_offset_bound:
  assumes "section_scanned view p s" "cp_bytes p \<noteq> []"
    and "off + length (cp_bytes p) \<le> unat (section_scan_size view s)"
  shows "unat (sr_virtual_address s) + off < unat (pm_image_size view)"
proof -
  have lt: "sr_virtual_address s < pm_image_size view"
    using assms(1) by (auto simp: section_scanned_def)
  have "section_scan_size view s \<le> pm_image_size view - sr_virtual_address s"
    by (simp add: section_scan_size_def)
  then have "unat (section_scan_size view s) \<le> unat (pm_image_size view - sr_virtual_address s)"
    by (simp add: word_le_nat_alt)
  also have "\<dots> = unat (pm_image_size view) - unat (sr_virtual_address s)"
    using lt by (intro unat_sub) simp
  finally have "off + length (cp_bytes p) \<le> unat (pm_image_size view) - unat (sr_virtual_address s)"
    using assms(3) by simp
  moreover have "0 < length (cp_bytes p)" using assms(2) by simp
  moreover have "unat (sr_virtual_address s) < unat (pm_image_size view)"
    using lt by (simp add: word_less_nat_alt)
  ultimately show ?thesis by linarith
qed

text \<open>
  The specification of a scan over the bytes \<open>sec s\<close> of every section: section by section, in
  header order, the matching offsets turned into RVAs.
\<close>

definition section_rvas :: "compiled_pattern \<Rightarrow> (section_range \<Rightarrow> u8 list) \<Rightarrow> section_range \<Rightarrow> u32 list" where
  "section_rvas p sec s = map (\<lambda>off. sr_virtual_address s + of_nat off) (pattern_offsets (sec s) (cp_bytes p))"

definition module_rvas ::
  "pe_module_view \<Rightarrow> compiled_pattern \<Rightarrow> (section_range \<Rightarrow> u8 list) \<Rightarrow> section_range list \<Rightarrow> u32 list" where
  "module_rvas view p sec ss = concat (map (section_rvas p sec) (filter (section_scanned view p) ss))"

definition sections_mapped ::
  "engine_memory \<Rightarrow> pe_module_view \<Rightarrow> compiled_pattern \<Rightarrow> (section_range \<Rightarrow> u8 list) \<Rightarrow> bool" where
  "sections_mapped m view p sec \<longleftrightarrow>
     (\<forall>s\<in>set (pm_sections view). section_scanned view p s \<longrightarrow>
        load_bytes m (pm_base view + ucast (sr_virtual_address s)) (unat (section_scan_size view s))
          = Some (sec s))"

lemma section_find:
  assumes "load_bytes m (pm_base view + ucast (sr_virtual_address s)) (unat (section_scan_size view s)) = Some h"
  shows "find_pattern_span (section_span m view s) (unat (section_scan_size view s)) p k
    = Some (take k (pattern_offsets h (cp_bytes p)))"
  using section_span_list [OF assms] scanner.find_eq [of h p k] by (simp add: find_pattern_def)

lemma rvas_loop_eq:
  assumes "cp_bytes p \<noteq> []" "length acc < k"
    and "\<forall>s\<in>set ss. section_scanned view p s \<longrightarrow>
        load_bytes m (pm_base view + ucast (sr_virtual_address s)) (unat (section_scan_size view s))
          = Some (sec s)"
  shows "rvas_loop m view p k ss acc = Some (take k (acc @ module_rvas view p sec ss))"
  using assms
proof (induction ss arbitrary: acc)
  case Nil
  then show ?case by (simp add: module_rvas_def)
next
  case (Cons s ss)
  show ?case
  proof (cases "section_scanned view p s")
    case False
    with Cons show ?thesis by (simp add: module_rvas_def)
  next
    case True
    let ?offs = "take (k - length acc) (pattern_offsets (sec s) (cp_bytes p))"
    let ?all = "acc @ map (\<lambda>off. sr_virtual_address s + of_nat off) ?offs"
    have mapped: "load_bytes m (pm_base view + ucast (sr_virtual_address s)) (unat (section_scan_size view s)) = Some (sec s)"
      using Cons.prems(3) True by simp
    have bound: "off \<le> unat (0xffffffff - sr_virtual_address s)" if "off \<in> set ?offs" for off
    proof -
      have "off + length (cp_bytes p) \<le> length (sec s)"
        using that by (auto dest: in_set_takeD pattern_offsets_bound)
      then have "unat (sr_virtual_address s) + off < unat (pm_image_size view)"
        using scanned_offset_bound [OF True Cons.prems(1)] section_span_list [OF mapped] by simp
      then show ?thesis using unat_lt_32 [of "pm_image_size view"] by (simp add: unat_sub_max)
    qed
    have push: "push_matches k (sr_virtual_address s) ?offs acc = (take k ?all, k \<le> length ?all)"
      using push_matches_eq [OF Cons.prems(2)] bound by (simp add: Let_def)
    have rvas: "?all = take k (acc @ section_rvas p sec s)"
      using Cons.prems(2) by (simp add: section_rvas_def take_map)
    have split: "module_rvas view p sec (s # ss) = section_rvas p sec s @ module_rvas view p sec ss"
      using True by (simp add: module_rvas_def)
    show ?thesis
    proof (cases "k \<le> length ?all")
      case reached: True
      then have "k \<le> length (acc @ section_rvas p sec s)" by (simp add: rvas)
      then show ?thesis using True reached push Cons.prems(2)
        by (simp add: section_find [OF mapped] split rvas)
    next
      case False
      then have short: "?all = acc @ section_rvas p sec s" "length ?all < k"
        unfolding rvas by auto
      have "rvas_loop m view p k ss ?all = Some (take k (?all @ module_rvas view p sec ss))"
        by (rule Cons.IH) (use Cons.prems short in auto)
      then show ?thesis using True False push short
        by (simp add: section_find [OF mapped] split)
    qed
  qed
qed

lemma find_pattern_rvas_eq:
  assumes "sections_mapped m view p sec" "pm_base view \<noteq> nullptr"
  shows "find_pattern_rvas m view p k = Some (take k (module_rvas view p sec (pm_sections view)))"
proof (cases "cp_bytes p = [] \<or> k = 0")
  case True
  have "section_rvas p sec s = []" if "cp_bytes p = []" for s
    using that by (simp add: section_rvas_def pattern_offsets_def)
  with True show ?thesis by (auto simp: find_pattern_rvas_def module_rvas_def)
next
  case False
  then show ?thesis
    using assms rvas_loop_eq [of p "[]" k "pm_sections view"]
    by (simp add: find_pattern_rvas_def sections_mapped_def)
qed

lemma module_rvas_in_image:
  assumes "sections_mapped m view p sec" "r \<in> set (module_rvas view p sec (pm_sections view))"
  shows "r < pm_image_size view"
proof -
  from assms(2) obtain s off where s: "s \<in> set (pm_sections view)" "section_scanned view p s"
    and off: "off \<in> set (pattern_offsets (sec s) (cp_bytes p))" and r: "r = sr_virtual_address s + of_nat off"
    by (auto simp: module_rvas_def section_rvas_def)
  have ne: "cp_bytes p \<noteq> []" using off by (auto simp: pattern_offsets_def)
  have "length (sec s) = unat (section_scan_size view s)"
    using assms(1) s section_span_list by (auto simp: sections_mapped_def)
  then have lt: "unat (sr_virtual_address s) + off < unat (pm_image_size view)"
    using scanned_offset_bound [OF s(2) ne] pattern_offsets_bound [OF off] by simp
  then have "unat r = unat (sr_virtual_address s) + off"
    unfolding r by (intro unat_add_small) (use unat_lt_32 [of "pm_image_size view"] in linarith)
  with lt show ?thesis by (simp add: word_less_nat_alt)
qed

subsection \<open>Properties\<close>

text \<open>
  A file of exactly 328 bytes with one section header announced past its end: every check of
  the loader accepts it.
\<close>

definition truncated_image :: "u8 list" where
  "truncated_image =
     [0x4D, 0x5A] @ replicate 58 0 @ [64, 0, 0, 0] @ [0x50, 0x45, 0, 0] @ [0x64, 0x86, 1, 0] @
     replicate 12 0 @ [0xF0, 0, 0, 0] @ [0x0B, 0x02] @ replicate 238 0"

lemma truncated_image_overruns: "length truncated_image = 328 \<and> parse_image path truncated_image = None"
  by (simp add: truncated_image_def parse_image_def rd16_def rd32_def rd64_def rd_bytes_numeral list_span_def nth_append
     check_nt_def read_body_def read_nt_fields_def read_section_def)

text \<open>C24. Loading an image reads outside its buffer exactly when a header that passes every check
  announces a section table that ends behind the buffer.\<close>

theorem parse_image_overrun_iff:
  "parse_image path bytes = None \<longleftrightarrow>
     (\<exists>nt f. accepted_header bytes nt f \<and> 0 < nt_sections f \<and>
        length bytes < nt + 24 + nt_optional_size f + sizeof_section_header * nt_sections f)"
  by (rule parse_image_None_iff)

text \<open>C38. A reported RVA is the offset itself inside the headers, or lies as far into its section
  as the offset lies into the section's raw data; the addition never wraps.\<close>

theorem rva_from_file_offset_sound:
  assumes "rva_from_file_offset img offset = Some r"
  shows "(\<exists>s\<in>set (pi_sections img). in_raw_range offset s \<and>
            unat r = unat (sr_virtual_address s) + (offset - unat (sr_raw_offset s)))
     \<or> (\<exists>s ss. pi_sections img = s # ss \<and> offset < unat (sr_raw_offset s) \<and> unat r = offset)"
  using assms by (cases rule: rva_from_file_offset_cases) blast+

theorem rva_from_file_offset_sound_witness:
  "\<exists>img. rva_from_file_offset img 0x450 = Some 0x1050 \<and>
     (\<exists>s\<in>set (pi_sections img). in_raw_range 0x450 s \<and>
            unat (0x1050 :: u32) = unat (sr_virtual_address s) + (0x450 - unat (sr_raw_offset s)))"
proof -
  define img where "img = \<lparr>pi_path = ''server.dll'', pi_bytes = [], pi_image_base = 0, pi_image_size = 0x3000,
     pi_timestamp = 0, pi_sections = [\<lparr>sr_name = ''.text'', sr_virtual_address = 0x1000,
       sr_virtual_size = 0x200, sr_raw_offset = 0x400, sr_raw_size = 0x200, sr_characteristics = 0x20\<rparr>]\<rparr>"
  have "rva_from_file_offset img 0x450 = Some 0x1050"
    by (simp add: img_def rva_from_file_offset_def Let_def)
  then show ?thesis using rva_from_file_offset_sound [of img "0x450" "0x1050"]
    by (intro exI [of _ img]) (auto simp: img_def)
qed

text \<open>On a mapped module the scan faults nowhere and returns the first \<open>k\<close> matches of the
  executable sections in header order, each of them an address inside the image.\<close>

theorem find_pattern_rvas_sound:
  assumes "sections_mapped m view p sec" "pm_base view \<noteq> nullptr"
  shows "find_pattern_rvas m view p k = Some (take k (module_rvas view p sec (pm_sections view)))
     \<and> set (module_rvas view p sec (pm_sections view)) \<subseteq> {..< pm_image_size view}"
  using find_pattern_rvas_eq [OF assms] module_rvas_in_image [OF assms(1)] by auto

theorem find_pattern_rvas_sound_witness:
  "\<exists>m view p. find_pattern_rvas m view p 3 = Some [0x11]"
proof -
  define view where "view = \<lparr>pm_path = ''server.dll'', pm_base = 0x10000, pm_image_base = 0x10000,
     pm_image_size = 0x20, pm_timestamp = 0, pm_sections = [\<lparr>sr_name = ''.text'', sr_virtual_address = 0x10,
       sr_virtual_size = 3, sr_raw_offset = 0, sr_raw_size = 0, sr_characteristics = 0x20\<rparr>]\<rparr>"
  define m where "m = \<lparr>mem_byte = [0x10010 \<mapsto> 1, 0x10011 \<mapsto> 2, 0x10012 \<mapsto> 3], mem_writable = (\<lambda>_. False)\<rparr>"
  define p where "p = \<lparr>cp_bytes = [\<lparr>pb_value = 2, pb_wildcard = False\<rparr>, \<lparr>pb_value = 0, pb_wildcard = True\<rparr>]\<rparr>"
  have mapped: "sections_mapped m view p (\<lambda>s. [1, 2, 3])"
    by (simp add: sections_mapped_def view_def m_def p_def section_scan_size_def section_extent_def load_bytes_numeral
        load8_def)
  have "pattern_offsets [1, 2, 3] (cp_bytes p) = [1]"
    by (simp add: pattern_offsets_def p_def pattern_matches_def byte_agrees_def upt_rec)
  moreover have "section_scanned view p (hd (pm_sections view))"
    by (simp add: view_def p_def section_scanned_def section_executable_def section_extent_def section_scan_size_def)
  ultimately have "module_rvas view p (\<lambda>s. [1, 2, 3]) (pm_sections view) = [0x11]"
    by (simp add: module_rvas_def section_rvas_def view_def)
  then show ?thesis using find_pattern_rvas_sound [OF mapped, of 3] by (auto simp: view_def)
qed

end
