(* ===== verification/Pe_Layout.thy ===== *)
theory Pe_Layout
  imports Pe_Image
begin

section \<open>The layout of a PE image\<close>

text \<open>
  What a linker writes, as far as the two readers of \<open>Pe_Image\<close> look at it: the fields of the
  headers and of the section table at their offsets, with any bytes between them.  A file and a
  mapped module are both bytes behind an accessor, so one description serves both; the theorem is
  that each reader gives back exactly what the layout holds.
\<close>

subsection \<open>Bytes behind an accessor\<close>

definition span_at :: "(nat \<Rightarrow> u8 option) \<Rightarrow> nat \<Rightarrow> u8 list \<Rightarrow> bool" where
  "span_at rd pos bs \<longleftrightarrow> (\<forall>i<length bs. rd (pos + i) = Some (bs ! i))"

lemma span_at_Nil [simp]: "span_at rd pos []"
  by (simp add: span_at_def)

lemma span_at_Cons [simp]: "span_at rd pos (b # bs) \<longleftrightarrow> rd pos = Some b \<and> span_at rd (Suc pos) bs"
  by (auto simp: span_at_def less_Suc_eq_0_disj)

lemma span_at_append [simp]:
  "span_at rd pos (bs @ cs) \<longleftrightarrow> span_at rd pos bs \<and> span_at rd (pos + length bs) cs"
  by (induction bs arbitrary: pos) auto

lemma span_at_list: "span_at (list_span bs) 0 bs"
  by (simp add: span_at_def list_span_def)

lemma rd_bytes_span: "span_at rd pos bs \<Longrightarrow> length bs = n \<Longrightarrow> rd_bytes rd pos n = Some bs"
  by (induction bs arbitrary: pos n) auto

subsection \<open>Words in bytes\<close>

primrec word_bytes :: "nat \<Rightarrow> 'a::len word \<Rightarrow> u8 list" where
  "word_bytes 0 w = []"
| "word_bytes (Suc n) w = ucast w # word_bytes n (drop_bit 8 w)"

lemma length_word_bytes [simp]: "length (word_bytes n w) = n"
  by (induction n arbitrary: w) simp_all

lemma le_word_word_bytes: "le_word (word_bytes n w) = take_bit (8 * n) w"
proof (induction n arbitrary: w)
  case (Suc n)
  show ?case
    by (rule bit_word_eqI) (auto simp: Suc.IH bit_simps)
qed simp

lemma take_bit_length: "take_bit n (w :: 'a::len word) = w" if "LENGTH('a) \<le> n"
  using that by (auto intro: bit_word_eqI simp: bit_simps)

lemma rd_words:
  "span_at rd pos (word_bytes 2 w) \<Longrightarrow> rd16 rd pos = Some w"
  "span_at rd pos (word_bytes 4 v) \<Longrightarrow> rd32 rd pos = Some v"
  "span_at rd pos (word_bytes 8 u) \<Longrightarrow> rd64 rd pos = Some u"
  by (simp_all add: rd16_def rd32_def rd64_def rd_bytes_span le_word_word_bytes take_bit_length)

subsection \<open>Sections\<close>

text \<open>A name of at most eight characters, none of them null, is stored with nulls behind it.\<close>

definition name_fits :: "string \<Rightarrow> bool" where
  "name_fits name \<longleftrightarrow> length name \<le> 8 \<and> list_all (\<lambda>c. char_byte c \<noteq> 0) name"

definition name_bytes :: "string \<Rightarrow> u8 list" where
  "name_bytes name = map char_byte name @ replicate (8 - length name) 0"

definition section_layout :: "(nat \<Rightarrow> u8 option) \<Rightarrow> nat \<Rightarrow> section_range \<Rightarrow> bool" where
  "section_layout rd pos s \<longleftrightarrow>
     name_fits (sr_name s) \<and> span_at rd pos (name_bytes (sr_name s)) \<and>
     span_at rd (pos + 8) (word_bytes 4 (sr_virtual_size s)) \<and>
     span_at rd (pos + 12) (word_bytes 4 (sr_virtual_address s)) \<and>
     span_at rd (pos + 16) (word_bytes 4 (sr_raw_size s)) \<and>
     span_at rd (pos + 20) (word_bytes 4 (sr_raw_offset s)) \<and>
     span_at rd (pos + 36) (word_bytes 4 (sr_characteristics s))"

primrec sections_layout :: "(nat \<Rightarrow> u8 option) \<Rightarrow> nat \<Rightarrow> section_range list \<Rightarrow> bool" where
  "sections_layout rd pos [] = True"
| "sections_layout rd pos (s # ss) = (section_layout rd pos s \<and> sections_layout rd (pos + sizeof_section_header) ss)"

lemma length_name_bytes [simp]: "name_fits name \<Longrightarrow> length (name_bytes name) = 8"
  by (simp add: name_fits_def name_bytes_def)

lemma section_name_bytes: "name_fits name \<Longrightarrow> section_name (name_bytes name) = name"
proof -
  assume "name_fits name"
  then have "\<forall>b\<in>set (map char_byte name). b \<noteq> 0" by (auto simp: name_fits_def list_all_iff)
  then have "takeWhile (\<lambda>b. b \<noteq> 0) (name_bytes name) = map char_byte name"
    unfolding name_bytes_def by (subst takeWhile_append2) (auto simp: takeWhile_replicate)
  then show ?thesis by (simp add: section_name_def comp_def)
qed

lemma read_section_layout: "section_layout rd pos s \<Longrightarrow> read_section rd pos = Some s"
  by (auto simp: section_layout_def read_section_def rd_bytes_span [where bs = "name_bytes (sr_name s)"]
      section_name_bytes dest!: rd_words)

lemma read_sections_layout: "sections_layout rd pos ss \<Longrightarrow> read_sections rd pos (length ss) = Some ss"
  by (induction ss arbitrary: pos) (auto dest: read_section_layout)

subsection \<open>Headers\<close>

definition image_layout :: "(nat \<Rightarrow> u8 option) \<Rightarrow> nat \<Rightarrow> nt_fields \<Rightarrow> section_range list \<Rightarrow> bool" where
  "image_layout rd nt f ss \<longleftrightarrow>
     nt < 2 ^ 31 \<and> nt_sections f = length ss \<and> length ss < 2 ^ 16 \<and> nt_optional_size f < 2 ^ 16 \<and>
     span_at rd 0 (word_bytes 2 (0x5A4D :: u16)) \<and>
     span_at rd 60 (word_bytes 4 (of_nat nt :: u32)) \<and>
     span_at rd nt (word_bytes 4 (0x4550 :: u32)) \<and>
     span_at rd (nt + 6) (word_bytes 2 (of_nat (length ss) :: u16)) \<and>
     span_at rd (nt + 8) (word_bytes 4 (nt_timestamp f)) \<and>
     span_at rd (nt + 20) (word_bytes 2 (of_nat (nt_optional_size f) :: u16)) \<and>
     span_at rd (nt + 24) (word_bytes 2 (0x20b :: u16)) \<and>
     span_at rd (nt + 48) (word_bytes 8 (nt_image_base f)) \<and>
     span_at rd (nt + 80) (word_bytes 4 (nt_image_size f)) \<and>
     sections_layout rd (nt + 24 + nt_optional_size f) ss"

lemma lfanew_read_back:
  assumes "nt < 2 ^ 31"
  shows "0 \<le> sint (of_nat nt :: u32)" "nat (sint (of_nat nt :: u32)) = nt"
proof -
  have "sint (of_nat nt :: u32) = int nt"
    using assms by (simp add: signed_of_nat signed_take_bit_int_eq_self)
  then show "0 \<le> sint (of_nat nt :: u32)" "nat (sint (of_nat nt :: u32)) = nt" by simp_all
qed

lemma read_layout:
  assumes "image_layout rd nt f ss"
  shows "check_nt rd nt e e' = Some (Inr ())" "read_body rd nt = Some (f, ss)"
    "rd16 rd 0 = Some 0x5A4D" "rd32 rd 60 = Some (of_nat nt)"
proof -
  have u: "unat (of_nat (length ss) :: u16) = nt_sections f" "unat (of_nat (nt_optional_size f) :: u16) = nt_optional_size f"
    using assms by (simp_all add: image_layout_def unat_of_nat take_bit_nat_eq_self)
  then have "read_nt_fields rd nt = Some f"
    using assms by (auto simp: image_layout_def read_nt_fields_def dest!: rd_words)
  then show "read_body rd nt = Some (f, ss)"
    using assms read_sections_layout [of rd "nt + 24 + nt_optional_size f" ss]
    by (simp add: read_body_def image_layout_def)
qed (use assms in \<open>auto simp: image_layout_def check_nt_def dest!: rd_words\<close>)

lemma from_module_handle_layout:
  assumes "image_layout (module_span m handle) nt f ss" "handle \<noteq> nullptr"
  shows "from_module_handle m handle path = Some (Inr
    \<lparr>pm_path = path, pm_base = handle, pm_image_base = handle, pm_image_size = nt_image_size f,
     pm_timestamp = nt_timestamp f, pm_sections = ss\<rparr>)"
proof -
  have "nt < 2 ^ 31" using assms(1) by (simp add: image_layout_def)
  then show ?thesis
    using assms(2) lfanew_read_back [of nt]
    by (simp add: from_module_handle_def read_layout [OF assms(1)] not_less)
qed

lemma parse_image_layout:
  assumes "image_layout (list_span bytes) nt f ss" "nt + sizeof_nt_headers64 \<le> length bytes"
  shows "parse_image path bytes = Some (Inr
    \<lparr>pi_path = path, pi_bytes = bytes, pi_image_base = nt_image_base f, pi_image_size = nt_image_size f,
     pi_timestamp = nt_timestamp f, pi_sections = ss\<rparr>)"
proof -
  have "nt < 2 ^ 31" using assms(1) by (simp add: image_layout_def)
  then show ?thesis
    using assms(2) lfanew_read_back [of nt]
    by (simp add: parse_image_def read_layout [OF assms(1)] not_less)
qed

subsection \<open>Writing headers\<close>

text \<open>Headers as a linker writes them, the unread fields zero, with the section table behind them.\<close>

definition section_header :: "section_range \<Rightarrow> u8 list" where
  "section_header s =
     name_bytes (sr_name s) @ word_bytes 4 (sr_virtual_size s) @ word_bytes 4 (sr_virtual_address s) @
     word_bytes 4 (sr_raw_size s) @ word_bytes 4 (sr_raw_offset s) @ replicate 12 0 @
     word_bytes 4 (sr_characteristics s)"

definition image_header :: "nt_fields \<Rightarrow> section_range list \<Rightarrow> u8 list" where
  "image_header f ss =
     word_bytes 2 (0x5A4D :: u16) @ replicate 58 0 @ word_bytes 4 (64 :: u32) @
     word_bytes 4 (0x4550 :: u32) @ word_bytes 2 (0x8664 :: u16) @ word_bytes 2 (of_nat (length ss) :: u16) @
     word_bytes 4 (nt_timestamp f) @ replicate 8 0 @ word_bytes 2 (240 :: u16) @ word_bytes 2 (0x2022 :: u16) @
     word_bytes 2 (0x20b :: u16) @ replicate 22 0 @ word_bytes 8 (nt_image_base f) @ replicate 24 0 @
     word_bytes 4 (nt_image_size f) @ replicate 180 0 @ concat (map section_header ss)"

definition header_fits :: "nt_fields \<Rightarrow> section_range list \<Rightarrow> bool" where
  "header_fits f ss \<longleftrightarrow> nt_sections f = length ss \<and> length ss < 2 ^ 16 \<and> nt_optional_size f = 240 \<and>
     list_all (\<lambda>s. name_fits (sr_name s)) ss"

lemma length_section_header: "name_fits (sr_name s) \<Longrightarrow> length (section_header s) = sizeof_section_header"
  by (simp add: section_header_def)

lemma length_section_headers:
  "list_all (\<lambda>s. name_fits (sr_name s)) ss \<Longrightarrow>
   length (concat (map section_header ss)) = sizeof_section_header * length ss"
  by (induction ss) (simp_all add: length_section_header)

lemma sections_layout_written:
  "list_all (\<lambda>s. name_fits (sr_name s)) ss \<Longrightarrow> span_at rd pos (concat (map section_header ss)) \<Longrightarrow>
   sections_layout rd pos ss"
  by (induction ss arbitrary: pos) (auto simp: length_section_header section_layout_def section_header_def add.assoc)

lemma image_header_layout:
  assumes "header_fits f ss" "span_at rd 0 (image_header f ss)"
  shows "image_layout rd 64 f ss"
proof -
  have w: "(of_nat 64 :: u32) = 64" "(of_nat 240 :: u16) = 240" by simp_all
  show ?thesis
    using assms unfolding image_layout_def image_header_def header_fits_def
    by (simp only: span_at_append length_append length_replicate length_word_bytes w)
       (auto intro: sections_layout_written)
qed

lemma length_image_header: "sizeof_nt_headers64 + 64 \<le> length (image_header f ss)"
  by (simp add: image_header_def)

subsection \<open>Reading back\<close>

text \<open>The file reader and the module reader give back the layout: on a file, and on a module mapped in
  memory, whose headers hold the same fields and the same section table, with whatever bytes in between, both
  readers accept and report these fields and these sections, the module with its own address as its base.\<close>
theorem image_layout_reads_back:
  assumes "image_layout (list_span bytes) nt f ss" "nt + sizeof_nt_headers64 \<le> length bytes"
    and "image_layout (module_span m handle) nt f ss" "handle \<noteq> nullptr"
  shows "parse_image path bytes = Some (Inr
      \<lparr>pi_path = path, pi_bytes = bytes, pi_image_base = nt_image_base f, pi_image_size = nt_image_size f,
       pi_timestamp = nt_timestamp f, pi_sections = ss\<rparr>)
    \<and> from_module_handle m handle path = Some (Inr
      \<lparr>pm_path = path, pm_base = handle, pm_image_base = handle, pm_image_size = nt_image_size f,
       pm_timestamp = nt_timestamp f, pm_sections = ss\<rparr>)"
  using parse_image_layout [OF assms(1,2)] from_module_handle_layout [OF assms(3,4)] by blast

definition example_section :: section_range where
  "example_section = \<lparr>sr_name = ''.text'', sr_virtual_address = 0x1000, sr_virtual_size = 0x200,
     sr_raw_offset = 0x400, sr_raw_size = 0x200, sr_characteristics = 0x60000020\<rparr>"

definition example_fields :: nt_fields where
  "example_fields = \<lparr>nt_sections = 1, nt_timestamp = 0x6830, nt_optional_size = 240,
     nt_image_base = 0x180000000, nt_image_size = 0x2000\<rparr>"

theorem image_layout_reads_back_witness:
  "\<exists>bytes m. parse_image ''server.dll'' bytes = Some (Inr
      \<lparr>pi_path = ''server.dll'', pi_bytes = bytes, pi_image_base = 0x180000000, pi_image_size = 0x2000,
       pi_timestamp = 0x6830, pi_sections = [example_section]\<rparr>)
    \<and> from_module_handle m 0x7FF600000000 ''server.dll'' = Some (Inr
      \<lparr>pm_path = ''server.dll'', pm_base = 0x7FF600000000, pm_image_base = 0x7FF600000000, pm_image_size = 0x2000,
       pm_timestamp = 0x6830, pm_sections = [example_section]\<rparr>)"
proof -
  let ?bs = "image_header example_fields [example_section]" and ?h = "0x7FF600000000 :: ptr"
  define m where "m = \<lparr>mem_byte = (\<lambda>a. list_span ?bs (unat (a - ?h))), mem_writable = (\<lambda>_. False)\<rparr>"
  have fits: "header_fits example_fields [example_section]"
    by (simp add: header_fits_def example_fields_def example_section_def name_fits_def char_byte_def)
  have len: "length ?bs = 368"
    by (simp add: image_header_def section_header_def name_bytes_def example_section_def)
  have "span_at (module_span m ?h) 0 ?bs"
    by (simp add: span_at_def module_span_def load8_def m_def list_span_def len unat_of_nat take_bit_nat_eq_self)
  from image_layout_reads_back [OF image_header_layout [OF fits span_at_list] _ image_header_layout [OF fits this],
      of "''server.dll''"] len
  show ?thesis by (intro exI [of _ ?bs] exI [of _ m]) (simp add: example_fields_def)
qed

end
