(* ===== verification/Probe_Manifest.thy ===== *)
theory Probe_Manifest
  imports Pe_Image
begin

section \<open>The default probe signatures\<close>

text \<open>
  Model of \<open>native/dwrt-host/dwrt_probe_manifest.cpp\<close>: the table of signature descriptors the
  host resolves against \<open>server.dll\<close>, entry by entry, and the facts that make the table usable:
  every pattern compiles, and a name determines its descriptor.
\<close>

record signature_descriptor =
  sd_name :: string
  sd_module :: string
  sd_surface :: string
  sd_pattern :: string
  sd_expected_rva :: u32
  sd_required :: bool
  sd_reference :: string

definition default_probe_signatures :: "signature_descriptor list" where
  "default_probe_signatures =
  [\<lparr>sd_name = ''CBaseEntity::TakeDamageOld'', sd_module = ''server.dll'',
    sd_surface = ''EntitySimulation/DamagePolicy'',
    sd_pattern = ''40 55 41 54 41 55 41 56 41 57 48 81 EC ?? ?? ?? ?? 48 8D 6C 24 ?? 48 89 9D ?? ?? ?? ?? 45 33 ED'',
    sd_expected_rva = 0x00c6bcb0, sd_required = True,
    sd_reference = ''Deadworks mem config + DWRT RE 2026-05-30''\<rparr>,
   \<lparr>sd_name = ''CEntityInstance::AcceptInput'', sd_module = ''server.dll'',
    sd_surface = ''EntityIo'',
    sd_pattern = ''48 89 5C 24 ?? 48 89 74 24 ?? 57 48 83 EC ?? 49 8B F0 48 8B D9'',
    sd_expected_rva = 0x01f17910, sd_required = True,
    sd_reference = ''Deadworks mem config + DWRT RE 2026-05-30''\<rparr>,
   \<lparr>sd_name = ''CEntityIOOutput::FireOutputInternal'', sd_module = ''server.dll'',
    sd_surface = ''EntityIo'',
    sd_pattern = ''4C 89 4C 24 ?? 48 89 4C 24 ?? 53 56'',
    sd_expected_rva = 0x01f1d130, sd_required = True,
    sd_reference = ''Deadworks mem config + DWRT RE 2026-05-30''\<rparr>,
   \<lparr>sd_name = ''CModifierProperty::AddModifier'', sd_module = ''server.dll'',
    sd_surface = ''EntitySimulation/Modifiers'',
    sd_pattern = ''44 89 44 24 ?? 48 89 54 24 ?? 53 55 56 57 41 55'',
    sd_expected_rva = 0x014d5f80, sd_required = True,
    sd_reference = ''Deadworks mem config + DWRT RE 2026-05-30''\<rparr>,
   \<lparr>sd_name = ''CEntitySystem::CreateEntityByName'', sd_module = ''server.dll'',
    sd_surface = ''MapEntities'',
    sd_pattern = ''48 83 EC ?? 48 8B 0D ?? ?? ?? ?? 41 8B C0'',
    sd_expected_rva = 0x017c3630, sd_required = True,
    sd_reference = ''Deadworks mem config + DWRT RE 2026-05-30''\<rparr>,
   \<lparr>sd_name = ''CEntitySystem::QueueSpawnEntity'', sd_module = ''server.dll'',
    sd_surface = ''MapEntities'',
    sd_pattern = ''40 56 57 41 56 48 83 EC ?? F7 42'',
    sd_expected_rva = 0x01f0e000, sd_required = True,
    sd_reference = ''Deadworks mem config + DWRT RE 2026-05-30''\<rparr>,
   \<lparr>sd_name = ''CEntitySystem::ExecuteQueuedCreation'', sd_module = ''server.dll'',
    sd_surface = ''MapEntities'',
    sd_pattern = ''48 89 5C 24 ?? 57 48 81 EC ?? ?? ?? ?? FF 81 ?? ?? ?? ?? 48 8D 44 24'',
    sd_expected_rva = 0x01f06370, sd_required = True,
    sd_reference = ''Deadworks mem config + DWRT RE 2026-05-30''\<rparr>,
   \<lparr>sd_name = ''CTakeDamageInfo::Ctor'', sd_module = ''server.dll'',
    sd_surface = ''DamagePolicy'',
    sd_pattern = ''40 53 48 83 EC 50 F3 0F 10 84 24 80 00 00 00 48 8D 05'',
    sd_expected_rva = 0x01addf90, sd_required = True,
    sd_reference = ''Deadworks mem config + DWRT RE 2026-05-30''\<rparr>,
   \<lparr>sd_name = ''CCitadelGameRules::BuildGameSessionManifest'', sd_module = ''server.dll'',
    sd_surface = ''GameRules/Resources'',
    sd_pattern = ''48 89 54 24 ?? 48 89 4C 24 ?? 55 53 56 57 41 54 41 55 41 56 41 57 48 8D AC 24 ?? ?? ?? ?? 48 81 EC ?? ?? ?? ?? ?? ?? ?? 4C 8B FA'',
    sd_expected_rva = 0x008f7510, sd_required = True,
    sd_reference = ''Deadworks mem config + DWRT RE 2026-05-30''\<rparr>,
   \<lparr>sd_name = ''CBasePlayerController::ProcessUsercmds'', sd_module = ''server.dll'',
    sd_surface = ''UsercmdPipeline'',
    sd_pattern = ''48 8B C4 44 88 48 ?? 44 89 40 ?? 48 89 50 ?? 53'',
    sd_expected_rva = 0x0174aea0, sd_required = True,
    sd_reference = ''Deadworks mem config + existing DWRT usercmd shadow path''\<rparr>,
   \<lparr>sd_name = ''CCitadelPlayerPawn::AbilityThink'', sd_module = ''server.dll'',
    sd_surface = ''Ability/TargetingProbe'',
    sd_pattern = ''48 89 4C 24 ?? 55 53 56 41 55 41 57'',
    sd_expected_rva = 0x00a2e2b0, sd_required = True,
    sd_reference = ''Deadworks mem config + DWRT RE 2026-05-30''\<rparr>,
   \<lparr>sd_name = ''TraceShape'', sd_module = ''server.dll'',
    sd_surface = ''Physics'',
    sd_pattern = ''48 89 5C 24 20 48 89 4C 24 08 55 57 41 54 41 55 41 56 48 8D AC 24'',
    sd_expected_rva = 0x01803e50, sd_required = True,
    sd_reference = ''Deadworks mem config + DWRT RE 2026-05-30''\<rparr>,
   \<lparr>sd_name = ''CBaseEntity::EmitSoundParams'', sd_module = ''server.dll'',
    sd_surface = ''EntitySimulation/Audio'',
    sd_pattern = ''48 89 5C 24 ?? 48 89 74 24 ?? 48 89 7C 24 ?? 55 48 8B EC 48 81 EC ?? ?? ?? ?? 33 C0'',
    sd_expected_rva = 0x018cd460, sd_required = False,
    sd_reference = ''Deadworks mem config + DWRT RE 2026-05-30''\<rparr>,
   \<lparr>sd_name = ''CitadelTargetFilter::FriendlyFire'', sd_module = ''server.dll'',
    sd_surface = ''TargetPolicy/FriendlyFire'',
    sd_pattern = ''48 89 5C 24 ?? 48 89 6C 24 ?? 48 89 74 24 ?? 57 48 81 EC ?? ?? ?? ?? 48 8B DA 48 8B F9 BA FF FF FF FF 48 8D 0D'',
    sd_expected_rva = 0x018d9180, sd_required = True,
    sd_reference = ''DWRT RE mp_friendlyfire usage 2026-05-31''\<rparr>,
   \<lparr>sd_name = ''CitadelTargetFilter::FriendlyFireCaller'', sd_module = ''server.dll'',
    sd_surface = ''TargetPolicy/FriendlyFire'',
    sd_pattern = ''48 89 5C 24 ?? 48 89 6C 24 ?? 48 89 74 24 ?? 57 48 83 EC ?? 48 8B 02 48 8B E9 48 8B CA 49 8B F9 49 8B F0 48 8B DA FF 90 ?? ?? ?? ?? 83 F8 1A 75 04 B0 01 EB 11 4C 8B CF 4C 8B C6 48 8B D3 48 8B CD E8 ?? ?? ?? ??'',
    sd_expected_rva = 0x007839d0, sd_required = True,
    sd_reference = ''DWRT RE caller of mp_friendlyfire filter 2026-05-31''\<rparr>,
   \<lparr>sd_name = ''CitadelTargetFilter::SecondaryFriendlyFireGate'', sd_module = ''server.dll'',
    sd_surface = ''TargetPolicy/FriendlyFire'',
    sd_pattern = ''48 89 5C 24 ?? 48 89 74 24 ?? 57 48 83 EC ?? 49 8B D8 48 8B FA 48 8B F1 4D 85 C0 74 ?? 48 8B 01 FF 90 ?? ?? ?? ?? 83 F8 01 75 ?? BA FF FF FF FF 48 8D 0D ?? ?? ?? ?? E8 ?? ?? ?? ?? 48 85 C0 75 ?? 48 8B 05 ?? ?? ?? ?? 48 8B 40 08 80 38 00 75 ?? 48 3B DF 74 ?? 32 C0'',
    sd_expected_rva = 0x01aedb10, sd_required = True,
    sd_reference = ''DWRT RE secondary mp_friendlyfire usage 2026-06-01''\<rparr>,
   \<lparr>sd_name = ''CEntityIdentity::IndexForEntityInstance'', sd_module = ''server.dll'',
    sd_surface = ''TargetPolicy/EntityBitset'',
    sd_pattern = ''48 83 EC ?? 4C 8B 0D ?? ?? ?? ?? 4C 8B DA 48 8B 49 ?? 49 83 C1 ?? 48 85 C9 75 ?? C7 02 FF FF FF FF 48 8B C2 48 83 C4 ?? C3 48 89 1C 24 45 33 D2'',
    sd_expected_rva = 0x01f18bb0, sd_required = True,
    sd_reference = ''DWRT RE target bitset identity classifier 2026-06-01''\<rparr>]"

subsection \<open>The table is well formed\<close>

definition pattern_compiles :: "string \<Rightarrow> bool" where
  "pattern_compiles s \<longleftrightarrow> (case compile_pattern s of Inl _ \<Rightarrow> False | Inr _ \<Rightarrow> True)"

lemma default_names_distinct: "distinct (map sd_name default_probe_signatures)"
  by code_simp

text \<open>
  A pattern in the tidy notation of the table (pairs of characters separated by one blank)
  compiles, and its number of pattern bytes can be read off its length.
\<close>

definition token_pair :: "char \<Rightarrow> char \<Rightarrow> bool" where
  "token_pair c d \<longleftrightarrow> c = CHR ''?'' \<and> d = CHR ''?'' \<or> is_hex_digit c \<and> is_hex_digit d"

fun tidy_pattern :: "string \<Rightarrow> bool" where
  "tidy_pattern [c, d] = token_pair c d"
| "tidy_pattern (c # d # e # r) = (token_pair c d \<and> e = CHR '' '' \<and> tidy_pattern r)"
| "tidy_pattern _ = False"

lemma hex_digit_not_space: "is_hex_digit c \<Longrightarrow> \<not> is_space c"
  by (auto simp: is_hex_digit_def is_space_def Let_def)

lemma token_pair_not_space: "token_pair c d \<Longrightarrow> \<not> is_space c \<and> \<not> is_space d"
  by (auto simp: token_pair_def hex_digit_not_space) (simp_all add: is_space_def)

lemma compile_loop_token:
  assumes "token_pair c d" and "r = [] \<or> hd r = CHR '' ''"
  shows "\<exists>b. compile_loop (c # d # r) acc = compile_loop r (acc @ [b])"
proof -
  have ns: "\<not> is_space c" "\<not> is_space d" using token_pair_not_space [OF assms(1)] by auto
  have r: "takeWhile (\<lambda>c. \<not> is_space c) r = []" "dropWhile (\<lambda>c. \<not> is_space c) r = r"
    using assms(2) by (cases r; simp)+
  define b where "b = (if [c, d] = ''??'' then \<lparr>pb_value = 0, pb_wildcard = True\<rparr>
      else \<lparr>pb_value = the (parse_hex_byte [c, d]), pb_wildcard = False\<rparr>)"
  have "[c, d] = ''??'' \<or> parse_hex_byte [c, d] \<noteq> None"
    using assms(1) by (auto simp: token_pair_def)
  then have "compile_loop (c # d # r) acc = compile_loop r (acc @ [b])"
    by (subst compile_loop.simps)
      (auto simp: ns r b_def Let_def simp del: parse_hex_byte.simps split: option.split)
  then show ?thesis by blast
qed

lemma compile_loop_blank: "compile_loop (CHR '' '' # s) acc = compile_loop s acc"
  by (subst (1 2) compile_loop.simps) simp

lemma compile_loop_tidy: "tidy_pattern s \<Longrightarrow> \<exists>bs. compile_loop s acc = Inr (acc @ bs) \<and> bs \<noteq> []"
proof (induction s arbitrary: acc rule: tidy_pattern.induct)
  case (1 c d)
  then obtain b where "compile_loop [c, d] acc = compile_loop [] (acc @ [b])"
    using compile_loop_token [of c d "[]"] by auto
  moreover have "compile_loop [] (acc @ [b]) = Inr (acc @ [b])" by (subst compile_loop.simps) simp
  ultimately show ?case by simp
next
  case (2 c d e r)
  then obtain b where "compile_loop (c # d # e # r) acc = compile_loop r (acc @ [b])"
    using compile_loop_token [of c d "e # r"] by (auto simp: compile_loop_blank)
  moreover obtain bs where "compile_loop r (acc @ [b]) = Inr ((acc @ [b]) @ bs)"
    using 2(1) [of "acc @ [b]"] 2(2) by auto
  ultimately show ?case by simp
qed simp_all

lemma compile_pattern_tidy: "tidy_pattern s \<Longrightarrow> pattern_compiles s"
  using compile_loop_tidy [of s "[]"] by (auto simp: pattern_compiles_def compile_pattern_def)

lemma default_patterns_tidy: "list_all (\<lambda>d. tidy_pattern (sd_pattern d)) default_probe_signatures"
  unfolding default_probe_signatures_def
  by (simp add: token_pair_def is_hex_digit_def)

end
