(* ===== verification/Hook_Backend.thy ===== *)
theory Hook_Backend
  imports Dwrt_Prelude "HOL-Library.Multiset"
begin

section \<open>Inline hooks and the hook backend\<close>

text \<open>
  \<open>dwrt_hook_backend.cpp\<close> keeps the hooks the host has installed.  Each record owns a SafetyHook
  \<open>InlineHook\<close> of the vendored library, whose \<open>enable\<close>, \<open>disable\<close> and \<open>destroy\<close> are modelled on the
  bytes of the code; decoding the target's first instructions and building the trampoline, which
  rest on the Zydis disassembler, are the parameter \<open>hook_setup\<close>.  The locale \<open>undoable\<close> is what
  the backend needs of hooks: that destroying one takes back what it did, and that hooks apart from
  each other do not interfere; what follows from it is that the order in which the vector destroys
  its elements does not matter.
\<close>

subsection \<open>Code bytes\<close>

type_synonym code_text = "ptr \<Rightarrow> u8"

definition patch :: "ptr \<Rightarrow> u8 list \<Rightarrow> code_text \<Rightarrow> code_text" where
  "patch a bs t = (\<lambda>x. if unat (x - a) < length bs then bs ! unat (x - a) else t x)"

definition code_bytes :: "ptr \<Rightarrow> nat \<Rightarrow> code_text \<Rightarrow> u8 list" where
  "code_bytes a n t = map (\<lambda>i. t (a + of_nat i)) [0..<n]"

definition patched :: "ptr \<Rightarrow> nat \<Rightarrow> ptr set" where
  "patched a n = {x. unat (x - a) < n}"

lemma patch_patch_same: "length cs = length bs \<Longrightarrow> patch a cs (patch a bs t) = patch a cs t"
  by (simp add: patch_def fun_eq_iff)

lemma patch_code_bytes: "patch a (code_bytes a n t) t = t"
  by (auto simp: patch_def code_bytes_def fun_eq_iff)

lemma patch_comm:
  "patched a (length bs) \<inter> patched b (length cs) = {} \<Longrightarrow> patch a bs (patch b cs t) = patch b cs (patch a bs t)"
  by (auto simp: patch_def patched_def fun_eq_iff)

lemma length_code_bytes [simp]: "length (code_bytes a n t) = n"
  by (simp add: code_bytes_def)

subsection \<open>SafetyHook\<close>

datatype hook_error =
    BAD_ALLOCATION
  | FAILED_TO_DECODE_INSTRUCTION ptr
  | SHORT_JUMP_IN_TRAMPOLINE ptr
  | IP_RELATIVE_INSTRUCTION_OUT_OF_RANGE ptr
  | UNSUPPORTED_INSTRUCTION_IN_TRAMPOLINE ptr
  | FAILED_TO_UNPROTECT ptr
  | NOT_ENOUGH_SPACE ptr

datatype hook_kind = E9 | FF

record inline_hook =
  hook_target :: ptr
  hook_destination :: ptr
  hook_trampoline :: ptr
  hook_trampoline_size :: u64
  original_bytes :: "u8 list"
  hook_enabled :: bool
  hook_type :: hook_kind

text \<open>
  What the code relies on outside the repository's own sources: the set-up of a hook, which gives
  the trampoline, its size, how many bytes of the target are moved into it and the kind of jump,
  and the text of a pointer on an \<open>ostream\<close>.
\<close>

record hook_environment =
  hook_setup :: "ptr \<Rightarrow> ptr \<Rightarrow> code_text \<Rightarrow> hook_error + ptr \<times> u64 \<times> nat \<times> hook_kind"
  pointer_text :: "ptr \<Rightarrow> string"

definition le32 :: "u32 \<Rightarrow> u8 list" where
  "le32 w = [ucast w, ucast (drop_bit 8 w), ucast (drop_bit 16 w), ucast (drop_bit 24 w)]"

definition le64 :: "u64 \<Rightarrow> u8 list" where
  "le64 w = le32 (ucast w) @ le32 (ucast (drop_bit 32 w))"

text \<open>
  The bytes of the two jumps: \<open>E9\<close> with the distance from the end of the instruction, \<open>FF 25\<close> with
  the distance to the eight bytes of the destination that follow it; the rest is filled with
  \<open>nop\<close>.  The size is checked against the instruction alone.
\<close>

definition emit_jmp_e9 :: "ptr \<Rightarrow> ptr \<Rightarrow> nat \<Rightarrow> hook_error + u8 list" where
  "emit_jmp_e9 src dst len =
     (if len < 5 then Inl (NOT_ENOUGH_SPACE dst)
      else Inr (0xE9 # le32 (ucast (dst - src - 5)) @ replicate (len - 5) 0x90))"

definition emit_jmp_ff :: "ptr \<Rightarrow> ptr \<Rightarrow> nat \<Rightarrow> hook_error + u8 list" where
  "emit_jmp_ff src dst len =
     (if len < 6 then Inl (NOT_ENOUGH_SPACE dst)
      else Inr (0xFF # 0x25 # le32 0 @ le64 dst @ replicate (len - 14) 0x90))"

text \<open>\<open>InlineHook::create\<close> with \<open>StartDisabled\<close>: nothing of the target is written.\<close>

definition hook_create ::
  "hook_environment \<Rightarrow> ptr \<Rightarrow> ptr \<Rightarrow> code_text \<Rightarrow> hook_error + inline_hook" where
  "hook_create env target destination t =
     (case hook_setup env target destination t of
        Inl e \<Rightarrow> Inl e
      | Inr (trampoline, trampoline_size, n, kind) \<Rightarrow>
          Inr \<lparr>hook_target = target, hook_destination = destination, hook_trampoline = trampoline,
               hook_trampoline_size = trampoline_size, original_bytes = code_bytes target n t,
               hook_enabled = False, hook_type = kind\<rparr>)"

definition hook_jump :: "inline_hook \<Rightarrow> hook_error + u8 list" where
  "hook_jump h =
     (case hook_type h of
        E9 \<Rightarrow> emit_jmp_e9 (hook_target h) (hook_trampoline h + hook_trampoline_size h - 14)
                (length (original_bytes h))
      | FF \<Rightarrow> emit_jmp_ff (hook_target h) (hook_destination h) (length (original_bytes h)))"

definition hook_enable :: "inline_hook \<Rightarrow> code_text \<Rightarrow> hook_error + inline_hook \<times> code_text" where
  "hook_enable h t =
     (if hook_enabled h then Inr (h, t)
      else
        (case hook_jump h of
           Inl e \<Rightarrow> Inl e
         | Inr bs \<Rightarrow> Inr (h\<lparr>hook_enabled := True\<rparr>, patch (hook_target h) bs t)))"

text \<open>\<open>destroy\<close> disables the hook and frees the trampoline, which is not part of the code bytes.\<close>

definition hook_destroy :: "inline_hook \<Rightarrow> code_text \<Rightarrow> code_text" where
  "hook_destroy h t = (if hook_enabled h then patch (hook_target h) (original_bytes h) t else t)"

subsection \<open>The backend\<close>

record inline_hook_record =
  record_name :: string
  record_target :: ptr
  record_detour :: ptr
  record_original :: ptr
  record_hook :: inline_hook

type_synonym hook_backend = "inline_hook_record list"

definition error_kind :: "hook_error \<Rightarrow> string" where
  "error_kind e =
     (case e of
        BAD_ALLOCATION \<Rightarrow> ''bad allocation''
      | FAILED_TO_DECODE_INSTRUCTION _ \<Rightarrow> ''failed to decode instruction''
      | SHORT_JUMP_IN_TRAMPOLINE _ \<Rightarrow> ''short jump in trampoline''
      | IP_RELATIVE_INSTRUCTION_OUT_OF_RANGE _ \<Rightarrow> ''ip-relative instruction out of range''
      | UNSUPPORTED_INSTRUCTION_IN_TRAMPOLINE _ \<Rightarrow> ''unsupported instruction in trampoline''
      | FAILED_TO_UNPROTECT _ \<Rightarrow> ''failed to unprotect''
      | NOT_ENOUGH_SPACE _ \<Rightarrow> ''not enough space'')"

definition error_ip :: "hook_error \<Rightarrow> ptr option" where
  "error_ip e =
     (case e of
        BAD_ALLOCATION \<Rightarrow> None
      | FAILED_TO_DECODE_INSTRUCTION ip \<Rightarrow> Some ip
      | SHORT_JUMP_IN_TRAMPOLINE ip \<Rightarrow> Some ip
      | IP_RELATIVE_INSTRUCTION_OUT_OF_RANGE ip \<Rightarrow> Some ip
      | UNSUPPORTED_INSTRUCTION_IN_TRAMPOLINE ip \<Rightarrow> Some ip
      | FAILED_TO_UNPROTECT ip \<Rightarrow> Some ip
      | NOT_ENOUGH_SPACE ip \<Rightarrow> Some ip)"

definition safetyhook_inline_error_to_string :: "hook_environment \<Rightarrow> hook_error \<Rightarrow> string" where
  "safetyhook_inline_error_to_string env e =
     error_kind e @ (case error_ip e of None \<Rightarrow> [] | Some ip \<Rightarrow> '' at '' @ pointer_text env ip)"

text \<open>
  The outcome of \<open>install_inline\<close>: its result, the error text, what \<open>*original_out\<close> holds, the
  records and the code.  \<open>has_out\<close> says whether \<open>original_out\<close> is non-null, \<open>original\<close> what it
  points to.
\<close>

record install_outcome =
  install_ok :: bool
  install_error :: string
  install_original :: ptr
  install_records :: hook_backend
  install_text :: code_text

definition install_inline ::
  "hook_environment \<Rightarrow> string \<Rightarrow> ptr \<Rightarrow> ptr \<Rightarrow> bool \<Rightarrow> ptr \<Rightarrow> string \<Rightarrow> hook_backend \<Rightarrow> code_text
     \<Rightarrow> install_outcome" where
  "install_inline env name target detour has_out original error records t =
     (if target = nullptr \<or> detour = nullptr \<or> \<not> has_out
      then \<lparr>install_ok = False, install_error = ''inline hook target/detour/original_out is null'',
            install_original = original, install_records = records, install_text = t\<rparr>
      else
        (case hook_create env target detour t of
           Inl e \<Rightarrow>
             \<lparr>install_ok = False, install_error = safetyhook_inline_error_to_string env e,
              install_original = original, install_records = records, install_text = t\<rparr>
         | Inr hook \<Rightarrow>
             (let original = hook_trampoline hook
              in (case hook_enable hook t of
                    Inl e \<Rightarrow>
                      \<lparr>install_ok = False, install_error = safetyhook_inline_error_to_string env e,
                       install_original = nullptr, install_records = records,
                       install_text = hook_destroy hook t\<rparr>
                  | Inr (hook, t) \<Rightarrow>
                      \<lparr>install_ok = True, install_error = error, install_original = original,
                       install_records =
                         records @ [\<lparr>record_name = name, record_target = target, record_detour = detour,
                           record_original = original, record_hook = hook\<rparr>],
                       install_text = t\<rparr>))))"

text \<open>\<open>reset\<close> clears the vector; the elements are destroyed from the first to the last.\<close>

definition hooks_reset :: "hook_backend \<Rightarrow> code_text \<Rightarrow> hook_backend \<times> code_text" where
  "hooks_reset records t = ([], fold (\<lambda>r. hook_destroy (record_hook r)) records t)"

definition installed_count :: "hook_backend \<Rightarrow> nat" where
  "installed_count records = length records"

definition find_original :: "hook_backend \<Rightarrow> string \<Rightarrow> ptr" where
  "find_original records name =
     (case find (\<lambda>r. record_name r = name \<and> record_original r \<noteq> nullptr) records of
        None \<Rightarrow> nullptr | Some r \<Rightarrow> record_original r)"

subsection \<open>Undoing in any order\<close>

inductive undo_chain :: "('h \<Rightarrow> 't \<Rightarrow> 't) \<Rightarrow> 't \<Rightarrow> 'h list \<Rightarrow> 't \<Rightarrow> bool" for undo where
  undo_none: "undo_chain undo t [] t"
| undo_more: "undo_chain undo t0 hs t \<Longrightarrow> undo h t' = t \<Longrightarrow> undo_chain undo t0 (hs @ [h]) t'"

inductive_simps undo_chain_Nil [simp]: "undo_chain undo t0 [] t"
inductive_cases undo_chain_snocE: "undo_chain undo t0 (hs @ [h]) t"

lemma undo_chain_snoc: "undo_chain undo t0 (hs @ [h]) t \<longleftrightarrow> undo_chain undo t0 hs (undo h t)"
  by (auto elim!: undo_chain_snocE intro: undo_chain.intros)

lemma undo_chain_backwards: "undo_chain undo t0 hs t \<Longrightarrow> fold undo (rev hs) t = t0"
  by (induction rule: undo_chain.induct) simp_all

locale undoable =
  fixes undo :: "'h \<Rightarrow> 't \<Rightarrow> 't"
    and apart :: "'h \<Rightarrow> 'h \<Rightarrow> bool"
  assumes undo_comm: "apart h k \<Longrightarrow> undo h (undo k t) = undo k (undo h t)"
begin

text \<open>Every two of them, at different places of the list, are apart.\<close>

definition all_apart :: "'h list \<Rightarrow> bool" where
  "all_apart hs \<longleftrightarrow> (\<forall>i<length hs. \<forall>j<length hs. i \<noteq> j \<longrightarrow> apart (hs ! i) (hs ! j))"

lemma all_apart_comm:
  assumes "all_apart hs" "h \<in> set hs" "k \<in> set hs"
  shows "undo h \<circ> undo k = undo k \<circ> undo h"
proof -
  obtain i j where ij: "i < length hs" "j < length hs" "h = hs ! i" "k = hs ! j"
    using assms(2,3) by (auto simp: in_set_conv_nth)
  show ?thesis
  proof (cases "i = j")
    case False
    then have "apart h k" using assms(1) ij by (simp add: all_apart_def)
    then show ?thesis by (intro ext) (simp, rule undo_comm)
  qed (simp add: ij)
qed

lemma undo_any_order:
  assumes "undo_chain undo t0 hs t" "all_apart hs" "mset ks = mset hs"
  shows "fold undo ks t = t0"
proof -
  have "set ks = set hs" using assms(3) by (rule mset_eq_setD)
  then have "fold undo ks = fold undo (rev hs)"
    using all_apart_comm [OF assms(2)] assms(3) by (intro fold_multiset_equiv) simp_all
  then show ?thesis using undo_chain_backwards [OF assms(1)] by simp
qed

end

subsection \<open>The backend restores the code\<close>

definition record_destroy :: "inline_hook_record \<Rightarrow> code_text \<Rightarrow> code_text" where
  "record_destroy r = hook_destroy (record_hook r)"

definition hook_range :: "inline_hook_record \<Rightarrow> ptr set" where
  "hook_range r = patched (hook_target (record_hook r)) (length (original_bytes (record_hook r)))"

definition records_apart :: "inline_hook_record \<Rightarrow> inline_hook_record \<Rightarrow> bool" where
  "records_apart r s \<longleftrightarrow> hook_range r \<inter> hook_range s = {}"

interpretation hooks: undoable record_destroy records_apart
proof unfold_locales
  fix h k t
  assume "records_apart h k"
  then show "record_destroy h (record_destroy k t) = record_destroy k (record_destroy h t)"
    by (auto simp: record_destroy_def hook_destroy_def records_apart_def hook_range_def intro: patch_comm)
qed

text \<open>
  The documented sizes: an \<open>E9\<close> hook moves at least the five bytes its jump takes, an \<open>FF\<close> hook at
  least fourteen.
\<close>

definition setup_sizes :: "hook_environment \<Rightarrow> bool" where
  "setup_sizes env \<longleftrightarrow>
     (\<forall>target destination t trampoline trampoline_size n kind.
        hook_setup env target destination t = Inr (trampoline, trampoline_size, n, kind) \<longrightarrow>
          (case kind of E9 \<Rightarrow> 5 | FF \<Rightarrow> 14) \<le> n)"

lemma length_jump_e9: "emit_jmp_e9 src dst n = Inr bs \<Longrightarrow> length bs = n"
  by (auto simp: emit_jmp_e9_def le32_def split: if_splits)

lemma length_jump_ff: "emit_jmp_ff src dst n = Inr bs \<Longrightarrow> 14 \<le> n \<Longrightarrow> length bs = n"
  by (auto simp: emit_jmp_ff_def le32_def le64_def split: if_splits)

lemma destroy_enabled:
  assumes "setup_sizes env" "hook_create env target detour t = Inr h" "hook_enable h t = Inr (h', t')"
  shows "hook_destroy h' t' = t" "hook_target h' = target" "hook_trampoline h' = hook_trampoline h"
proof -
  obtain tr ts n kind where s: "hook_setup env target detour t = Inr (tr, ts, n, kind)"
    and h: "h = \<lparr>hook_target = target, hook_destination = detour, hook_trampoline = tr,
      hook_trampoline_size = ts, original_bytes = code_bytes target n t, hook_enabled = False, hook_type = kind\<rparr>"
    using assms(2) by (auto simp: hook_create_def split: sum.splits)
  obtain bs where bs: "hook_jump h = Inr bs" "h' = h\<lparr>hook_enabled := True\<rparr>" "t' = patch target bs t"
    using assms(3) by (auto simp: hook_enable_def h split: sum.splits)
  have "(case kind of E9 \<Rightarrow> 5 | FF \<Rightarrow> 14) \<le> n" using assms(1) s unfolding setup_sizes_def by blast
  then have "length bs = n"
    using bs(1) by (cases kind) (auto simp: hook_jump_def h dest: length_jump_e9 length_jump_ff)
  then show "hook_destroy h' t' = t" "hook_target h' = target" "hook_trampoline h' = hook_trampoline h"
    by (simp_all add: bs h hook_destroy_def patch_patch_same patch_code_bytes)
qed

text \<open>Whatever \<open>install_inline\<close> is called with, the code is \<open>undo_chain\<close> away from the original.\<close>

lemma install_chain:
  assumes "setup_sizes env" "undo_chain record_destroy t0 rs t"
  shows "undo_chain record_destroy t0 (install_records (install_inline env name target detour has orig e rs t))
    (install_text (install_inline env name target detour has orig e rs t))"
proof (cases "hook_create env target detour t")
  case (Inl e)
  then show ?thesis using assms(2) by (simp add: install_inline_def)
next
  case (Inr h)
  then have off: "hook_destroy h t = t"
    by (auto simp: hook_create_def hook_destroy_def split: sum.splits)
  show ?thesis
  proof (cases "hook_enable h t")
    case (Inl e)
    then show ?thesis using assms(2) Inr off by (simp add: install_inline_def Let_def)
  next
    case enabled: (Inr p)
    obtain h' t' where p: "p = (h', t')" by (cases p)
    with destroy_enabled(1) [OF assms(1) Inr] enabled have "hook_destroy h' t' = t" by simp
    then show ?thesis
      using assms(2) Inr enabled p
      by (auto simp: install_inline_def Let_def record_destroy_def undo_chain_snoc)
  qed
qed

text \<open>A request to install a hook, and a sequence of them.\<close>

record hook_request =
  request_name :: string
  request_target :: ptr
  request_detour :: ptr

fun install_all :: "hook_environment \<Rightarrow> hook_request list \<Rightarrow> hook_backend \<Rightarrow> code_text \<Rightarrow> hook_backend \<times> code_text" where
  "install_all env [] rs t = (rs, t)"
| "install_all env (q # qs) rs t =
     (let r = install_inline env (request_name q) (request_target q) (request_detour q) True nullptr [] rs t
      in install_all env qs (install_records r) (install_text r))"

lemma install_all_chain:
  "setup_sizes env \<Longrightarrow> undo_chain record_destroy t0 rs t \<Longrightarrow>
   undo_chain record_destroy t0 (fst (install_all env qs rs t)) (snd (install_all env qs rs t))"
  by (induction env qs rs t rule: install_all.induct) (simp_all add: Let_def install_chain)

text \<open>C22. Whatever hooks are installed, successfully or not, as long as those in place do not overlap,
  resetting the backend puts back every byte of the code, and so does destroying its records in
  any other order.\<close>
theorem reset_restores_code:
  assumes "setup_sizes env" and "hooks.all_apart (fst (install_all env qs [] t))"
    and "mset order = mset (fst (install_all env qs [] t))"
  shows "fold (\<lambda>r. hook_destroy (record_hook r)) order (snd (install_all env qs [] t)) = t \<and>
    hooks_reset (fst (install_all env qs [] t)) (snd (install_all env qs [] t)) = ([], t)"
proof -
  have c: "undo_chain record_destroy t (fst (install_all env qs [] t)) (snd (install_all env qs [] t))"
    by (rule install_all_chain [OF assms(1)]) (rule undo_chain.undo_none)
  have d: "record_destroy = (\<lambda>r. hook_destroy (record_hook r))" by (simp add: record_destroy_def fun_eq_iff)
  show ?thesis
    using hooks.undo_any_order [OF c assms(2,3)] hooks.undo_any_order [OF c assms(2) refl]
    by (simp add: hooks_reset_def d)
qed

definition simple_hooks :: hook_environment where
  "simple_hooks =
     \<lparr>hook_setup = (\<lambda>target destination t. Inr (0x10000, 64, 5, E9)), pointer_text = (\<lambda>p. [])\<rparr>"

definition two_requests :: "hook_request list" where
  "two_requests =
     [\<lparr>request_name = ''a'', request_target = 0x1000, request_detour = 0x9000\<rparr>,
      \<lparr>request_name = ''b'', request_target = 0x1010, request_detour = 0x9100\<rparr>]"

lemma install_simple:
  assumes "target \<noteq> 0" "detour \<noteq> 0"
  shows "\<exists>r. install_records (install_inline simple_hooks name target detour True orig e rs t) = rs @ [r] \<and>
    hook_range r = patched target 5"
  using assms
  by (simp add: simple_hooks_def install_inline_def hook_create_def hook_enable_def hook_jump_def
      emit_jmp_e9_def Let_def hook_range_def)

lemma all_apart_two: "records_apart r s \<Longrightarrow> hooks.all_apart [r, s]"
  by (auto simp: hooks.all_apart_def less_Suc_eq records_apart_def nth_Cons')

lemma two_requests_apart: "hooks.all_apart (fst (install_all simple_hooks two_requests [] t))"
proof -
  have "patched 0x1000 5 \<inter> patched 0x1010 5 = {}"
  proof -
    have False if "unat (x - 0x1000) < 5" "unat (x - 0x1010) < 5" for x :: ptr
    proof -
      have "x - 0x1000 = (x - 0x1010) + 0x10" by simp
      moreover have "unat ((x - 0x1010) + 0x10) = unat (x - 0x1010) + 16"
        using that(2) by (subst unat_add_lem [THEN iffD1]) simp_all
      ultimately show False using that(1) by simp
    qed
    then show ?thesis by (auto simp: patched_def)
  qed
  moreover obtain r where r: "install_records (install_inline simple_hooks ''a'' 0x1000 0x9000 True nullptr [] [] t) = [r]"
    "hook_range r = patched 0x1000 5"
    using install_simple [where target = "0x1000" and detour = "0x9000" and name = "''a''" and rs = "[]" and orig = nullptr and e = "[]" and t = t]
    by auto
  moreover obtain s where
    "install_records (install_inline simple_hooks ''b'' 0x1010 0x9100 True nullptr [] [r]
       (install_text (install_inline simple_hooks ''a'' 0x1000 0x9000 True nullptr [] [] t))) = [r, s]"
    "hook_range s = patched 0x1010 5"
    using install_simple [where target = "0x1010" and detour = "0x9100" and name = "''b''" and rs = "[r]" and orig = nullptr and e = "[]"
      and t = "install_text (install_inline simple_hooks ''a'' 0x1000 0x9000 True nullptr [] [] t)"]
    by auto
  ultimately show ?thesis
    by (simp add: two_requests_def Let_def all_apart_two records_apart_def)
qed

theorem reset_restores_code_witness:
  "hooks_reset (fst (install_all simple_hooks two_requests [] (\<lambda>a. 0xCC)))
     (snd (install_all simple_hooks two_requests [] (\<lambda>a. 0xCC))) = ([], \<lambda>a. 0xCC)"
proof -
  have "setup_sizes simple_hooks" by (auto simp: setup_sizes_def simple_hooks_def)
  from reset_restores_code [OF this two_requests_apart refl] show ?thesis by simp
qed

end
