(* ===== verification/Live_Module.thy ===== *)
theory Live_Module
  imports Pe_Layout Probe_Manifest Hook_Backend
begin

section \<open>A server module with every signature\<close>

text \<open>
  A module on which every signature of the manifest is found once and where it is expected: for each
  descriptor an executable section at its RVA that holds the pattern, with nulls for the wildcards,
  and headers that say so.  The smallest module the host accepts with every requirement on; the
  properties that speak of an accepted module are applied to it.
\<close>

subsection \<open>Compiling the table\<close>

text \<open>The classes of characters over integers, which evaluate faster than over naturals.\<close>

lemma char_int: "(of_char c :: int) = int (of_char c)"
  by (rule of_nat_of_char [symmetric])

lemma is_space_code [code]: "is_space c \<longleftrightarrow> (let n = of_char c :: int in n = 32 \<or> (9 \<le> n \<and> n \<le> 13))"
  unfolding is_space_def Let_def char_int by auto

lemma is_hex_digit_code [code]:
  "is_hex_digit c \<longleftrightarrow>
     (let n = of_char c :: int in (48 \<le> n \<and> n \<le> 57) \<or> (65 \<le> n \<and> n \<le> 70) \<or> (97 \<le> n \<and> n \<le> 102))"
  unfolding is_hex_digit_def Let_def char_int by auto

lemma nibble_code [code]:
  "nibble c =
     (let n = of_char c :: int
      in if 48 \<le> n \<and> n \<le> 57 then of_int (n - 48) else if 97 \<le> n \<and> n \<le> 102 then of_int (n - 87)
         else if 65 \<le> n then of_int (n - 55) else of_nat (10 + nat n - 65))"
proof -
  have "48 \<le> n \<Longrightarrow> (of_nat (n - 48) :: u8) = of_int (int n - 48)"
    "97 \<le> n \<Longrightarrow> (of_nat (10 + n - 97) :: u8) = of_int (int n - 87)"
    "65 \<le> n \<Longrightarrow> (of_nat (10 + n - 65) :: u8) = of_int (int n - 55)" for n
    by (simp_all add: of_nat_diff)
  then show ?thesis unfolding nibble_def Let_def char_int by auto
qed

definition pattern_of :: "signature_descriptor \<Rightarrow> pattern_byte list" where
  "pattern_of d = (case compile_pattern (sd_pattern d) of Inl _ \<Rightarrow> [] | Inr p \<Rightarrow> cp_bytes p)"

lemma compile_pattern_of:
  assumes "d \<in> set default_probe_signatures"
  shows "compile_pattern (sd_pattern d) = Inr \<lparr>cp_bytes = pattern_of d\<rparr>" "pattern_of d \<noteq> []"
proof -
  have "pattern_compiles (sd_pattern d)"
    using assms default_patterns_tidy compile_pattern_tidy by (auto simp: list_all_iff)
  then obtain p where p: "compile_pattern (sd_pattern d) = Inr p"
    by (auto simp: pattern_compiles_def split: sum.splits)
  then show "compile_pattern (sd_pattern d) = Inr \<lparr>cp_bytes = pattern_of d\<rparr>" by (simp add: pattern_of_def)
  show "pattern_of d \<noteq> []"
    using p by (auto simp: pattern_of_def compile_pattern_def split: sum.splits if_splits)
qed

subsection \<open>No pattern in another's section\<close>

text \<open>The patterns over integers, and a search that stops at the first difference.\<close>

definition pattern_ints :: "pattern_byte list \<Rightarrow> int option list" where
  "pattern_ints = map (\<lambda>b. if pb_wildcard b then None else Some (uint (pb_value b)))"

fun ints_agree :: "int option list \<Rightarrow> int list \<Rightarrow> bool" where
  "ints_agree [] vs = True"
| "ints_agree (b # bs) [] = False"
| "ints_agree (b # bs) (v # vs) =
     (case b of None \<Rightarrow> ints_agree bs vs | Some w \<Rightarrow> if v = w then ints_agree bs vs else False)"

fun ints_absent :: "int option list \<Rightarrow> int list \<Rightarrow> bool" where
  "ints_absent p [] \<longleftrightarrow> p \<noteq> []"
| "ints_absent p (v # vs) \<longleftrightarrow> (if ints_agree p (v # vs) then False else ints_absent p vs)"

definition live_bytes :: "signature_descriptor \<Rightarrow> u8 list" where
  "live_bytes d = map (\<lambda>b. if pb_wildcard b then 0 else pb_value b) (pattern_of d)"

type_synonym table_row = "int \<times> int option list \<times> int list"

definition table_row :: "signature_descriptor \<Rightarrow> table_row" where
  "table_row d = (uint (sd_expected_rva d), pattern_ints (pattern_of d), map uint (live_bytes d))"

text \<open>No pattern in another row's bytes, no two rows in the same place, every row behind the headers.\<close>

definition rows_apart :: "table_row \<Rightarrow> table_row \<Rightarrow> bool" where
  "rows_apart x y = (case (x, y) of ((r, p, h), (s, q, k)) \<Rightarrow> r + int (length h) \<le> s \<or> s + int (length k) \<le> r)"

definition row_ok :: "table_row list \<Rightarrow> table_row \<Rightarrow> bool" where
  "row_ok xs x =
     (case x of (r, p, h) \<Rightarrow> 0x700000 \<le> r \<and> r < 0x1f20000 \<and> length h < 200 \<and>
        list_all (\<lambda>(s, q, k). r = s \<or> ints_absent p k) xs)"

definition table_ok :: "table_row list \<Rightarrow> bool" where
  "table_ok xs \<longleftrightarrow> list_all (row_ok xs) xs \<and> sorted_wrt rows_apart xs"

lemma manifest_table: "table_ok (map table_row default_probe_signatures)"
  by code_simp

lemma manifest_rows:
  assumes "d \<in> set default_probe_signatures"
  shows "0x700000 \<le> uint (sd_expected_rva d)" "uint (sd_expected_rva d) < 0x1f20000" "length (live_bytes d) < 200"
    and "e \<in> set default_probe_signatures \<Longrightarrow> sd_expected_rva d \<noteq> sd_expected_rva e \<Longrightarrow>
      ints_absent (pattern_ints (pattern_of d)) (map uint (live_bytes e))"
  using manifest_table assms by (auto simp: table_ok_def row_ok_def table_row_def list_all_iff word_uint_eq_iff)

lemma manifest_sorted:
  "sorted_wrt (\<lambda>d e. uint (sd_expected_rva d) + int (length (live_bytes d)) \<le> uint (sd_expected_rva e) \<or>
     uint (sd_expected_rva e) + int (length (live_bytes e)) \<le> uint (sd_expected_rva d)) default_probe_signatures"
  using manifest_table by (simp add: table_ok_def sorted_wrt_map rows_apart_def table_row_def)

lemma manifest_rva_bounds:
  assumes "d \<in> set default_probe_signatures"
  shows "0x700000 \<le> unat (sd_expected_rva d)" "unat (sd_expected_rva d) < 0x1f20000"
  using manifest_rows(1,2) [OF assms] unfolding uint_nat by linarith+

lemma live_bytes_pos: "d \<in> set default_probe_signatures \<Longrightarrow> live_bytes d \<noteq> []"
  using compile_pattern_of by (simp add: live_bytes_def)

lemma manifest_distinct: "distinct (map sd_expected_rva default_probe_signatures)"
proof -
  have "sorted_wrt (\<lambda>d e. sd_expected_rva d \<noteq> sd_expected_rva e) default_probe_signatures"
    using manifest_sorted
  proof (rule sorted_wrt_mono_rel [rotated])
    fix d e
    assume "d \<in> set default_probe_signatures" "e \<in> set default_probe_signatures"
      and s: "uint (sd_expected_rva d) + int (length (live_bytes d)) \<le> uint (sd_expected_rva e) \<or>
        uint (sd_expected_rva e) + int (length (live_bytes e)) \<le> uint (sd_expected_rva d)"
    then have "0 < length (live_bytes d)" "0 < length (live_bytes e)" using live_bytes_pos by auto
    then show "sd_expected_rva d \<noteq> sd_expected_rva e" using s by auto
  qed
  moreover have "sorted_wrt (\<lambda>d e. f d \<noteq> f e) xs \<longleftrightarrow> distinct (map f xs)" for f :: "'a \<Rightarrow> 'b" and xs
    by (induction xs) auto
  ultimately show ?thesis by blast
qed

lemma ints_agree_matches:
  "ints_agree (pattern_ints bs) (map uint h) \<longleftrightarrow> length bs \<le> length h \<and> list_all2 byte_agrees bs (take (length bs) h)"
proof (induction bs arbitrary: h)
  case (Cons b bs)
  show ?case using Cons by (cases h) (auto simp: pattern_ints_def byte_agrees_def word_uint_eq_iff)
qed (simp add: pattern_ints_def)

lemma ints_absent_matches:
  "ints_absent (pattern_ints bs) (map uint h) \<Longrightarrow> off + length bs \<le> length h \<Longrightarrow> \<not> pattern_matches h bs off"
proof (induction h arbitrary: off)
  case Nil
  then show ?case by (simp add: pattern_ints_def)
next
  case (Cons v h)
  show ?case
  proof (cases off)
    case 0
    have "\<not> ints_agree (pattern_ints bs) (map uint (v # h))" using Cons.prems(1) by (simp split: if_splits)
    then show ?thesis using 0 Cons.prems(2) unfolding ints_agree_matches by (simp add: pattern_matches_def)
  next
    case (Suc n)
    then show ?thesis using Cons by (simp add: pattern_matches_def split: if_splits)
  qed
qed

text \<open>In the bytes of a descriptor there is its own pattern, at the start, and no other.\<close>

lemma live_offsets:
  assumes "d \<in> set default_probe_signatures" "e \<in> set default_probe_signatures"
  shows "pattern_offsets (live_bytes e) (pattern_of d) = (if e = d then [0] else [])"
proof (cases "e = d")
  case True
  have "list_all2 byte_agrees (pattern_of d) (live_bytes d)"
    by (simp add: live_bytes_def list_all2_map2 list_all2_same byte_agrees_def)
  then have "pattern_matches (live_bytes d) (pattern_of d) 0"
    by (simp add: pattern_matches_def live_bytes_def)
  then show ?thesis
    using True compile_pattern_of(2) [OF assms(1)] by (simp add: pattern_offsets_def live_bytes_def)
next
  case False
  then have "sd_expected_rva d \<noteq> sd_expected_rva e"
    using assms manifest_distinct by (metis distinct_map inj_on_eq_iff)
  from manifest_rows(4) [OF assms this] False show ?thesis
    using ints_absent_matches by (auto simp: pattern_offsets_def filter_empty_conv)
qed

end
