(* ===== verification/Text_Output.thy ===== *)
theory Text_Output
  imports Dwrt_Prelude
begin

section \<open>Numbers as text\<close>

text \<open>
  What \<open>std::ostream\<close> writes for an unsigned number, in decimal and after \<open>std::hex\<close> with
  \<open>std::nouppercase\<close>, and that the digits determine the number.
\<close>

definition digit_char :: "nat \<Rightarrow> char" where
  "digit_char d = (if d < 10 then char_of (48 + d) else char_of (87 + d))"

definition char_digit :: "char \<Rightarrow> nat" where
  "char_digit c = (let n = of_char c in if n < 58 then n - 48 else n - 87)"

function number_text :: "nat \<Rightarrow> nat \<Rightarrow> string" where
  "number_text base n =
     (if base < 2 \<or> n < base then [digit_char n]
      else number_text base (n div base) @ [digit_char (n mod base)])"
  by auto
termination by (relation "measure snd") auto

declare number_text.simps [simp del]

abbreviation dec :: "nat \<Rightarrow> string" where "dec \<equiv> number_text 10"

definition hex_u64 :: "u64 \<Rightarrow> string" where
  "hex_u64 v = ''0x'' @ number_text 16 (unat v)"

definition text_number :: "nat \<Rightarrow> string \<Rightarrow> nat" where
  "text_number base s = foldl (\<lambda>n c. n * base + char_digit c) 0 s"

lemma char_digit_digit_char: "d < 16 \<Longrightarrow> char_digit (digit_char d) = d"
  by (simp add: char_digit_def digit_char_def)

lemma number_text_not_Nil [simp]: "number_text base n \<noteq> []"
  by (subst number_text.simps) simp

lemma text_number_of_text:
  "2 \<le> base \<Longrightarrow> base \<le> 16 \<Longrightarrow> text_number base (number_text base n) = n"
proof (induction base n rule: number_text.induct)
  case (1 base n)
  show ?case
  proof (cases "n < base")
    case True
    then show ?thesis using 1 by (subst number_text.simps) (simp add: text_number_def char_digit_digit_char)
  next
    case False
    then have "text_number base (number_text base (n div base)) = n div base" using 1 by simp
    moreover have "n mod base < 16" using 1(2,3) mod_less_divisor [of base n] by linarith
    ultimately show ?thesis
      using False 1(2) by (subst number_text.simps) (simp add: text_number_def char_digit_digit_char)
  qed
qed

lemma number_text_digits:
  "2 \<le> base \<Longrightarrow> base \<le> 16 \<Longrightarrow> c \<in> set (number_text base n) \<Longrightarrow> \<exists>d<base. c = digit_char d"
proof (induction base n rule: number_text.induct)
  case (1 base n)
  show ?case
  proof (cases "n < base")
    case True
    then show ?thesis using 1(4) by (subst (asm) number_text.simps) auto
  next
    case False
    then have "c \<in> set (number_text base (n div base)) \<or> c = digit_char (n mod base)"
      using 1(2,4) by (subst (asm) number_text.simps) auto
    then show ?thesis
    proof
      assume "c \<in> set (number_text base (n div base))"
      then show ?thesis using 1 False by simp
    next
      assume "c = digit_char (n mod base)"
      then show ?thesis using 1(2) by (intro exI [of _ "n mod base"]) simp
    qed
  qed
qed

end
