(* ===== verification/Json_Text.thy ===== *)
theory Json_Text
  imports Signature_Scanner Text_Output
begin

section \<open>JSON as the host writes it\<close>

text \<open>
  The summary of the host is JSON text put together with an output stream.  Here are the values
  the text stands for, the layout the host writes them in (objects and the list of signatures one
  item a line, rows of counters on one line), and a reference parser that reads strict JSON text;
  parsing what was laid out gives the value back.
\<close>

datatype json =
    JNull
  | JBool bool
  | JNum nat
  | JStr string
  | JArr "json list"
  | JObj "(string \<times> json) list"

abbreviation newline :: char where "newline \<equiv> CHR 0x0A"
abbreviation quote :: char where "quote \<equiv> CHR 0x22"

subsection \<open>Layout\<close>

definition indent :: "nat \<Rightarrow> string" where
  "indent n = replicate n (CHR '' '')"

definition quoted :: "string \<Rightarrow> string" where
  "quoted s = quote # json_escape s @ [quote]"

definition is_number :: "json \<Rightarrow> bool" where
  "is_number j = (case j of JNum _ \<Rightarrow> True | _ \<Rightarrow> False)"

text \<open>A row of numbers stays on its line; every other array, the empty one too, has a line per item.\<close>

fun layout :: "nat \<Rightarrow> json \<Rightarrow> string"
and layout_row :: "json list \<Rightarrow> string"
and layout_items :: "nat \<Rightarrow> json list \<Rightarrow> string"
and layout_fields :: "nat \<Rightarrow> (string \<times> json) list \<Rightarrow> string"
where
  "layout n JNull = ''null''"
| "layout n (JBool b) = (if b then ''true'' else ''false'')"
| "layout n (JNum k) = dec k"
| "layout n (JStr s) = quoted s"
| "layout n (JArr xs) =
     (if xs \<noteq> [] \<and> list_all is_number xs then ''['' @ layout_row xs @ '']''
      else ''['' @ [newline] @ layout_items (n + 2) xs @ indent n @ '']'')"
| "layout n (JObj fs) = ''{'' @ [newline] @ layout_fields (n + 2) fs @ indent n @ ''}''"
| "layout_row [] = []"
| "layout_row (x # xs) = layout 0 x @ (if xs = [] then [] else '', '' @ layout_row xs)"
| "layout_items n [] = []"
| "layout_items n (x # xs) =
     indent n @ layout n x @ (if xs = [] then [newline] else '','' @ [newline] @ layout_items n xs)"
| "layout_fields n [] = []"
| "layout_fields n ((k, v) # fs) =
     indent n @ quoted k @ '': '' @ layout n v @
       (if fs = [] then [newline] else '','' @ [newline] @ layout_fields n fs)"

subsection \<open>A reference parser\<close>

definition json_space :: "char \<Rightarrow> bool" where
  "json_space c \<longleftrightarrow> c \<in> {CHR '' '', CHR 0x0A, CHR 0x0D, CHR 0x09}"

abbreviation skip :: "string \<Rightarrow> string" where "skip s \<equiv> dropWhile json_space s"

definition is_digit :: "char \<Rightarrow> bool" where
  "is_digit c \<longleftrightarrow> 48 \<le> (of_char c :: nat) \<and> (of_char c :: nat) \<le> 57"

text \<open>The text up to the closing quote, escapes still in place, and what follows the quote.\<close>

fun raw_body :: "string \<Rightarrow> (string \<times> string) option" where
  "raw_body [] = None"
| "raw_body (c # r) =
     (if c = quote then Some ([], r)
      else if c = CHR 0x5C then
        (case r of
           [] \<Rightarrow> None
         | d # r \<Rightarrow> map_option (\<lambda>(b, r). (c # d # b, r)) (raw_body r))
      else map_option (\<lambda>(b, r). (c # b, r)) (raw_body r))"

definition parse_string :: "string \<Rightarrow> (string \<times> string) option" where
  "parse_string s =
     (case raw_body s of
        None \<Rightarrow> None
      | Some (b, r) \<Rightarrow> map_option (\<lambda>t. (t, r)) (json_unescape b))"

definition strip_prefix :: "string \<Rightarrow> string \<Rightarrow> string option" where
  "strip_prefix p s = (if take (length p) s = p then Some (drop (length p) s) else None)"

text \<open>Literals and numbers; a number has no superfluous zero in front.\<close>

definition parse_scalar :: "string \<Rightarrow> (json \<times> string) option" where
  "parse_scalar s =
     (case strip_prefix ''null'' s of Some r \<Rightarrow> Some (JNull, r) | None \<Rightarrow>
     (case strip_prefix ''true'' s of Some r \<Rightarrow> Some (JBool True, r) | None \<Rightarrow>
     (case strip_prefix ''false'' s of Some r \<Rightarrow> Some (JBool False, r) | None \<Rightarrow>
        (let ds = takeWhile is_digit s
         in if ds = [] \<or> (hd ds = CHR ''0'' \<and> length ds > 1) then None
            else Some (JNum (text_number 10 ds), dropWhile is_digit s)))))"

fun parse_value :: "nat \<Rightarrow> string \<Rightarrow> (json \<times> string) option"
and parse_items :: "nat \<Rightarrow> string \<Rightarrow> (json list \<times> string) option"
and parse_fields :: "nat \<Rightarrow> string \<Rightarrow> ((string \<times> json) list \<times> string) option"
where
  "parse_value 0 s = None"
| "parse_value (Suc n) s =
     (case skip s of
        [] \<Rightarrow> None
      | c # r \<Rightarrow>
          if c = CHR ''{'' then
            (case skip r of
               [] \<Rightarrow> None
             | d # r2 \<Rightarrow>
                 if d = CHR ''}'' then Some (JObj [], r2)
                 else map_option (\<lambda>(fs, r). (JObj fs, r)) (parse_fields n (d # r2)))
          else if c = CHR ''['' then
            (case skip r of
               [] \<Rightarrow> None
             | d # r2 \<Rightarrow>
                 if d = CHR '']'' then Some (JArr [], r2)
                 else map_option (\<lambda>(xs, r). (JArr xs, r)) (parse_items n (d # r2)))
          else if c = quote then map_option (\<lambda>(t, r). (JStr t, r)) (parse_string r)
          else parse_scalar (c # r))"
| "parse_items 0 s = None"
| "parse_items (Suc n) s =
     (case parse_value n s of
        None \<Rightarrow> None
      | Some (v, r) \<Rightarrow>
          (case skip r of
             [] \<Rightarrow> None
           | c # r \<Rightarrow>
               if c = CHR '']'' then Some ([v], r)
               else if c = CHR '','' then map_option (\<lambda>(vs, r). (v # vs, r)) (parse_items n r)
               else None))"
| "parse_fields 0 s = None"
| "parse_fields (Suc n) s =
     (case skip s of
        [] \<Rightarrow> None
      | q # r \<Rightarrow>
          if q \<noteq> quote then None
          else
            (case parse_string r of
               None \<Rightarrow> None
             | Some (k, r) \<Rightarrow>
                 (case skip r of
                    [] \<Rightarrow> None
                  | c # r \<Rightarrow>
                      if c \<noteq> CHR '':'' then None
                      else
                        (case parse_value n r of
                           None \<Rightarrow> None
                         | Some (v, r) \<Rightarrow>
                             (case skip r of
                                [] \<Rightarrow> None
                              | c # r \<Rightarrow>
                                  if c = CHR ''}'' then Some ([(k, v)], r)
                                  else if c = CHR '',''
                                  then map_option (\<lambda>(fs, r). ((k, v) # fs, r)) (parse_fields n r)
                                  else None)))))"

text \<open>A whole document: one value, then nothing but white space.\<close>

definition parse_json :: "string \<Rightarrow> json option" where
  "parse_json s =
     (case parse_value (length s) s of
        None \<Rightarrow> None
      | Some (v, r) \<Rightarrow> if skip r = [] then Some v else None)"

subsection \<open>Reading back what was laid out\<close>

lemma skip_simps [simp]:
  "skip (indent n @ s) = skip s" "skip (newline # s) = skip s" "skip (skip s) = skip s"
  by (induction n) (simp_all add: indent_def json_space_def)

lemma parse_skip: "parse_value n (skip s) = parse_value n s" "parse_items n (skip s) = parse_items n s"
  "parse_fields n (skip s) = parse_fields n s"
proof -
  show v: "parse_value n (skip s) = parse_value n s" for n by (cases n) simp_all
  show "parse_items n (skip s) = parse_items n s" by (cases n) (simp_all add: v)
  show "parse_fields n (skip s) = parse_fields n s" by (cases n) simp_all
qed

lemma raw_body_escape_char:
  "raw_body (json_escape_char c @ s) = map_option (\<lambda>(b, r). (json_escape_char c @ b, r)) (raw_body s)"
proof -
  have plain: "hex_char k \<noteq> quote \<and> hex_char k \<noteq> CHR 0x5C" if "k < 16" for k
    using less_16_cases [OF that] by (elim insertE emptyE) (simp_all add: hex_char_def)
  have hex: "raw_body (hex4 k @ s) = map_option (\<lambda>(b, r). (hex4 k @ b, r)) (raw_body s)" for k
    using plain by (cases "raw_body s") (auto simp: hex4_def)
  have "raw_body (CHR 0x5C # e # s') = map_option (\<lambda>(b, r). (CHR 0x5C # e # b, r)) (raw_body s')" for e s'
    by simp
  moreover have "raw_body (CHR 0x5C # CHR ''u'' # hex4 k @ s) =
      map_option (\<lambda>(b, r). (CHR 0x5C # CHR ''u'' # hex4 k @ b, r)) (raw_body s)" for k
    by (cases "raw_body s") (auto simp: hex)
  ultimately show ?thesis by (simp add: json_escape_char_def)
qed

lemma raw_body_escape: "raw_body (json_escape s @ quote # r) = Some (json_escape s, r)"
  by (induction s) (simp_all add: json_escape_def raw_body_escape_char)

lemma parse_string_quoted: "parse_string (json_escape s @ quote # r) = Some (s, r)"
  by (simp add: parse_string_def raw_body_escape json_unescape_escape)

lemma digit_char_digit: "d < 10 \<Longrightarrow> is_digit (digit_char d)"
  by (simp add: is_digit_def digit_char_def)

lemma dec_digits: "c \<in> set (dec n) \<Longrightarrow> is_digit c"
  using number_text_digits [of 10 c n] digit_char_digit by auto

lemma hd_dec: "hd (dec n) = CHR ''0'' \<Longrightarrow> n = 0"
proof (induction n rule: less_induct)
  case (less n)
  show ?case
  proof (cases "n < 10")
    case True
    then have "digit_char n = CHR ''0''" using less.prems by (subst (asm) number_text.simps) simp
    then have "char_digit (digit_char n) = 0" by (simp add: char_digit_def)
    then show ?thesis using True by (simp add: char_digit_digit_char)
  next
    case False
    then have "hd (dec (n div 10)) = CHR ''0''" using less.prems by (subst (asm) number_text.simps) simp
    then have "n div 10 = 0" using less.IH [of "n div 10"] False by simp
    then show ?thesis using False by simp
  qed
qed

lemma dec_0: "dec 0 = ''0''"
  by (subst number_text.simps) (simp add: digit_char_def char_of_eq_iff)

definition stops :: "string \<Rightarrow> bool" where
  "stops r \<longleftrightarrow> r = [] \<or> \<not> is_digit (hd r)"

lemma takeWhile_dec:
  assumes "stops r"
  shows "takeWhile is_digit (dec n @ r) = dec n" "dropWhile is_digit (dec n @ r) = r"
proof -
  have "takeWhile is_digit (dec n @ r) = dec n @ takeWhile is_digit r"
    "dropWhile is_digit (dec n @ r) = dropWhile is_digit r"
    using dec_digits by (simp_all add: takeWhile_append2 dropWhile_append2)
  then show "takeWhile is_digit (dec n @ r) = dec n" "dropWhile is_digit (dec n @ r) = r"
    using assms by (cases r; simp add: stops_def)+
qed

lemma hd_dec_digit: "\<exists>d<10. dec n = digit_char d # tl (dec n)"
proof -
  have "hd (dec n) \<in> set (dec n)" by simp
  then obtain d where "d < 10" "hd (dec n) = digit_char d" using number_text_digits [of 10 "hd (dec n)" n] by auto
  then show ?thesis by (metis list.collapse number_text_not_Nil)
qed

lemma digit_char_plain:
  assumes "d < 10"
  shows "\<not> json_space (digit_char d)" "digit_char d \<notin> {CHR ''{'', CHR ''['', quote, CHR ''n'', CHR ''t'', CHR ''f'', CHR '']''}"
proof -
  have "of_char (digit_char d) = 48 + d" using assms by (simp add: digit_char_def)
  then have "digit_char d \<noteq> c" if "of_char c < (48 :: nat) \<or> (58 :: nat) \<le> of_char c" for c
    using assms that by auto
  then show "\<not> json_space (digit_char d)"
    "digit_char d \<notin> {CHR ''{'', CHR ''['', quote, CHR ''n'', CHR ''t'', CHR ''f'', CHR '']''}"
    by (auto simp: json_space_def)
qed

lemma parse_dec: "stops r \<Longrightarrow> parse_scalar (dec n @ r) = Some (JNum n, r)"
proof -
  assume r: "stops r"
  obtain d where d: "d < 10" "dec n = digit_char d # tl (dec n)" using hd_dec_digit by blast
  have none: "strip_prefix p (dec n @ r) = None" if "p \<noteq> []" "hd p \<in> {CHR ''n'', CHR ''t'', CHR ''f''}" for p
    using that digit_char_plain [OF d(1)] by (subst d(2)) (cases p; auto simp: strip_prefix_def)
  have "\<not> (hd (dec n) = CHR ''0'' \<and> length (dec n) > 1)" using hd_dec [of n] dec_0 by auto
  then show ?thesis
    using text_number_of_text [of 10 n]
    by (simp add: parse_scalar_def none takeWhile_dec [OF r] Let_def)
qed

lemma parse_literals:
  "parse_scalar (''null'' @ r) = Some (JNull, r)"
  "parse_scalar (''true'' @ r) = Some (JBool True, r)"
  "parse_scalar (''false'' @ r) = Some (JBool False, r)"
  by (simp_all add: parse_scalar_def strip_prefix_def)

lemma json_space_simps [simp]:
  "json_space (CHR '' '')" "json_space newline" "\<not> json_space (CHR '']'')" "\<not> json_space (CHR ''}'')" "\<not> json_space (CHR '','')"
  "\<not> json_space (CHR '':'')" "\<not> json_space quote" "\<not> json_space (CHR ''['')" "\<not> json_space (CHR ''{'')"
  "\<not> json_space (CHR ''n'')" "\<not> json_space (CHR ''t'')" "\<not> json_space (CHR ''f'')"
  by (simp_all add: json_space_def)

text \<open>The fuel a value takes.\<close>

fun need :: "json \<Rightarrow> nat" and need_items :: "json list \<Rightarrow> nat" and need_fields :: "(string \<times> json) list \<Rightarrow> nat" where
  "need (JArr xs) = Suc (need_items xs)"
| "need (JObj fs) = Suc (need_fields fs)"
| "need _ = 1"
| "need_items [] = 0"
| "need_items (x # xs) = Suc (max (need x) (need_items xs))"
| "need_fields [] = 0"
| "need_fields ((k, v) # fs) = Suc (max (need v) (need_fields fs))"

lemma layout_start:
  "\<exists>c s. layout n j = c # s \<and> \<not> json_space c \<and> c \<noteq> CHR '']''"
proof (cases j)
  case (JNum k)
  obtain d where d: "d < 10" "dec k = digit_char d # tl (dec k)" using hd_dec_digit by blast
  then show ?thesis using JNum digit_char_plain [OF d(1)] by auto
qed (auto simp: json_space_def quoted_def)

lemma skip_layout [simp]: "skip (layout n j @ r) = layout n j @ r"
  using layout_start [of n j] by auto

lemma is_numberE: "is_number j \<Longrightarrow> \<exists>k. j = JNum k"
  by (cases j) (simp_all add: is_number_def)

lemma parse_number: "stops r \<Longrightarrow> parse_value (Suc n) (dec k @ r) = Some (JNum k, r)"
proof -
  assume r: "stops r"
  obtain d where d: "d < 10" "dec k = digit_char d # tl (dec k)" using hd_dec_digit by blast
  have s: "skip (dec k @ r) = digit_char d # (tl (dec k) @ r)"
    using digit_char_plain(1) [OF d(1)] by (subst d(2)) simp
  have "parse_value (Suc n) (dec k @ r) = parse_scalar (digit_char d # (tl (dec k) @ r))"
    using digit_char_plain(2) [OF d(1)] by (simp add: s)
  also have "digit_char d # (tl (dec k) @ r) = dec k @ r" by (metis append_Cons d(2))
  finally show ?thesis using parse_dec [OF r] by simp
qed

lemma stops_simps [simp]:
  "stops ('','' @ r)" "stops (CHR '','' # r)" "stops (newline # r)" "stops (CHR '']'' # r)" "stops []"
  by (simp_all add: stops_def is_digit_def)

text \<open>One step of the two lists.\<close>

lemma items_last:
  "parse_value n s = Some (v, r) \<Longrightarrow> skip r = CHR '']'' # r' \<Longrightarrow> parse_items (Suc n) s = Some ([v], r')"
  by simp

lemma items_more:
  "parse_value n s = Some (v, r) \<Longrightarrow> skip r = CHR '','' # r1 \<Longrightarrow> parse_items n r1 = Some (vs, r') \<Longrightarrow>
   parse_items (Suc n) s = Some (v # vs, r')"
  by simp

lemma fields_last:
  "skip s = quoted k @ CHR '':'' # r0 \<Longrightarrow> parse_value n r0 = Some (v, r) \<Longrightarrow> skip r = CHR ''}'' # r' \<Longrightarrow>
   parse_fields (Suc n) s = Some ([(k, v)], r')"
  by (simp add: quoted_def parse_string_quoted json_space_def)

lemma fields_more:
  "skip s = quoted k @ CHR '':'' # r0 \<Longrightarrow> parse_value n r0 = Some (v, r) \<Longrightarrow> skip r = CHR '','' # r1 \<Longrightarrow>
   parse_fields n r1 = Some (fs, r') \<Longrightarrow> parse_fields (Suc n) s = Some ((k, v) # fs, r')"
  by (simp add: quoted_def parse_string_quoted json_space_def)

lemma skip_closing [simp]:
  "skip (CHR '']'' # r) = CHR '']'' # r" "skip (CHR ''}'' # r) = CHR ''}'' # r" "skip (CHR '','' # r) = CHR '','' # r"
  "skip (CHR '' '' # r) = skip r" "skip (quoted k @ r) = quoted k @ r"
  by (simp_all add: json_space_def quoted_def)

declare parse_value.simps(2) [simp del] parse_items.simps(2) [simp del] parse_fields.simps(2) [simp del]

lemma need_pos: "0 < need j"
  by (cases j) simp_all

lemma parse_row:
  "xs \<noteq> [] \<Longrightarrow> list_all is_number xs \<Longrightarrow> need_items xs \<le> n \<Longrightarrow>
   parse_items n (layout_row xs @ CHR '']'' # r) = Some (xs, r)"
proof (induction xs arbitrary: n)
  case (Cons x xs)
  obtain k where k: "x = JNum k" using Cons.prems(2) is_numberE by auto
  have "2 \<le> n \<and> need_items xs \<le> n - 1" using Cons.prems(3) k by (simp add: max_def split: if_splits)
  then obtain m where m: "n = Suc (Suc m)" "need_items xs \<le> Suc m"
    by (metis Suc_diff_Suc Suc_le_D diff_Suc_1 numeral_2_eq_2 Suc_le_mono)
  show ?case
  proof (cases "xs = []")
    case True
    then show ?thesis by (simp add: m k) (rule items_last, rule parse_number, simp_all)
  next
    case False
    have "parse_items (Suc m) (CHR '' '' # layout_row xs @ CHR '']'' # r) =
        parse_items (Suc m) (layout_row xs @ CHR '']'' # r)"
      by (metis parse_skip(2) skip_closing(4))
    also have "\<dots> = Some (xs, r)" using Cons.IH [OF False _ m(2)] Cons.prems(2) by simp
    finally show ?thesis
      using False by (simp add: m k) (rule items_more, rule parse_number, simp_all)
  qed
qed simp

lemma parse_layout:
  "\<And>fuel r. need j \<le> fuel \<Longrightarrow> stops r \<Longrightarrow> parse_value fuel (layout n j @ r) = Some (j, r)"
  "(row :: json list) = row"
  "\<And>fuel m r. xs \<noteq> [] \<Longrightarrow> need_items xs \<le> fuel \<Longrightarrow>
     parse_items fuel (layout_items n xs @ indent m @ CHR '']'' # r) = Some (xs, r)"
  "\<And>fuel m r. fs \<noteq> [] \<Longrightarrow> need_fields fs \<le> fuel \<Longrightarrow>
     parse_fields fuel (layout_fields n fs @ indent m @ CHR ''}'' # r) = Some (fs, r)"
proof (induction n j and row and n xs and n fs rule: layout_layout_row_layout_items_layout_fields.induct)
  case (5 n xs)
  from 5(3) obtain k where f: "fuel = Suc k" "need_items xs \<le> k" by (cases fuel) simp_all
  show ?case
  proof (cases "xs \<noteq> [] \<and> list_all is_number xs")
    case True
    then have "parse_items k (layout_row xs @ CHR '']'' # r) = Some (xs, r)" using parse_row f by simp
    moreover obtain c s where "layout_row xs = c # s" "\<not> json_space c" "c \<noteq> CHR '']''"
      using True layout_start [of 0 "hd xs"] by (cases xs) auto
    ultimately show ?thesis using True f by (simp add: parse_value.simps(2) json_space_def)
  next
    case False
    show ?thesis
    proof (cases "xs = []")
      case True
      then show ?thesis using f by (simp add: parse_value.simps(2) json_space_def)
    next
      case ne: False
      let ?s = "layout_items (n + 2) xs @ indent n @ CHR '']'' # r"
      have "parse_items k ?s = Some (xs, r)" using 5(2) [OF False ne f(2)] by simp
      then have p: "parse_items k (skip ?s) = Some (xs, r)" by (simp add: parse_skip)
      obtain c t where "skip ?s = c # t" "c \<noteq> CHR '']''"
        using ne layout_start [of "n + 2" "hd xs"] by (cases xs) auto
      then show ?thesis using p ne False f by (auto simp: parse_value.simps(2) json_space_def)
    qed
  qed
next
  case (1 n)
  then obtain k where "fuel = Suc k" by (cases fuel) simp_all
  then show ?case using parse_literals(1) [of r] by (simp add: parse_value.simps(2))
next
  case (2 n b)
  then obtain k where "fuel = Suc k" by (cases fuel) simp_all
  then show ?case using parse_literals(2,3) [of r] by (simp add: parse_value.simps(2))
next
  case (3 n k)
  then obtain i where "fuel = Suc i" by (cases fuel) simp_all
  then show ?case using parse_number [OF 3(2)] by simp
next
  case (4 n s)
  then obtain k where "fuel = Suc k" by (cases fuel) simp_all
  then show ?case by (simp add: parse_value.simps(2) quoted_def parse_string_quoted)
next
  case (6 n fs)
  from 6(2) obtain k where f: "fuel = Suc k" "need_fields fs \<le> k" by (cases fuel) simp_all
  show ?case
  proof (cases "fs = []")
    case True
    then show ?thesis using f by (simp add: parse_value.simps(2))
  next
    case ne: False
    let ?s = "layout_fields (n + 2) fs @ indent n @ CHR ''}'' # r"
    have "parse_fields k ?s = Some (fs, r)" using 6(1) [OF ne f(2)] by simp
    then have p: "parse_fields k (skip ?s) = Some (fs, r)" by (simp add: parse_skip)
    obtain c t where "skip ?s = c # t" "c \<noteq> CHR ''}''"
      using ne by (cases fs) (auto simp: quoted_def)
    then show ?thesis using p ne f by (auto simp: parse_value.simps(2))
  qed
next
  case (10 n x xs)
  from 10(4) obtain k where f: "fuel = Suc k" "need x \<le> k" "need_items xs \<le> k" by (cases fuel) simp_all
  have v: "parse_value k (indent n @ layout n x @ s) = Some (x, s)" if "stops s" for s
    using 10(1) [OF f(2) that] parse_skip(1) [of k "indent n @ layout n x @ s"]
      parse_skip(1) [of k "layout n x @ s"] by simp
  show ?case
  proof (cases "xs = []")
    case True
    have "parse_items (Suc k) (indent n @ layout n x @ newline # indent m @ CHR '']'' # r) = Some ([x], r)"
      by (rule items_last [OF v]) simp_all
    then show ?thesis using True unfolding f by simp
  next
    case False
    have "parse_items k (newline # layout_items n xs @ indent m @ CHR '']'' # r) = Some (xs, r)"
      using 10(2) [OF False False f(3), of m r] parse_skip(2) [of k "newline # layout_items n xs @ indent m @ CHR '']'' # r"]
        parse_skip(2) [of k "layout_items n xs @ indent m @ CHR '']'' # r"] by simp
    then have "parse_items (Suc k) (indent n @ layout n x @ CHR '','' # newline # layout_items n xs @ indent m @ CHR '']'' # r)
        = Some (x # xs, r)"
      by (intro items_more [OF v]) simp_all
    then show ?thesis using False unfolding f by simp
  qed
next
  case (12 n k v fs)
  from 12(4) obtain i where f: "fuel = Suc i" "need v \<le> i" "need_fields fs \<le> i" by (cases fuel) simp_all
  have v: "parse_value i (CHR '' '' # layout n v @ s) = Some (v, s)" if "stops s" for s
    using 12(1) [OF f(2) that] parse_skip(1) [of i "CHR '' '' # layout n v @ s"]
      parse_skip(1) [of i "layout n v @ s"] by simp
  show ?case
  proof (cases "fs = []")
    case True
    have "parse_fields (Suc i) (indent n @ quoted k @ CHR '':'' # CHR '' '' # layout n v @ newline # indent m @ CHR ''}'' # r)
        = Some ([(k, v)], r)"
      by (rule fields_last [OF _ v]) (simp, simp_all)
    then show ?thesis using True unfolding f by simp
  next
    case False
    have "parse_fields i (newline # layout_fields n fs @ indent m @ CHR ''}'' # r) = Some (fs, r)"
      using 12(2) [OF False False f(3), of m r] parse_skip(3) [of i "newline # layout_fields n fs @ indent m @ CHR ''}'' # r"]
        parse_skip(3) [of i "layout_fields n fs @ indent m @ CHR ''}'' # r"] by simp
    then have "parse_fields (Suc i) (indent n @ quoted k @ CHR '':'' # CHR '' '' # layout n v @ CHR '','' # newline #
        layout_fields n fs @ indent m @ CHR ''}'' # r) = Some ((k, v) # fs, r)"
      by (intro fields_more [OF _ v]) (simp, simp_all)
    then show ?thesis using False unfolding f by simp
  qed
qed simp_all

lemma layout_nonempty: "0 < length (layout n j)"
  using layout_start [of n j] by auto

lemma need_layout:
  "need j \<le> length (layout n j)"
  "need_items row \<le> Suc (length (layout_row row))"
  "need_items xs \<le> length (layout_items n xs)"
  "need_fields fs \<le> length (layout_fields n fs)"
proof (induction n j and row and n xs and n fs rule: layout_layout_row_layout_items_layout_fields.induct)
  case (8 x xs)
  then show ?case using layout_nonempty [of 0 x] by (cases "xs = []") auto
next
  case (10 n x xs)
  then show ?case using layout_nonempty [of n x] by (cases "xs = []") auto
next
  case (12 n k v fs)
  then show ?case using layout_nonempty [of n v] by (cases "fs = []") auto
qed (auto simp: Suc_le_eq quoted_def)

lemma parse_json_layout: "parse_json (layout n j @ [newline]) = Some j"
  using parse_layout(1) [of j "length (layout n j @ [newline])" "[newline]" n] need_layout(1) [of j n]
  by (simp add: parse_json_def)

end
