(* ===== verification/Environment_Config.thy ===== *)
theory Environment_Config
  imports Dwrt_Prelude
begin

section \<open>Configuration from the environment\<close>

text \<open>
  The probes are switched on and tuned by environment variables, read with
  \<open>GetEnvironmentVariableW\<close> into a buffer of fixed size and parsed with \<open>wcstoul\<close> and
  \<open>_wcsicmp\<close>.  Each probe has its own copies of the small readers \<open>env_flag_enabled\<close>,
  \<open>env_u32_or\<close>, \<open>env_team_or\<close>; they are modelled here, once per behaviour.  The C library functions follow the C standard for the "C" locale
  with the 32 bit \<open>unsigned long\<close> of Windows: an overflow saturates, a minus sign negates the
  value modulo \<open>2 ^ 32\<close>, base 0 recognises the prefixes \<open>0x\<close> and \<open>0\<close>.
\<close>

type_synonym wstring = "u16 list"

text \<open>
  \<open>GetEnvironmentVariableW\<close> and its ANSI variant belong to Windows and are parameters: applied to
  a name and the size of the buffer they give the returned length and what they put into the
  buffer.
\<close>

record process_env =
  env_wide :: "string \<Rightarrow> nat \<Rightarrow> nat \<times> wstring"
  env_ansi :: "string \<Rightarrow> nat \<Rightarrow> nat \<times> string"

definition wide :: "string \<Rightarrow> wstring" where
  "wide s = map (\<lambda>c. of_nat (of_char c)) s"

text \<open>The guard all readers start with: the buffer, unless the length is 0 or does not fit.\<close>

definition env_buffer :: "nat \<times> 'c list \<Rightarrow> nat \<Rightarrow> 'c list option" where
  "env_buffer r cap = (if fst r = 0 \<or> cap \<le> fst r then None else Some (snd r))"

text \<open>
  The documented behaviour of the call on the variable's value: 0 for an absent variable; the
  length when the value and its terminator fit; else the size that would be needed, with the
  buffer left as it was (zeroed).
\<close>

definition documented_read :: "'c list option \<Rightarrow> nat \<Rightarrow> nat \<times> 'c list" where
  "documented_read var cap =
     (case var of
        None \<Rightarrow> (0, [])
      | Some v \<Rightarrow> if length v < cap then (length v, v) else (Suc (length v), []))"

lemma env_buffer_documented [simp]:
  "env_buffer (documented_read None cap) cap = None"
  "env_buffer (documented_read (Some v) cap) cap = (if v = [] \<or> cap \<le> length v then None else Some v)"
  by (auto simp: env_buffer_def documented_read_def)

subsection \<open>C library functions\<close>

definition wide_space :: "u16 \<Rightarrow> bool" where
  "wide_space c \<longleftrightarrow> (let n = unat c in n = 32 \<or> 9 \<le> n \<and> n \<le> 13)"

definition wide_digit :: "u16 \<Rightarrow> nat" where
  "wide_digit c =
     (let n = unat c
      in if 48 \<le> n \<and> n \<le> 57 then n - 48
         else if 97 \<le> n \<and> n \<le> 122 then n - 87
         else if 65 \<le> n \<and> n \<le> 90 then n - 55 else 36)"

definition number_value :: "nat \<Rightarrow> wstring \<Rightarrow> nat" where
  "number_value base ds = foldl (\<lambda>n c. n * base + wide_digit c) 0 ds"

text \<open>The base the digits are read in, and the text they start at.\<close>

definition number_base :: "nat \<Rightarrow> wstring \<Rightarrow> nat \<times> wstring" where
  "number_base base s =
     (case s of
        z # x # d # r \<Rightarrow>
          if (base = 0 \<or> base = 16) \<and> z = 48 \<and> (x = 120 \<or> x = 88) \<and> wide_digit d < 16
          then (16, d # r)
          else (if base \<noteq> 0 then base else if z = 48 then 8 else 10, s)
      | z # r \<Rightarrow> (if base \<noteq> 0 then base else if z = 48 then 8 else 10, s)
      | [] \<Rightarrow> (if base \<noteq> 0 then base else 10, s))"

text \<open>The value and the number of characters up to \<open>end\<close>; \<open>0\<close> of them when nothing was converted.\<close>

definition wcstoul :: "wstring \<Rightarrow> nat \<Rightarrow> u32 \<times> nat" where
  "wcstoul s base0 =
     (let r = dropWhile wide_space s;
          negative = (r \<noteq> [] \<and> hd r = 45);
          r1 = (if r \<noteq> [] \<and> (hd r = 45 \<or> hd r = 43) then tl r else r);
          (base, r2) = number_base base0 r1;
          ds = takeWhile (\<lambda>c. wide_digit c < base) r2;
          n = number_value base ds
      in if ds = [] then (0, 0)
         else (if n > 4294967295 then 0xffffffff else if negative then - of_nat n else of_nat n,
               length s - length r2 + length ds))"

definition fold_case :: "u16 \<Rightarrow> u16" where
  "fold_case c = (if 65 \<le> unat c \<and> unat c \<le> 90 then c + 32 else c)"

definition wcsicmp_eq :: "wstring \<Rightarrow> string \<Rightarrow> bool" where
  "wcsicmp_eq s t \<longleftrightarrow> map fold_case s = map fold_case (wide t)"

subsection \<open>The readers\<close>

definition env_flag_enabled :: "process_env \<Rightarrow> string \<Rightarrow> bool" where
  "env_flag_enabled env name =
     (case env_buffer (env_wide env name 32) 32 of
        None \<Rightarrow> False
      | Some b \<Rightarrow> (case b of [] \<Rightarrow> False | c # _ \<Rightarrow> c \<in> set (wide ''1tTyY'')))"

text \<open>\<open>env_u32_or\<close> of the friendly fire experiment: a decimal number up to 255.\<close>

definition ff_env_u32_or :: "process_env \<Rightarrow> string \<Rightarrow> u32 \<Rightarrow> u32" where
  "ff_env_u32_or env name fallback =
     (case env_buffer (env_wide env name 32) 32 of
        None \<Rightarrow> fallback
      | Some b \<Rightarrow>
          (let (v, n) = wcstoul b 10 in if n = 0 \<or> v > 255 then fallback else v))"

text \<open>\<open>env_u32_or\<close> of the walker patrol: a decimal number from 1 to 100000, zero read as one.\<close>

definition wp_env_u32_or :: "process_env \<Rightarrow> string \<Rightarrow> u32 \<Rightarrow> u32" where
  "wp_env_u32_or env name fallback =
     (case env_buffer (env_wide env name 32) 32 of
        None \<Rightarrow> fallback
      | Some b \<Rightarrow>
          (let (v, n) = wcstoul b 10 in if n = 0 \<or> v > 100000 then fallback else max 1 v))"

text \<open>\<open>env_u32_or\<close>, \<open>env_classifier_bit_or\<close> and \<open>env_team_or\<close> of the target probe.\<close>

definition tp_env_u32_or :: "process_env \<Rightarrow> string \<Rightarrow> u32 \<Rightarrow> u32" where
  "tp_env_u32_or env name fallback =
     (case env_buffer (env_wide env name 32) 32 of
        None \<Rightarrow> fallback
      | Some b \<Rightarrow>
          if wcsicmp_eq b ''opposing'' then 0xffffffff
          else if wcsicmp_eq b ''neutral'' then 0
          else (let (v, n) = wcstoul b 0 in if n = 0 \<or> v > 0xff then fallback else v))"

definition env_classifier_bit_or :: "process_env \<Rightarrow> string \<Rightarrow> u32 \<Rightarrow> u32" where
  "env_classifier_bit_or env name fallback =
     (case env_buffer (env_wide env name 32) 32 of
        None \<Rightarrow> fallback
      | Some b \<Rightarrow>
          if wcsicmp_eq b ''enemy_hero'' \<or> wcsicmp_eq b ''enemy-hero'' then 8
          else if wcsicmp_eq b ''boss_enemy'' \<or> wcsicmp_eq b ''boss-enemy'' \<or> wcsicmp_eq b ''midboss''
          then 10
          else if wcsicmp_eq b ''neutral'' then 16
          else (let (v, n) = wcstoul b 0 in if n = 0 \<or> v > 31 then fallback else v))"

definition env_team_or :: "process_env \<Rightarrow> string \<Rightarrow> u32 \<Rightarrow> u32" where
  "env_team_or env name fallback =
     (case env_buffer (env_wide env name 32) 32 of
        None \<Rightarrow> fallback
      | Some b \<Rightarrow>
          if wcsicmp_eq b ''neutral'' \<or> wcsicmp_eq b ''team4'' then 4
          else if wcsicmp_eq b ''zero'' \<or> wcsicmp_eq b ''team0'' then 0
          else (let (v, n) = wcstoul b 0 in if n = 0 \<or> v > 0xff then fallback else v))"

subsection \<open>Bounds of the values read\<close>

lemma ff_env_u32_or_bound: "ff_env_u32_or env name fallback \<le> max fallback 255"
  by (auto simp: ff_env_u32_or_def Let_def not_less le_max_iff_disj split: option.splits prod.splits)

lemma wp_env_u32_or_bound:
  "1 \<le> fallback \<Longrightarrow> fallback \<le> 100000 \<Longrightarrow>
     1 \<le> wp_env_u32_or env name fallback \<and> wp_env_u32_or env name fallback \<le> 100000"
  by (auto simp: wp_env_u32_or_def Let_def not_less split: option.splits prod.splits)

lemma tp_env_u32_or_bound:
  "tp_env_u32_or env name 0xffffffff \<le> 0xff \<or> tp_env_u32_or env name 0xffffffff = 0xffffffff"
  by (auto simp: tp_env_u32_or_def Let_def not_less split: option.splits prod.splits)

lemma env_classifier_bit_or_bound: "env_classifier_bit_or env name 8 \<le> 31"
  by (auto simp: env_classifier_bit_or_def Let_def not_less split: option.splits prod.splits)

lemma env_team_or_bound: "env_team_or env name 4 \<le> 0xff"
  by (auto simp: env_team_or_def Let_def not_less split: option.splits prod.splits)

subsection \<open>Decimal numbers are read back\<close>

function decimal :: "nat \<Rightarrow> wstring" where
  "decimal n = (if n < 10 then [48 + of_nat n] else decimal (n div 10) @ [48 + of_nat (n mod 10)])"
  by pat_completeness auto
termination by (relation "measure id") auto

declare decimal.simps [simp del]

lemma unat_digit: "d < 10 \<Longrightarrow> unat (48 + of_nat d :: u16) = 48 + d"
proof -
  assume d: "d < 10"
  have "(48 + of_nat d :: u16) = of_nat (48 + d)" by simp
  then have "unat (48 + of_nat d :: u16) = unat (of_nat (48 + d) :: u16)" by (simp only:)
  also have "\<dots> = 48 + d" using d by (simp add: unat_of_nat del: of_nat_add)
  finally show ?thesis .
qed

lemma wide_digit_decimal: "d < 10 \<Longrightarrow> wide_digit (48 + of_nat d) = d"
  by (simp add: wide_digit_def unat_digit)

lemma decimal_digits: "c \<in> set (decimal n) \<Longrightarrow> \<exists>d<10. c = 48 + of_nat d"
proof (induction n rule: decimal.induct)
  case (1 n)
  show ?case
  proof (cases "n < 10")
    case True
    with 1 show ?thesis by (subst (asm) (2) decimal.simps) auto
  next
    case False
    with "1.prems" have "c \<in> set (decimal (n div 10)) \<or> c = 48 + of_nat (n mod 10)"
      by (subst (asm) decimal.simps) auto
    then show ?thesis
    proof
      assume "c \<in> set (decimal (n div 10))"
      with "1.IH" [OF False] show ?thesis .
    next
      assume "c = 48 + of_nat (n mod 10)"
      then show ?thesis by (intro exI [of _ "n mod 10"]) simp
    qed
  qed
qed

lemma decimal_not_Nil: "decimal n \<noteq> []"
  by (subst decimal.simps) simp

lemma number_value_decimal: "number_value 10 (decimal n) = n"
proof (induction n rule: decimal.induct)
  case (1 n)
  show ?case
  proof (cases "n < 10")
    case True
    then show ?thesis by (subst decimal.simps) (simp add: number_value_def wide_digit_decimal)
  next
    case False
    then have "number_value 10 (decimal n) = number_value 10 (decimal (n div 10)) * 10 + n mod 10"
      by (subst decimal.simps) (simp add: number_value_def wide_digit_decimal)
    also have "\<dots> = n" using 1 [OF False] by simp
    finally show ?thesis .
  qed
qed

lemma wcstoul_decimal:
  assumes "n \<le> 4294967295"
  shows "wcstoul (decimal n) 10 = (of_nat n, length (decimal n))"
proof -
  have digit: "wide_digit c < 10 \<and> \<not> wide_space c \<and> c \<noteq> 45 \<and> c \<noteq> 43" if "c \<in> set (decimal n)" for c
  proof -
    obtain d where d: "d < 10" "c = 48 + of_nat d" using decimal_digits [OF \<open>c \<in> set (decimal n)\<close>] by blast
    then have u: "unat c = 48 + d" by (simp add: unat_digit)
    then have "c \<noteq> 45 \<and> c \<noteq> 43" by auto
    then show ?thesis using d u by (simp add: wide_digit_decimal wide_space_def)
  qed
  obtain c cs where c: "decimal n = c # cs" using decimal_not_Nil by (cases "decimal n") auto
  then have hd: "\<not> wide_space c" "c \<noteq> 45" "c \<noteq> 43" using digit by auto
  have base: "number_base 10 (decimal n) = (10, decimal n)"
    by (auto simp: number_base_def split: list.splits)
  have all: "takeWhile (\<lambda>c. wide_digit c < 10) (decimal n) = decimal n"
    using digit by (simp add: takeWhile_eq_all_conv)
  have drop: "dropWhile wide_space (decimal n) = decimal n" using hd by (simp add: c)
  have hd': "hd (decimal n) \<noteq> 45" "hd (decimal n) \<noteq> 43" using hd by (simp_all add: c)
  show ?thesis using assms hd'
    by (simp add: wcstoul_def drop base all number_value_decimal Let_def decimal_not_Nil)
qed

text \<open>A number written in decimal is read back by the decimal readers.\<close>

lemma length_decimal: "n < 10 ^ k \<Longrightarrow> 0 < k \<Longrightarrow> length (decimal n) \<le> k"
proof (induction n arbitrary: k rule: decimal.induct)
  case (1 n)
  show ?case
  proof (cases "n < 10")
    case True
    then show ?thesis using "1.prems" by (subst decimal.simps) simp
  next
    case False
    obtain j where j: "k = Suc j" using "1.prems"(2) by (cases k) auto
    have "0 < j" using "1.prems"(1) False j by (cases j) auto
    moreover have "n div 10 < 10 ^ j" using "1.prems"(1) j by (simp add: less_mult_imp_div_less)
    ultimately have "length (decimal (n div 10)) \<le> j" using "1.IH" [OF False] by simp
    then show ?thesis using False j by (subst decimal.simps) simp
  qed
qed

lemma env_buffer_decimal: "n < 1000000 \<Longrightarrow> env_buffer (documented_read (Some (decimal n)) 32) 32 = Some (decimal n)"
  using length_decimal [of n 6] by (simp add: decimal_not_Nil)

lemma ff_env_u32_or_decimal:
  assumes "env_wide env name 32 = documented_read (Some (decimal n)) 32" "n \<le> 255"
  shows "ff_env_u32_or env name fallback = of_nat n"
  using assms env_buffer_decimal [of n] wcstoul_decimal [of n]
  by (simp add: ff_env_u32_or_def decimal_not_Nil word_less_nat_alt unat_of_nat_u32)

lemma wp_env_u32_or_decimal:
  assumes "env_wide env name 32 = documented_read (Some (decimal n)) 32" "1 \<le> n" "n \<le> 100000"
  shows "wp_env_u32_or env name fallback = of_nat n"
  using assms env_buffer_decimal [of n] wcstoul_decimal [of n]
  by (simp add: wp_env_u32_or_def decimal_not_Nil word_less_nat_alt word_le_nat_alt unat_of_nat_u32 max_def)

end
