(* ===== verification/Win_Process.thy ===== *)
theory Win_Process
  imports Environment_Config
begin

section \<open>The process the host runs in\<close>

text \<open>
  The host and the shim load and free libraries and read the performance counter.  Windows is a
  parameter: every call is answered by the record \<open>windows\<close>, which may answer differently at
  every moment (the number of calls so far).  The state keeps what the documented contract of
  the loader counts, the references each library handle holds, and the memory of the Rust
  runtime, whose type is left open.
\<close>

record windows =
  load_library_w :: "nat \<Rightarrow> wstring \<Rightarrow> ptr"
  load_library_ex_w :: "nat \<Rightarrow> wstring \<Rightarrow> ptr"
  get_module_handle_w :: "nat \<Rightarrow> wstring \<Rightarrow> ptr"
  get_proc_address :: "ptr \<Rightarrow> string \<Rightarrow> ptr"
  get_last_error :: "nat \<Rightarrow> u32"
  performance_counter :: "nat \<Rightarrow> u64"
  performance_frequency :: "u64 option"

record 'r process =
  moment :: nat
  library_refs :: "ptr \<Rightarrow> int"
  runtime_memory :: 'r

definition tick :: "'r process \<Rightarrow> 'r process" where
  "tick p = p\<lparr>moment := moment p + 1\<rparr>"

definition add_ref :: "ptr \<Rightarrow> 'r process \<Rightarrow> 'r process" where
  "add_ref h p = (if h = 0 then p else p\<lparr>library_refs := (library_refs p)(h := library_refs p h + 1)\<rparr>)"

definition LoadLibraryW :: "windows \<Rightarrow> wstring \<Rightarrow> 'r process \<Rightarrow> ptr \<times> 'r process" where
  "LoadLibraryW w path p =
     (let h = load_library_w w (moment p) path in (h, tick (add_ref h p)))"

text \<open>\<open>LoadLibraryExW\<close> with \<open>DONT_RESOLVE_DLL_REFERENCES\<close>, the one flag the host passes.\<close>

definition LoadLibraryExW :: "windows \<Rightarrow> wstring \<Rightarrow> 'r process \<Rightarrow> ptr \<times> 'r process" where
  "LoadLibraryExW w path p =
     (let h = load_library_ex_w w (moment p) path in (h, tick (add_ref h p)))"

definition FreeLibrary :: "ptr \<Rightarrow> 'r process \<Rightarrow> 'r process" where
  "FreeLibrary h p = tick (p\<lparr>library_refs := (library_refs p)(h := library_refs p h - 1)\<rparr>)"

text \<open>A module that is already loaded; its references stay.\<close>

definition GetModuleHandleW :: "windows \<Rightarrow> wstring \<Rightarrow> 'r process \<Rightarrow> ptr \<times> 'r process" where
  "GetModuleHandleW w name p = (get_module_handle_w w (moment p) name, tick p)"

definition qpc_now_ticks :: "windows \<Rightarrow> 'r process \<Rightarrow> u64 \<times> 'r process" where
  "qpc_now_ticks w p = (performance_counter w (moment p), tick p)"

text \<open>A call into the runtime.\<close>

definition on_runtime :: "('r \<Rightarrow> 'a \<times> 'r) \<Rightarrow> 'r process \<Rightarrow> 'a \<times> 'r process" where
  "on_runtime f p = (let (x, r) = f (runtime_memory p) in (x, p\<lparr>runtime_memory := r\<rparr>))"

lemma tick_simps [simp]:
  "library_refs (tick p) = library_refs p" "runtime_memory (tick p) = runtime_memory p"
  by (simp_all add: tick_def)

lemma add_ref_memory [simp]: "runtime_memory (add_ref h p) = runtime_memory p"
  by (simp add: add_ref_def)

lemma library_refs_add_ref:
  "library_refs (add_ref h p) = (\<lambda>k. library_refs p k + of_bool (k = h \<and> h \<noteq> 0))"
  by (auto simp: add_ref_def)

lemma FreeLibrary_simps [simp]:
  "library_refs (FreeLibrary h p) = (\<lambda>k. library_refs p k - of_bool (k = h))"
  "runtime_memory (FreeLibrary h p) = runtime_memory p"
  by (auto simp: FreeLibrary_def)

lemma on_runtime_refs [simp]: "library_refs (snd (on_runtime f p)) = library_refs p"
  by (simp add: on_runtime_def split: prod.splits)

end
