(* ===== verification/Runtime_Core.thy ===== *)
theory Runtime_Core
  imports Dwrt_Prelude
begin

section \<open>The Rust runtime behind the C interface\<close>

text \<open>
  The crates \<open>dwrt-core\<close> and \<open>dwrt-runtime\<close> as far as the native code can reach them through the
  exports of \<open>dwrt_runtime.h\<close>: reference counted interest tables, the routing of net messages, the
  usercmd policy, the probe counters, and the exported functions with their null checks.  The
  atomics are read and written one call at a time; a \<open>compare_exchange_weak\<close> loop is its successful
  round.
\<close>

subsection \<open>Interest tables (\<open>interest/mod.rs\<close>)\<close>

type_synonym i32 = "32 word"

record interest_table =
  counts :: "u32 list"
  active_ids :: u32

definition interest_new :: "nat \<Rightarrow> interest_table" where
  "interest_new capacity = \<lparr>counts = replicate capacity 0, active_ids = 0\<rparr>"

text \<open>\<open>usize::try_from(i)\<close> fails on a negative id; the slice lookup fails out of range.\<close>

definition interest_entry :: "interest_table \<Rightarrow> i32 \<Rightarrow> nat option" where
  "interest_entry t i =
     (if sint i < 0 then None
      else if nat (sint i) < length (counts t) then Some (nat (sint i)) else None)"

definition interest_has :: "interest_table \<Rightarrow> i32 \<Rightarrow> bool" where
  "interest_has t i = (case interest_entry t i of None \<Rightarrow> False | Some k \<Rightarrow> counts t ! k \<noteq> 0)"

definition interest_has_any :: "interest_table \<Rightarrow> bool" where
  "interest_has_any t \<longleftrightarrow> active_ids t \<noteq> 0"

definition interest_add :: "interest_table \<Rightarrow> i32 \<Rightarrow> bool \<times> interest_table" where
  "interest_add t i =
     (case interest_entry t i of
        None \<Rightarrow> (False, t)
      | Some k \<Rightarrow>
          (let previous = counts t ! k;
               t = t\<lparr>counts := (counts t)[k := previous + 1]\<rparr>
           in if previous = 0 then (True, t\<lparr>active_ids := active_ids t + 1\<rparr>) else (False, t)))"

definition interest_remove :: "interest_table \<Rightarrow> i32 \<Rightarrow> bool \<times> interest_table" where
  "interest_remove t i =
     (case interest_entry t i of
        None \<Rightarrow> (False, t)
      | Some k \<Rightarrow>
          (let current = counts t ! k
           in if current = 0 then (False, t)
              else
                (let t = t\<lparr>counts := (counts t)[k := current - 1]\<rparr>
                 in if current = 1 then (True, t\<lparr>active_ids := active_ids t - 1\<rparr>) else (False, t))))"

subsection \<open>Net interest (\<open>net/mod.rs\<close>)\<close>

datatype net_direction = Incoming | Outgoing

definition direction_from_i32 :: "i32 \<Rightarrow> net_direction option" where
  "direction_from_i32 v = (if v = 0 then Some Incoming else if v = 1 then Some Outgoing else None)"

datatype net_route = NoInterest | FastOnly | SerializedOnly | FastAndSerialized

text \<open>The six tables, selected the way \<open>table\<close> and the user message functions select them.\<close>

datatype net_table = Serialized net_direction | Fast net_direction | User_Serialized | User_Fast

record net_interest =
  tables :: "net_table \<Rightarrow> interest_table"
  total_active_tables :: u32

definition DWRT_MAX_TRACKED_MESSAGE_ID :: nat where "DWRT_MAX_TRACKED_MESSAGE_ID = 4096"

definition net_new :: net_interest where
  "net_new = \<lparr>tables = (\<lambda>_. interest_new DWRT_MAX_TRACKED_MESSAGE_ID), total_active_tables = 0\<rparr>"

definition net_has_any :: "net_interest \<Rightarrow> bool" where
  "net_has_any n \<longleftrightarrow> total_active_tables n \<noteq> 0"

definition net_add :: "net_table \<Rightarrow> i32 \<Rightarrow> net_interest \<Rightarrow> bool \<times> net_interest" where
  "net_add k i n =
     (let (transitioned, t) = interest_add (tables n k) i;
          n = n\<lparr>tables := (tables n)(k := t)\<rparr>
      in (transitioned, if transitioned then n\<lparr>total_active_tables := total_active_tables n + 1\<rparr> else n))"

definition net_remove :: "net_table \<Rightarrow> i32 \<Rightarrow> net_interest \<Rightarrow> bool \<times> net_interest" where
  "net_remove k i n =
     (let (transitioned, t) = interest_remove (tables n k) i;
          n = n\<lparr>tables := (tables n)(k := t)\<rparr>
      in (transitioned, if transitioned then n\<lparr>total_active_tables := total_active_tables n - 1\<rparr> else n))"

definition route_of :: "bool \<Rightarrow> bool \<Rightarrow> net_route" where
  "route_of fast serialized =
     (case (fast, serialized) of
        (False, False) \<Rightarrow> NoInterest
      | (True, False) \<Rightarrow> FastOnly
      | (False, True) \<Rightarrow> SerializedOnly
      | (True, True) \<Rightarrow> FastAndSerialized)"

definition route_message :: "net_interest \<Rightarrow> net_direction \<Rightarrow> i32 \<Rightarrow> i32 option \<Rightarrow> net_route" where
  "route_message n direction msg_id user_message_type =
     (if \<not> net_has_any n then NoInterest
      else
        (let serialized = interest_has (tables n (Serialized direction)) msg_id \<or>
               (case user_message_type of None \<Rightarrow> False | Some i \<Rightarrow> interest_has (tables n User_Serialized) i);
             fast = interest_has (tables n (Fast direction)) msg_id \<or>
               (case user_message_type of None \<Rightarrow> False | Some i \<Rightarrow> interest_has (tables n User_Fast) i)
         in route_of fast serialized))"

subsection \<open>Usercmd policy (\<open>usercmd/mod.rs\<close>)\<close>

datatype usercmd_route = NoWork | CountOnly | FastRead | FullProtobuf | FastAndFull

definition mount_contains :: "u32 \<Rightarrow> u32 \<Rightarrow> bool" where
  "mount_contains m other \<longleftrightarrow> m AND other = other"

definition mount_from_bits_truncate :: "u32 \<Rightarrow> u32" where
  "mount_from_bits_truncate bits = bits AND 7"

definition usercmd_route_of :: "u32 \<Rightarrow> usercmd_route" where
  "usercmd_route_of bits =
     (let mount = mount_from_bits_truncate bits;
          full = mount_contains mount 1;
          fast = mount_contains mount 2 \<or> mount_contains mount 4
      in case (fast, full) of
           (False, False) \<Rightarrow> CountOnly
         | (True, False) \<Rightarrow> FastRead
         | (False, True) \<Rightarrow> FullProtobuf
         | (True, True) \<Rightarrow> FastAndFull)"

subsection \<open>Probe counters (\<open>probe.rs\<close>)\<close>

record probe_counters =
  mount_mask :: u32
  damage_seen :: u64
  damage_counted :: u64
  entity_input_seen :: u64
  entity_input_counted :: u64
  entity_output_seen :: u64
  entity_output_counted :: u64
  entity_touch_seen :: u64
  entity_touch_counted :: u64

definition probe_new :: probe_counters where
  "probe_new =
     \<lparr>mount_mask = 0, damage_seen = 0, damage_counted = 0, entity_input_seen = 0,
      entity_input_counted = 0, entity_output_seen = 0, entity_output_counted = 0,
      entity_touch_seen = 0, entity_touch_counted = 0\<rparr>"

text \<open>The four kinds of events with the mount bit that gates each.\<close>

datatype probe_event = Damage_Event | Entity_Input_Event | Entity_Output_Event | Entity_Touch_Event

definition probe_mount :: "probe_event \<Rightarrow> u32" where
  "probe_mount e =
     (case e of Damage_Event \<Rightarrow> 1 | Entity_Input_Event \<Rightarrow> 2 | Entity_Output_Event \<Rightarrow> 4 | Entity_Touch_Event \<Rightarrow> 8)"

definition count_event :: "probe_event \<Rightarrow> probe_counters \<Rightarrow> probe_counters" where
  "count_event e p =
     (case e of
        Damage_Event \<Rightarrow> p\<lparr>damage_seen := damage_seen p + 1, damage_counted := damage_counted p + 1\<rparr>
      | Entity_Input_Event \<Rightarrow>
          p\<lparr>entity_input_seen := entity_input_seen p + 1, entity_input_counted := entity_input_counted p + 1\<rparr>
      | Entity_Output_Event \<Rightarrow>
          p\<lparr>entity_output_seen := entity_output_seen p + 1, entity_output_counted := entity_output_counted p + 1\<rparr>
      | Entity_Touch_Event \<Rightarrow>
          p\<lparr>entity_touch_seen := entity_touch_seen p + 1, entity_touch_counted := entity_touch_counted p + 1\<rparr>)"

definition record_if_mounted :: "probe_event \<Rightarrow> probe_counters \<Rightarrow> u32 \<times> probe_counters" where
  "record_if_mounted e p =
     (if mount_mask p AND probe_mount e = 0 then (0, p) else (1, count_event e p))"

definition probe_reset :: "probe_counters \<Rightarrow> probe_counters" where
  "probe_reset p = probe_new\<lparr>mount_mask := mount_mask p\<rparr>"

subsection \<open>The exports (\<open>exports/mod.rs\<close>)\<close>

record dwrt_runtime =
  net :: net_interest
  usercmd :: u32
  probe :: probe_counters

definition runtime_new_object :: dwrt_runtime where
  "runtime_new_object = \<lparr>net = net_new, usercmd = 0, probe = probe_new\<rparr>"

text \<open>
  The runtimes that \<open>dwrt_runtime_new\<close> has boxed and \<open>dwrt_runtime_free\<close> has not dropped, by
  address.  The allocator is a parameter: it picks the address of the next box.  \<open>Box::new\<close>
  promises an address that is not null and not in use, or it aborts the process.
\<close>

type_synonym runtime_heap = "ptr \<rightharpoonup> dwrt_runtime"

definition allocates :: "(runtime_heap \<Rightarrow> ptr) \<Rightarrow> runtime_heap \<Rightarrow> bool" where
  "allocates alloc h \<longleftrightarrow> alloc h \<noteq> 0 \<and> h (alloc h) = None"

definition dwrt_abi_version :: u32 where "dwrt_abi_version = 1"

definition dwrt_runtime_new :: "(runtime_heap \<Rightarrow> ptr) \<Rightarrow> runtime_heap \<Rightarrow> ptr \<times> runtime_heap" where
  "dwrt_runtime_new alloc h = (alloc h, h(alloc h \<mapsto> runtime_new_object))"

definition dwrt_runtime_free :: "ptr \<Rightarrow> runtime_heap \<Rightarrow> runtime_heap" where
  "dwrt_runtime_free p h = (if p = 0 then h else h(p := None))"

text \<open>
  \<open>as_runtime\<close>: null is no runtime.  A pointer that is not a live box is undefined behaviour in the
  source, excluded by its safety comments; here it is no runtime either.
\<close>

definition as_runtime :: "runtime_heap \<Rightarrow> ptr \<Rightarrow> dwrt_runtime option" where
  "as_runtime h p = (if p = 0 then None else h p)"

text \<open>\<open>with_runtime\<close> for the functions that add interest.\<close>

definition add_interest :: "net_table \<Rightarrow> i32 \<Rightarrow> ptr \<Rightarrow> runtime_heap \<Rightarrow> u8 \<times> runtime_heap" where
  "add_interest k i p h =
     (case as_runtime h p of
        None \<Rightarrow> (0, h)
      | Some rt \<Rightarrow> (let (added, n) = net_add k i (net rt) in (of_bool added, h(p \<mapsto> rt\<lparr>net := n\<rparr>))))"

definition remove_interest :: "net_table \<Rightarrow> i32 \<Rightarrow> ptr \<Rightarrow> runtime_heap \<Rightarrow> u8 \<times> runtime_heap" where
  "remove_interest k i p h =
     (case as_runtime h p of
        None \<Rightarrow> (0, h)
      | Some rt \<Rightarrow> (let (removed, n) = net_remove k i (net rt) in (of_bool removed, h(p \<mapsto> rt\<lparr>net := n\<rparr>))))"

definition dwrt_net_add_serialized :: "ptr \<Rightarrow> i32 \<Rightarrow> i32 \<Rightarrow> runtime_heap \<Rightarrow> u8 \<times> runtime_heap" where
  "dwrt_net_add_serialized p direction msg_id h =
     (case direction_from_i32 direction of
        None \<Rightarrow> (0, h) | Some d \<Rightarrow> add_interest (Serialized d) msg_id p h)"

definition dwrt_net_remove_serialized :: "ptr \<Rightarrow> i32 \<Rightarrow> i32 \<Rightarrow> runtime_heap \<Rightarrow> u8 \<times> runtime_heap" where
  "dwrt_net_remove_serialized p direction msg_id h =
     (case direction_from_i32 direction of
        None \<Rightarrow> (0, h) | Some d \<Rightarrow> remove_interest (Serialized d) msg_id p h)"

definition dwrt_net_add_fast :: "ptr \<Rightarrow> i32 \<Rightarrow> i32 \<Rightarrow> runtime_heap \<Rightarrow> u8 \<times> runtime_heap" where
  "dwrt_net_add_fast p direction msg_id h =
     (case direction_from_i32 direction of
        None \<Rightarrow> (0, h) | Some d \<Rightarrow> add_interest (Fast d) msg_id p h)"

definition dwrt_net_remove_fast :: "ptr \<Rightarrow> i32 \<Rightarrow> i32 \<Rightarrow> runtime_heap \<Rightarrow> u8 \<times> runtime_heap" where
  "dwrt_net_remove_fast p direction msg_id h =
     (case direction_from_i32 direction of
        None \<Rightarrow> (0, h) | Some d \<Rightarrow> remove_interest (Fast d) msg_id p h)"

definition dwrt_net_add_user_fast :: "ptr \<Rightarrow> i32 \<Rightarrow> runtime_heap \<Rightarrow> u8 \<times> runtime_heap" where
  "dwrt_net_add_user_fast p user_msg_id h = add_interest User_Fast user_msg_id p h"

definition dwrt_net_add_user_serialized :: "ptr \<Rightarrow> i32 \<Rightarrow> runtime_heap \<Rightarrow> u8 \<times> runtime_heap" where
  "dwrt_net_add_user_serialized p user_msg_id h = add_interest User_Serialized user_msg_id p h"

definition route_code :: "net_route \<Rightarrow> u32" where
  "route_code r =
     (case r of NoInterest \<Rightarrow> 0 | FastOnly \<Rightarrow> 1 | SerializedOnly \<Rightarrow> 2 | FastAndSerialized \<Rightarrow> 3)"

definition usercmd_route_code :: "usercmd_route \<Rightarrow> u32" where
  "usercmd_route_code r =
     (case r of NoWork \<Rightarrow> 0 | CountOnly \<Rightarrow> 1 | FastRead \<Rightarrow> 2 | FullProtobuf \<Rightarrow> 3 | FastAndFull \<Rightarrow> 4)"

definition dwrt_net_route :: "ptr \<Rightarrow> i32 \<Rightarrow> i32 \<Rightarrow> u8 \<Rightarrow> i32 \<Rightarrow> runtime_heap \<Rightarrow> u32" where
  "dwrt_net_route p direction msg_id has_user_msg_id user_msg_id h =
     (case direction_from_i32 direction of
        None \<Rightarrow> route_code NoInterest
      | Some d \<Rightarrow>
          (case as_runtime h p of
             None \<Rightarrow> route_code NoInterest
           | Some rt \<Rightarrow>
               route_code (route_message (net rt) d msg_id
                 (if has_user_msg_id \<noteq> 0 then Some user_msg_id else None))))"

definition dwrt_usercmd_set_mount_mask :: "ptr \<Rightarrow> u32 \<Rightarrow> runtime_heap \<Rightarrow> runtime_heap" where
  "dwrt_usercmd_set_mount_mask p bits h =
     (case as_runtime h p of
        None \<Rightarrow> h | Some rt \<Rightarrow> h(p \<mapsto> rt\<lparr>usercmd := mount_from_bits_truncate bits\<rparr>))"

definition dwrt_usercmd_route :: "ptr \<Rightarrow> runtime_heap \<Rightarrow> u32" where
  "dwrt_usercmd_route p h =
     (case as_runtime h p of
        None \<Rightarrow> usercmd_route_code NoWork
      | Some rt \<Rightarrow> usercmd_route_code (usercmd_route_of (usercmd rt)))"

definition dwrt_probe_set_mount_mask :: "ptr \<Rightarrow> u32 \<Rightarrow> runtime_heap \<Rightarrow> runtime_heap" where
  "dwrt_probe_set_mount_mask p bits h =
     (case as_runtime h p of
        None \<Rightarrow> h | Some rt \<Rightarrow> h(p \<mapsto> rt\<lparr>probe := (probe rt)\<lparr>mount_mask := bits\<rparr>\<rparr>))"

text \<open>
  The four \<open>dwrt_probe_record_*\<close> exports; \<open>event\<close> says whether the event pointer is non-null, the
  event itself is not read.
\<close>

definition dwrt_probe_record :: "probe_event \<Rightarrow> ptr \<Rightarrow> bool \<Rightarrow> runtime_heap \<Rightarrow> u32 \<times> runtime_heap" where
  "dwrt_probe_record e p event h =
     (case as_runtime h p of
        None \<Rightarrow> (0, h)
      | Some rt \<Rightarrow>
          if \<not> event then (0, h)
          else (let (route, pc) = record_if_mounted e (probe rt) in (route, h(p \<mapsto> rt\<lparr>probe := pc\<rparr>))))"

definition dwrt_probe_snapshot :: "ptr \<Rightarrow> probe_counters \<Rightarrow> runtime_heap \<Rightarrow> u8 \<times> probe_counters" where
  "dwrt_probe_snapshot p out h =
     (case as_runtime h p of None \<Rightarrow> (0, out) | Some rt \<Rightarrow> (1, probe rt))"

definition dwrt_probe_reset_counters :: "ptr \<Rightarrow> runtime_heap \<Rightarrow> runtime_heap" where
  "dwrt_probe_reset_counters p h =
     (case as_runtime h p of
        None \<Rightarrow> h | Some rt \<Rightarrow> h(p \<mapsto> rt\<lparr>probe := probe_reset (probe rt)\<rparr>))"

subsection \<open>Routing against the mounts that are in force\<close>

text \<open>
  A control path mounts and unmounts ids; \<open>mounts\<close> is how often an id of a table is mounted after a
  history, newest first: an add of an id out of range mounts nothing, a remove too many is ignored.
\<close>

datatype net_op = Mount net_table i32 | Unmount net_table i32

fun net_step :: "net_op \<Rightarrow> net_interest \<Rightarrow> net_interest" where
  "net_step (Mount k i) n = snd (net_add k i n)"
| "net_step (Unmount k i) n = snd (net_remove k i n)"

fun net_after :: "net_op list \<Rightarrow> net_interest" where
  "net_after [] = net_new"
| "net_after (x # xs) = net_step x (net_after xs)"

definition tracked :: "i32 \<Rightarrow> bool" where
  "tracked i \<longleftrightarrow> 0 \<le> sint i \<and> sint i < int DWRT_MAX_TRACKED_MESSAGE_ID"

fun mounts :: "net_op list \<Rightarrow> net_table \<Rightarrow> i32 \<Rightarrow> nat" where
  "mounts [] k i = 0"
| "mounts (Mount k' i' # xs) k i = mounts xs k i + of_bool (k' = k \<and> i' = i \<and> tracked i)"
| "mounts (Unmount k' i' # xs) k i = mounts xs k i - of_bool (k' = k \<and> i' = i)"

definition active :: "interest_table \<Rightarrow> nat" where
  "active t = length (filter (\<lambda>c. c \<noteq> 0) (counts t))"

lemma length_filter_update:
  "k < length xs \<Longrightarrow>
   length (filter P (xs[k := y])) + of_bool (P (xs ! k)) = length (filter P xs) + of_bool (P y)"
proof (induction xs arbitrary: k)
  case (Cons x xs)
  show ?case
  proof (cases k)
    case (Suc j)
    then show ?thesis using Cons.IH [of j] Cons.prems by simp
  qed simp
qed simp

lemma net_table_UNIV:
  "(UNIV :: net_table set) =
     {Serialized Incoming, Serialized Outgoing, Fast Incoming, Fast Outgoing, User_Serialized, User_Fast}"
proof (rule UNIV_eq_I)
  fix k :: net_table
  show "k \<in> {Serialized Incoming, Serialized Outgoing, Fast Incoming, Fast Outgoing, User_Serialized, User_Fast}"
  proof (cases k)
    case (Serialized d) then show ?thesis by (cases d) auto
  next
    case (Fast d) then show ?thesis by (cases d) auto
  qed auto
qed

lemma finite_net_table [simp]: "finite (UNIV :: net_table set)"
  by (simp add: net_table_UNIV)

definition all_active :: "net_interest \<Rightarrow> nat" where
  "all_active n = (\<Sum>k\<in>UNIV. active (tables n k))"

lemma all_active_update:
  "all_active (n\<lparr>tables := (tables n)(k := t)\<rparr>) + active (tables n k) = all_active n + active t"
proof -
  have "(\<Sum>j\<in>UNIV - {k}. active (((tables n)(k := t)) j)) = (\<Sum>j\<in>UNIV - {k}. active (tables n j))"
    by (rule sum.cong) auto
  then show ?thesis
    using sum.remove [of UNIV k "\<lambda>j. active (((tables n)(k := t)) j)"]
      sum.remove [of UNIV k "\<lambda>j. active (tables n j)"] by (simp add: all_active_def)
qed

text \<open>The tables hold the mounts, and the total is the number of active ids of all tables.\<close>

definition net_refines :: "net_op list \<Rightarrow> net_interest \<Rightarrow> bool" where
  "net_refines xs n \<longleftrightarrow>
     (\<forall>k. length (counts (tables n k)) = DWRT_MAX_TRACKED_MESSAGE_ID) \<and>
     (\<forall>k j. j < DWRT_MAX_TRACKED_MESSAGE_ID \<longrightarrow> unat (counts (tables n k) ! j) = mounts xs k (of_nat j)) \<and>
     total_active_tables n = of_nat (all_active n)"

lemma mounts_le: "mounts xs k i \<le> length xs"
  by (induction xs k i rule: mounts.induct) auto

lemma mounts_untracked: "\<not> tracked i \<Longrightarrow> mounts xs k i = 0"
  by (induction xs k i rule: mounts.induct) auto

lemma tracked_of_nat: "j < DWRT_MAX_TRACKED_MESSAGE_ID \<Longrightarrow> tracked (of_nat j) \<and> nat (sint (of_nat j :: i32)) = j"
  by (simp add: tracked_def DWRT_MAX_TRACKED_MESSAGE_ID_def signed_of_nat signed_take_bit_int_eq_self)

lemma entry_tracked:
  assumes "length (counts t) = DWRT_MAX_TRACKED_MESSAGE_ID"
  shows "interest_entry t i = (if tracked i then Some (nat (sint i)) else None)"
  using assms by (auto simp: interest_entry_def tracked_def)

lemma of_nat_sint: "tracked i \<Longrightarrow> of_nat (nat (sint i)) = i"
  by (simp add: tracked_def)

lemma net_refines_new: "net_refines [] net_new"
  by (simp add: net_refines_def net_new_def interest_new_def all_active_def active_def
      net_table_UNIV)

lemma net_refines_update:
  assumes r: "net_refines xs n" and i: "tracked i"
    and c: "counts t = (counts (tables n k))[nat (sint i) := c]"
    and m: "\<And>k' i'. mounts ys k' i' = (if k' = k \<and> i' = i then unat c else mounts xs k' i')"
  shows "net_refines ys (n\<lparr>tables := (tables n)(k := t),
     total_active_tables := total_active_tables n + of_bool (c \<noteq> 0)
       - of_bool (counts (tables n k) ! nat (sint i) \<noteq> 0)\<rparr>)"
proof -
  let ?j = "nat (sint i)" and ?n = "n\<lparr>tables := (tables n)(k := t)\<rparr>"
  have len: "length (counts (tables n k')) = DWRT_MAX_TRACKED_MESSAGE_ID" for k'
    using r by (simp add: net_refines_def)
  have j: "?j < length (counts (tables n k))" using i by (simp add: len tracked_def nat_less_iff)
  have "active t + of_bool (counts (tables n k) ! ?j \<noteq> 0) = active (tables n k) + of_bool (c \<noteq> 0)"
    using length_filter_update [OF j, of "\<lambda>x. x \<noteq> 0" c] by (simp add: active_def c)
  with all_active_update [of n k t]
  have "all_active ?n + of_bool (counts (tables n k) ! ?j \<noteq> 0) = all_active n + of_bool (c \<noteq> 0)"
    by linarith
  then have "(of_nat (all_active ?n + of_bool (counts (tables n k) ! ?j \<noteq> 0)) :: u32) =
      of_nat (all_active n + of_bool (c \<noteq> 0))" by simp
  then have total: "(of_nat (all_active ?n) :: u32) =
      of_nat (all_active n) + of_bool (c \<noteq> 0) - of_bool (counts (tables n k) ! ?j \<noteq> 0)"
    by (simp add: eq_diff_eq)
  have tables: "unat (counts (((tables n)(k := t)) k') ! j') = mounts ys k' (of_nat j')"
    if "j' < DWRT_MAX_TRACKED_MESSAGE_ID" for k' j'
  proof -
    have "of_nat j' = i \<longleftrightarrow> j' = ?j" using tracked_of_nat [OF that] of_nat_sint [OF i] by auto
    moreover have "unat (counts (tables n k') ! j') = mounts xs k' (of_nat j')"
      using r that by (simp add: net_refines_def)
    ultimately show ?thesis using that by (auto simp: m c len nth_list_update)
  qed
  have "all_active (n\<lparr>tables := (tables n)(k := t), total_active_tables := x\<rparr>) = all_active ?n" for x
    by (simp add: all_active_def)
  then show ?thesis
    using r tables total by (simp add: net_refines_def c)
qed

lemma net_refines_add:
  assumes r: "net_refines xs n" and l: "length xs < 4294967295"
  shows "net_refines (Mount k i # xs) (net_step (Mount k i) n)"
proof (cases "tracked i")
  case False
  then have "interest_entry (tables n k) i = None" using r by (simp add: entry_tracked net_refines_def)
  then have "net_step (Mount k i) n = n" by (simp add: net_add_def interest_add_def Let_def)
  moreover have "mounts (Mount k i # xs) = mounts xs" using False by (auto simp: fun_eq_iff)
  ultimately show ?thesis using r by (simp add: net_refines_def)
next
  case True
  let ?j = "nat (sint i)" let ?c = "counts (tables n k) ! ?j"
  have e: "interest_entry (tables n k) i = Some ?j"
    using r True by (simp add: entry_tracked net_refines_def)
  have c: "unat ?c = mounts xs k i"
    using r True of_nat_sint [OF True] by (simp add: net_refines_def tracked_def nat_less_iff)
  then have "unat ?c < 4294967295" using mounts_le [of xs k i] l by simp
  then have s: "unat (?c + 1) = Suc (unat ?c)" by (rule unat_Suc_u32)
  then have nz: "?c + 1 \<noteq> 0" by force
  have "net_refines (Mount k i # xs) (n\<lparr>tables := (tables n)(k := snd (interest_add (tables n k) i)),
     total_active_tables := total_active_tables n + of_bool (?c + 1 \<noteq> 0) - of_bool (?c \<noteq> 0)\<rparr>)"
    using c s True
    by (intro net_refines_update [OF r True, of _ k]) (auto simp: interest_add_def e Let_def)
  also have "\<dots> = net_step (Mount k i) n"
    using nz by (simp add: net_add_def interest_add_def e Let_def)
  finally show ?thesis .
qed

lemma net_refines_remove:
  assumes r: "net_refines xs n"
  shows "net_refines (Unmount k i # xs) (net_step (Unmount k i) n)"
proof (cases "tracked i")
  case False
  then have "interest_entry (tables n k) i = None" using r by (simp add: entry_tracked net_refines_def)
  then have "net_step (Unmount k i) n = n" by (simp add: net_remove_def interest_remove_def Let_def)
  moreover have "mounts (Unmount k i # xs) = mounts xs"
    using mounts_untracked [OF False] by (auto simp: fun_eq_iff)
  ultimately show ?thesis using r by (simp add: net_refines_def)
next
  case True
  let ?j = "nat (sint i)" let ?c = "counts (tables n k) ! ?j"
  have e: "interest_entry (tables n k) i = Some ?j"
    using r True by (simp add: entry_tracked net_refines_def)
  have c: "unat ?c = mounts xs k i"
    using r True of_nat_sint [OF True] by (simp add: net_refines_def tracked_def nat_less_iff)
  show ?thesis
  proof (cases "?c = 0")
    case zero: True
    then have "net_step (Unmount k i) n = n" by (simp add: net_remove_def interest_remove_def e Let_def)
    moreover have "mounts (Unmount k i # xs) = mounts xs"
      using c zero by (auto simp: fun_eq_iff)
    ultimately show ?thesis using r by (simp add: net_refines_def)
  next
    case False
    then have s: "unat (?c - 1) = unat ?c - 1" by (simp add: unat_minus_one)
    have one: "?c - 1 = 0 \<longleftrightarrow> ?c = 1" by simp
    have "net_refines (Unmount k i # xs) (n\<lparr>tables := (tables n)(k := snd (interest_remove (tables n k) i)),
       total_active_tables := total_active_tables n + of_bool (?c - 1 \<noteq> 0) - of_bool (?c \<noteq> 0)\<rparr>)"
      using c s False
      by (intro net_refines_update [OF r True, of _ k]) (auto simp: interest_remove_def e Let_def)
    also have "\<dots> = net_step (Unmount k i) n"
      using False one by (simp add: net_remove_def interest_remove_def e Let_def)
    finally show ?thesis .
  qed
qed

lemma net_refines_after [invariants]: "length xs \<le> 4294967295 \<Longrightarrow> net_refines xs (net_after xs)"
proof (induction xs)
  case (Cons x xs)
  then have "net_refines xs (net_after xs)" by simp
  then show ?case
    using Cons.prems by (cases x) (simp_all add: net_refines_add net_refines_remove del: net_step.simps)
qed (simp add: net_refines_new)

lemma active_bound: "active t \<le> length (counts t)"
  by (simp add: active_def)

lemma active_zero: "active t = 0 \<longleftrightarrow> (\<forall>c\<in>set (counts t). c = 0)"
  by (simp add: active_def filter_empty_conv)

lemma has_mounted:
  assumes "net_refines xs n"
  shows "interest_has (tables n k) i \<longleftrightarrow> mounts xs k i \<noteq> 0"
proof (cases "tracked i")
  case True
  have "mounts xs k i = unat (counts (tables n k) ! nat (sint i))"
    using assms True of_nat_sint [OF True] by (simp add: net_refines_def tracked_def nat_less_iff)
  then have "mounts xs k i \<noteq> 0 \<longleftrightarrow> counts (tables n k) ! nat (sint i) \<noteq> 0"
    by (simp add: unat_eq_0)
  then show ?thesis
    using assms True by (simp add: interest_has_def entry_tracked net_refines_def)
next
  case False
  then show ?thesis
    using assms mounts_untracked [OF False] by (simp add: interest_has_def entry_tracked net_refines_def)
qed

lemma nothing_mounted:
  assumes r: "net_refines xs n" and z: "\<not> net_has_any n"
  shows "mounts xs k i = 0"
proof -
  have len: "length (counts (tables n k)) = DWRT_MAX_TRACKED_MESSAGE_ID" for k
    using r by (simp add: net_refines_def)
  have "all_active n \<le> (\<Sum>k\<in>(UNIV :: net_table set). DWRT_MAX_TRACKED_MESSAGE_ID)"
    unfolding all_active_def by (rule sum_mono) (metis active_bound len)
  then have "all_active n < 4294967296"
    by (simp add: net_table_UNIV DWRT_MAX_TRACKED_MESSAGE_ID_def)
  moreover have "(of_nat (all_active n) :: u32) = 0" using r z by (simp add: net_refines_def net_has_any_def)
  ultimately have "all_active n = 0" using unat_of_nat_u32 [of "all_active n"] by simp
  then have "active (tables n k) = 0" by (simp add: all_active_def)
  then have "\<not> interest_has (tables n k) i"
    using len by (auto simp: active_zero interest_has_def entry_tracked tracked_def nat_less_iff)
  then show ?thesis using has_mounted [OF r] by simp
qed

lemma route_by_mounts:
  assumes "length xs \<le> 4294967295"
  shows "route_message (net_after xs) d msg user =
    route_of (mounts xs (Fast d) msg \<noteq> 0 \<or> (\<exists>u. user = Some u \<and> mounts xs User_Fast u \<noteq> 0))
      (mounts xs (Serialized d) msg \<noteq> 0 \<or> (\<exists>u. user = Some u \<and> mounts xs User_Serialized u \<noteq> 0))"
proof -
  note r = net_refines_after [OF assms]
  show ?thesis
  proof (cases "net_has_any (net_after xs)")
    case True
    then show ?thesis by (simp add: route_message_def has_mounted [OF r] split: option.splits)
  next
    case False
    then show ?thesis by (simp add: route_message_def nothing_mounted [OF r] route_of_def)
  qed
qed

text \<open>An add reports a transition exactly when the id was tracked and not mounted.\<close>

lemma net_add_transition:
  assumes "length xs \<le> 4294967295"
  shows "fst (net_add k i (net_after xs)) \<longleftrightarrow> tracked i \<and> mounts xs k i = 0"
proof -
  note r = net_refines_after [OF assms]
  have e: "interest_entry (tables (net_after xs) k) i = (if tracked i then Some (nat (sint i)) else None)"
    using r by (simp add: entry_tracked net_refines_def)
  then show ?thesis
    using has_mounted [OF r, of k i] by (auto simp: net_add_def interest_add_def interest_has_def Let_def)
qed

text \<open>C15. After any history of fewer than 2 to the 32 mounts and unmounts, a net message is routed by
  what is mounted for its direction and for its user message: the short cut through the total of
  active ids, which spares the six table reads, never hides a mount, and an unmount too many never
  cancels a later mount.\<close>
theorem net_routing_correct:
  assumes "length xs \<le> 4294967295"
  shows "route_message (net_after xs) d msg user =
    route_of (mounts xs (Fast d) msg \<noteq> 0 \<or> (\<exists>u. user = Some u \<and> mounts xs User_Fast u \<noteq> 0))
      (mounts xs (Serialized d) msg \<noteq> 0 \<or> (\<exists>u. user = Some u \<and> mounts xs User_Serialized u \<noteq> 0))"
  by (rule route_by_mounts [OF assms])

theorem net_routing_correct_witness:
  "route_message (net_after [Unmount (Fast Outgoing) 43, Mount User_Serialized 314,
      Unmount User_Serialized 314, Mount (Fast Outgoing) 43, Mount (Fast Outgoing) 43]) Outgoing 43 (Some 314)
   = FastAndSerialized"
  using net_routing_correct [of "[Unmount (Fast Outgoing) 43, Mount User_Serialized 314,
      Unmount User_Serialized 314, Mount (Fast Outgoing) 43, Mount (Fast Outgoing) 43]" Outgoing 43 "Some 314"]
  by (simp add: route_of_def tracked_def DWRT_MAX_TRACKED_MESSAGE_ID_def)

end
