(* ===== verification/Shadow_Shim.thy ===== *)
theory Shadow_Shim
  imports Win_Process Text_Output Runtime_Core
begin

section \<open>The shadow shim\<close>

text \<open>
  \<open>dwrt_shadow_shim.cpp\<close>: loads the runtime library, binds its fifteen exports, owns one runtime
  object and forwards every probe to it, counting routes and, when asked to, the time they take.
  A function pointer is the address \<open>GetProcAddress\<close> gave, null before a successful load; the code
  at the addresses is the record \<open>runtime_code\<close>, a parameter over the runtime memory \<open>'r\<close>.
\<close>

subsection \<open>The C interface\<close>

record fast_damage_native =
  victim_handle :: u32
  attacker_handle :: u32
  inflictor_handle :: u32
  ability_handle :: u32
  victim_team :: u8
  attacker_team :: u8
  victim_class_hash :: u32
  attacker_class_hash :: u32
  damage_bits :: u32
  damage_type :: u32
  damage_flags :: u64

record fast_entity_io_native =
  entity_handle :: u32
  activator_handle :: u32
  caller_handle :: u32
  class_hash :: u32
  name_hash :: u32
  value_hash :: u32
  io_phase :: u8

record fast_entity_touch_native =
  touch_entity_handle :: u32
  other_handle :: u32
  entity_class_hash :: u32
  other_class_hash :: u32
  touch_phase :: u8

text \<open>
  The code behind the exports: applied to the address that is called, then to the arguments and
  the memory of the runtime.
\<close>

record 'r runtime_code =
  call_abi_version :: "ptr \<Rightarrow> u32"
  call_runtime_new :: "ptr \<Rightarrow> 'r \<Rightarrow> ptr \<times> 'r"
  call_runtime_free :: "ptr \<Rightarrow> ptr \<Rightarrow> 'r \<Rightarrow> 'r"
  call_net_add_serialized :: "ptr \<Rightarrow> ptr \<Rightarrow> i32 \<Rightarrow> i32 \<Rightarrow> 'r \<Rightarrow> u8 \<times> 'r"
  call_net_add_user_fast :: "ptr \<Rightarrow> ptr \<Rightarrow> i32 \<Rightarrow> 'r \<Rightarrow> u8 \<times> 'r"
  call_net_route :: "ptr \<Rightarrow> ptr \<Rightarrow> i32 \<Rightarrow> i32 \<Rightarrow> u8 \<Rightarrow> i32 \<Rightarrow> 'r \<Rightarrow> u32 \<times> 'r"
  call_usercmd_set_mount_mask :: "ptr \<Rightarrow> ptr \<Rightarrow> u32 \<Rightarrow> 'r \<Rightarrow> 'r"
  call_usercmd_route :: "ptr \<Rightarrow> ptr \<Rightarrow> 'r \<Rightarrow> u32 \<times> 'r"
  call_probe_set_mount_mask :: "ptr \<Rightarrow> ptr \<Rightarrow> u32 \<Rightarrow> 'r \<Rightarrow> 'r"
  call_probe_record_damage :: "ptr \<Rightarrow> ptr \<Rightarrow> fast_damage_native \<Rightarrow> 'r \<Rightarrow> u32 \<times> 'r"
  call_probe_record_entity_input :: "ptr \<Rightarrow> ptr \<Rightarrow> fast_entity_io_native \<Rightarrow> 'r \<Rightarrow> u32 \<times> 'r"
  call_probe_record_entity_output :: "ptr \<Rightarrow> ptr \<Rightarrow> fast_entity_io_native \<Rightarrow> 'r \<Rightarrow> u32 \<times> 'r"
  call_probe_record_entity_touch :: "ptr \<Rightarrow> ptr \<Rightarrow> fast_entity_touch_native \<Rightarrow> 'r \<Rightarrow> u32 \<times> 'r"
  call_probe_snapshot :: "ptr \<Rightarrow> ptr \<Rightarrow> probe_counters \<Rightarrow> 'r \<Rightarrow> u8 \<times> probe_counters"
  call_probe_reset_counters :: "ptr \<Rightarrow> ptr \<Rightarrow> 'r \<Rightarrow> 'r"

subsection \<open>State\<close>

record shadow_counters =
  runtime_loads :: u64
  runtime_unloads :: u64
  runtime_create_failures :: u64
  net_routes :: "u64 list"
  usercmd_routes :: "u64 list"
  probe_routes :: "u64 list"
  qpc_ticks_per_second :: u64
  slow_threshold_ticks :: u64
  net_route_total_ticks :: u64
  net_route_max_ticks :: u64
  net_route_slow_calls :: u64
  usercmd_route_total_ticks :: u64
  usercmd_route_max_ticks :: u64
  usercmd_route_slow_calls :: u64
  probe_route_total_ticks :: u64
  probe_route_max_ticks :: u64
  probe_route_slow_calls :: u64

record shim_bindings =
  abi_version_fn :: ptr
  runtime_new_fn :: ptr
  runtime_free_fn :: ptr
  net_add_serialized_fn :: ptr
  net_add_user_fast_fn :: ptr
  net_route_fn :: ptr
  usercmd_set_mount_mask_fn :: ptr
  usercmd_route_fn :: ptr
  probe_set_mount_mask_fn :: ptr
  probe_record_damage_fn :: ptr
  probe_record_entity_input_fn :: ptr
  probe_record_entity_output_fn :: ptr
  probe_record_entity_touch_fn :: ptr
  probe_snapshot_fn :: ptr
  probe_reset_counters_fn :: ptr

record shadow_shim =
  shim_module :: ptr
  shim_runtime :: ptr
  shim_counters :: shadow_counters
  timing_enabled :: bool
  bindings :: shim_bindings

definition no_bindings :: shim_bindings where
  "no_bindings =
     \<lparr>abi_version_fn = nullptr, runtime_new_fn = nullptr, runtime_free_fn = nullptr,
      net_add_serialized_fn = nullptr, net_add_user_fast_fn = nullptr, net_route_fn = nullptr,
      usercmd_set_mount_mask_fn = nullptr, usercmd_route_fn = nullptr,
      probe_set_mount_mask_fn = nullptr, probe_record_damage_fn = nullptr,
      probe_record_entity_input_fn = nullptr, probe_record_entity_output_fn = nullptr,
      probe_record_entity_touch_fn = nullptr, probe_snapshot_fn = nullptr,
      probe_reset_counters_fn = nullptr\<rparr>"

definition zero_shadow_counters :: shadow_counters where
  "zero_shadow_counters =
     \<lparr>runtime_loads = 0, runtime_unloads = 0, runtime_create_failures = 0,
      net_routes = replicate 4 0, usercmd_routes = replicate 5 0, probe_routes = replicate 2 0,
      qpc_ticks_per_second = 0, slow_threshold_ticks = 0,
      net_route_total_ticks = 0, net_route_max_ticks = 0, net_route_slow_calls = 0,
      usercmd_route_total_ticks = 0, usercmd_route_max_ticks = 0, usercmd_route_slow_calls = 0,
      probe_route_total_ticks = 0, probe_route_max_ticks = 0, probe_route_slow_calls = 0\<rparr>"

text \<open>The constructor: the frequency is read once, and stays 0 when it cannot be read.\<close>

definition new_shadow_shim :: "windows \<Rightarrow> shadow_shim" where
  "new_shadow_shim w =
     \<lparr>shim_module = nullptr, shim_runtime = nullptr,
      shim_counters = zero_shadow_counters
        \<lparr>qpc_ticks_per_second := (case performance_frequency w of None \<Rightarrow> 0 | Some f \<Rightarrow> f)\<rparr>,
      timing_enabled = False, bindings = no_bindings\<rparr>"

subsection \<open>Loading and unloading\<close>

definition last_error_message :: "windows \<Rightarrow> string \<Rightarrow> 'r process \<Rightarrow> string" where
  "last_error_message w prefix p =
     prefix @ '' (GetLastError='' @ dec (unat (get_last_error w (moment p))) @ '')''"

text \<open>The bindings in the order \<open>load\<close> makes them.\<close>

definition binding_list :: "((ptr \<Rightarrow> shim_bindings \<Rightarrow> shim_bindings) \<times> string) list" where
  "binding_list =
     [(\<lambda>f. abi_version_fn_update (\<lambda>_. f), ''dwrt_abi_version''),
      (\<lambda>f. runtime_new_fn_update (\<lambda>_. f), ''dwrt_runtime_new''),
      (\<lambda>f. runtime_free_fn_update (\<lambda>_. f), ''dwrt_runtime_free''),
      (\<lambda>f. net_add_serialized_fn_update (\<lambda>_. f), ''dwrt_net_add_serialized''),
      (\<lambda>f. net_add_user_fast_fn_update (\<lambda>_. f), ''dwrt_net_add_user_fast''),
      (\<lambda>f. net_route_fn_update (\<lambda>_. f), ''dwrt_net_route''),
      (\<lambda>f. usercmd_set_mount_mask_fn_update (\<lambda>_. f), ''dwrt_usercmd_set_mount_mask''),
      (\<lambda>f. usercmd_route_fn_update (\<lambda>_. f), ''dwrt_usercmd_route''),
      (\<lambda>f. probe_set_mount_mask_fn_update (\<lambda>_. f), ''dwrt_probe_set_mount_mask''),
      (\<lambda>f. probe_record_damage_fn_update (\<lambda>_. f), ''dwrt_probe_record_damage''),
      (\<lambda>f. probe_record_entity_input_fn_update (\<lambda>_. f), ''dwrt_probe_record_entity_input''),
      (\<lambda>f. probe_record_entity_output_fn_update (\<lambda>_. f), ''dwrt_probe_record_entity_output''),
      (\<lambda>f. probe_record_entity_touch_fn_update (\<lambda>_. f), ''dwrt_probe_record_entity_touch''),
      (\<lambda>f. probe_snapshot_fn_update (\<lambda>_. f), ''dwrt_probe_snapshot''),
      (\<lambda>f. probe_reset_counters_fn_update (\<lambda>_. f), ''dwrt_probe_reset_counters'')]"

text \<open>\<open>!bind(..) || !bind(..) || ..\<close>: stops at the first export that is missing.\<close>

fun bind_all ::
  "(string \<Rightarrow> ptr) \<Rightarrow> ((ptr \<Rightarrow> shim_bindings \<Rightarrow> shim_bindings) \<times> string) list \<Rightarrow> shim_bindings \<Rightarrow> string
     \<Rightarrow> bool \<times> shim_bindings \<times> string" where
  "bind_all proc [] b error = (True, b, error)"
| "bind_all proc ((set_target, name) # rest) b error =
     (let f = proc name
      in if f = nullptr then (False, b, ''missing DWRT runtime export: '' @ name)
         else bind_all proc rest (set_target f b) error)"

definition destroy_runtime ::
  "'r runtime_code \<Rightarrow> shadow_shim \<Rightarrow> 'r process \<Rightarrow> shadow_shim \<times> 'r process" where
  "destroy_runtime c s p =
     (let f = runtime_free_fn (bindings s);
          p = (if shim_runtime s \<noteq> nullptr \<and> f \<noteq> nullptr
               then p\<lparr>runtime_memory := call_runtime_free c f (shim_runtime s) (runtime_memory p)\<rparr> else p)
      in (s\<lparr>shim_runtime := nullptr\<rparr>, p))"

definition unload ::
  "'r runtime_code \<Rightarrow> shadow_shim \<Rightarrow> 'r process \<Rightarrow> shadow_shim \<times> 'r process" where
  "unload c s p =
     (let (s, p) = destroy_runtime c s p;
          (s, p) = (if shim_module s \<noteq> nullptr
                    then (s\<lparr>shim_module := nullptr,
                            shim_counters := inc runtime_unloads_update (shim_counters s)\<rparr>,
                          FreeLibrary (shim_module s) p)
                    else (s, p))
      in (s\<lparr>bindings := no_bindings\<rparr>, p))"

text \<open>\<open>load\<close>: the result, the error text, and the state of the shim and the process.\<close>

definition load ::
  "windows \<Rightarrow> 'r runtime_code \<Rightarrow> wstring \<Rightarrow> string \<Rightarrow> shadow_shim \<Rightarrow> 'r process
     \<Rightarrow> bool \<times> string \<times> shadow_shim \<times> 'r process" where
  "load w c runtime_path error s p =
     (let (s, p) = unload c s p;
          (module, p) = LoadLibraryW w runtime_path p
      in if module = nullptr
         then (False, last_error_message w ''failed to load DWRT runtime DLL'' p, s, p)
         else
           (let (bound, b, error) = bind_all (get_proc_address w module) binding_list (bindings s) error
            in if \<not> bound then (False, error, s\<lparr>bindings := no_bindings\<rparr>, FreeLibrary module p)
               else (True, error,
                     s\<lparr>bindings := b, shim_module := module,
                       shim_counters := inc runtime_loads_update (shim_counters s)\<rparr>, p)))"

definition create_runtime ::
  "'r runtime_code \<Rightarrow> string \<Rightarrow> shadow_shim \<Rightarrow> 'r process \<Rightarrow> bool \<times> string \<times> shadow_shim \<times> 'r process" where
  "create_runtime c error s p =
     (let (s, p) = destroy_runtime c s p;
          f = runtime_new_fn (bindings s);
          failed = s\<lparr>shim_counters := inc runtime_create_failures_update (shim_counters s)\<rparr>
      in if f = nullptr then (False, ''DWRT runtime is not loaded'', failed, p)
         else
           (let (rt, p) = on_runtime (call_runtime_new c f) p
            in if rt = nullptr then (False, ''dwrt_runtime_new returned null'', failed, p)
               else (True, error, s\<lparr>shim_runtime := rt\<rparr>, p)))"

definition loaded :: "shadow_shim \<Rightarrow> bool" where
  "loaded s \<longleftrightarrow> shim_module s \<noteq> nullptr"

definition has_runtime :: "shadow_shim \<Rightarrow> bool" where
  "has_runtime s \<longleftrightarrow> shim_runtime s \<noteq> nullptr"

definition abi_version :: "'r runtime_code \<Rightarrow> shadow_shim \<Rightarrow> u32" where
  "abi_version c s =
     (let f = abi_version_fn (bindings s) in if f = nullptr then 0 else call_abi_version c f)"

subsection \<open>Settings\<close>

definition set_timing_enabled :: "bool \<Rightarrow> shadow_shim \<Rightarrow> shadow_shim" where
  "set_timing_enabled enabled s = s\<lparr>timing_enabled := enabled\<rparr>"

definition slow_threshold :: "u64 \<Rightarrow> u64 \<Rightarrow> u64" where
  "slow_threshold threshold_ns ticks_per_second =
     (if ticks_per_second = 0 \<or> threshold_ns = 0 then 0
      else
        (let t = (threshold_ns * ticks_per_second) div 1000000000 in if t = 0 then 1 else t))"

definition set_slow_threshold_ns :: "u64 \<Rightarrow> shadow_shim \<Rightarrow> shadow_shim" where
  "set_slow_threshold_ns threshold_ns s =
     s\<lparr>shim_counters := (shim_counters s)
         \<lparr>slow_threshold_ticks := slow_threshold threshold_ns (qpc_ticks_per_second (shim_counters s))\<rparr>\<rparr>"

definition add_net_user_fast ::
  "'r runtime_code \<Rightarrow> i32 \<Rightarrow> shadow_shim \<Rightarrow> 'r process \<Rightarrow> bool \<times> 'r process" where
  "add_net_user_fast c user_msg_id s p =
     (let f = net_add_user_fast_fn (bindings s)
      in if shim_runtime s \<noteq> nullptr \<and> f \<noteq> nullptr
         then (let (r, p) = on_runtime (call_net_add_user_fast c f (shim_runtime s) user_msg_id) p in (r \<noteq> 0, p))
         else (False, p))"

definition add_net_serialized ::
  "'r runtime_code \<Rightarrow> i32 \<Rightarrow> i32 \<Rightarrow> shadow_shim \<Rightarrow> 'r process \<Rightarrow> bool \<times> 'r process" where
  "add_net_serialized c direction msg_id s p =
     (let f = net_add_serialized_fn (bindings s)
      in if shim_runtime s \<noteq> nullptr \<and> f \<noteq> nullptr
         then (let (r, p) = on_runtime (call_net_add_serialized c f (shim_runtime s) direction msg_id) p
               in (r \<noteq> 0, p))
         else (False, p))"

definition set_usercmd_mount_mask ::
  "'r runtime_code \<Rightarrow> u32 \<Rightarrow> shadow_shim \<Rightarrow> 'r process \<Rightarrow> 'r process" where
  "set_usercmd_mount_mask c bits s p =
     (let f = usercmd_set_mount_mask_fn (bindings s)
      in if shim_runtime s \<noteq> nullptr \<and> f \<noteq> nullptr
         then p\<lparr>runtime_memory := call_usercmd_set_mount_mask c f (shim_runtime s) bits (runtime_memory p)\<rparr>
         else p)"

definition set_probe_mount_mask ::
  "'r runtime_code \<Rightarrow> u32 \<Rightarrow> shadow_shim \<Rightarrow> 'r process \<Rightarrow> 'r process" where
  "set_probe_mount_mask c bits s p =
     (let f = probe_set_mount_mask_fn (bindings s)
      in if shim_runtime s \<noteq> nullptr \<and> f \<noteq> nullptr
         then p\<lparr>runtime_memory := call_probe_set_mount_mask c f (shim_runtime s) bits (runtime_memory p)\<rparr>
         else p)"

subsection \<open>Routes\<close>

definition count_route :: "u64 list \<Rightarrow> u32 \<Rightarrow> u64 list" where
  "count_route counters route = (if unat route < length counters then bump route counters else counters)"

text \<open>Total, maximum and number of slow calls after one more call.\<close>

definition record_duration :: "u64 \<Rightarrow> u64 \<Rightarrow> u64 \<times> u64 \<times> u64 \<Rightarrow> u64 \<times> u64 \<times> u64" where
  "record_duration elapsed_ticks slow_ticks r =
     (case r of (ticks, longest, slow) \<Rightarrow>
        (ticks + elapsed_ticks,
         if elapsed_ticks > longest then elapsed_ticks else longest,
         if slow_ticks \<noteq> 0 \<and> elapsed_ticks \<ge> slow_ticks then slow + 1 else slow))"

definition net_duration :: "u64 \<Rightarrow> shadow_counters \<Rightarrow> shadow_counters" where
  "net_duration elapsed k =
     (let (t, m, n) = record_duration elapsed (slow_threshold_ticks k)
            (net_route_total_ticks k, net_route_max_ticks k, net_route_slow_calls k)
      in k\<lparr>net_route_total_ticks := t, net_route_max_ticks := m, net_route_slow_calls := n\<rparr>)"

definition usercmd_duration :: "u64 \<Rightarrow> shadow_counters \<Rightarrow> shadow_counters" where
  "usercmd_duration elapsed k =
     (let (t, m, n) = record_duration elapsed (slow_threshold_ticks k)
            (usercmd_route_total_ticks k, usercmd_route_max_ticks k, usercmd_route_slow_calls k)
      in k\<lparr>usercmd_route_total_ticks := t, usercmd_route_max_ticks := m, usercmd_route_slow_calls := n\<rparr>)"

definition probe_duration :: "u64 \<Rightarrow> shadow_counters \<Rightarrow> shadow_counters" where
  "probe_duration elapsed k =
     (let (t, m, n) = record_duration elapsed (slow_threshold_ticks k)
            (probe_route_total_ticks k, probe_route_max_ticks k, probe_route_slow_calls k)
      in k\<lparr>probe_route_total_ticks := t, probe_route_max_ticks := m, probe_route_slow_calls := n\<rparr>)"

definition count_net :: "u32 \<Rightarrow> shadow_counters \<Rightarrow> shadow_counters" where
  "count_net route k = k\<lparr>net_routes := count_route (net_routes k) route\<rparr>"

definition count_usercmd :: "u32 \<Rightarrow> shadow_counters \<Rightarrow> shadow_counters" where
  "count_usercmd route k = k\<lparr>usercmd_routes := count_route (usercmd_routes k) route\<rparr>"

definition count_probe :: "u32 \<Rightarrow> shadow_counters \<Rightarrow> shadow_counters" where
  "count_probe route k = k\<lparr>probe_routes := count_route (probe_routes k) route\<rparr>"

text \<open>
  The shape all route functions have: read the clock, call the runtime when there is one and the
  export is bound, count the route, read the clock again.  The route without a runtime is 0 in all
  three families.
\<close>

definition forward_route ::
  "windows \<Rightarrow> ptr \<Rightarrow> (ptr \<Rightarrow> ptr \<Rightarrow> 'r \<Rightarrow> u32 \<times> 'r) \<Rightarrow> (u32 \<Rightarrow> shadow_counters \<Rightarrow> shadow_counters)
     \<Rightarrow> (u64 \<Rightarrow> shadow_counters \<Rightarrow> shadow_counters) \<Rightarrow> shadow_shim \<Rightarrow> 'r process
     \<Rightarrow> u32 \<times> shadow_shim \<times> 'r process" where
  "forward_route w f call count duration s p =
     (let (start, p) = (if timing_enabled s then qpc_now_ticks w p else (0, p));
          (route, p) = (if shim_runtime s \<noteq> nullptr \<and> f \<noteq> nullptr
                        then on_runtime (call f (shim_runtime s)) p else (0, p));
          s = s\<lparr>shim_counters := count route (shim_counters s)\<rparr>
      in if timing_enabled s
         then (let (stop, p) = qpc_now_ticks w p
               in (route, s\<lparr>shim_counters := duration (stop - start) (shim_counters s)\<rparr>, p))
         else (route, s, p))"

definition shadow_route_net ::
  "windows \<Rightarrow> 'r runtime_code \<Rightarrow> i32 \<Rightarrow> i32 \<Rightarrow> u8 \<Rightarrow> i32 \<Rightarrow> shadow_shim \<Rightarrow> 'r process
     \<Rightarrow> u32 \<times> shadow_shim \<times> 'r process" where
  "shadow_route_net w c direction msg_id has_user_msg_id user_msg_id s =
     forward_route w (net_route_fn (bindings s))
       (\<lambda>f rt. call_net_route c f rt direction msg_id has_user_msg_id user_msg_id) count_net net_duration s"

definition shadow_route_usercmd ::
  "windows \<Rightarrow> 'r runtime_code \<Rightarrow> shadow_shim \<Rightarrow> 'r process \<Rightarrow> u32 \<times> shadow_shim \<times> 'r process" where
  "shadow_route_usercmd w c s =
     forward_route w (usercmd_route_fn (bindings s)) (call_usercmd_route c) count_usercmd usercmd_duration s"

definition probe_record_damage ::
  "windows \<Rightarrow> 'r runtime_code \<Rightarrow> fast_damage_native \<Rightarrow> shadow_shim \<Rightarrow> 'r process
     \<Rightarrow> u32 \<times> shadow_shim \<times> 'r process" where
  "probe_record_damage w c event s =
     forward_route w (probe_record_damage_fn (bindings s))
       (\<lambda>f rt. call_probe_record_damage c f rt event) count_probe probe_duration s"

definition probe_record_entity_input ::
  "windows \<Rightarrow> 'r runtime_code \<Rightarrow> fast_entity_io_native \<Rightarrow> shadow_shim \<Rightarrow> 'r process
     \<Rightarrow> u32 \<times> shadow_shim \<times> 'r process" where
  "probe_record_entity_input w c event s =
     forward_route w (probe_record_entity_input_fn (bindings s))
       (\<lambda>f rt. call_probe_record_entity_input c f rt event) count_probe probe_duration s"

definition probe_record_entity_output ::
  "windows \<Rightarrow> 'r runtime_code \<Rightarrow> fast_entity_io_native \<Rightarrow> shadow_shim \<Rightarrow> 'r process
     \<Rightarrow> u32 \<times> shadow_shim \<times> 'r process" where
  "probe_record_entity_output w c event s =
     forward_route w (probe_record_entity_output_fn (bindings s))
       (\<lambda>f rt. call_probe_record_entity_output c f rt event) count_probe probe_duration s"

definition probe_record_entity_touch ::
  "windows \<Rightarrow> 'r runtime_code \<Rightarrow> fast_entity_touch_native \<Rightarrow> shadow_shim \<Rightarrow> 'r process
     \<Rightarrow> u32 \<times> shadow_shim \<times> 'r process" where
  "probe_record_entity_touch w c event s =
     forward_route w (probe_record_entity_touch_fn (bindings s))
       (\<lambda>f rt. call_probe_record_entity_touch c f rt event) count_probe probe_duration s"

definition probe_snapshot ::
  "'r runtime_code \<Rightarrow> probe_counters \<Rightarrow> shadow_shim \<Rightarrow> 'r process \<Rightarrow> u8 \<times> probe_counters" where
  "probe_snapshot c out s p =
     (let f = probe_snapshot_fn (bindings s)
      in if shim_runtime s = nullptr \<or> f = nullptr then (0, out)
         else call_probe_snapshot c f (shim_runtime s) out (runtime_memory p))"

definition probe_reset_counters ::
  "'r runtime_code \<Rightarrow> shadow_shim \<Rightarrow> 'r process \<Rightarrow> 'r process" where
  "probe_reset_counters c s p =
     (let f = probe_reset_counters_fn (bindings s)
      in if shim_runtime s \<noteq> nullptr \<and> f \<noteq> nullptr
         then p\<lparr>runtime_memory := call_probe_reset_counters c f (shim_runtime s) (runtime_memory p)\<rparr>
         else p)"

end
