(* ===== verification/Shadow_Shim_Properties.thy ===== *)
theory Shadow_Shim_Properties
  imports Shadow_Shim
begin

section \<open>What the shim keeps\<close>

text \<open>
  The invariant of the shim, for every operation and so for every order of calls: the exports are
  bound all together or not at all, a runtime object exists only while its library is loaded, and
  the shim holds one reference to the library it has loaded and none to any other.
\<close>

subsection \<open>Invariant\<close>

definition all_bound :: "shim_bindings \<Rightarrow> bool" where
  "all_bound b \<longleftrightarrow>
     nullptr \<notin> {abi_version_fn b, runtime_new_fn b, runtime_free_fn b, net_add_serialized_fn b,
       net_add_user_fast_fn b, net_route_fn b, usercmd_set_mount_mask_fn b, usercmd_route_fn b,
       probe_set_mount_mask_fn b, probe_record_damage_fn b, probe_record_entity_input_fn b,
       probe_record_entity_output_fn b, probe_record_entity_touch_fn b, probe_snapshot_fn b,
       probe_reset_counters_fn b}"

definition shim_inv :: "shadow_shim \<Rightarrow> bool" where
  "shim_inv s \<longleftrightarrow>
     (if shim_module s = nullptr then shim_runtime s = nullptr \<and> bindings s = no_bindings
      else all_bound (bindings s)) \<and>
     runtime_loads (shim_counters s) - runtime_unloads (shim_counters s) = of_bool (shim_module s \<noteq> nullptr)"

text \<open>The references to a library that are not the shim's own.\<close>

definition other_refs :: "shadow_shim \<Rightarrow> 'r process \<Rightarrow> ptr \<Rightarrow> int" where
  "other_refs s p h = library_refs p h - of_bool (h = shim_module s \<and> h \<noteq> nullptr)"

text \<open>The exports in order, and the bindings made from the first \<open>n\<close> of them.\<close>

definition export_names :: "string list" where
  "export_names = map snd binding_list"

lemma bind_all_result:
  "fst (bind_all proc bs b error) \<longleftrightarrow> (\<forall>x\<in>set (map snd bs). proc x \<noteq> nullptr)"
  "fst (bind_all proc bs b error) \<Longrightarrow>
     snd (bind_all proc bs b error) = (foldl (\<lambda>b x. fst x (proc (snd x)) b) b bs, error)"
  by (induction proc bs b error rule: bind_all.induct) (auto simp: Let_def)

text \<open>The bindings of a library whose exports are at the addresses \<open>proc\<close>.\<close>

definition bindings_of :: "(string \<Rightarrow> ptr) \<Rightarrow> shim_bindings" where
  "bindings_of proc =
     \<lparr>abi_version_fn = proc ''dwrt_abi_version'', runtime_new_fn = proc ''dwrt_runtime_new'',
      runtime_free_fn = proc ''dwrt_runtime_free'', net_add_serialized_fn = proc ''dwrt_net_add_serialized'',
      net_add_user_fast_fn = proc ''dwrt_net_add_user_fast'', net_route_fn = proc ''dwrt_net_route'',
      usercmd_set_mount_mask_fn = proc ''dwrt_usercmd_set_mount_mask'',
      usercmd_route_fn = proc ''dwrt_usercmd_route'',
      probe_set_mount_mask_fn = proc ''dwrt_probe_set_mount_mask'',
      probe_record_damage_fn = proc ''dwrt_probe_record_damage'',
      probe_record_entity_input_fn = proc ''dwrt_probe_record_entity_input'',
      probe_record_entity_output_fn = proc ''dwrt_probe_record_entity_output'',
      probe_record_entity_touch_fn = proc ''dwrt_probe_record_entity_touch'',
      probe_snapshot_fn = proc ''dwrt_probe_snapshot'',
      probe_reset_counters_fn = proc ''dwrt_probe_reset_counters''\<rparr>"

lemma fold_binding_list: "foldl (\<lambda>b x. fst x (proc (snd x)) b) b binding_list = bindings_of proc"
  by (cases b) (simp add: binding_list_def bindings_of_def)

lemma all_bound_bindings_of: "all_bound (bindings_of proc) \<longleftrightarrow> (\<forall>x\<in>set export_names. proc x \<noteq> nullptr)"
  by (simp add: all_bound_def bindings_of_def export_names_def binding_list_def)

lemma bind_all_exports:
  "bind_all proc binding_list b error =
     (if \<forall>x\<in>set export_names. proc x \<noteq> nullptr then (True, bindings_of proc, error)
      else (False, snd (bind_all proc binding_list b error)))"
  using bind_all_result [of proc binding_list b error]
  by (cases "bind_all proc binding_list b error")
     (auto simp: export_names_def fold_binding_list)

subsection \<open>Operations keep the invariant\<close>

lemma destroy_runtime_simps [simp]:
  "fst (destroy_runtime c s p) = s\<lparr>shim_runtime := nullptr\<rparr>"
  "library_refs (snd (destroy_runtime c s p)) = library_refs p"
  by (simp_all add: destroy_runtime_def Let_def)

lemma unload_inv:
  assumes "shim_inv s"
  shows "shim_inv (fst (unload c s p))" "shim_module (fst (unload c s p)) = nullptr"
    "bindings (fst (unload c s p)) = no_bindings" "shim_runtime (fst (unload c s p)) = nullptr"
    "library_refs (snd (unload c s p)) h = other_refs s p h"
proof -
  obtain p1 where d: "destroy_runtime c s p = (s\<lparr>shim_runtime := nullptr\<rparr>, p1)" "library_refs p1 = library_refs p"
    by (metis destroy_runtime_simps prod.collapse)
  note [simp] = unload_def d
  show "shim_inv (fst (unload c s p))" using assms by (auto simp: shim_inv_def Let_def algebra_simps)
  show "shim_module (fst (unload c s p)) = nullptr" by (simp add: Let_def)
  show "bindings (fst (unload c s p)) = no_bindings" by (simp add: Let_def)
  show "shim_runtime (fst (unload c s p)) = nullptr" by (simp add: Let_def)
  show "library_refs (snd (unload c s p)) h = other_refs s p h" by (auto simp: other_refs_def Let_def)
qed

text \<open>
  \<open>load\<close> on every branch: it reports success exactly when the library was found and has every
  export; then all exports are bound to that library, otherwise none is and the reference the call
  took is given back.
\<close>

lemma load_cases:
  assumes inv: "shim_inv s" and l: "load w c path error s p = (ok, error', s', p')"
  defines "h \<equiv> load_library_w w (moment (snd (unload c s p))) path"
  shows "ok \<longleftrightarrow> h \<noteq> nullptr \<and> (\<forall>x\<in>set export_names. get_proc_address w h x \<noteq> nullptr)"
    and "shim_inv s'" and "shim_runtime s' = nullptr"
    and "shim_module s' = (if ok then h else nullptr)"
    and "bindings s' = (if ok then bindings_of (get_proc_address w h) else no_bindings)"
    and "other_refs s' p' = other_refs s p"
    and "ok \<Longrightarrow> error' = error"
    and "\<not> ok \<Longrightarrow> error' \<noteq> []"
proof -
  obtain s1 p1 where u: "unload c s p = (s1, p1)" by (cases "unload c s p")
  note f = unload_inv [OF inv, of c p, unfolded u]
  have s1: "shim_inv s1" "shim_module s1 = nullptr" "bindings s1 = no_bindings" "shim_runtime s1 = nullptr"
    "library_refs p1 k = other_refs s p k" for k using f by simp_all
  have h: "h = load_library_w w (moment p1) path" by (simp add: h_def u)
  let ?b = "bind_all (get_proc_address w h) binding_list no_bindings error"
  let ?all = "\<forall>x\<in>set export_names. get_proc_address w h x \<noteq> nullptr"
  have e: "snd (snd ?b) \<noteq> []" if "\<not> fst ?b"
  proof -
    have "\<not> fst (bind_all pr bs b e) \<Longrightarrow> snd (snd (bind_all pr bs b e)) \<noteq> []" for pr bs b e
      by (induction pr bs b e rule: bind_all.induct) (auto simp: Let_def split: if_splits)
    then show ?thesis using that .
  qed
  have "load w c path error s p =
     (if h = nullptr then (False, last_error_message w ''failed to load DWRT runtime DLL'' (tick p1), s1, tick p1)
      else if ?all then
        (True, error, s1\<lparr>bindings := bindings_of (get_proc_address w h), shim_module := h,
           shim_counters := inc runtime_loads_update (shim_counters s1)\<rparr>, tick (add_ref h p1))
      else (False, snd (snd ?b), s1\<lparr>bindings := no_bindings\<rparr>, FreeLibrary h (tick (add_ref h p1))))"
  proof (cases ?all)
    case True
    then have "?b = (True, bindings_of (get_proc_address w h), error)"
      using bind_all_exports [of "get_proc_address w h" no_bindings error] by simp
    then show ?thesis
      using True by (simp add: load_def u LoadLibraryW_def Let_def h [symmetric] s1(3) add_ref_def)
  next
    case False
    then have "\<not> fst ?b" by (simp add: bind_all_result(1) export_names_def)
    then obtain b' e' where "?b = (False, b', e')" by (cases ?b) simp
    then show ?thesis
      using False by (auto simp: load_def u LoadLibraryW_def Let_def h [symmetric] s1(3) add_ref_def)
  qed
  then consider (missing) "h = nullptr" "ok = False" "s' = s1" "p' = tick p1"
      "error' = last_error_message w ''failed to load DWRT runtime DLL'' (tick p1)"
    | (unbound) "h \<noteq> nullptr" "\<not> ?all" "ok = False" "error' = snd (snd ?b)"
      "s' = s1\<lparr>bindings := no_bindings\<rparr>" "p' = FreeLibrary h (tick (add_ref h p1))"
    | (bound) "h \<noteq> nullptr" ?all "ok = True" "error' = error"
      "s' = s1\<lparr>bindings := bindings_of (get_proc_address w h), shim_module := h,
         shim_counters := inc runtime_loads_update (shim_counters s1)\<rparr>" "p' = tick (add_ref h p1)"
    unfolding l by (auto split: if_splits)
  note three = this
  show "ok \<longleftrightarrow> h \<noteq> nullptr \<and> ?all" by (rule three) auto
  show "shim_inv s'"
    by (rule three) (use s1 in \<open>auto simp: shim_inv_def all_bound_bindings_of\<close>)
  show "shim_runtime s' = nullptr" by (rule three) (use s1 in auto)
  show "shim_module s' = (if ok then h else nullptr)" by (rule three) (use s1 in auto)
  show "bindings s' = (if ok then bindings_of (get_proc_address w h) else no_bindings)"
    by (rule three) (use s1 in auto)
  show "other_refs s' p' = other_refs s p"
    by (rule three) (use s1 in \<open>auto simp: other_refs_def library_refs_add_ref fun_eq_iff\<close>)
  show "ok \<Longrightarrow> error' = error" by (rule three) auto
  show "error' \<noteq> []" if "\<not> ok"
  proof (rule three)
    assume "\<not> ?all" "error' = snd (snd ?b)"
    then show ?thesis using e by (simp add: bind_all_result(1) export_names_def)
  qed (use that in \<open>simp_all add: last_error_message_def\<close>)
qed

lemma create_runtime_inv:
  assumes inv: "shim_inv s" and r: "create_runtime c error s p = (ok, error', s', p')"
  shows "shim_inv s'" "other_refs s' p' = other_refs s p" "ok \<longleftrightarrow> shim_runtime s' \<noteq> nullptr"
    "shim_module s' = shim_module s" "bindings s' = bindings s"
proof -
  obtain p1 where d: "destroy_runtime c s p = (s\<lparr>shim_runtime := nullptr\<rparr>, p1)" "library_refs p1 = library_refs p"
    by (metis destroy_runtime_simps prod.collapse)
  obtain rt p2 where o: "on_runtime (call_runtime_new c (runtime_new_fn (bindings s))) p1 = (rt, p2)"
    by (cases "on_runtime (call_runtime_new c (runtime_new_fn (bindings s))) p1")
  then have "library_refs p2 = library_refs p" using on_runtime_refs d(2) by (metis snd_conv)
  then show "shim_inv s'" "other_refs s' p' = other_refs s p" "ok \<longleftrightarrow> shim_runtime s' \<noteq> nullptr"
    "shim_module s' = shim_module s" "bindings s' = bindings s"
    using r inv d by (auto simp: create_runtime_def o Let_def shim_inv_def other_refs_def fun_eq_iff
        no_bindings_def split: if_splits)
qed

lemma qpc_refs [simp]: "library_refs (snd (qpc_now_ticks w p)) = library_refs p"
  by (simp add: qpc_now_ticks_def)

lemma forward_route_state:
  assumes "forward_route w f call count duration s p = (route, s', p')"
  shows "s' = s\<lparr>shim_counters := shim_counters s'\<rparr>" "library_refs p' = library_refs p"
    "\<exists>d. shim_counters s' = (if timing_enabled s then duration d else (\<lambda>k. k)) (count route (shim_counters s))"
    "route = (if shim_runtime s \<noteq> nullptr \<and> f \<noteq> nullptr
       then fst (call f (shim_runtime s) (runtime_memory p)) else 0)"
    "runtime_memory p' = (if shim_runtime s \<noteq> nullptr \<and> f \<noteq> nullptr
       then snd (call f (shim_runtime s) (runtime_memory p)) else runtime_memory p)"
  using assms
  by (auto simp: forward_route_def qpc_now_ticks_def on_runtime_def Let_def split: if_splits prod.splits)

lemma count_keeps_loads:
  "runtime_loads (count_net r k) = runtime_loads k" "runtime_unloads (count_net r k) = runtime_unloads k"
  "runtime_loads (count_usercmd r k) = runtime_loads k" "runtime_unloads (count_usercmd r k) = runtime_unloads k"
  "runtime_loads (count_probe r k) = runtime_loads k" "runtime_unloads (count_probe r k) = runtime_unloads k"
  by (simp_all add: count_net_def count_usercmd_def count_probe_def)

lemma duration_keeps_loads:
  "runtime_loads (net_duration d k) = runtime_loads k" "runtime_unloads (net_duration d k) = runtime_unloads k"
  "runtime_loads (usercmd_duration d k) = runtime_loads k" "runtime_unloads (usercmd_duration d k) = runtime_unloads k"
  "runtime_loads (probe_duration d k) = runtime_loads k" "runtime_unloads (probe_duration d k) = runtime_unloads k"
  by (simp_all add: net_duration_def usercmd_duration_def probe_duration_def record_duration_def)

subsection \<open>Any order of calls\<close>

text \<open>The operations of the class, with their arguments.\<close>

datatype shim_op =
    Load wstring
  | Unload
  | Create_Runtime
  | Destroy_Runtime
  | Set_Timing bool
  | Set_Slow_Threshold u64
  | Add_User_Fast i32
  | Add_Serialized i32 i32
  | Set_Usercmd_Mask u32
  | Set_Probe_Mask u32
  | Route_Net i32 i32 u8 i32
  | Route_Usercmd
  | Record_Damage fast_damage_native
  | Record_Input fast_entity_io_native
  | Record_Output fast_entity_io_native
  | Record_Touch fast_entity_touch_native
  | Reset_Probe_Counters

fun shim_step ::
  "windows \<Rightarrow> 'r runtime_code \<Rightarrow> shim_op \<Rightarrow> shadow_shim \<times> 'r process \<Rightarrow> shadow_shim \<times> 'r process" where
  "shim_step w c (Load path) (s, p) = snd (snd (load w c path [] s p))"
| "shim_step w c Unload (s, p) = unload c s p"
| "shim_step w c Create_Runtime (s, p) = snd (snd (create_runtime c [] s p))"
| "shim_step w c Destroy_Runtime (s, p) = destroy_runtime c s p"
| "shim_step w c (Set_Timing b) (s, p) = (set_timing_enabled b s, p)"
| "shim_step w c (Set_Slow_Threshold ns) (s, p) = (set_slow_threshold_ns ns s, p)"
| "shim_step w c (Add_User_Fast i) (s, p) = (s, snd (add_net_user_fast c i s p))"
| "shim_step w c (Add_Serialized d i) (s, p) = (s, snd (add_net_serialized c d i s p))"
| "shim_step w c (Set_Usercmd_Mask b) (s, p) = (s, set_usercmd_mount_mask c b s p)"
| "shim_step w c (Set_Probe_Mask b) (s, p) = (s, set_probe_mount_mask c b s p)"
| "shim_step w c (Route_Net d i h u) (s, p) = snd (shadow_route_net w c d i h u s p)"
| "shim_step w c Route_Usercmd (s, p) = snd (shadow_route_usercmd w c s p)"
| "shim_step w c (Record_Damage e) (s, p) = snd (probe_record_damage w c e s p)"
| "shim_step w c (Record_Input e) (s, p) = snd (probe_record_entity_input w c e s p)"
| "shim_step w c (Record_Output e) (s, p) = snd (probe_record_entity_output w c e s p)"
| "shim_step w c (Record_Touch e) (s, p) = snd (probe_record_entity_touch w c e s p)"
| "shim_step w c Reset_Probe_Counters (s, p) = (s, probe_reset_counters c s p)"

lemma forward_route_inv:
  assumes "shim_inv s" "forward_route w f call count duration s p = (route, s', p')"
    and "\<And>r k. runtime_loads (count r k) = runtime_loads k \<and> runtime_unloads (count r k) = runtime_unloads k"
    and "\<And>d k. runtime_loads (duration d k) = runtime_loads k \<and> runtime_unloads (duration d k) = runtime_unloads k"
  shows "shim_inv s' \<and> other_refs s' p' = other_refs s p"
proof -
  note f = forward_route_state [OF assms(2)]
  obtain d where k: "shim_counters s' =
      (if timing_enabled s then duration d else (\<lambda>k. k)) (count route (shim_counters s))"
    using f(3) by blast
  have same: "shim_module s' = shim_module s" "shim_runtime s' = shim_runtime s" "bindings s' = bindings s"
    by (subst f(1), simp)+
  have "runtime_loads (shim_counters s') = runtime_loads (shim_counters s)"
    "runtime_unloads (shim_counters s') = runtime_unloads (shim_counters s)"
    by (simp_all add: k assms(3,4))
  then show ?thesis using assms(1) f(2) by (simp add: shim_inv_def other_refs_def same fun_eq_iff)
qed

lemma set_slow_threshold_inv: "shim_inv (set_slow_threshold_ns ns s) = shim_inv s"
  by (simp add: shim_inv_def set_slow_threshold_ns_def)

lemma shim_step_inv [invariants]:
  assumes "shim_inv s" "shim_step w c x (s, p) = (s', p')"
  shows "shim_inv s' \<and> other_refs s' p' = other_refs s p"
proof -
  have routes: "shim_inv s' \<and> other_refs s' p' = other_refs s p"
    if fr: "(s', p') = snd (forward_route w f call count duration s p)" and keep:
      "\<And>r k. runtime_loads (count r k) = runtime_loads k \<and> runtime_unloads (count r k) = runtime_unloads k"
      "\<And>d k. runtime_loads (duration d k) = runtime_loads k \<and> runtime_unloads (duration d k) = runtime_unloads k"
    for f call count duration
  proof -
    obtain route where "forward_route w f call count duration s p = (route, s', p')"
      using fr by (cases "forward_route w f call count duration s p") auto
    from forward_route_inv [OF assms(1) this keep] show ?thesis .
  qed
  show ?thesis
  proof (cases x)
    case (Load path)
    then have "load w c path [] s p =
        (fst (load w c path [] s p), fst (snd (load w c path [] s p)), s', p')"
      using assms(2) by (metis prod.collapse shim_step.simps(1))
    from load_cases(2,6) [OF assms(1) this] show ?thesis by simp
  next
    case Unload
    then have u: "unload c s p = (s', p')" using assms(2) by simp
    from unload_inv [OF assms(1), of c p, unfolded u] show ?thesis
      by (simp add: other_refs_def [of s' p'] fun_eq_iff)
  next
    case Create_Runtime
    then have "create_runtime c [] s p =
        (fst (create_runtime c [] s p), fst (snd (create_runtime c [] s p)), s', p')"
      using assms(2) by (metis prod.collapse shim_step.simps(3))
    from create_runtime_inv(1,2) [OF assms(1) this] show ?thesis by simp
  next
    case Destroy_Runtime
    then have d: "destroy_runtime c s p = (s', p')" using assms(2) by simp
    from destroy_runtime_simps [of c s p, unfolded d] assms(1) show ?thesis
      by (simp add: shim_inv_def other_refs_def fun_eq_iff)
  next
    case (Set_Timing b)
    then show ?thesis using assms by (auto simp: set_timing_enabled_def shim_inv_def other_refs_def fun_eq_iff)
  next
    case (Set_Slow_Threshold ns)
    then show ?thesis
      using assms set_slow_threshold_inv [of ns s] by (auto simp: other_refs_def set_slow_threshold_ns_def fun_eq_iff)
  next
    case (Add_User_Fast i)
    then show ?thesis
      using assms by (auto simp: add_net_user_fast_def on_runtime_def Let_def other_refs_def fun_eq_iff
          split: if_splits prod.splits)
  next
    case (Add_Serialized d i)
    then show ?thesis
      using assms by (auto simp: add_net_serialized_def on_runtime_def Let_def other_refs_def fun_eq_iff
          split: if_splits prod.splits)
  next
    case (Set_Usercmd_Mask b)
    then show ?thesis
      using assms by (auto simp: set_usercmd_mount_mask_def Let_def other_refs_def fun_eq_iff split: if_splits)
  next
    case (Set_Probe_Mask b)
    then show ?thesis
      using assms by (auto simp: set_probe_mount_mask_def Let_def other_refs_def fun_eq_iff split: if_splits)
  next
    case Reset_Probe_Counters
    then show ?thesis
      using assms by (auto simp: probe_reset_counters_def Let_def other_refs_def fun_eq_iff split: if_splits)
  next
    case (Route_Net d i h u)
    from assms(2) [unfolded Route_Net shim_step.simps shadow_route_net_def] show ?thesis
      by (rule routes [OF sym]) (simp_all add: count_keeps_loads duration_keeps_loads)
  next
    case Route_Usercmd
    from assms(2) [unfolded Route_Usercmd shim_step.simps shadow_route_usercmd_def] show ?thesis
      by (rule routes [OF sym]) (simp_all add: count_keeps_loads duration_keeps_loads)
  next
    case (Record_Damage e)
    from assms(2) [unfolded Record_Damage shim_step.simps probe_record_damage_def] show ?thesis
      by (rule routes [OF sym]) (simp_all add: count_keeps_loads duration_keeps_loads)
  next
    case (Record_Input e)
    from assms(2) [unfolded Record_Input shim_step.simps probe_record_entity_input_def] show ?thesis
      by (rule routes [OF sym]) (simp_all add: count_keeps_loads duration_keeps_loads)
  next
    case (Record_Output e)
    from assms(2) [unfolded Record_Output shim_step.simps probe_record_entity_output_def] show ?thesis
      by (rule routes [OF sym]) (simp_all add: count_keeps_loads duration_keeps_loads)
  next
    case (Record_Touch e)
    from assms(2) [unfolded Record_Touch shim_step.simps probe_record_entity_touch_def] show ?thesis
      by (rule routes [OF sym]) (simp_all add: count_keeps_loads duration_keeps_loads)
  qed
qed

fun shim_run ::
  "windows \<Rightarrow> 'r runtime_code \<Rightarrow> shim_op list \<Rightarrow> shadow_shim \<times> 'r process \<Rightarrow> shadow_shim \<times> 'r process" where
  "shim_run w c [] x = x"
| "shim_run w c (op # ops) x = shim_run w c ops (shim_step w c op x)"

lemma shim_run_inv [invariants]:
  "shim_inv (fst x) \<Longrightarrow> shim_inv (fst (shim_run w c ops x)) \<and>
     other_refs (fst (shim_run w c ops x)) (snd (shim_run w c ops x)) = other_refs (fst x) (snd x)"
proof (induction ops arbitrary: x)
  case (Cons op ops)
  have "shim_inv (fst (shim_step w c op x)) \<and>
      other_refs (fst (shim_step w c op x)) (snd (shim_step w c op x)) = other_refs (fst x) (snd x)"
    using shim_step_inv [of "fst x" w c op "snd x" "fst (shim_step w c op x)" "snd (shim_step w c op x)"]
      Cons.prems by simp
  then show ?case using Cons.IH [of "shim_step w c op x"] by simp
qed simp

lemma new_shim_inv: "shim_inv (new_shadow_shim w)"
  by (simp add: shim_inv_def new_shadow_shim_def zero_shadow_counters_def)

text \<open>Whatever the shim is asked to do between its construction and its destruction, in any order
  and with any answers from Windows and the runtime, the destructor, which unloads, leaves every
  library with the references it had: each successful load is freed exactly once, and so is each
  load that failed on a missing export.\<close>
theorem shim_library_balance:
  "library_refs (snd (unload c (fst (shim_run w c ops (new_shadow_shim w, p)))
     (snd (shim_run w c ops (new_shadow_shim w, p))))) = library_refs p"
proof -
  let ?r = "shim_run w c ops (new_shadow_shim w, p)"
  have i: "shim_inv (fst ?r)" "other_refs (fst ?r) (snd ?r) = other_refs (new_shadow_shim w) p"
    using shim_run_inv [of "(new_shadow_shim w, p)" w c ops] by (simp_all add: new_shim_inv)
  moreover have "other_refs (new_shadow_shim w) p = library_refs p"
    by (simp add: other_refs_def new_shadow_shim_def fun_eq_iff)
  ultimately show ?thesis using unload_inv(5) [OF i(1)] by (metis ext)
qed

text \<open>C30. In every state the shim can reach, the exports are bound to the loaded library all together or
  none is bound, there is a runtime object only while a library is loaded, and the loads and
  unloads counted differ by the one library that is loaded, if any.\<close>
theorem shim_reachable_invariant:
  "shim_inv (fst (shim_run w c ops (new_shadow_shim w, p)))"
  using shim_run_inv [of "(new_shadow_shim w, p)" w c ops] by (simp add: new_shim_inv)

text \<open>C29. \<open>load\<close> succeeds exactly when the library was loaded and all fifteen exports are in it; then
  they are all bound to it, and otherwise nothing is loaded, nothing is bound and there is a text
  that says why.  Either way the runtime of the library loaded before is gone.\<close>
theorem load_all_or_nothing:
  assumes "shim_inv s" "load w c path error s p = (ok, error', s', p')"
  shows "let h = load_library_w w (moment (snd (unload c s p))) path in
    (ok \<longleftrightarrow> h \<noteq> nullptr \<and> (\<forall>x\<in>set export_names. get_proc_address w h x \<noteq> nullptr)) \<and>
    shim_module s' = (if ok then h else nullptr) \<and>
    bindings s' = (if ok then bindings_of (get_proc_address w h) else no_bindings) \<and>
    shim_runtime s' = nullptr \<and> (if ok then error' = error else error' \<noteq> [])"
  using load_cases [OF assms] by (simp add: Let_def)

definition example_windows :: windows where
  "example_windows =
     \<lparr>load_library_w = (\<lambda>n path. if path = wide ''dwrt_runtime.dll'' then 0x180000000 else 0),
      load_library_ex_w = (\<lambda>n path. 0), get_module_handle_w = (\<lambda>n name. 0),
      get_proc_address = (\<lambda>h name. if name = ''dwrt_probe_snapshot'' then 0 else 0x180001000),
      get_last_error = (\<lambda>n. 126), performance_counter = of_nat, performance_frequency = Some 10000000\<rparr>"

definition example_process :: "'r \<Rightarrow> 'r process" where
  "example_process r = \<lparr>moment = 0, library_refs = (\<lambda>h. 0), runtime_memory = r\<rparr>"

lemma example_export_missing:
  "\<not> (\<forall>x\<in>set export_names. get_proc_address example_windows h x \<noteq> nullptr)"
  by (simp add: export_names_def binding_list_def example_windows_def)

theorem load_all_or_nothing_witness:
  "\<forall>c :: unit runtime_code. bindings (fst (snd (snd (load example_windows c (wide ''dwrt_runtime.dll'') []
     (new_shadow_shim example_windows) (example_process ()))))) = no_bindings"
proof
  fix c :: "unit runtime_code"
  let ?r = "load example_windows c (wide ''dwrt_runtime.dll'') [] (new_shadow_shim example_windows) (example_process ())"
  have "?r = (fst ?r, fst (snd ?r), fst (snd (snd ?r)), snd (snd (snd ?r)))" by simp
  from load_all_or_nothing [OF new_shim_inv this] example_export_missing
  show "bindings (fst (snd (snd ?r))) = no_bindings"
    by (auto simp: Let_def)
qed

subsection \<open>The slow threshold\<close>

text \<open>When nanoseconds times ticks per second fits 64 bits, the threshold is the number of whole
  ticks in that time, and at least one tick.\<close>
theorem slow_threshold_exact:
  assumes "threshold_ns \<noteq> 0" "ticks_per_second \<noteq> 0"
    and "unat threshold_ns * unat ticks_per_second < 18446744073709551616"
  shows "unat (slow_threshold threshold_ns ticks_per_second) =
    max 1 (unat threshold_ns * unat ticks_per_second div 1000000000)"
proof -
  have m: "unat (threshold_ns * ticks_per_second) = unat threshold_ns * unat ticks_per_second"
    using assms(3) unat_mult_lem [of threshold_ns ticks_per_second] by simp
  have "unat ((threshold_ns * ticks_per_second) div 1000000000) =
      unat threshold_ns * unat ticks_per_second div 1000000000"
    by (simp add: unat_div m)
  moreover have "(threshold_ns * ticks_per_second) div 1000000000 = 0 \<longleftrightarrow>
      unat ((threshold_ns * ticks_per_second) div 1000000000) = 0"
    by (rule unat_eq_0 [symmetric])
  ultimately show ?thesis
    using assms(1,2) by (simp add: slow_threshold_def Let_def max_def)
qed

theorem slow_threshold_exact_witness: "unat (slow_threshold 100000 10000000) = 1000"
  using slow_threshold_exact [of 100000 10000000] by simp

text \<open>Beyond that the product wraps: with the 10 MHz counter of Windows a threshold of about half
  an hour becomes one tick, so that every timed call counts as slow.\<close>
theorem slow_threshold_wraps: "slow_threshold 1844674407371 10000000 = 1"
  by (simp add: slow_threshold_def)

end
