(* ===== verification/Probe_Abi.thy ===== *)
theory Probe_Abi
  imports Shadow_Shim_Properties
begin

section \<open>The probe interface between host and runtime\<close>

text \<open>
  \<open>exercise_probe_abi\<close> of \<open>dwrt_host.cpp\<close> checks a freshly created runtime before the host relies on
  it.  The locale \<open>probe_abi\<close> is what \<open>dwrt_runtime.h\<close> promises of the probe functions; the host's
  check is proved to succeed on any runtime that keeps the promise, and the Rust runtime is proved
  to keep it.
\<close>

definition zero_damage :: fast_damage_native where
  "zero_damage =
     \<lparr>victim_handle = 0, attacker_handle = 0, inflictor_handle = 0, ability_handle = 0,
      victim_team = 0, attacker_team = 0, victim_class_hash = 0, attacker_class_hash = 0,
      damage_bits = 0, damage_type = 0, damage_flags = 0\<rparr>"

definition zero_entity_io :: fast_entity_io_native where
  "zero_entity_io =
     \<lparr>entity_handle = 0, activator_handle = 0, caller_handle = 0, class_hash = 0, name_hash = 0,
      value_hash = 0, io_phase = 0\<rparr>"

definition exercise_probe_abi ::
  "windows \<Rightarrow> 'r runtime_code \<Rightarrow> shadow_shim \<Rightarrow> 'r process \<Rightarrow> bool \<times> shadow_shim \<times> 'r process" where
  "exercise_probe_abi w c s p =
     (let (no_interest, s, p) = probe_record_damage w c zero_damage s p;
          p = set_probe_mount_mask c (1 OR 2) s p;
          (damage_route, s, p) = probe_record_damage w c zero_damage s p;
          (input_route, s, p) = probe_record_entity_input w c zero_entity_io s p;
          (snapshot_ok, snapshot) = probe_snapshot c probe_new s p;
          p = set_probe_mount_mask c 0 s p;
          p = probe_reset_counters c s p
      in (no_interest = 0 \<and> damage_route = 1 \<and> input_route = 1 \<and> snapshot_ok \<noteq> 0 \<and>
          damage_seen snapshot = 1 \<and> damage_counted snapshot = 1 \<and>
          entity_input_seen snapshot = 1 \<and> entity_input_counted snapshot = 1, s, p))"

subsection \<open>The contract\<close>

locale probe_abi =
  fixes code :: "'r runtime_code"
    and live :: "'r \<Rightarrow> ptr \<Rightarrow> bool"
    and counters :: "'r \<Rightarrow> ptr \<Rightarrow> probe_counters"
    and can_create :: "'r \<Rightarrow> bool"
  assumes create: "can_create r \<Longrightarrow> call_runtime_new code f r = (rt, r') \<Longrightarrow>
      rt \<noteq> nullptr \<and> live r' rt \<and> counters r' rt = probe_new"
    and mount: "live r rt \<Longrightarrow> live (call_probe_set_mount_mask code f rt bits r) rt \<and>
      counters (call_probe_set_mount_mask code f rt bits r) rt = (counters r rt)\<lparr>mount_mask := bits\<rparr>"
    and damage: "live r rt \<Longrightarrow> call_probe_record_damage code f rt e r = (x, r') \<Longrightarrow>
      live r' rt \<and> (x, counters r' rt) = record_if_mounted Damage_Event (counters r rt)"
    and input: "live r rt \<Longrightarrow> call_probe_record_entity_input code f rt io r = (x, r') \<Longrightarrow>
      live r' rt \<and> (x, counters r' rt) = record_if_mounted Entity_Input_Event (counters r rt)"
    and snapshot: "live r rt \<Longrightarrow> call_probe_snapshot code f rt out r = (1, counters r rt)"
    and reset: "live r rt \<Longrightarrow> live (call_probe_reset_counters code f rt r) rt \<and>
      counters (call_probe_reset_counters code f rt r) rt = probe_reset (counters r rt)"
begin

text \<open>A shim with all exports bound and a runtime whose counters are \<open>k\<close>.\<close>

definition ready :: "shadow_shim \<Rightarrow> 'r process \<Rightarrow> probe_counters \<Rightarrow> bool" where
  "ready s p k \<longleftrightarrow> all_bound (bindings s) \<and> shim_runtime s \<noteq> nullptr \<and>
     live (runtime_memory p) (shim_runtime s) \<and> counters (runtime_memory p) (shim_runtime s) = k"

lemma ready_damage:
  assumes "ready s p k" "probe_record_damage w code e s p = (x, s', p')"
  shows "(x, counters (runtime_memory p') (shim_runtime s')) = record_if_mounted Damage_Event k \<and>
    ready s' p' (snd (record_if_mounted Damage_Event k))"
proof -
  note f = forward_route_state [OF assms(2) [unfolded probe_record_damage_def]]
  have b: "probe_record_damage_fn (bindings s) \<noteq> nullptr" "shim_runtime s \<noteq> nullptr"
    "live (runtime_memory p) (shim_runtime s)" using assms(1) by (simp_all add: ready_def all_bound_def)
  have same: "shim_runtime s' = shim_runtime s" "bindings s' = bindings s" by (subst f(1), simp)+
  have "call_probe_record_damage code (probe_record_damage_fn (bindings s)) (shim_runtime s) e
      (runtime_memory p) = (x, runtime_memory p')"
    using f(4,5) b by simp
  from damage [OF b(3) this] assms(1) show ?thesis by (simp add: ready_def same) (metis snd_conv)
qed

lemma ready_input:
  assumes "ready s p k" "probe_record_entity_input w code e s p = (x, s', p')"
  shows "(x, counters (runtime_memory p') (shim_runtime s')) = record_if_mounted Entity_Input_Event k \<and>
    ready s' p' (snd (record_if_mounted Entity_Input_Event k))"
proof -
  note f = forward_route_state [OF assms(2) [unfolded probe_record_entity_input_def]]
  have b: "probe_record_entity_input_fn (bindings s) \<noteq> nullptr" "shim_runtime s \<noteq> nullptr"
    "live (runtime_memory p) (shim_runtime s)" using assms(1) by (simp_all add: ready_def all_bound_def)
  have same: "shim_runtime s' = shim_runtime s" "bindings s' = bindings s" by (subst f(1), simp)+
  have "call_probe_record_entity_input code (probe_record_entity_input_fn (bindings s)) (shim_runtime s) e
      (runtime_memory p) = (x, runtime_memory p')"
    using f(4,5) b by simp
  from input [OF b(3) this] assms(1) show ?thesis by (simp add: ready_def same) (metis snd_conv)
qed

lemma ready_mount:
  "ready s p k \<Longrightarrow> ready s (set_probe_mount_mask code bits s p) (k\<lparr>mount_mask := bits\<rparr>)"
  using mount by (auto simp: ready_def set_probe_mount_mask_def all_bound_def Let_def)

lemma ready_snapshot: "ready s p k \<Longrightarrow> probe_snapshot code out s p = (1, k)"
  using snapshot by (auto simp: ready_def probe_snapshot_def all_bound_def Let_def)

lemma ready_reset: "ready s p k \<Longrightarrow> ready s (probe_reset_counters code s p) (probe_reset k)"
  using reset by (auto simp: ready_def probe_reset_counters_def all_bound_def Let_def)

text \<open>The check succeeds on fresh counters and leaves them as fresh as it found them.\<close>

lemma exercise_succeeds:
  assumes "ready s p probe_new" "exercise_probe_abi w code s p = (ok, s', p')"
  shows "ok \<and> ready s' p' probe_new"
proof -
  obtain x1 s1 p1 where c1: "probe_record_damage w code zero_damage s p = (x1, s1, p1)"
    by (cases "probe_record_damage w code zero_damage s p")
  define p2 where "p2 = set_probe_mount_mask code 3 s1 p1"
  obtain x3 s3 p3 where c3: "probe_record_damage w code zero_damage s1 p2 = (x3, s3, p3)"
    by (cases "probe_record_damage w code zero_damage s1 p2")
  obtain x4 s4 p4 where c4: "probe_record_entity_input w code zero_entity_io s3 p3 = (x4, s4, p4)"
    by (cases "probe_record_entity_input w code zero_entity_io s3 p3")
  define p5 where "p5 = set_probe_mount_mask code 0 s4 p4"
  have one_two: "(1 OR 2 :: u32) = 3" "(3 AND 1 :: u32) = 1" "(3 AND 2 :: u32) = 2"
    by simp_all
  note counting = record_if_mounted_def probe_mount_def count_event_def probe_new_def one_two
  have x1: "x1 = 0" and r1: "ready s1 p1 probe_new"
    using ready_damage [OF assms(1) c1] by (simp_all add: counting)
  have r2: "ready s1 p2 (probe_new\<lparr>mount_mask := 3\<rparr>)"
    using ready_mount [OF r1, of 3] by (simp add: p2_def)
  let ?k3 = "probe_new\<lparr>mount_mask := 3, damage_seen := 1, damage_counted := 1\<rparr>"
  have x3: "x3 = 1" and r3: "ready s3 p3 ?k3"
    using ready_damage [OF r2 c3] by (simp_all add: counting)
  let ?k4 = "?k3\<lparr>entity_input_seen := 1, entity_input_counted := 1\<rparr>"
  have x4: "x4 = 1" and r4: "ready s4 p4 ?k4"
    using ready_input [OF r3 c4] by (simp_all add: counting)
  have r6: "ready s4 (probe_reset_counters code s4 p5) (probe_reset (?k4\<lparr>mount_mask := 0\<rparr>))"
    unfolding p5_def by (intro ready_reset ready_mount r4)
  have "probe_reset (?k4\<lparr>mount_mask := 0\<rparr>) = probe_new" by (simp add: probe_reset_def probe_new_def)
  moreover have "exercise_probe_abi w code s p = (True, s4, probe_reset_counters code s4 p5)"
    by (simp add: exercise_probe_abi_def c1 p2_def [symmetric] c3 c4 ready_snapshot [OF r4]
        p5_def [symmetric] x1 x3 x4 Let_def)
  ultimately show ?thesis using assms(2) r6 by simp
qed

lemma handshake:
  assumes "shim_inv s" "loaded s" "can_create (runtime_memory (snd (destroy_runtime code s p)))"
    and "create_runtime code error s p = (made, error', s1, p1)"
    and "exercise_probe_abi w code s1 p1 = (ok, s', p')"
  shows "made \<and> ok \<and> ready s' p' probe_new"
proof -
  obtain p0 where d: "destroy_runtime code s p = (s\<lparr>shim_runtime := nullptr\<rparr>, p0)"
    by (metis destroy_runtime_simps(1) prod.collapse)
  have b: "all_bound (bindings s)" using assms(1,2) by (simp add: shim_inv_def loaded_def)
  then have f: "runtime_new_fn (bindings s) \<noteq> nullptr" by (simp add: all_bound_def)
  obtain rt r' where n: "call_runtime_new code (runtime_new_fn (bindings s)) (runtime_memory p0) = (rt, r')"
    by (cases "call_runtime_new code (runtime_new_fn (bindings s)) (runtime_memory p0)")
  have rt: "rt \<noteq> nullptr \<and> live r' rt \<and> counters r' rt = probe_new"
    using create [OF _ n] assms(3) d by simp
  then have "made \<and> s1 = s\<lparr>shim_runtime := rt\<rparr> \<and> runtime_memory p1 = r'"
    using assms(4) f by (auto simp: create_runtime_def d Let_def on_runtime_def n)
  then have "made \<and> ready s1 p1 probe_new" using rt b by (simp add: ready_def)
  then show ?thesis using exercise_succeeds [OF _ assms(5)] by blast
qed

end

subsection \<open>The Rust runtime keeps the contract\<close>

text \<open>
  The exports of \<open>dwrt-runtime\<close> as the code behind the bindings; the addresses they have do not
  matter, and every event pointer the shim passes is the address of a local, so not null.
\<close>

definition rust_code :: "(runtime_heap \<Rightarrow> ptr) \<Rightarrow> runtime_heap runtime_code" where
  "rust_code alloc =
     \<lparr>call_abi_version = (\<lambda>_. dwrt_abi_version),
      call_runtime_new = (\<lambda>_. dwrt_runtime_new alloc),
      call_runtime_free = (\<lambda>_. dwrt_runtime_free),
      call_net_add_serialized = (\<lambda>_. dwrt_net_add_serialized),
      call_net_add_user_fast = (\<lambda>_. dwrt_net_add_user_fast),
      call_net_route = (\<lambda>_ rt d m has u h. (dwrt_net_route rt d m has u h, h)),
      call_usercmd_set_mount_mask = (\<lambda>_. dwrt_usercmd_set_mount_mask),
      call_usercmd_route = (\<lambda>_ rt h. (dwrt_usercmd_route rt h, h)),
      call_probe_set_mount_mask = (\<lambda>_. dwrt_probe_set_mount_mask),
      call_probe_record_damage = (\<lambda>_ rt e. dwrt_probe_record Damage_Event rt True),
      call_probe_record_entity_input = (\<lambda>_ rt e. dwrt_probe_record Entity_Input_Event rt True),
      call_probe_record_entity_output = (\<lambda>_ rt e. dwrt_probe_record Entity_Output_Event rt True),
      call_probe_record_entity_touch = (\<lambda>_ rt e. dwrt_probe_record Entity_Touch_Event rt True),
      call_probe_snapshot = (\<lambda>_. dwrt_probe_snapshot),
      call_probe_reset_counters = (\<lambda>_. dwrt_probe_reset_counters)\<rparr>"

definition rust_live :: "runtime_heap \<Rightarrow> ptr \<Rightarrow> bool" where
  "rust_live h rt \<longleftrightarrow> as_runtime h rt \<noteq> None"

definition rust_counters :: "runtime_heap \<Rightarrow> ptr \<Rightarrow> probe_counters" where
  "rust_counters h rt = (case as_runtime h rt of None \<Rightarrow> probe_new | Some r \<Rightarrow> probe r)"

lemma as_runtime_put: "as_runtime h rt \<noteq> None \<Longrightarrow> as_runtime (h(rt \<mapsto> r)) rt = Some r"
  by (auto simp: as_runtime_def)

lemma rust_record:
  assumes "rust_live h rt" "dwrt_probe_record e rt True h = (x, h')"
  shows "rust_live h' rt \<and> (x, rust_counters h' rt) = record_if_mounted e (rust_counters h rt)"
  using assms
  by (auto simp: rust_live_def rust_counters_def dwrt_probe_record_def as_runtime_put Let_def split: prod.splits)

interpretation rust: probe_abi "rust_code alloc" rust_live rust_counters "allocates alloc"
  for alloc
proof unfold_locales
  fix r f rt r'
  assume "allocates alloc r" "call_runtime_new (rust_code alloc) f r = (rt, r')"
  then show "rt \<noteq> nullptr \<and> rust_live r' rt \<and> rust_counters r' rt = probe_new"
    by (auto simp: rust_code_def dwrt_runtime_new_def allocates_def rust_live_def rust_counters_def
        as_runtime_def runtime_new_object_def)
next
  fix r rt f bits
  assume "rust_live r rt"
  then show "rust_live (call_probe_set_mount_mask (rust_code alloc) f rt bits r) rt \<and>
      rust_counters (call_probe_set_mount_mask (rust_code alloc) f rt bits r) rt =
        (rust_counters r rt)\<lparr>mount_mask := bits\<rparr>"
    by (auto simp: rust_code_def dwrt_probe_set_mount_mask_def rust_live_def rust_counters_def as_runtime_put)
next
  fix r rt f out
  assume "rust_live r rt"
  then show "call_probe_snapshot (rust_code alloc) f rt out r = (1, rust_counters r rt)"
    by (auto simp: rust_code_def dwrt_probe_snapshot_def rust_live_def rust_counters_def)
next
  fix r rt f
  assume "rust_live r rt"
  then show "rust_live (call_probe_reset_counters (rust_code alloc) f rt r) rt \<and>
      rust_counters (call_probe_reset_counters (rust_code alloc) f rt r) rt = probe_reset (rust_counters r rt)"
    by (auto simp: rust_code_def dwrt_probe_reset_counters_def rust_live_def rust_counters_def as_runtime_put)
qed (simp_all add: rust_code_def rust_record)

text \<open>C28. The host's check of the probe interface succeeds on the Rust runtime: after any history of the
  shim that leaves a library loaded, creating a runtime and exercising its probes reports success
  whenever the allocator can serve the box, and leaves the new runtime with no probe mounted and
  all its counters at zero.\<close>
theorem runtime_handshake_succeeds:
  assumes "shim_inv s" "loaded s"
    and "allocates alloc (runtime_memory (snd (destroy_runtime (rust_code alloc) s p)))"
    and "create_runtime (rust_code alloc) error s p = (made, error', s1, p1)"
    and "exercise_probe_abi w (rust_code alloc) s1 p1 = (ok, s', p')"
  shows "made \<and> ok \<and> rust_live (runtime_memory p') (shim_runtime s') \<and>
    rust_counters (runtime_memory p') (shim_runtime s') = probe_new"
  using rust.handshake [OF assms] by (simp add: rust.ready_def)

definition loaded_example :: shadow_shim where
  "loaded_example = (new_shadow_shim example_windows)
     \<lparr>shim_module := 0x180000000, bindings := bindings_of (\<lambda>_. 0x180001000),
      shim_counters := zero_shadow_counters\<lparr>runtime_loads := 1\<rparr>\<rparr>"

theorem runtime_handshake_succeeds_witness:
  "let (made, e, s1, p1) = create_runtime (rust_code (\<lambda>_. 0x5000)) [] loaded_example (example_process Map.empty)
   in made \<and> fst (exercise_probe_abi example_windows (rust_code (\<lambda>_. 0x5000)) s1 p1)"
proof -
  let ?c = "rust_code (\<lambda>_. 0x5000)"
  obtain made e s1 p1 where c: "create_runtime ?c [] loaded_example (example_process Map.empty) = (made, e, s1, p1)"
    by (cases "create_runtime ?c [] loaded_example (example_process Map.empty)")
  obtain ok s2 p2 where x: "exercise_probe_abi example_windows ?c s1 p1 = (ok, s2, p2)"
    by (cases "exercise_probe_abi example_windows ?c s1 p1")
  have "shim_inv loaded_example"
    by (simp add: shim_inv_def loaded_example_def zero_shadow_counters_def all_bound_bindings_of)
  moreover have "loaded loaded_example" by (simp add: loaded_def loaded_example_def)
  moreover have "allocates (\<lambda>_. 0x5000) (runtime_memory (snd (destroy_runtime ?c loaded_example (example_process Map.empty))))"
    by (simp add: allocates_def destroy_runtime_def Let_def loaded_example_def new_shadow_shim_def example_process_def)
  ultimately show ?thesis
    using runtime_handshake_succeeds [OF _ _ _ c x] by (simp add: c x)
qed

subsection \<open>The program \<open>dwrt_shadow_smoke\<close>\<close>

text \<open>
  \<open>smoke.cpp\<close> of the shim: the exit code of \<open>wmain\<close>.  What it prints and the destructor of the shim,
  which runs on every return, do not change the code.
\<close>

text \<open>The routes it asks for, after the runtime was created.\<close>

definition shadow_smoke_routes :: "windows \<Rightarrow> 'r runtime_code \<Rightarrow> shadow_shim \<Rightarrow> 'r process \<Rightarrow> nat" where
  "shadow_smoke_routes w c s p =
     (let (net_no_interest, s, p) = shadow_route_net w c 1 72 0 0 s p
      in if net_no_interest \<noteq> 0 then 4 else
     (let (ok, p) = add_net_user_fast c 314 s p
      in if \<not> ok then 5 else
     (let (net_fast, s, p) = shadow_route_net w c 1 72 1 314 s p
      in if net_fast \<noteq> 1 then 6 else
     (let (ok, p) = add_net_serialized c 1 72 s p
      in if \<not> ok then 7 else
     (let (net_fast_serialized, s, p) = shadow_route_net w c 1 72 1 314 s p
      in if net_fast_serialized \<noteq> 3 then 8 else
     (let (usercmd_count, s, p) = shadow_route_usercmd w c s p
      in if usercmd_count \<noteq> 1 then 9 else
     (let p = set_usercmd_mount_mask c 2 s p;
          (usercmd_fast, s, p) = shadow_route_usercmd w c s p
      in if usercmd_fast \<noteq> 2 then 10 else
     (let p = set_usercmd_mount_mask c (2 OR 1) s p;
          (usercmd_fast_full, s, p) = shadow_route_usercmd w c s p
      in if usercmd_fast_full \<noteq> 4 then 11 else 0))))))))"

definition shadow_smoke :: "windows \<Rightarrow> 'r runtime_code \<Rightarrow> wstring list \<Rightarrow> 'r process \<Rightarrow> nat" where
  "shadow_smoke w c argv p =
     (if length argv \<noteq> 2 then 64 else
     (let (ok, error, s, p) = load w c (argv ! 1) [] (new_shadow_shim w) p
      in if \<not> ok then 1
      else if abi_version c s \<noteq> 1 then 2 else
     (let (ok, error, s, p) = create_runtime c error s p
      in if \<not> ok then 3
         else shadow_smoke_routes w c (set_slow_threshold_ns 100000 (set_timing_enabled True s)) p)))"

text \<open>The shim serves the runtime object \<open>obj\<close>.\<close>

definition serves :: "shadow_shim \<Rightarrow> runtime_heap process \<Rightarrow> dwrt_runtime \<Rightarrow> bool" where
  "serves s p obj \<longleftrightarrow> all_bound (bindings s) \<and> shim_runtime s \<noteq> nullptr \<and>
     runtime_memory p (shim_runtime s) = Some obj"

lemma serves_forward:
  assumes "serves s p obj" "forward_route w f call count duration s p = (x, s', p')"
    and "f \<noteq> nullptr" "call f (shim_runtime s) (runtime_memory p) = (y, runtime_memory p)"
  shows "x = y \<and> serves s' p' obj"
proof -
  note f = forward_route_state [OF assms(2)]
  have same: "shim_runtime s' = shim_runtime s" "bindings s' = bindings s" by (subst f(1), simp)+
  show ?thesis using f(4,5) assms(1,3,4) by (simp add: serves_def same)
qed

lemma serves_route_net:
  assumes "serves s p obj" "shadow_route_net w (rust_code alloc) 1 m has u s p = (x, s', p')"
  shows "x = route_code (route_message (net obj) Outgoing m (if has \<noteq> 0 then Some u else None)) \<and> serves s' p' obj"
  using assms(1)
  by (intro serves_forward [OF assms(1) assms(2) [unfolded shadow_route_net_def]])
     (simp_all add: serves_def all_bound_def rust_code_def dwrt_net_route_def direction_from_i32_def as_runtime_def)

lemma serves_route_usercmd:
  assumes "serves s p obj" "shadow_route_usercmd w (rust_code alloc) s p = (x, s', p')"
  shows "x = usercmd_route_code (usercmd_route_of (usercmd obj)) \<and> serves s' p' obj"
  using assms(1)
  by (intro serves_forward [OF assms(1) assms(2) [unfolded shadow_route_usercmd_def]])
     (simp_all add: serves_def all_bound_def rust_code_def dwrt_usercmd_route_def as_runtime_def)

lemma serves_add:
  assumes "serves s p obj"
  shows "\<exists>p'. add_net_user_fast (rust_code alloc) i s p = (fst (net_add User_Fast i (net obj)), p') \<and>
      serves s p' (obj\<lparr>net := snd (net_add User_Fast i (net obj))\<rparr>)"
    "\<exists>p'. add_net_serialized (rust_code alloc) 1 i s p = (fst (net_add (Serialized Outgoing) i (net obj)), p') \<and>
      serves s p' (obj\<lparr>net := snd (net_add (Serialized Outgoing) i (net obj))\<rparr>)"
  using assms
  by (simp_all add: serves_def all_bound_def rust_code_def add_net_user_fast_def add_net_serialized_def
      dwrt_net_add_user_fast_def dwrt_net_add_serialized_def direction_from_i32_def add_interest_def
      as_runtime_def on_runtime_def Let_def split: prod.splits)

lemma serves_usercmd_mask:
  "serves s p obj \<Longrightarrow>
   serves s (set_usercmd_mount_mask (rust_code alloc) b s p) (obj\<lparr>usercmd := mount_from_bits_truncate b\<rparr>)"
  by (simp add: serves_def all_bound_def rust_code_def set_usercmd_mount_mask_def
      dwrt_usercmd_set_mount_mask_def as_runtime_def Let_def)

lemma tracked_examples: "tracked 314" "tracked 72"
  by (simp_all add: tracked_def DWRT_MAX_TRACKED_MESSAGE_ID_def)

lemma usercmd_route_examples:
  "usercmd_route_of 0 = CountOnly" "usercmd_route_of (mount_from_bits_truncate 2) = FastRead"
  "usercmd_route_of (mount_from_bits_truncate 3) = FastAndFull"
  by (simp_all add: usercmd_route_of_def mount_from_bits_truncate_def mount_contains_def Let_def)

lemma serves_setters:
  "serves (set_timing_enabled b s) p obj = serves s p obj"
  "serves (set_slow_threshold_ns ns s) p obj = serves s p obj"
  by (simp_all add: serves_def set_timing_enabled_def set_slow_threshold_ns_def)

lemma serves_created:
  assumes "shim_inv s" "loaded s" "allocates alloc (runtime_memory p)" "shim_runtime s = nullptr"
  shows "\<exists>s' p'. create_runtime (rust_code alloc) error s p = (True, error, s', p') \<and> serves s' p' runtime_new_object"
proof -
  have b: "all_bound (bindings s)" using assms(1,2) by (simp add: shim_inv_def loaded_def)
  then have "runtime_new_fn (bindings s) \<noteq> nullptr" by (simp add: all_bound_def)
  then show ?thesis
    using b assms(3,4)
    by (auto simp: create_runtime_def destroy_runtime_def Let_def on_runtime_def rust_code_def
        dwrt_runtime_new_def allocates_def serves_def)
qed

text \<open>The routing part of the program, from a shim that serves a new runtime object.\<close>

lemma smoke_routes:
  assumes s: "serves s p runtime_new_object"
  shows "shadow_smoke_routes w (rust_code alloc) s p = 0"
proof -
  let ?c = "rust_code alloc" and ?o = "runtime_new_object"
  let ?u = "Mount User_Fast 314" and ?m = "Mount (Serialized Outgoing) 72"
  have n0: "net ?o = net_after []" "usercmd ?o = 0" by (simp_all add: runtime_new_object_def)
  obtain x1 s1 p1 where r1: "shadow_route_net w ?c 1 72 0 0 s p = (x1, s1, p1)"
    by (cases "shadow_route_net w ?c 1 72 0 0 s p")
  have x1: "x1 = 0" and v1: "serves s1 p1 ?o"
    using serves_route_net [OF s r1] by (simp_all add: n0 route_by_mounts route_of_def route_code_def del: net_after.simps)
  obtain p2 where a2: "add_net_user_fast ?c 314 s1 p1 = (True, p2)"
    and v2: "serves s1 p2 (?o\<lparr>net := net_after [?u]\<rparr>)"
    using serves_add(1) [OF v1, of alloc 314] net_add_transition [of "[]" User_Fast 314] tracked_examples
    by (auto simp: n0)
  obtain x3 s3 p3 where r3: "shadow_route_net w ?c 1 72 1 314 s1 p2 = (x3, s3, p3)"
    by (cases "shadow_route_net w ?c 1 72 1 314 s1 p2")
  have x3: "x3 = 1" and v3: "serves s3 p3 (?o\<lparr>net := net_after [?u]\<rparr>)"
    using serves_route_net [OF v2 r3] tracked_examples
    by (simp_all add: route_by_mounts route_of_def route_code_def del: net_after.simps)
  obtain p4 where a4: "add_net_serialized ?c 1 72 s3 p3 = (True, p4)"
    and v4: "serves s3 p4 (?o\<lparr>net := net_after [?m, ?u]\<rparr>)"
    using serves_add(2) [OF v3, of alloc 72] net_add_transition [of "[?u]" "Serialized Outgoing" 72]
      tracked_examples
    by auto
  obtain x5 s5 p5 where r5: "shadow_route_net w ?c 1 72 1 314 s3 p4 = (x5, s5, p5)"
    by (cases "shadow_route_net w ?c 1 72 1 314 s3 p4")
  have x5: "x5 = 3" and v5: "serves s5 p5 (?o\<lparr>net := net_after [?m, ?u]\<rparr>)"
    using serves_route_net [OF v4 r5] tracked_examples
    by (simp_all add: route_by_mounts route_of_def route_code_def del: net_after.simps)
  obtain x6 s6 p6 where r6: "shadow_route_usercmd w ?c s5 p5 = (x6, s6, p6)"
    by (cases "shadow_route_usercmd w ?c s5 p5")
  have x6: "x6 = 1" and v6: "serves s6 p6 (?o\<lparr>net := net_after [?m, ?u]\<rparr>)"
    using serves_route_usercmd [OF v5 r6] by (simp_all add: n0 usercmd_route_examples usercmd_route_code_def)
  note v7 = serves_usercmd_mask [OF v6, of alloc 2]
  obtain x8 s8 p8 where r8: "shadow_route_usercmd w ?c s6 (set_usercmd_mount_mask ?c 2 s6 p6) = (x8, s8, p8)"
    by (cases "shadow_route_usercmd w ?c s6 (set_usercmd_mount_mask ?c 2 s6 p6)")
  have x8: "x8 = 2" using serves_route_usercmd [OF v7 r8] by (simp add: usercmd_route_examples usercmd_route_code_def)
  note v9 = serves_usercmd_mask [OF conjunct2 [OF serves_route_usercmd [OF v7 r8]], of alloc 3]
  obtain x9 s9 p9 where r9: "shadow_route_usercmd w ?c s8 (set_usercmd_mount_mask ?c 3 s8 p8) = (x9, s9, p9)"
    by (cases "shadow_route_usercmd w ?c s8 (set_usercmd_mount_mask ?c 3 s8 p8)")
  have x9: "x9 = 4" using serves_route_usercmd [OF v9 r9] by (simp add: usercmd_route_examples usercmd_route_code_def)
  have three: "(2 OR 1 :: u32) = 3" by simp
  show ?thesis
    unfolding shadow_smoke_routes_def three
    by (simp add: r1 a2 r3 a4 r5 r6 r8 r9 x1 x3 x5 x6 x8 x9)
qed

text \<open>C40. The smoke program exits with 0 on the Rust runtime, for whatever the clock says, when Windows
  finds the library with all its exports and the allocator can serve one box.\<close>
theorem shadow_smoke_passes:
  assumes "load_library_w w (moment p) path = h" "h \<noteq> nullptr"
    and "\<forall>x\<in>set export_names. get_proc_address w h x \<noteq> nullptr"
    and "allocates alloc (runtime_memory p)"
  shows "shadow_smoke w (rust_code alloc) [exe, path] p = 0"
proof -
  let ?c = "rust_code alloc" and ?s = "new_shadow_shim w"
  obtain ok error s1 p1 where l: "load w ?c path [] ?s p = (ok, error, s1, p1)"
    by (cases "load w ?c path [] ?s p")
  have u: "unload ?c ?s p = (?s, p)"
    by (simp add: unload_def destroy_runtime_def Let_def new_shadow_shim_def)
  note facts = load_cases [OF new_shim_inv l, unfolded u]
  have ok: "ok" using facts(1) assms(1-3) by simp
  have s1: "shim_inv s1" "loaded s1" "shim_runtime s1 = nullptr" "bindings s1 = bindings_of (get_proc_address w h)"
    using facts(2,3,4,5) ok assms(1,2) by (simp_all add: loaded_def)
  have mem: "runtime_memory p1 = runtime_memory p"
    using l by (auto simp: load_def u LoadLibraryW_def Let_def split: if_splits prod.splits)
  have abi: "abi_version ?c s1 = 1"
    using s1 by (simp add: abi_version_def shim_inv_def loaded_def all_bound_def rust_code_def dwrt_abi_version_def Let_def)
  obtain s2 p2 where c: "create_runtime ?c error s1 p1 = (True, error, s2, p2)"
    and v: "serves s2 p2 runtime_new_object"
    using serves_created [OF s1(1,2) _ s1(3), of alloc p1 error] assms(4) by (auto simp: mem)
  note routes = smoke_routes [of "set_slow_threshold_ns 100000 (set_timing_enabled True s2)" p2 w alloc,
      unfolded serves_setters, OF v]
  with ok show ?thesis
    by (simp add: shadow_smoke_def l abi c routes)
qed

definition complete_windows :: windows where
  "complete_windows = example_windows\<lparr>get_proc_address := (\<lambda>h name. 0x180001000)\<rparr>"

theorem shadow_smoke_passes_witness:
  "shadow_smoke complete_windows (rust_code (\<lambda>_. 0x5000)) [[], wide ''dwrt_runtime.dll''] (example_process Map.empty) = 0"
  by (rule shadow_smoke_passes [where h = "0x180000000"])
     (simp_all add: complete_windows_def example_windows_def allocates_def example_process_def)

end
