(* ===== verification/Host_Testpoints.thy ===== *)
theory Host_Testpoints
  imports Dwrt_Prelude
begin

section \<open>Host test points\<close>

text \<open>
  \<open>dwrt_host_testpoints.cpp\<close>: six atomic counters shared by every thread and a callback depth
  each thread keeps for itself.  The first part is the component as one thread sees it: the
  \<open>record_*\<close> functions, \<open>CallbackScope\<close> and the snapshot.  The second part is what the atomics are
  for: any number of threads that enter and leave callbacks at once, one atomic access a step,
  with the compare-and-swap loop of \<open>update_max_depth\<close> as it is written, spurious failures
  included.
\<close>

subsection \<open>State and operations\<close>

record testpoint_counters =
  g_initialize_calls :: u64
  g_initialize_reentrant_rejects :: u64
  g_shutdown_calls :: u64
  g_callback_entries :: u64
  g_callback_recursive_entries :: u64
  g_callback_max_depth :: u32

text \<open>The counters and the \<open>t_callback_depth\<close> of the thread that runs.\<close>

record testpoint_state = testpoint_counters +
  t_callback_depth :: u32

definition zero_testpoints :: testpoint_state where
  "zero_testpoints =
     \<lparr>g_initialize_calls = 0, g_initialize_reentrant_rejects = 0, g_shutdown_calls = 0,
      g_callback_entries = 0, g_callback_recursive_entries = 0, g_callback_max_depth = 0,
      t_callback_depth = 0\<rparr>"

definition record_initialize_call :: "('a testpoint_counters_scheme) \<Rightarrow> 'a testpoint_counters_scheme" where
  "record_initialize_call = inc g_initialize_calls_update"

definition record_initialize_reentrant_reject ::
  "('a testpoint_counters_scheme) \<Rightarrow> 'a testpoint_counters_scheme" where
  "record_initialize_reentrant_reject = inc g_initialize_reentrant_rejects_update"

definition record_shutdown_call :: "('a testpoint_counters_scheme) \<Rightarrow> 'a testpoint_counters_scheme" where
  "record_shutdown_call = inc g_shutdown_calls_update"

definition reset_testpoints :: "testpoint_state \<Rightarrow> testpoint_state" where
  "reset_testpoints s =
     s\<lparr>g_initialize_calls := 0, g_initialize_reentrant_rejects := 0, g_shutdown_calls := 0,
       g_callback_entries := 0, g_callback_recursive_entries := 0, g_callback_max_depth := 0,
       t_callback_depth := 0\<rparr>"

record testpoint_snapshot =
  initialize_calls :: u64
  initialize_reentrant_rejects :: u64
  shutdown_calls :: u64
  callback_entries :: u64
  callback_recursive_entries :: u64
  callback_current_depth :: u32
  callback_max_depth :: u32

definition take_testpoint_snapshot :: "testpoint_state \<Rightarrow> testpoint_snapshot" where
  "take_testpoint_snapshot s =
     \<lparr>initialize_calls = g_initialize_calls s,
      initialize_reentrant_rejects = g_initialize_reentrant_rejects s,
      shutdown_calls = g_shutdown_calls s,
      callback_entries = g_callback_entries s,
      callback_recursive_entries = g_callback_recursive_entries s,
      callback_current_depth = t_callback_depth s,
      callback_max_depth = g_callback_max_depth s\<rparr>"

text \<open>
  \<open>update_max_depth\<close> without interference: the value loaded is still there when it is compared,
  so one successful exchange ends the loop.  \<open>solo_update_max_depth\<close> below derives this from the
  loop.
\<close>

definition update_max_depth :: "u32 \<Rightarrow> ('a testpoint_counters_scheme) \<Rightarrow> 'a testpoint_counters_scheme" where
  "update_max_depth depth s =
     (if depth > g_callback_max_depth s then s\<lparr>g_callback_max_depth := depth\<rparr> else s)"

record callback_scope =
  point_id :: u32
  scope_depth :: u32
  recursive :: bool

definition callback_enter :: "u32 \<Rightarrow> testpoint_state \<Rightarrow> testpoint_state \<times> callback_scope" where
  "callback_enter pid s =
     (let sc = \<lparr>point_id = pid, scope_depth = t_callback_depth s + 1,
                recursive = t_callback_depth s \<noteq> 0\<rparr>;
          s = s\<lparr>t_callback_depth := scope_depth sc\<rparr>;
          s = inc g_callback_entries_update s;
          s = inc_if (recursive sc) g_callback_recursive_entries_update s
      in (update_max_depth (scope_depth sc) s, sc))"

definition callback_leave :: "testpoint_state \<Rightarrow> testpoint_state" where
  "callback_leave s =
     (if t_callback_depth s \<noteq> 0 then s\<lparr>t_callback_depth := t_callback_depth s - 1\<rparr> else s)"

subsection \<open>Nested callbacks\<close>

text \<open>
  A detour opens a \<open>CallbackScope\<close>, calls the engine, which may call the detour again any number
  of times, and closes the scope.
\<close>

datatype callback_call = Callback u32 "callback_call list"

fun run_callback :: "callback_call \<Rightarrow> testpoint_state \<Rightarrow> testpoint_state"
and run_callbacks :: "callback_call list \<Rightarrow> testpoint_state \<Rightarrow> testpoint_state" where
  "run_callback (Callback pid inner) s = callback_leave (run_callbacks inner (fst (callback_enter pid s)))"
| "run_callbacks [] s = s"
| "run_callbacks (c # cs) s = run_callbacks cs (run_callback c s)"

fun calls_in :: "callback_call \<Rightarrow> nat" and calls_in_list :: "callback_call list \<Rightarrow> nat" where
  "calls_in (Callback pid inner) = Suc (calls_in_list inner)"
| "calls_in_list [] = 0"
| "calls_in_list (c # cs) = calls_in c + calls_in_list cs"

fun nest_depth :: "callback_call \<Rightarrow> nat" and nest_depth_list :: "callback_call list \<Rightarrow> nat" where
  "nest_depth (Callback pid inner) = Suc (nest_depth_list inner)"
| "nest_depth_list [] = 0"
| "nest_depth_list (c # cs) = max (nest_depth c) (nest_depth_list cs)"

text \<open>What a nest of calls that starts at depth \<open>d\<close> leaves behind.\<close>

definition after_calls :: "nat \<Rightarrow> nat \<Rightarrow> nat \<Rightarrow> testpoint_state \<Rightarrow> testpoint_state" where
  "after_calls calls rec deepest s =
     s\<lparr>g_callback_entries := g_callback_entries s + of_nat calls,
       g_callback_recursive_entries := g_callback_recursive_entries s + of_nat rec,
       g_callback_max_depth := max (g_callback_max_depth s) (of_nat deepest)\<rparr>"

lemma after_calls_after_calls:
  assumes "d \<le> 4294967295" "e \<le> 4294967295"
  shows "after_calls n r d (after_calls m q e s) = after_calls (m + n) (q + r) (max e d) s"
proof -
  have "max (max x (of_nat e)) (of_nat d) = max x (of_nat (max e d) :: u32)" for x
    using assms by (auto simp: max_def word_le_nat_alt unat_of_nat_u32)
  then show ?thesis by (simp add: after_calls_def ac_simps)
qed

lemma t_callback_depth_after_calls [simp]: "t_callback_depth (after_calls n r d s) = t_callback_depth s"
  by (simp add: after_calls_def)

lemma after_calls_depth: "after_calls n r d (s\<lparr>t_callback_depth := x\<rparr>) = (after_calls n r d s)\<lparr>t_callback_depth := x\<rparr>"
  by (simp add: after_calls_def)

lemma after_no_calls [simp]: "after_calls 0 0 0 s = s"
  by (simp add: after_calls_def)

lemma enter_as_after_calls:
  "fst (callback_enter pid s) =
     (after_calls 1 (of_bool (t_callback_depth s \<noteq> 0)) (Suc (unat (t_callback_depth s))) s)
       \<lparr>t_callback_depth := t_callback_depth s + 1\<rparr>"
proof -
  have "of_nat (Suc (unat (t_callback_depth s))) = t_callback_depth s + 1" by simp
  then show ?thesis
    by (cases s) (auto simp: callback_enter_def update_max_depth_def after_calls_def Let_def max_def
        not_le add.commute)
qed

lemma depth_after_enter: "t_callback_depth (fst (callback_enter pid s)) = t_callback_depth s + 1"
  by (simp add: enter_as_after_calls)

lemma depth_of_scope: "scope_depth (snd (callback_enter pid s)) = t_callback_depth s + 1"
  by (simp add: callback_enter_def Let_def)

definition recursive_calls :: "u32 \<Rightarrow> nat \<Rightarrow> nat \<Rightarrow> nat" where
  "recursive_calls depth outermost calls = (if depth = 0 then calls - outermost else calls)"

definition deepest :: "u32 \<Rightarrow> callback_call list \<Rightarrow> nat" where
  "deepest depth cs = (if cs = [] then 0 else unat depth + nest_depth_list cs)"

lemma length_le_calls: "length cs \<le> calls_in_list cs"
proof (induction cs)
  case (Cons c cs)
  then show ?case by (cases c) simp
qed simp

lemma nest_depth_pos: "0 < nest_depth c"
  by (cases c) simp

lemma calls_in_pos: "0 < calls_in c"
  by (cases c) simp

lemma run_calls:
  "unat (t_callback_depth s) + nest_depth c \<le> 4294967295 \<Longrightarrow>
     run_callback c s = after_calls (calls_in c) (recursive_calls (t_callback_depth s) 1 (calls_in c))
       (unat (t_callback_depth s) + nest_depth c) s"
  "unat (t_callback_depth s) + nest_depth_list cs \<le> 4294967295 \<Longrightarrow>
     run_callbacks cs s =
       after_calls (calls_in_list cs) (recursive_calls (t_callback_depth s) (length cs) (calls_in_list cs))
         (deepest (t_callback_depth s) cs) s"
proof (induction c s and cs s rule: run_callback_run_callbacks.induct)
  case (1 pid inner s)
  let ?d = "t_callback_depth s" and ?s1 = "fst (callback_enter pid s)"
  have d: "unat ?d + Suc (nest_depth_list inner) \<le> 4294967295" using "1.prems" by simp
  then have u: "unat (?d + 1) = Suc (unat ?d)" by (simp add: unat_Suc_u32)
  then have nz: "?d + 1 \<noteq> 0" by force
  have t: "t_callback_depth ?s1 = ?d + 1" by (simp add: enter_as_after_calls)
  have "run_callbacks inner ?s1 =
      after_calls (calls_in_list inner) (calls_in_list inner) (deepest (?d + 1) inner) ?s1"
    using "1.IH" d nz by (simp add: t u recursive_calls_def)
  also have "\<dots> = (after_calls (calls_in_list inner) (calls_in_list inner) (deepest (?d + 1) inner)
      (after_calls 1 (of_bool (?d \<noteq> 0)) (Suc (unat ?d)) s))\<lparr>t_callback_depth := ?d + 1\<rparr>"
    by (simp add: enter_as_after_calls after_calls_depth)
  also have "\<dots> = (after_calls (Suc (calls_in_list inner)) (of_bool (?d \<noteq> 0) + calls_in_list inner)
      (max (Suc (unat ?d)) (deepest (?d + 1) inner)) s)\<lparr>t_callback_depth := ?d + 1\<rparr>"
    using d u by (subst after_calls_after_calls) (auto simp: deepest_def)
  finally have r: "run_callbacks inner ?s1 = \<dots>" .
  have m: "max (Suc (unat ?d)) (deepest (?d + 1) inner) = unat ?d + Suc (nest_depth_list inner)"
    using u by (auto simp: deepest_def)
  have "callback_leave (run_callbacks inner ?s1) =
      after_calls (Suc (calls_in_list inner)) (of_bool (?d \<noteq> 0) + calls_in_list inner)
        (unat ?d + Suc (nest_depth_list inner)) s"
    unfolding r m using nz by (simp add: callback_leave_def after_calls_def)
  then show ?case by (auto simp: recursive_calls_def)
next
  case (2 s)
  then show ?case by (simp add: recursive_calls_def deepest_def)
next
  case (3 c cs s)
  let ?d = "t_callback_depth s"
  have a: "run_callback c s = after_calls (calls_in c) (recursive_calls ?d 1 (calls_in c))
      (unat ?d + nest_depth c) s"
    using 3 by simp
  then have t: "t_callback_depth (run_callback c s) = ?d" by simp
  have b: "run_callbacks cs (run_callback c s) = after_calls (calls_in_list cs)
     (recursive_calls ?d (length cs) (calls_in_list cs)) (deepest ?d cs) (run_callback c s)"
    using "3.IH"(2) "3.prems" t by simp
  have r: "recursive_calls ?d 1 (calls_in c) + recursive_calls ?d (length cs) (calls_in_list cs) =
      recursive_calls ?d (Suc (length cs)) (calls_in c + calls_in_list cs)"
    using length_le_calls [of cs] calls_in_pos [of c] by (auto simp: recursive_calls_def)
  have e: "max (unat ?d + nest_depth c) (deepest ?d cs) = deepest ?d (c # cs)"
    by (auto simp: deepest_def)
  have "deepest ?d cs \<le> 4294967295" "unat ?d + nest_depth c \<le> 4294967295"
    using "3.prems" by (auto simp: deepest_def)
  then show ?case
    unfolding run_callbacks.simps b unfolding a by (simp add: after_calls_after_calls r [simplified] e)
qed

text \<open>A nest of callbacks that a thread starts at depth \<open>d\<close> and that is not deep enough to wrap
  the 32 bit depth leaves the depth at \<open>d\<close>, adds one entry for every call and one recursive entry
  for every call but an outermost one, and raises the maximum to exactly the deepest level it
  reached; the other counters stay.\<close>
theorem callback_nest_counted:
  assumes "unat (t_callback_depth s) + nest_depth c \<le> 4294967295"
  shows "run_callback c s =
     s\<lparr>g_callback_entries := g_callback_entries s + of_nat (calls_in c),
       g_callback_recursive_entries := g_callback_recursive_entries s
         + of_nat (if t_callback_depth s = 0 then calls_in c - 1 else calls_in c),
       g_callback_max_depth := max (g_callback_max_depth s) (t_callback_depth s + of_nat (nest_depth c))\<rparr>"
  using run_calls(1) [OF assms] by (simp add: after_calls_def recursive_calls_def)

theorem callback_nest_counted_witness:
  "let c = Callback 5 [Callback 5 [], Callback 6 [Callback 5 []]];
       s = zero_testpoints\<lparr>t_callback_depth := 2\<rparr>
   in g_callback_max_depth (run_callback c s) = 5 \<and> g_callback_entries (run_callback c s) = 4 \<and>
      t_callback_depth (run_callback c s) = 2"
  using callback_nest_counted [of "zero_testpoints\<lparr>t_callback_depth := 2\<rparr>"
      "Callback 5 [Callback 5 [], Callback 6 [Callback 5 []]]"]
  by (simp add: zero_testpoints_def)

subsection \<open>Callbacks of several threads\<close>

text \<open>
  A thread is in one of the places between two accesses to shared memory: outside the constructor,
  about to count its entry, about to count a recursive entry, about to load the maximum, or about
  to exchange it with the value \<open>previous\<close> it read.  \<open>threads\<close> are the threads by index; \<open>entered\<close>
  is history only, the depths of the scopes opened so far, newest first.
\<close>

datatype place = Outside | Count_Entry | Count_Recursive | Load_Max | Exchange u32

record callback_thread =
  place :: place
  thread_depth :: u32

record callback_system =
  shared :: testpoint_counters
  threads :: "callback_thread list"
  entered :: "u32 list"

text \<open>What a step of one thread does to the counters: the places of the constructor in turn.\<close>

inductive thread_step ::
  "testpoint_counters \<times> callback_thread \<Rightarrow> testpoint_counters \<times> callback_thread \<Rightarrow> bool" where
  count_entry: "place t = Count_Entry \<Longrightarrow>
     thread_step (g, t) (inc g_callback_entries_update g, t\<lparr>place := Count_Recursive\<rparr>)"
| count_recursive: "place t = Count_Recursive \<Longrightarrow>
     thread_step (g, t)
       (inc_if (thread_depth t - 1 \<noteq> 0) g_callback_recursive_entries_update g, t\<lparr>place := Load_Max\<rparr>)"
| load_max: "place t = Load_Max \<Longrightarrow>
     thread_step (g, t) (g, t\<lparr>place := Exchange (g_callback_max_depth g)\<rparr>)"
| not_deeper: "place t = Exchange previous \<Longrightarrow> \<not> thread_depth t > previous \<Longrightarrow>
     thread_step (g, t) (g, t\<lparr>place := Outside\<rparr>)"
| exchanged: "place t = Exchange previous \<Longrightarrow> thread_depth t > previous \<Longrightarrow>
     g_callback_max_depth g = previous \<Longrightarrow>
     thread_step (g, t) (g\<lparr>g_callback_max_depth := thread_depth t\<rparr>, t\<lparr>place := Outside\<rparr>)"
| exchange_failed: "place t = Exchange previous \<Longrightarrow> thread_depth t > previous \<Longrightarrow>
     thread_step (g, t) (g, t\<lparr>place := Exchange (g_callback_max_depth g)\<rparr>)"
| leave: "place t = Outside \<Longrightarrow> thread_depth t \<noteq> 0 \<Longrightarrow>
     thread_step (g, t) (g, t\<lparr>thread_depth := thread_depth t - 1\<rparr>)"

inductive system_step :: "callback_system \<Rightarrow> callback_system \<Rightarrow> bool" where
  enter: "i < length (threads s) \<Longrightarrow> threads s ! i = t \<Longrightarrow> place t = Outside \<Longrightarrow>
     system_step s
       (s\<lparr>threads := (threads s)[i := t\<lparr>place := Count_Entry, thread_depth := thread_depth t + 1\<rparr>],
          entered := (thread_depth t + 1) # entered s\<rparr>)"
| inside: "i < length (threads s) \<Longrightarrow> thread_step (shared s, threads s ! i) (g, t) \<Longrightarrow>
     system_step s (s\<lparr>shared := g, threads := (threads s)[i := t]\<rparr>)"

text \<open>Any number of threads, none inside a callback, after \<open>reset_testpoints\<close>.\<close>

definition initial_callback_system :: "nat \<Rightarrow> callback_system" where
  "initial_callback_system n =
     \<lparr>shared = \<lparr>g_initialize_calls = 0, g_initialize_reentrant_rejects = 0, g_shutdown_calls = 0,
        g_callback_entries = 0, g_callback_recursive_entries = 0, g_callback_max_depth = 0\<rparr>,
      threads = replicate n \<lparr>place = Outside, thread_depth = 0\<rparr>, entered = []\<rparr>"

abbreviation reachable_callbacks :: "nat \<Rightarrow> callback_system \<Rightarrow> bool" where
  "reachable_callbacks n s \<equiv> system_step\<^sup>*\<^sup>* (initial_callback_system n) s"

definition uncounted :: "callback_thread \<Rightarrow> u64" where
  "uncounted t = of_bool (place t = Count_Entry)"

definition uncounted_recursive :: "callback_thread \<Rightarrow> u64" where
  "uncounted_recursive t =
     of_bool ((place t = Count_Entry \<or> place t = Count_Recursive) \<and> thread_depth t - 1 \<noteq> 0)"

text \<open>
  The invariant: the counters and what the threads have still to count make up the history; the
  maximum is the depth of some entry or zero; an entry above it belongs to a thread that is still
  in its loop; and no thread compares with more than the maximum.
\<close>

definition callbacks_inv :: "callback_system \<Rightarrow> bool" where
  "callbacks_inv s \<longleftrightarrow>
     g_callback_entries (shared s) + sum_list (map uncounted (threads s)) = of_nat (length (entered s)) \<and>
     g_callback_recursive_entries (shared s) + sum_list (map uncounted_recursive (threads s))
       = of_nat (length (filter (\<lambda>d. d - 1 \<noteq> 0) (entered s))) \<and>
     g_callback_max_depth (shared s) \<in> insert 0 (set (entered s)) \<and>
     (\<forall>d\<in>set (entered s). d \<le> g_callback_max_depth (shared s) \<or>
        (\<exists>t\<in>set (threads s). place t \<noteq> Outside \<and> thread_depth t = d)) \<and>
     (\<forall>t\<in>set (threads s). place t \<noteq> Outside \<longrightarrow> thread_depth t \<in> set (entered s)) \<and>
     (\<forall>t\<in>set (threads s). \<forall>p. place t = Exchange p \<longrightarrow> p \<le> g_callback_max_depth (shared s))"

lemma sum_list_map_update:
  "i < length xs \<Longrightarrow> sum_list (map f (xs[i := y])) = sum_list (map f xs) - f (xs ! i) + (f y :: u64)"
  by (induction xs arbitrary: i) (auto split: nat.splits simp: nth_Cons)

lemma sum_list_moved:
  assumes "i < length xs" and "a' + f y = a + (f (xs ! i) :: u64)"
  shows "a' + sum_list (map f (xs[i := y])) = a + sum_list (map f xs)"
proof -
  have "a' + sum_list (map f (xs[i := y])) = (a' + f y) + (sum_list (map f xs) - f (xs ! i))"
    by (simp add: sum_list_map_update [OF assms(1)])
  then show ?thesis by (simp add: assms(2))
qed

lemma callbacks_inv_initial: "callbacks_inv (initial_callback_system n)"
  by (simp add: callbacks_inv_def initial_callback_system_def uncounted_def uncounted_recursive_def
      sum_list_replicate)

text \<open>What a single step keeps, clause by clause.\<close>

lemma thread_step_facts:
  assumes "thread_step (g, t) (g', t')"
  shows "g_callback_entries g' + uncounted t' = g_callback_entries g + uncounted t"
    and "g_callback_recursive_entries g' + uncounted_recursive t' =
      g_callback_recursive_entries g + uncounted_recursive t"
    and "g_callback_max_depth g \<le> g_callback_max_depth g'"
    and "g_callback_max_depth g' = g_callback_max_depth g \<or>
      place t \<noteq> Outside \<and> g_callback_max_depth g' = thread_depth t"
    and "place t' \<noteq> Outside \<Longrightarrow> place t \<noteq> Outside \<and> thread_depth t' = thread_depth t"
    and "place t \<noteq> Outside \<Longrightarrow> (\<And>p. place t = Exchange p \<Longrightarrow> p \<le> g_callback_max_depth g) \<Longrightarrow>
      place t' \<noteq> Outside \<or> thread_depth t \<le> g_callback_max_depth g'"
    and "place t' = Exchange p \<Longrightarrow> p \<le> g_callback_max_depth g'"
  using assms
  by (cases rule: thread_step.cases;
      auto simp: uncounted_def uncounted_recursive_def ac_simps not_less intro: order_trans)+

lemma callbacks_inv_enter:
  assumes inv: "callbacks_inv s" and i: "i < length (threads s)" "place (threads s ! i) = Outside"
  shows "callbacks_inv
       (s\<lparr>threads := (threads s)[i := (threads s ! i)
            \<lparr>place := Count_Entry, thread_depth := thread_depth (threads s ! i) + 1\<rparr>],
          entered := (thread_depth (threads s ! i) + 1) # entered s\<rparr>)"
  (is "callbacks_inv (s\<lparr>threads := (threads s)[i := ?t], entered := ?d # entered s\<rparr>)")
proof -
  have old: "t \<in> set ((threads s)[i := ?t])" if "t \<in> set (threads s)" "place t \<noteq> Outside" for t
    using that i by (metis in_set_conv_nth length_list_update nth_list_update_neq)
  have new: "?t \<in> set ((threads s)[i := ?t])" using i by (simp add: set_update_memI)
  have sub: "t = ?t \<or> t \<in> set (threads s)" if "t \<in> set ((threads s)[i := ?t])" for t
    using that set_update_subset_insert [of "threads s" i ?t] by auto
  have "uncounted (threads s ! i) = 0" "uncounted_recursive (threads s ! i) = 0"
    using i by (simp_all add: uncounted_def uncounted_recursive_def)
  moreover have "uncounted ?t = 1" "uncounted_recursive ?t = of_bool (?d - 1 \<noteq> 0)"
    by (simp_all add: uncounted_def uncounted_recursive_def)
  ultimately have sums:
    "sum_list (map uncounted ((threads s)[i := ?t])) = sum_list (map uncounted (threads s)) + 1"
    "sum_list (map uncounted_recursive ((threads s)[i := ?t])) =
       sum_list (map uncounted_recursive (threads s)) + of_bool (?d - 1 \<noteq> 0)"
    using i by (simp_all add: sum_list_map_update)
  have seen: "d \<le> g_callback_max_depth (shared s) \<or>
      (\<exists>t\<in>set ((threads s)[i := ?t]). place t \<noteq> Outside \<and> thread_depth t = d)"
    if "d \<in> set (entered s)" for d
    using inv that old unfolding callbacks_inv_def by blast
  have seen_new: "\<exists>t\<in>set ((threads s)[i := ?t]). place t \<noteq> Outside \<and> thread_depth t = ?d"
    using new by (intro bexI [of _ ?t]) simp_all
  have ins: "thread_depth t \<in> set (?d # entered s)"
    if "t \<in> set ((threads s)[i := ?t])" "place t \<noteq> Outside" for t
    using sub [OF that(1)] that(2) inv unfolding callbacks_inv_def by auto
  have ex: "p \<le> g_callback_max_depth (shared s)"
    if "t \<in> set ((threads s)[i := ?t])" "place t = Exchange p" for t p
    using sub [OF that(1)] that(2) inv unfolding callbacks_inv_def by auto
  show ?thesis
    unfolding callbacks_inv_def
    using inv seen seen_new ins ex
    by (simp add: sums callbacks_inv_def add.assoc [symmetric] del: set_ConsD) blast
qed

lemma callbacks_inv_inside:
  assumes inv: "callbacks_inv s" and i: "i < length (threads s)"
    and st: "thread_step (shared s, threads s ! i) (g, t)"
  shows "callbacks_inv (s\<lparr>shared := g, threads := (threads s)[i := t]\<rparr>)"
proof -
  note facts = thread_step_facts [OF st]
  let ?u = "threads s ! i" and ?ts = "(threads s)[i := t]"
  have u: "?u \<in> set (threads s)" using i by simp
  have sub: "v = t \<or> v \<in> set (threads s)" if "v \<in> set ?ts" for v
    using that set_update_subset_insert [of "threads s" i t] by auto
  have new: "t \<in> set ?ts" using i by (simp add: set_update_memI)
  have other: "v = ?u \<or> v \<in> set ?ts" if "v \<in> set (threads s)" for v
    using that i by (metis in_set_conv_nth length_list_update nth_list_update_neq)
  have deep: "place v \<noteq> Outside \<Longrightarrow> thread_depth v \<in> set (entered s)"
    and ex: "place v = Exchange p \<Longrightarrow> p \<le> g_callback_max_depth (shared s)" if "v \<in> set (threads s)" for v p
    using inv that unfolding callbacks_inv_def by blast+
  have c1: "g_callback_entries g + sum_list (map uncounted ?ts) = of_nat (length (entered s))"
    using inv by (simp add: sum_list_moved [OF i facts(1)] callbacks_inv_def)
  have c2: "g_callback_recursive_entries g + sum_list (map uncounted_recursive ?ts) =
      of_nat (length (filter (\<lambda>d. d - 1 \<noteq> 0) (entered s)))"
    using inv by (simp add: sum_list_moved [OF i facts(2)] callbacks_inv_def)
  have c3: "g_callback_max_depth g \<in> insert 0 (set (entered s))"
    using inv facts(4) deep [OF u] unfolding callbacks_inv_def by auto
  have c4: "d \<le> g_callback_max_depth g \<or> (\<exists>v\<in>set ?ts. place v \<noteq> Outside \<and> thread_depth v = d)"
    if d: "d \<in> set (entered s)" for d
  proof -
    consider "d \<le> g_callback_max_depth (shared s)"
      | v where "v \<in> set (threads s)" "place v \<noteq> Outside" "thread_depth v = d"
      using inv d unfolding callbacks_inv_def by blast
    then show ?thesis
    proof cases
      case 1
      then show ?thesis using facts(3) by (meson order_trans)
    next
      case 2
      show ?thesis
      proof (cases "v \<in> set ?ts")
        case True
        then show ?thesis using 2 by blast
      next
        case False
        then have v: "v = ?u" using other [OF 2(1)] by simp
        then have "place t \<noteq> Outside \<or> d \<le> g_callback_max_depth g"
          using facts(6) ex [OF u] 2 by blast
        then show ?thesis using facts(5) new 2(3) v by blast
      qed
    qed
  qed
  have c5: "thread_depth v \<in> set (entered s)" if "v \<in> set ?ts" "place v \<noteq> Outside" for v
    using sub [OF that(1)] deep facts(5) u that(2) by metis
  have c6: "p \<le> g_callback_max_depth g" if "v \<in> set ?ts" "place v = Exchange p" for v p
    using sub [OF that(1)] ex facts(3,7) that(2) by (meson order_trans)
  show ?thesis
    unfolding callbacks_inv_def using c1 c2 c3 c4 c5 c6 by simp
qed

lemma callbacks_inv_step: "system_step s s' \<Longrightarrow> callbacks_inv s \<Longrightarrow> callbacks_inv s'"
  by (induction rule: system_step.induct) (simp_all add: callbacks_inv_inside, metis callbacks_inv_enter)

lemma callbacks_inv_reachable [invariants]: "reachable_callbacks n s \<Longrightarrow> callbacks_inv s"
  by (induction rule: rtranclp_induct) (auto intro: callbacks_inv_initial callbacks_inv_step)

definition deepest_entry :: "u32 list \<Rightarrow> u32" where
  "deepest_entry ds = fold max ds 0"

lemma fold_max_upper: "d \<in> insert x (set ds) \<Longrightarrow> d \<le> fold max ds (x :: u32)"
proof (induction ds arbitrary: x d)
  case (Cons a ds)
  show ?case
  proof (cases "d \<in> set ds")
    case False
    then have "d \<le> max a x" using Cons.prems by auto
    also have "max a x \<le> fold max ds (max a x)" by (rule Cons.IH) simp
    finally show ?thesis by simp
  qed (simp add: Cons.IH)
qed simp

lemma fold_max_in: "fold max ds x \<in> insert (x :: u32) (set ds)"
proof (induction ds arbitrary: x)
  case (Cons d ds)
  from Cons [of "max d x"] show ?case by (auto simp: max_def split: if_splits)
qed simp

lemma deepest_entry_unique:
  assumes "m \<in> insert 0 (set ds)" "\<And>d. d \<in> set ds \<Longrightarrow> d \<le> m"
  shows "m = deepest_entry ds"
  using fold_max_upper [OF assms(1)] fold_max_in [of ds 0] assms(2)
  by (auto simp: deepest_entry_def intro: antisym)

text \<open>C12. However the threads interleave, at any moment where no thread is inside a constructor the
  entry counter is the number of scopes opened, the recursive counter the number of those that were
  opened at a depth other than zero, and the maximum is the greatest depth any scope had: no
  update is lost in the exchange loop.\<close>
theorem callback_counters_exact:
  assumes "reachable_callbacks n s" and "\<forall>t\<in>set (threads s). place t = Outside"
  shows "g_callback_entries (shared s) = of_nat (length (entered s)) \<and>
    g_callback_recursive_entries (shared s) = of_nat (length (filter (\<lambda>d. d - 1 \<noteq> 0) (entered s))) \<and>
    g_callback_max_depth (shared s) = deepest_entry (entered s)"
proof -
  from assms(1) have inv: "callbacks_inv s" by (rule callbacks_inv_reachable)
  have z: "map uncounted (threads s) = map (\<lambda>_. 0) (threads s)"
    "map uncounted_recursive (threads s) = map (\<lambda>_. 0) (threads s)"
    using assms(2) by (simp_all add: uncounted_def uncounted_recursive_def)
  have "g_callback_max_depth (shared s) = deepest_entry (entered s)"
    using inv assms(2) by (intro deepest_entry_unique) (auto simp: callbacks_inv_def)
  then show ?thesis using inv unfolding callbacks_inv_def z by simp
qed

text \<open>
  Two threads race: both open a scope and load the maximum 0, the first opens a second scope after
  its exchange, and the exchange of the other thread fails once.
\<close>

lemma enter_at:
  "i < length ts \<Longrightarrow> place (ts ! i) = Outside \<Longrightarrow>
   system_step \<lparr>shared = g, threads = ts, entered = ds\<rparr>
     \<lparr>shared = g, threads = ts[i := (ts ! i)\<lparr>place := Count_Entry, thread_depth := thread_depth (ts ! i) + 1\<rparr>],
      entered = (thread_depth (ts ! i) + 1) # ds\<rparr>"
  using system_step.enter [of i "\<lparr>shared = g, threads = ts, entered = ds\<rparr>" "ts ! i"] by simp

lemma inside_at:
  "i < length ts \<Longrightarrow> thread_step (g, ts ! i) (g', t) \<Longrightarrow>
   system_step \<lparr>shared = g, threads = ts, entered = ds\<rparr>
     \<lparr>shared = g', threads = ts[i := t], entered = ds\<rparr>"
  using system_step.inside [of i "\<lparr>shared = g, threads = ts, entered = ds\<rparr>" g' t] by simp

definition two_threads :: "callback_thread \<Rightarrow> callback_thread \<Rightarrow> u64 \<Rightarrow> u32 \<Rightarrow> u32 list \<Rightarrow> callback_system" where
  "two_threads t u n m ds =
     \<lparr>shared = \<lparr>g_initialize_calls = 0, g_initialize_reentrant_rejects = 0, g_shutdown_calls = 0,
        g_callback_entries = n, g_callback_recursive_entries = 0, g_callback_max_depth = m\<rparr>,
      threads = [t, u], entered = ds\<rparr>"

abbreviation at_place :: "place \<Rightarrow> u32 \<Rightarrow> callback_thread" where
  "at_place p d \<equiv> \<lparr>place = p, thread_depth = d\<rparr>"

lemmas step_first = inside_at [where i = 0 and ts = "[t, u]" for t u, simplified]
lemmas step_second = inside_at [where i = 1 and ts = "[t, u]" for t u, simplified]

lemma race_reachable:
  "reachable_callbacks 2 (two_threads (at_place Outside 1) (at_place Outside 1) 2 1 [1, 1])"
proof -
  have init: "initial_callback_system 2 = two_threads (at_place Outside 0) (at_place Outside 0) 0 0 []"
    by (simp add: initial_callback_system_def two_threads_def numeral_2_eq_2)
  have "system_step\<^sup>*\<^sup>* (two_threads (at_place Outside 0) (at_place Outside 0) 0 0 [])
      (two_threads (at_place Count_Entry 1) (at_place Outside 0) 0 0 [1])"
    using enter_at [of 0 "[at_place Outside 0, at_place Outside 0]"]
    by (intro r_into_rtranclp) (simp add: two_threads_def)
  also have "system_step\<^sup>*\<^sup>* \<dots> (two_threads (at_place Count_Entry 1) (at_place Count_Entry 1) 0 0 [1, 1])"
    using enter_at [of 1 "[at_place Count_Entry 1, at_place Outside 0]"]
    by (intro r_into_rtranclp) (simp add: two_threads_def)
  also have "system_step\<^sup>*\<^sup>* \<dots> (two_threads (at_place Count_Recursive 1) (at_place Count_Entry 1) 1 0 [1, 1])"
    unfolding two_threads_def
    by (intro r_into_rtranclp step_first) (simp add: thread_step.simps)
  also have "system_step\<^sup>*\<^sup>* \<dots> (two_threads (at_place Count_Recursive 1) (at_place Count_Recursive 1) 2 0 [1, 1])"
    unfolding two_threads_def
    by (intro r_into_rtranclp step_second) (simp add: thread_step.simps)
  also have "system_step\<^sup>*\<^sup>* \<dots> (two_threads (at_place Load_Max 1) (at_place Count_Recursive 1) 2 0 [1, 1])"
    unfolding two_threads_def
    by (intro r_into_rtranclp step_first) (simp add: thread_step.simps)
  also have "system_step\<^sup>*\<^sup>* \<dots> (two_threads (at_place Load_Max 1) (at_place Load_Max 1) 2 0 [1, 1])"
    unfolding two_threads_def
    by (intro r_into_rtranclp step_second) (simp add: thread_step.simps)
  also have "system_step\<^sup>*\<^sup>* \<dots> (two_threads (at_place (Exchange 0) 1) (at_place Load_Max 1) 2 0 [1, 1])"
    unfolding two_threads_def
    by (intro r_into_rtranclp step_first) (simp add: thread_step.simps)
  also have "system_step\<^sup>*\<^sup>* \<dots> (two_threads (at_place (Exchange 0) 1) (at_place (Exchange 0) 1) 2 0 [1, 1])"
    unfolding two_threads_def
    by (intro r_into_rtranclp step_second) (simp add: thread_step.simps)
  also have "system_step\<^sup>*\<^sup>* \<dots> (two_threads (at_place Outside 1) (at_place (Exchange 0) 1) 2 1 [1, 1])"
    unfolding two_threads_def
    by (intro r_into_rtranclp step_first) (simp add: thread_step.simps)
  also have "system_step\<^sup>*\<^sup>* \<dots> (two_threads (at_place Outside 1) (at_place (Exchange 1) 1) 2 1 [1, 1])"
    unfolding two_threads_def
    by (intro r_into_rtranclp step_second) (simp add: thread_step.simps)
  also have "system_step\<^sup>*\<^sup>* \<dots> (two_threads (at_place Outside 1) (at_place Outside 1) 2 1 [1, 1])"
    unfolding two_threads_def
    by (intro r_into_rtranclp step_second) (simp add: thread_step.simps)
  finally show ?thesis unfolding init .
qed

theorem callback_counters_exact_witness:
  "g_callback_max_depth (shared (two_threads (at_place Outside 1) (at_place Outside 1) 2 1 [1, 1])) = deepest_entry [1, 1]"
  using callback_counters_exact [OF race_reachable] by (simp add: two_threads_def)

text \<open>Run by one thread without failures, the steps of the constructor are \<open>callback_enter\<close>.\<close>

lemma solo_update_max_depth:
  "thread_step\<^sup>*\<^sup>* (g, at_place Load_Max d) (update_max_depth d g, at_place Outside d)"
proof -
  have "thread_step\<^sup>*\<^sup>* (g, at_place Load_Max d) (g, at_place (Exchange (g_callback_max_depth g)) d)"
    by (intro r_into_rtranclp) (simp add: thread_step.simps)
  also have "thread_step\<^sup>*\<^sup>* \<dots> (update_max_depth d g, at_place Outside d)"
    by (intro r_into_rtranclp) (auto simp: thread_step.simps update_max_depth_def)
  finally show ?thesis .
qed

lemma update_max_depth_truncate:
  "testpoint_counters.truncate (update_max_depth d s) = update_max_depth d (testpoint_counters.truncate s)"
  by (simp add: update_max_depth_def testpoint_counters.truncate_def)

text \<open>The constructor as one function is one of the schedules of its steps: a thread that runs
  alone from the start of the constructor can reach its end with the counters \<open>callback_enter\<close>
  computes.\<close>
theorem constructor_is_a_schedule:
  "thread_step\<^sup>*\<^sup>*
     (testpoint_counters.truncate s, at_place Count_Entry (scope_depth (snd (callback_enter pid s))))
     (testpoint_counters.truncate (fst (callback_enter pid s)),
      at_place Outside (t_callback_depth (fst (callback_enter pid s))))"
proof -
  let ?d = "t_callback_depth s + 1" and ?g = "testpoint_counters.truncate s"
  let ?g1 = "inc g_callback_entries_update ?g"
  let ?g2 = "inc_if (?d - 1 \<noteq> 0) g_callback_recursive_entries_update ?g1"
  have "thread_step\<^sup>*\<^sup>* (?g, at_place Count_Entry ?d) (?g1, at_place Count_Recursive ?d)"
    by (intro r_into_rtranclp) (simp add: thread_step.simps)
  also have "thread_step\<^sup>*\<^sup>* \<dots> (?g2, at_place Load_Max ?d)"
    by (intro r_into_rtranclp) (simp add: thread_step.simps)
  also have "thread_step\<^sup>*\<^sup>* \<dots> (update_max_depth ?d ?g2, at_place Outside ?d)"
    by (rule solo_update_max_depth)
  also have "update_max_depth ?d ?g2 = testpoint_counters.truncate (fst (callback_enter pid s))"
    by (simp add: callback_enter_def Let_def update_max_depth_truncate)
       (simp add: testpoint_counters.truncate_def)
  finally show ?thesis unfolding depth_after_enter depth_of_scope .
qed

subsection \<open>The program \<open>testpoints_smoke\<close>\<close>

text \<open>
  \<open>testpoints_smoke.cpp\<close>, from the state a fresh process has: the value \<open>main\<close> returns.  The two
  blocks are the scopes \<open>outer\<close> and \<open>inner\<close>; the early returns in them close the scopes that are
  open, which no later check sees.
\<close>

definition testpoints_smoke :: "testpoint_state \<Rightarrow> nat" where
  "testpoints_smoke s =
     (let s = reset_testpoints s;
          s = record_initialize_call s;
          s = record_initialize_reentrant_reject s;
          s = record_shutdown_call s;
          (s, outer) = callback_enter 1 s
      in if recursive outer \<or> scope_depth outer \<noteq> 1 \<or> point_id outer \<noteq> 1 then 1
      else
     (let (s, inner) = callback_enter 1 s
      in if \<not> recursive inner \<or> scope_depth inner \<noteq> 2 \<or> point_id inner \<noteq> 1 then 2
      else
     (let s = callback_leave (callback_leave s);
          snapshot = take_testpoint_snapshot s
      in if initialize_calls snapshot \<noteq> 1 then 3
      else if initialize_reentrant_rejects snapshot \<noteq> 1 then 4
      else if shutdown_calls snapshot \<noteq> 1 then 5
      else if callback_entries snapshot \<noteq> 2 then 6
      else if callback_recursive_entries snapshot \<noteq> 1 then 7
      else if callback_current_depth snapshot \<noteq> 0 then 8
      else if callback_max_depth snapshot \<noteq> 2 then 9
      else 0)))"

text \<open>The smoke program passes from every state of the counters, not only a fresh one.\<close>
theorem testpoints_smoke_passes: "testpoints_smoke s = 0"
  by (simp add: testpoints_smoke_def reset_testpoints_def record_initialize_call_def
      record_initialize_reentrant_reject_def record_shutdown_call_def callback_enter_def
      callback_leave_def update_max_depth_def take_testpoint_snapshot_def Let_def)

end
