(* ===== verification/Entity_Access.thy ===== *)
theory Entity_Access
  imports Engine_Memory
begin

section \<open>Entities of the game server\<close>

text \<open>
  What the probes know of the server's objects, with the offsets of their build: the team byte of
  an entity, the identity it points to, the name in that identity.  These are the accesses the
  probes make without protection (\<open>entity_identity\<close> of \<open>dwrt_friendly_fire.cpp\<close> and
  \<open>dwrt_walker_patrol.cpp\<close>), where \<open>None\<close> is an access violation that ends the process; the
  protected variants are in the theory of the target probe.
\<close>

definition team_field :: "ptr \<Rightarrow> ptr" where
  "team_field entity = entity + 0x33c"

definition entity_identity :: "engine_memory \<Rightarrow> ptr \<Rightarrow> ptr option" where
  "entity_identity m entity = (if entity = nullptr then Some nullptr else load64 m (entity + 0x10))"

text \<open>\<open>EntityIdentityLite::designer_name\<close> stands behind four pointers and two 32 bit fields.\<close>

definition designer_name_field :: "ptr \<Rightarrow> ptr" where
  "designer_name_field identity = identity + 0x20"

definition objective_names :: "string list" where
  "objective_names =
     [''npc_boss_tier1'', ''alt_npc_boss_tier1'', ''CNPC_Boss_Tier1'',
      ''npc_boss_tier2'', ''alt_npc_boss_tier2'', ''CNPC_Boss_Tier2'',
      ''npc_boss_tier3'', ''alt_npc_boss_tier3'', ''CNPC_Boss_Tier3'',
      ''npc_trooper_boss'', ''alt_npc_trooper_boss'', ''CNPC_TrooperBoss'', ''CNPC_BarrackBoss'']"

definition walker_names :: "string list" where
  "walker_names = [''npc_boss_tier2'', ''alt_npc_boss_tier2'', ''CNPC_Boss_Tier2'']"

lemma walkers_are_objectives: "set walker_names \<subseteq> set objective_names"
  by (simp add: walker_names_def objective_names_def)

text \<open>
  A test on a name through an unprotected pointer: null and empty names fail, otherwise the whole
  C string is read.
\<close>

definition name_among :: "string list \<Rightarrow> engine_memory \<Rightarrow> ptr \<Rightarrow> bool option" where
  "name_among names m p =
     (if p = nullptr then Some False
      else do {
        c \<leftarrow> load8 m p;
        if c = 0 then Some False
        else do { name \<leftarrow> c_string m p; Some (name \<in> set names) }
      })"

definition opposing_team :: "u8 \<Rightarrow> u8" where
  "opposing_team team = (if team = 2 then 3 else if team = 3 then 2 else 0)"

lemma opposing_team_simps [simp]:
  "opposing_team 2 = 3" "opposing_team 3 = 2" "opposing_team 0 = 0"
  "opposing_team t = 0 \<longleftrightarrow> t \<noteq> 2 \<and> t \<noteq> 3"
  by (auto simp: opposing_team_def)

lemma opposing_team_involution: "opposing_team t \<noteq> 0 \<Longrightarrow> opposing_team (opposing_team t) = t"
  by (auto simp: opposing_team_def split: if_splits)

lemma opposing_team_neq: "opposing_team t \<noteq> 0 \<Longrightarrow> opposing_team t \<noteq> t"
  by (auto simp: opposing_team_def split: if_splits)

lemma name_among_c_string:
  assumes "p \<noteq> nullptr" "c_string m p = Some name"
  shows "name_among names m p = Some (name \<noteq> [] \<and> name \<in> set names)"
proof -
  from assms(2) obtain b where b: "load8 m p = Some b"
    by (subst (asm) c_string.simps) (auto split: option.splits)
  then have "b = 0 \<longleftrightarrow> name = []"
    using assms(2) by (subst (asm) c_string.simps) (auto split: if_splits simp: bind_eq_Some_conv)
  with assms b show ?thesis by (auto simp: name_among_def)
qed

end
