(* ===== verification/Memory_Scopes.thy ===== *)
theory Memory_Scopes
  imports Engine_Memory
begin

section \<open>Scopes that change memory and undo it\<close>

text \<open>
  Two probes open a scope before they hand a callback to the engine and close it afterwards:
  \<open>begin_friendly_fire_damage\<close> / \<open>end_friendly_fire_damage\<close> and \<open>begin_target_filter\<close> /
  \<open>finish_target_filter\<close>.  The engine may re-enter the hook before it returns, so the scopes nest.
  A nesting is a tree of calls; \<open>run_scoped\<close> is what the two detours do around the engine.  The
  locale \<open>memory_scope\<close> is the contract of an open/close pair, and the theorems in it say what
  the contract gives for every nesting.
\<close>

datatype 'a scoped_call = Scoped 'a "'a scoped_call list"

fun run_scoped ::
  "('s \<Rightarrow> engine_memory \<Rightarrow> 'a \<Rightarrow> ('s \<times> engine_memory \<times> 'c) option)
     \<Rightarrow> ('s \<Rightarrow> engine_memory \<Rightarrow> 'c \<Rightarrow> ('s \<times> engine_memory) option)
     \<Rightarrow> 'a scoped_call \<Rightarrow> 's \<times> engine_memory \<Rightarrow> ('s \<times> engine_memory) option"
and run_scoped_list ::
  "('s \<Rightarrow> engine_memory \<Rightarrow> 'a \<Rightarrow> ('s \<times> engine_memory \<times> 'c) option)
     \<Rightarrow> ('s \<Rightarrow> engine_memory \<Rightarrow> 'c \<Rightarrow> ('s \<times> engine_memory) option)
     \<Rightarrow> 'a scoped_call list \<Rightarrow> 's \<times> engine_memory \<Rightarrow> ('s \<times> engine_memory) option"
where
  "run_scoped op cl (Scoped a inner) s =
     (case op (fst s) (snd s) a of
        None \<Rightarrow> None
      | Some (st1, m1, sc) \<Rightarrow>
          (case run_scoped_list op cl inner (st1, m1) of
             None \<Rightarrow> None
           | Some (st2, m2) \<Rightarrow> cl st2 m2 sc))"
| "run_scoped_list op cl [] s = Some s"
| "run_scoped_list op cl (c # cs) s =
     (case run_scoped op cl c s of None \<Rightarrow> None | Some s' \<Rightarrow> run_scoped_list op cl cs s')"

locale memory_scope =
  fixes open_scope :: "'s \<Rightarrow> engine_memory \<Rightarrow> 'a \<Rightarrow> ('s \<times> engine_memory \<times> 'c) option"
    and close_scope :: "'s \<Rightarrow> engine_memory \<Rightarrow> 'c \<Rightarrow> ('s \<times> engine_memory) option"
    and inv :: "'s \<Rightarrow> bool"
    and pending :: "'s \<Rightarrow> u64"
    and weight :: "'c \<Rightarrow> u64"
  assumes open_ok: "inv s \<Longrightarrow> open_scope s m a = Some (s1, m1, sc)
                      \<Longrightarrow> inv s1 \<and> pending s1 = pending s + weight sc"
    and close_ok: "inv s \<Longrightarrow> open_scope s m a = Some (s1, m1, sc) \<Longrightarrow> inv s'
                      \<Longrightarrow> \<exists>s2. close_scope s' m1 sc = Some (s2, m) \<and> inv s2
                            \<and> pending s2 = pending s' - weight sc"
begin

text \<open>The memory is as before, nothing stays pending, and the invariant holds.\<close>

definition undone :: "'s \<times> engine_memory \<Rightarrow> 's \<times> engine_memory \<Rightarrow> bool" where
  "undone s s' \<longleftrightarrow> snd s' = snd s \<and> inv (fst s') \<and> pending (fst s') = pending (fst s)"

lemma undone_trans: "undone s s1 \<Longrightarrow> undone s1 s2 \<Longrightarrow> undone s s2"
  by (simp add: undone_def)

lemma run_list_undone:
  assumes "\<And>c s s'. c \<in> set cs \<Longrightarrow> run_scoped open_scope close_scope c s = Some s' \<Longrightarrow> inv (fst s)
      \<Longrightarrow> undone s s'"
    and "run_scoped_list open_scope close_scope cs s = Some s'" "inv (fst s)"
  shows "undone s s'"
  using assms
proof (induction cs arbitrary: s)
  case Nil
  then show ?case by (simp add: undone_def)
next
  case (Cons c cs)
  then obtain s1 where s1: "run_scoped open_scope close_scope c s = Some s1"
    "run_scoped_list open_scope close_scope cs s1 = Some s'"
    by (cases "run_scoped open_scope close_scope c s") simp_all
  have u: "undone s s1" using Cons.prems(1) [of c] s1(1) Cons.prems(3) by simp
  then have "inv (fst s1)" by (simp add: undone_def)
  then have "undone s1 s'" by (intro Cons.IH [OF _ s1(2)] Cons.prems(1)) simp_all
  with u show ?case by (rule undone_trans)
qed

lemma run_undone:
  "run_scoped open_scope close_scope c s = Some s' \<Longrightarrow> inv (fst s) \<Longrightarrow> undone s s'"
proof (induction c arbitrary: s s')
  case (Scoped a inner)
  then obtain s1 m1 sc s2 m2 where o: "open_scope (fst s) (snd s) a = Some (s1, m1, sc)"
    and r: "run_scoped_list open_scope close_scope inner (s1, m1) = Some (s2, m2)"
    and c: "close_scope s2 m2 sc = Some s'"
    by (auto split: option.splits prod.splits)
  have i1: "inv s1 \<and> pending s1 = pending (fst s) + weight sc" using open_ok [OF Scoped.prems(2) o] .
  have u: "undone (s1, m1) (s2, m2)"
    by (rule run_list_undone [OF Scoped.IH r]) (simp_all add: i1)
  then have "inv s2" "m2 = m1" by (simp_all add: undone_def)
  with close_ok [OF Scoped.prems(2) o, of s2] c u i1 show ?case by (auto simp: undone_def)
qed

end

end
