(* ===== verification/Friendly_Fire.thy ===== *)
theory Friendly_Fire
  imports Entity_Access Environment_Config Memory_Scopes
begin

section \<open>The friendly fire experiment\<close>

text \<open>
  Model of \<open>native/dwrt-host/dwrt_friendly_fire.cpp\<close>.  Around a damage callback the team byte of
  an objective of the local team is replaced by the opposing team and written back afterwards.
  The state holds the configuration and the counters of \<open>g_friendly_fire\<close> (the atomics are read and
  written one at a time on the callback's thread, so a callback is a function of the state); the
  memory of the server is passed along.  All accesses of this component are unprotected: \<open>None\<close>
  is an access violation.
\<close>

record friendly_fire_state =
  ff_enabled :: u32
  ff_mode :: u32
  ff_scope :: u32
  ff_local_team :: u32
  ff_damage_callbacks :: u64
  ff_skipped_recursive :: u64
  ff_missing_identity :: u64
  ff_missing_designer_name :: u64
  ff_non_objective_victims :: u64
  ff_objective_candidates :: u64
  ff_invalid_team :: u64
  ff_team_spoof_attempts :: u64
  ff_team_spoof_applied :: u64
  ff_team_spoof_restored :: u64

record friendly_fire_scope =
  fs_entity :: ptr
  fs_original_team :: u8
  fs_applied :: u8

definition empty_ff_scope :: friendly_fire_scope where
  "empty_ff_scope = \<lparr>fs_entity = nullptr, fs_original_team = 0, fs_applied = 0\<rparr>"

definition initial_friendly_fire :: friendly_fire_state where
  "initial_friendly_fire =
     \<lparr>ff_enabled = 0, ff_mode = 0, ff_scope = 1, ff_local_team = 2,
      ff_damage_callbacks = 0,
      ff_skipped_recursive = 0,
      ff_missing_identity = 0,
      ff_missing_designer_name = 0,
      ff_non_objective_victims = 0,
      ff_objective_candidates = 0,
      ff_invalid_team = 0,
      ff_team_spoof_attempts = 0,
      ff_team_spoof_applied = 0,
      ff_team_spoof_restored = 0\<rparr>"

definition configure_friendly_fire_from_environment ::
  "process_env \<Rightarrow> friendly_fire_state \<Rightarrow> friendly_fire_state" where
  "configure_friendly_fire_from_environment env st =
     (let enabled = env_flag_enabled env ''DWRT_FRIENDLY_FIRE_EXPERIMENT'' \<or>
                    env_flag_enabled env ''DWRT_FRIENDLY_FIRE_OBJECTIVE_TEAM_SPOOF''
      in st\<lparr>ff_enabled := (if enabled then 1 else 0),
            ff_mode := (if enabled then 1 else 0),
            ff_scope := 1,
            ff_local_team := ff_env_u32_or env ''DWRT_FRIENDLY_FIRE_LOCAL_TEAM'' 2\<rparr>)"

definition reset_friendly_fire_counters :: "friendly_fire_state \<Rightarrow> friendly_fire_state" where
  "reset_friendly_fire_counters st =
     st\<lparr>ff_damage_callbacks := 0,
        ff_skipped_recursive := 0,
        ff_missing_identity := 0,
        ff_missing_designer_name := 0,
        ff_non_objective_victims := 0,
        ff_objective_candidates := 0,
        ff_invalid_team := 0,
        ff_team_spoof_attempts := 0,
        ff_team_spoof_applied := 0,
        ff_team_spoof_restored := 0\<rparr>"

text \<open>\<open>fetch_add(1)\<close> on one of the counters.\<close>

abbreviation "inc_damage_callbacks \<equiv> ff_damage_callbacks_update (\<lambda>n. n + 1)"
abbreviation "inc_skipped_recursive \<equiv> ff_skipped_recursive_update (\<lambda>n. n + 1)"
abbreviation "inc_missing_identity \<equiv> ff_missing_identity_update (\<lambda>n. n + 1)"
abbreviation "inc_missing_designer_name \<equiv> ff_missing_designer_name_update (\<lambda>n. n + 1)"
abbreviation "inc_non_objective_victims \<equiv> ff_non_objective_victims_update (\<lambda>n. n + 1)"
abbreviation "inc_objective_candidates \<equiv> ff_objective_candidates_update (\<lambda>n. n + 1)"
abbreviation "inc_invalid_team \<equiv> ff_invalid_team_update (\<lambda>n. n + 1)"
abbreviation "inc_team_spoof_attempts \<equiv> ff_team_spoof_attempts_update (\<lambda>n. n + 1)"
abbreviation "inc_team_spoof_applied \<equiv> ff_team_spoof_applied_update (\<lambda>n. n + 1)"
abbreviation "inc_team_spoof_restored \<equiv> ff_team_spoof_restored_update (\<lambda>n. n + 1)"

text \<open>
  What the callback finds out about the victim, in the order of its early returns: no identity,
  no designer name, a name outside the objectives, an objective.
\<close>

datatype victim_class = Without_Identity | Without_Name | Not_Objective | Objective

definition victim_kind :: "engine_memory \<Rightarrow> ptr \<Rightarrow> victim_class option" where
  "victim_kind m entity =
     do {
       identity \<leftarrow> entity_identity m entity;
       if identity = nullptr then Some Without_Identity
       else do {
         name \<leftarrow> load64 m (designer_name_field identity);
         named \<leftarrow> (if name = nullptr then Some False else map_option (\<lambda>c. c \<noteq> 0) (load8 m name));
         if \<not> named then Some Without_Name
         else map_option (\<lambda>b. if b then Objective else Not_Objective) (name_among objective_names m name)
       }
     }"

text \<open>The spoof itself, on an objective.\<close>

definition spoof_objective ::
  "friendly_fire_state \<Rightarrow> engine_memory \<Rightarrow> ptr
     \<Rightarrow> (friendly_fire_state \<times> engine_memory \<times> friendly_fire_scope) option" where
  "spoof_objective st m entity =
     (case load8 m (team_field entity) of
        None \<Rightarrow> None
      | Some original_team \<Rightarrow>
          if ff_local_team st \<noteq> 0 \<and> original_team \<noteq> ucast (ff_local_team st)
          then Some (st, m, empty_ff_scope)
          else if opposing_team original_team = 0
          then Some (inc_invalid_team st, m, empty_ff_scope)
          else
            (case store8 m (team_field entity) (opposing_team original_team) of
               None \<Rightarrow> None
             | Some m' \<Rightarrow>
                 Some (inc_team_spoof_applied (inc_team_spoof_attempts st), m',
                       \<lparr>fs_entity = entity, fs_original_team = original_team, fs_applied = 1\<rparr>)))"

definition begin_friendly_fire_damage ::
  "friendly_fire_state \<Rightarrow> engine_memory \<Rightarrow> ptr \<Rightarrow> bool
     \<Rightarrow> (friendly_fire_state \<times> engine_memory \<times> friendly_fire_scope) option" where
  "begin_friendly_fire_damage st m entity recursive =
     (if ff_enabled st = 0 \<or> ff_mode st \<noteq> 1 then Some (st, m, empty_ff_scope)
      else if recursive
      then Some (inc_skipped_recursive (inc_damage_callbacks st), m, empty_ff_scope)
      else
        (case victim_kind m entity of
           None \<Rightarrow> None
         | Some Without_Identity \<Rightarrow> Some (inc_missing_identity (inc_damage_callbacks st), m, empty_ff_scope)
         | Some Without_Name \<Rightarrow> Some (inc_missing_designer_name (inc_damage_callbacks st), m, empty_ff_scope)
         | Some Not_Objective \<Rightarrow> Some (inc_non_objective_victims (inc_damage_callbacks st), m, empty_ff_scope)
         | Some Objective \<Rightarrow>
             spoof_objective (inc_objective_candidates (inc_damage_callbacks st)) m entity))"

definition end_friendly_fire_damage ::
  "friendly_fire_state \<Rightarrow> engine_memory \<Rightarrow> friendly_fire_scope
     \<Rightarrow> (friendly_fire_state \<times> engine_memory) option" where
  "end_friendly_fire_damage st m scope =
     (if fs_applied scope = 0 \<or> fs_entity scope = nullptr then Some (st, m)
      else do {
        m' \<leftarrow> store8 m (team_field (fs_entity scope)) (fs_original_team scope);
        Some (inc_team_spoof_restored st, m')
      })"

text \<open>The snapshot structure has the fields of the state; every one of them is loaded.\<close>

definition friendly_fire_snapshot :: "friendly_fire_state \<Rightarrow> friendly_fire_state" where
  "friendly_fire_snapshot st =
     \<lparr>ff_enabled = ff_enabled st,
      ff_mode = ff_mode st,
      ff_scope = ff_scope st,
      ff_local_team = ff_local_team st,
      ff_damage_callbacks = ff_damage_callbacks st,
      ff_skipped_recursive = ff_skipped_recursive st,
      ff_missing_identity = ff_missing_identity st,
      ff_missing_designer_name = ff_missing_designer_name st,
      ff_non_objective_victims = ff_non_objective_victims st,
      ff_objective_candidates = ff_objective_candidates st,
      ff_invalid_team = ff_invalid_team st,
      ff_team_spoof_attempts = ff_team_spoof_attempts st,
      ff_team_spoof_applied = ff_team_spoof_applied st,
      ff_team_spoof_restored = ff_team_spoof_restored st\<rparr>"

lemma friendly_fire_snapshot_id [simp]: "friendly_fire_snapshot st = st"
  by (simp add: friendly_fire_snapshot_def)

subsection \<open>What a scope does to memory\<close>

lemma victim_kind_null [simp]: "victim_kind m nullptr = Some Without_Identity"
  by (simp add: victim_kind_def entity_identity_def)

text \<open>The ways a scope can open: a quiet one that touches nothing, or a spoof.\<close>

definition quiet_step :: "friendly_fire_state \<Rightarrow> friendly_fire_state \<Rightarrow> bool" where
  "quiet_step st st1 \<longleftrightarrow>
     st1 \<in> {st, inc_skipped_recursive (inc_damage_callbacks st),
            inc_missing_identity (inc_damage_callbacks st),
            inc_missing_designer_name (inc_damage_callbacks st),
            inc_non_objective_victims (inc_damage_callbacks st),
            inc_objective_candidates (inc_damage_callbacks st),
            inc_invalid_team (inc_objective_candidates (inc_damage_callbacks st))}"

definition spoof_step :: "friendly_fire_state \<Rightarrow> friendly_fire_state" where
  "spoof_step st = inc_team_spoof_applied (inc_team_spoof_attempts
     (inc_objective_candidates (inc_damage_callbacks st)))"

lemma spoof_objective_cases:
  assumes "spoof_objective st m entity = Some (st1, m1, sc)"
  obtains (idle) "sc = empty_ff_scope" "m1 = m" "st1 = st \<or> st1 = inc_invalid_team st"
  | (spoofed) team where "load8 m (team_field entity) = Some team"
      "opposing_team team \<noteq> 0" "store8 m (team_field entity) (opposing_team team) = Some m1"
      "sc = \<lparr>fs_entity = entity, fs_original_team = team, fs_applied = 1\<rparr>"
      "st1 = inc_team_spoof_applied (inc_team_spoof_attempts st)"
      "ff_local_team st = 0 \<or> team = ucast (ff_local_team st)"
proof -
  obtain team where team: "load8 m (team_field entity) = Some team"
    using assms by (cases "load8 m (team_field entity)") (simp_all add: spoof_objective_def)
  show thesis
  proof (cases "ff_local_team st \<noteq> 0 \<and> team \<noteq> ucast (ff_local_team st) \<or> opposing_team team = 0")
    case True
    with assms team have "sc = empty_ff_scope \<and> m1 = m \<and> (st1 = st \<or> st1 = inc_invalid_team st)"
      by (simp add: spoof_objective_def split: if_splits)
    with idle show thesis by blast
  next
    case False
    then obtain m' where m': "store8 m (team_field entity) (opposing_team team) = Some m'"
      using assms team by (cases "store8 m (team_field entity) (opposing_team team)")
        (auto simp: spoof_objective_def simp del: opposing_team_simps)
    then have "m1 = m' \<and> st1 = inc_team_spoof_applied (inc_team_spoof_attempts st) \<and>
        sc = \<lparr>fs_entity = entity, fs_original_team = team, fs_applied = 1\<rparr>"
      using assms team False
      by (auto simp: spoof_objective_def simp del: opposing_team_simps split: if_splits)
    with m' False team spoofed show thesis by blast
  qed
qed

lemma begin_friendly_fire_cases:
  assumes "begin_friendly_fire_damage st m entity recursive = Some (st1, m1, sc)"
  obtains (idle) "sc = empty_ff_scope" "m1 = m" "quiet_step st st1"
  | (spoofed) team where "entity \<noteq> nullptr" "load8 m (team_field entity) = Some team"
      "opposing_team team \<noteq> 0" "store8 m (team_field entity) (opposing_team team) = Some m1"
      "sc = \<lparr>fs_entity = entity, fs_original_team = team, fs_applied = 1\<rparr>"
      "st1 = spoof_step st" "ff_local_team st = 0 \<or> team = ucast (ff_local_team st)"
      "victim_kind m entity = Some Objective"
proof (cases "ff_enabled st \<noteq> 0 \<and> ff_mode st = 1 \<and> \<not> recursive \<and> victim_kind m entity = Some Objective")
  case False
  with assms have "sc = empty_ff_scope \<and> m1 = m \<and> quiet_step st st1"
    by (simp add: begin_friendly_fire_damage_def quiet_step_def
        split: if_splits option.splits victim_class.splits)
  with idle show thesis by blast
next
  case True
  let ?st = "inc_objective_candidates (inc_damage_callbacks st)"
  from True assms have "spoof_objective ?st m entity = Some (st1, m1, sc)"
    by (simp add: begin_friendly_fire_damage_def)
  moreover have "entity \<noteq> nullptr" using True by auto
  ultimately show thesis
  proof (cases rule: spoof_objective_cases [consumes 1])
    case idle
    then have "quiet_step st st1" by (auto simp: quiet_step_def)
    then show thesis using that(1) idle by blast
  next
    case (spoofed team)
    with True \<open>entity \<noteq> nullptr\<close> show thesis
      by (intro that(2) [of team]) (simp_all add: spoof_step_def)
  qed
qed

lemma end_idle [simp]: "end_friendly_fire_damage st m empty_ff_scope = Some (st, m)"
  by (simp add: end_friendly_fire_damage_def empty_ff_scope_def)

lemma end_after_begin:
  assumes "begin_friendly_fire_damage st m entity recursive = Some (st1, m1, sc)"
  shows "\<exists>st2. end_friendly_fire_damage st1' m1 sc = Some (st2, m)"
  using assms
proof (cases rule: begin_friendly_fire_cases)
  case idle
  then show ?thesis by simp
next
  case (spoofed team)
  then obtain n where "store8 m1 (team_field entity) team = Some n \<and> n = m"
    using byte_cell.spoof_restore by blast
  with spoofed show ?thesis by (simp add: end_friendly_fire_damage_def)
qed

text \<open>
  The same when the engine has changed memory while the scope was open: only the team byte is
  written back.
\<close>

lemma end_after_engine:
  assumes "begin_friendly_fire_damage st m entity recursive = Some (st1, m1, sc)"
    and "fs_applied sc \<noteq> 0" "can_write m2 (team_field entity)"
  shows "\<exists>st2 m3. end_friendly_fire_damage st1' m2 sc = Some (st2, m3)
     \<and> load8 m3 (team_field entity) = load8 m (team_field entity)
     \<and> (\<forall>b. b \<noteq> team_field entity \<longrightarrow> load8 m3 b = load8 m2 b)"
  using assms(1)
proof (cases rule: begin_friendly_fire_cases)
  case idle
  with assms(2) show ?thesis by (simp add: empty_ff_scope_def)
next
  case (spoofed team)
  obtain m3 where m3: "store8 m2 (team_field entity) team = Some m3"
    using assms(3) store8_eq_None_iff [of m2 "team_field entity" team] by auto
  with spoofed have "end_friendly_fire_damage st1' m2 sc = Some (inc_team_spoof_restored st1', m3)"
    by (simp add: end_friendly_fire_damage_def)
  then show ?thesis
    using spoofed(2) load8_store8_same [OF m3] load8_store8_other [OF m3] by auto
qed

subsection \<open>Counters\<close>

text \<open>
  Every callback that reaches the probe is accounted for by exactly one outcome, every attempted
  spoof is applied; counters are 64 bit words, so the sums hold modulo their width.
\<close>

definition ff_balanced :: "friendly_fire_state \<Rightarrow> bool" where
  "ff_balanced st \<longleftrightarrow>
     ff_damage_callbacks st = ff_skipped_recursive st + ff_missing_identity st +
       ff_missing_designer_name st + ff_non_objective_victims st + ff_objective_candidates st \<and>
     ff_team_spoof_attempts st = ff_team_spoof_applied st"

text \<open>The spoofs that are in force: applied and not yet restored.\<close>

definition ff_open_spoofs :: "friendly_fire_state \<Rightarrow> u64" where
  "ff_open_spoofs st = ff_team_spoof_applied st - ff_team_spoof_restored st"

lemma reset_ff_balanced [invariants]: "ff_balanced (reset_friendly_fire_counters st)"
  by (simp add: ff_balanced_def reset_friendly_fire_counters_def)

lemma initial_balanced [invariants]: "ff_balanced initial_friendly_fire"
  by (simp add: ff_balanced_def initial_friendly_fire_def)

lemma configure_balanced [invariants]:
  "ff_balanced (configure_friendly_fire_from_environment env st) = ff_balanced st"
  by (simp add: ff_balanced_def configure_friendly_fire_from_environment_def Let_def)

lemma quiet_step_facts [counting]:
  "quiet_step st st1 \<Longrightarrow> ff_balanced st1 = ff_balanced st \<and> ff_open_spoofs st1 = ff_open_spoofs st"
  unfolding quiet_step_def
  by (elim insertE emptyE) (simp_all add: ff_balanced_def ff_open_spoofs_def ac_simps)

lemma spoof_step_facts [counting]:
  "ff_balanced (spoof_step st) = ff_balanced st \<and> ff_open_spoofs (spoof_step st) = ff_open_spoofs st + 1"
  by (simp add: spoof_step_def ff_balanced_def ff_open_spoofs_def ac_simps)

lemma begin_balanced [invariants]:
  assumes "begin_friendly_fire_damage st m entity recursive = Some (st1, m1, sc)"
  shows "ff_balanced st1 = ff_balanced st"
  using assms by (cases rule: begin_friendly_fire_cases) (simp_all add: counting)

lemma end_balanced [invariants]:
  assumes "end_friendly_fire_damage st m sc = Some (st1, m1)"
  shows "ff_balanced st1 = ff_balanced st"
  using assms
  by (auto simp: end_friendly_fire_damage_def bind_eq_Some_conv ff_balanced_def split: if_splits)

lemma begin_open_spoofs [counting]:
  assumes "begin_friendly_fire_damage st m entity recursive = Some (st1, m1, sc)"
  shows "ff_open_spoofs st1 = ff_open_spoofs st + of_bool (fs_applied sc \<noteq> 0)"
  using assms
  by (cases rule: begin_friendly_fire_cases)
    (simp_all add: quiet_step_facts spoof_step_facts empty_ff_scope_def)

lemma end_open_spoofs [counting]:
  assumes "end_friendly_fire_damage st m sc = Some (st1, m1)" "fs_applied sc \<noteq> 0 \<Longrightarrow> fs_entity sc \<noteq> nullptr"
  shows "ff_open_spoofs st1 = ff_open_spoofs st - of_bool (fs_applied sc \<noteq> 0)"
  using assms
  by (auto simp: end_friendly_fire_damage_def bind_eq_Some_conv ff_open_spoofs_def split: if_splits)

lemma begin_scope_entity:
  assumes "begin_friendly_fire_damage st m entity recursive = Some (st1, m1, sc)" "fs_applied sc \<noteq> 0"
  shows "fs_entity sc \<noteq> nullptr"
  using assms(1) by (cases rule: begin_friendly_fire_cases) (use assms(2) in \<open>auto simp: empty_ff_scope_def\<close>)

subsection \<open>The scope contract\<close>

text \<open>
  The arguments of a callback are the entity and the recursion flag; an open spoof weighs one.
\<close>

abbreviation ff_open :: "friendly_fire_state \<Rightarrow> engine_memory \<Rightarrow> ptr \<times> bool
     \<Rightarrow> (friendly_fire_state \<times> engine_memory \<times> friendly_fire_scope) option" where
  "ff_open st m a \<equiv> begin_friendly_fire_damage st m (fst a) (snd a)"

lemma ff_open_ok:
  assumes "ff_balanced s" "begin_friendly_fire_damage s m e r = Some (s1, m1, sc)"
  shows "ff_balanced s1 \<and> ff_open_spoofs s1 = ff_open_spoofs s + of_bool (fs_applied sc \<noteq> 0)"
  using assms begin_balanced begin_open_spoofs by blast

lemma ff_close_ok:
  assumes b: "begin_friendly_fire_damage s m e r = Some (s1, m1, sc)" and "ff_balanced s'"
  shows "\<exists>s2. end_friendly_fire_damage s' m1 sc = Some (s2, m) \<and> ff_balanced s2
     \<and> ff_open_spoofs s2 = ff_open_spoofs s' - of_bool (fs_applied sc \<noteq> 0)"
proof -
  obtain s2 where e: "end_friendly_fire_damage s' m1 sc = Some (s2, m)"
    using end_after_begin [OF b] by blast
  then show ?thesis
    using assms(2) end_balanced [OF e] end_open_spoofs [OF e] begin_scope_entity [OF b] by blast
qed

interpretation ff: memory_scope ff_open end_friendly_fire_damage ff_balanced ff_open_spoofs
    "\<lambda>sc. of_bool (fs_applied sc \<noteq> 0)"
proof unfold_locales
  show "ff_balanced s1 \<and> ff_open_spoofs s1 = ff_open_spoofs s + of_bool (fs_applied sc \<noteq> 0)"
    if "ff_balanced s" "ff_open s m a = Some (s1, m1, sc)" for s m a s1 m1 sc
    using that by (rule ff_open_ok)
  show "\<exists>s2. end_friendly_fire_damage s' m1 sc = Some (s2, m) \<and> ff_balanced s2
     \<and> ff_open_spoofs s2 = ff_open_spoofs s' - of_bool (fs_applied sc \<noteq> 0)"
    if "ff_balanced s" "ff_open s m a = Some (s1, m1, sc)" "ff_balanced s'" for s m a s1 m1 sc s'
    using that(2,3) by (rule ff_close_ok)
qed

subsection \<open>Properties\<close>

text \<open>C27. A damage scope that changed the team of an objective changed nothing else, and closing it
  writes the original team back whatever the engine did to the rest of memory in between.\<close>

theorem friendly_fire_scope_restores:
  assumes "begin_friendly_fire_damage st m entity recursive = Some (st1, m1, sc)"
    and "fs_applied sc \<noteq> 0" "can_write m2 (team_field entity)"
  shows "(\<forall>b. b \<noteq> team_field entity \<longrightarrow> load8 m1 b = load8 m b)
     \<and> load8 m1 (team_field entity) = Some (opposing_team (fs_original_team sc))
     \<and> (\<exists>st2 m3. end_friendly_fire_damage st' m2 sc = Some (st2, m3)
          \<and> load8 m3 (team_field entity) = load8 m (team_field entity)
          \<and> (\<forall>b. b \<noteq> team_field entity \<longrightarrow> load8 m3 b = load8 m2 b))"
  using assms(1)
proof (cases rule: begin_friendly_fire_cases)
  case idle
  with assms(2) show ?thesis by (simp add: empty_ff_scope_def)
next
  case (spoofed team)
  then show ?thesis
    using end_after_engine [OF assms] load8_store8_same load8_store8_other by auto
qed

text \<open>A memory with one objective (entity at 0x1000) of team 2, and the experiment switched on.\<close>

definition boss_memory :: engine_memory where
  "boss_memory = \<lparr>mem_byte = with_text 0x3000 ''CNPC_BarrackBoss''
      (with_ptr 0x1010 0x2000 (with_ptr 0x2020 0x3000 [0x133c \<mapsto> 2])),
      mem_writable = (\<lambda>a. a = 0x133c)\<rparr>"

definition spoofing_state :: friendly_fire_state where
  "spoofing_state = initial_friendly_fire\<lparr>ff_enabled := 1, ff_mode := 1\<rparr>"

lemma boss_name: "c_string boss_memory 0x3000 = Some ''CNPC_BarrackBoss''"
  by (rule c_string_with_text) (simp_all add: boss_memory_def)

lemmas boss_layout = boss_memory_def with_text_def with_ptr_def char_byte_def

lemma boss_victim: "victim_kind boss_memory 0x1000 = Some Objective"
proof -
  have "load64 boss_memory 0x1010 = Some 0x2000" "load64 boss_memory 0x2020 = Some 0x3000"
    "load8 boss_memory 0x3000 = Some 67"
    by (simp_all add: load64_def load_bytes_numeral load8_def boss_layout)
  then show ?thesis
    by (simp add: victim_kind_def entity_identity_def designer_name_field_def
        name_among_c_string boss_name objective_names_def)
qed

lemma boss_begin:
  "\<exists>m1. store8 boss_memory 0x133c 3 = Some m1 \<and>
     begin_friendly_fire_damage spoofing_state boss_memory 0x1000 False
       = Some (spoof_step spoofing_state, m1, \<lparr>fs_entity = 0x1000, fs_original_team = 2, fs_applied = 1\<rparr>)"
proof -
  obtain m1 where m1: "store8 boss_memory 0x133c 3 = Some m1"
    by (simp add: store8_def can_write_def boss_layout)
  have "load8 boss_memory 0x133c = Some 2" by (simp add: load8_def boss_layout)
  with m1 have "begin_friendly_fire_damage spoofing_state boss_memory 0x1000 False
       = Some (spoof_step spoofing_state, m1, \<lparr>fs_entity = 0x1000, fs_original_team = 2, fs_applied = 1\<rparr>)"
    by (simp add: begin_friendly_fire_damage_def boss_victim spoof_objective_def team_field_def
        spoofing_state_def initial_friendly_fire_def spoof_step_def)
  with m1 show ?thesis by blast
qed

theorem friendly_fire_scope_restores_witness:
  "\<exists>st1 m1 sc st2 m3. begin_friendly_fire_damage spoofing_state boss_memory 0x1000 False = Some (st1, m1, sc)
     \<and> load8 m1 0x133c = Some 3
     \<and> end_friendly_fire_damage st1 m1 sc = Some (st2, m3) \<and> load8 m3 0x133c = Some 2"
proof -
  obtain m1 where s: "store8 boss_memory 0x133c 3 = Some m1"
    and b: "begin_friendly_fire_damage spoofing_state boss_memory 0x1000 False
       = Some (spoof_step spoofing_state, m1, \<lparr>fs_entity = 0x1000, fs_original_team = 2, fs_applied = 1\<rparr>)"
    using boss_begin by blast
  have w: "can_write m1 (team_field 0x1000)"
    using can_write_store8 [OF s] by (simp add: team_field_def can_write_def boss_layout)
  have "load8 boss_memory 0x133c = Some 2" by (simp add: load8_def boss_layout)
  then show ?thesis
    using friendly_fire_scope_restores [OF b _ w, of "spoof_step spoofing_state"] b
    by (auto simp: team_field_def)
qed

text \<open>However deeply damage callbacks nest, once the outermost one has returned the memory is
  what it was, no spoof is left open, and every callback is accounted for by one outcome.\<close>

theorem friendly_fire_nesting_undone:
  assumes "run_scoped ff_open end_friendly_fire_damage call (st, m) = Some (st', m')" "ff_balanced st"
  shows "m' = m \<and> ff_balanced st' \<and> ff_open_spoofs st' = ff_open_spoofs st"
  using ff.run_undone [OF assms(1)] assms(2) by (simp add: ff.undone_def)

theorem friendly_fire_nesting_undone_witness:
  "\<exists>st'. run_scoped ff_open end_friendly_fire_damage
       (Scoped (0x1000, False) [Scoped (0x1000, True) []]) (spoofing_state, boss_memory)
     = Some (st', boss_memory) \<and> ff_balanced st' \<and> ff_damage_callbacks st' = 2"
proof -
  let ?call = "Scoped (0x1000, False) [Scoped (0x1000, True) []] :: (ptr \<times> bool) scoped_call"
  obtain m1 where s: "store8 boss_memory 0x133c 3 = Some m1"
    and b: "begin_friendly_fire_damage spoofing_state boss_memory 0x1000 False
       = Some (spoof_step spoofing_state, m1, \<lparr>fs_entity = 0x1000, fs_original_team = 2, fs_applied = 1\<rparr>)"
    using boss_begin by blast
  have w: "can_write m1 0x133c" using can_write_store8 [OF s] by (simp add: can_write_def boss_layout)
  then obtain m3 where m3: "store8 m1 0x133c 2 = Some m3" using store8_eq_None_iff [of m1 "0x133c" 2] by auto
  define st' where "st' = inc_team_spoof_restored (inc_skipped_recursive (inc_damage_callbacks (spoof_step spoofing_state)))"
  have "ff_enabled (spoof_step spoofing_state) = 1" "ff_mode (spoof_step spoofing_state) = 1"
    by (simp_all add: spoof_step_def spoofing_state_def initial_friendly_fire_def)
  then have rec: "begin_friendly_fire_damage (spoof_step spoofing_state) m1 0x1000 True
      = Some (inc_skipped_recursive (inc_damage_callbacks (spoof_step spoofing_state)), m1, empty_ff_scope)"
    by (simp add: begin_friendly_fire_damage_def)
  have run: "run_scoped ff_open end_friendly_fire_damage ?call (spoofing_state, boss_memory) = Some (st', m3)"
    by (simp add: b rec m3 st'_def team_field_def end_friendly_fire_damage_def [of _ _ "\<lparr>fs_entity = _, fs_original_team = _, fs_applied = _\<rparr>"])
  have "ff_balanced spoofing_state"
    by (simp add: ff_balanced_def spoofing_state_def initial_friendly_fire_def)
  with friendly_fire_nesting_undone [OF run] run show ?thesis
    by (auto simp: st'_def spoof_step_def spoofing_state_def initial_friendly_fire_def)
qed

text \<open>C32. The team is spoofed exactly for a direct callback on an objective of team 2 or 3 that is the
  configured local team (or any team when that is 0), while the experiment is on.\<close>

theorem friendly_fire_applied_iff:
  assumes "begin_friendly_fire_damage st m entity recursive = Some (st1, m1, sc)"
  shows "fs_applied sc \<noteq> 0 \<longleftrightarrow>
     ff_enabled st \<noteq> 0 \<and> ff_mode st = 1 \<and> \<not> recursive \<and> victim_kind m entity = Some Objective
     \<and> (\<exists>team\<in>{2, 3}. load8 m (team_field entity) = Some team
          \<and> (ff_local_team st = 0 \<or> team = ucast (ff_local_team st)))"
proof -
  have idle: "fs_applied empty_ff_scope = 0" by (simp add: empty_ff_scope_def)
  show ?thesis
    using assms
    by (auto simp: begin_friendly_fire_damage_def spoof_objective_def idle
        split: if_splits option.splits victim_class.splits)
qed

theorem friendly_fire_applied_iff_witness:
  "\<exists>st1 m1 sc. begin_friendly_fire_damage spoofing_state boss_memory 0x1000 False = Some (st1, m1, sc)
     \<and> fs_applied sc \<noteq> 0 \<and> load8 boss_memory (team_field 0x1000) \<in> {Some 2, Some 3}"
  using boss_begin friendly_fire_applied_iff by fastforce

end
