(* ===== verification/Target_Probe_State.thy ===== *)
theory Target_Probe_State
  imports Environment_Config
begin

section \<open>The state of the target probe\<close>

text \<open>
  \<open>g_target_probe\<close> of \<open>native/dwrt-host/dwrt_target_probe.cpp\<close>, field by field: fifteen
  configuration words, ten "last seen" values, the counters and the five histograms; with its
  configuration from the environment, the reset of its counters and the snapshot of it.
\<close>

record target_probe_state =
  tp_enabled :: u32
  tp_source_team_spoof_enabled :: u32
  tp_target_team_spoof_enabled :: u32
  tp_target_team_spoof_team :: u32
  tp_target_bitset_allow_enabled :: u32
  tp_force_filter_same_team_allow_enabled :: u32
  tp_force_caller_same_team_allow_enabled :: u32
  tp_force_filter_objective_allow_enabled :: u32
  tp_force_caller_objective_allow_enabled :: u32
  tp_force_secondary_allow_enabled :: u32
  tp_neutral_simulation_enabled :: u32
  tp_classifier_spoof_enabled :: u32
  tp_classifier_spoof_bit :: u32
  tp_global_neutralize_enabled :: u32
  tp_global_neutralize_team :: u32
  tp_last_source_team :: u32
  tp_last_target_team :: u32
  tp_last_target_unit_type :: u32
  tp_last_filter_result :: u32
  tp_last_damage_victim_team :: u32
  tp_last_damage_victim_unit_type :: u32
  tp_last_damage_attacker_handle :: u32
  tp_last_damage_inflictor_handle :: u32
  tp_last_damage_attacker_team :: u32
  tp_last_damage_attacker_unit_type :: u32
  tp_filter_calls :: u64
  tp_filter_allowed :: u64
  tp_filter_denied :: u64
  tp_filter_same_team_calls :: u64
  tp_filter_same_team_allowed :: u64
  tp_filter_same_team_denied :: u64
  tp_filter_objective_target_calls :: u64
  tp_filter_objective_target_allowed :: u64
  tp_filter_objective_target_denied :: u64
  tp_filter_neutral_target_calls :: u64
  tp_filter_midboss_target_calls :: u64
  tp_filter_invalid_source_team :: u64
  tp_filter_invalid_target_team :: u64
  tp_source_spoof_attempts :: u64
  tp_source_spoof_applied :: u64
  tp_source_spoof_restored :: u64
  tp_source_spoof_allowed :: u64
  tp_source_spoof_denied :: u64
  tp_target_spoof_attempts :: u64
  tp_target_spoof_applied :: u64
  tp_target_spoof_restored :: u64
  tp_target_spoof_allowed :: u64
  tp_target_spoof_denied :: u64
  tp_bitset_allow_attempts :: u64
  tp_bitset_allow_applied :: u64
  tp_bitset_allow_failures :: u64
  tp_classifier_calls :: u64
  tp_classifier_invalid :: u64
  tp_classifier_spoof_attempts :: u64
  tp_classifier_spoof_applied :: u64
  tp_classifier_spoof_skipped :: u64
  tp_last_classifier_original_bit :: u64
  tp_last_classifier_final_bit :: u64
  tp_global_neutralize_attempts :: u64
  tp_global_neutralize_applied :: u64
  tp_global_neutralize_already :: u64
  tp_global_neutralize_null :: u64
  tp_global_neutralize_invalid_team :: u64
  tp_global_neutralize_write_failures :: u64
  tp_global_neutralize_original_team_counts :: "u64 list"
  tp_global_neutralize_original_team_overflow :: u64
  tp_filter_forced_allowed :: u64
  tp_caller_forced_allowed :: u64
  tp_secondary_forced_allowed :: u64
  tp_secondary_calls :: u64
  tp_secondary_allowed :: u64
  tp_secondary_denied :: u64
  tp_caller_calls :: u64
  tp_caller_allowed :: u64
  tp_caller_denied :: u64
  tp_caller_unit_0x1a_bypass_candidates :: u64
  tp_filter_unit_type_counts :: "u64 list"
  tp_filter_unit_type_overflow :: u64
  tp_damage_victim_calls :: u64
  tp_damage_victim_objective :: u64
  tp_damage_victim_neutral :: u64
  tp_damage_victim_midboss :: u64
  tp_damage_victim_invalid_team :: u64
  tp_damage_victim_unit_type_counts :: "u64 list"
  tp_damage_victim_unit_type_overflow :: u64
  tp_damage_attacker_handle_valid :: u64
  tp_damage_attacker_handle_invalid :: u64
  tp_damage_inflictor_handle_valid :: u64
  tp_damage_inflictor_handle_invalid :: u64
  tp_damage_attacker_same_team :: u64
  tp_damage_attacker_opposing_team :: u64
  tp_damage_attacker_other_team :: u64
  tp_damage_attacker_self :: u64
  tp_damage_attacker_same_team_objective :: u64
  tp_damage_attacker_unit_type_counts :: "u64 list"
  tp_damage_attacker_unit_type_overflow :: u64
  tp_damage_same_team_victim_unit_type_counts :: "u64 list"
  tp_damage_same_team_victim_unit_type_overflow :: u64

definition initial_target_probe :: target_probe_state where
  "initial_target_probe =
     \<lparr>tp_enabled = 1,
      tp_source_team_spoof_enabled = 0,
      tp_target_team_spoof_enabled = 0,
      tp_target_team_spoof_team = 0xffffffff,
      tp_target_bitset_allow_enabled = 0,
      tp_force_filter_same_team_allow_enabled = 0,
      tp_force_caller_same_team_allow_enabled = 0,
      tp_force_filter_objective_allow_enabled = 0,
      tp_force_caller_objective_allow_enabled = 0,
      tp_force_secondary_allow_enabled = 0,
      tp_neutral_simulation_enabled = 0,
      tp_classifier_spoof_enabled = 0,
      tp_classifier_spoof_bit = 0xffffffff,
      tp_global_neutralize_enabled = 0,
      tp_global_neutralize_team = 4,
      tp_last_source_team = 0xffffffff,
      tp_last_target_team = 0xffffffff,
      tp_last_target_unit_type = 0xffffffff,
      tp_last_filter_result = 0,
      tp_last_damage_victim_team = 0xffffffff,
      tp_last_damage_victim_unit_type = 0xffffffff,
      tp_last_damage_attacker_handle = 0xffffffff,
      tp_last_damage_inflictor_handle = 0xffffffff,
      tp_last_damage_attacker_team = 0xffffffff,
      tp_last_damage_attacker_unit_type = 0xffffffff,
      tp_filter_calls = 0,
      tp_filter_allowed = 0,
      tp_filter_denied = 0,
      tp_filter_same_team_calls = 0,
      tp_filter_same_team_allowed = 0,
      tp_filter_same_team_denied = 0,
      tp_filter_objective_target_calls = 0,
      tp_filter_objective_target_allowed = 0,
      tp_filter_objective_target_denied = 0,
      tp_filter_neutral_target_calls = 0,
      tp_filter_midboss_target_calls = 0,
      tp_filter_invalid_source_team = 0,
      tp_filter_invalid_target_team = 0,
      tp_source_spoof_attempts = 0,
      tp_source_spoof_applied = 0,
      tp_source_spoof_restored = 0,
      tp_source_spoof_allowed = 0,
      tp_source_spoof_denied = 0,
      tp_target_spoof_attempts = 0,
      tp_target_spoof_applied = 0,
      tp_target_spoof_restored = 0,
      tp_target_spoof_allowed = 0,
      tp_target_spoof_denied = 0,
      tp_bitset_allow_attempts = 0,
      tp_bitset_allow_applied = 0,
      tp_bitset_allow_failures = 0,
      tp_classifier_calls = 0,
      tp_classifier_invalid = 0,
      tp_classifier_spoof_attempts = 0,
      tp_classifier_spoof_applied = 0,
      tp_classifier_spoof_skipped = 0,
      tp_last_classifier_original_bit = 0xffffffff,
      tp_last_classifier_final_bit = 0xffffffff,
      tp_global_neutralize_attempts = 0,
      tp_global_neutralize_applied = 0,
      tp_global_neutralize_already = 0,
      tp_global_neutralize_null = 0,
      tp_global_neutralize_invalid_team = 0,
      tp_global_neutralize_write_failures = 0,
      tp_global_neutralize_original_team_counts = replicate 8 0,
      tp_global_neutralize_original_team_overflow = 0,
      tp_filter_forced_allowed = 0,
      tp_caller_forced_allowed = 0,
      tp_secondary_forced_allowed = 0,
      tp_secondary_calls = 0,
      tp_secondary_allowed = 0,
      tp_secondary_denied = 0,
      tp_caller_calls = 0,
      tp_caller_allowed = 0,
      tp_caller_denied = 0,
      tp_caller_unit_0x1a_bypass_candidates = 0,
      tp_filter_unit_type_counts = replicate 32 0,
      tp_filter_unit_type_overflow = 0,
      tp_damage_victim_calls = 0,
      tp_damage_victim_objective = 0,
      tp_damage_victim_neutral = 0,
      tp_damage_victim_midboss = 0,
      tp_damage_victim_invalid_team = 0,
      tp_damage_victim_unit_type_counts = replicate 64 0,
      tp_damage_victim_unit_type_overflow = 0,
      tp_damage_attacker_handle_valid = 0,
      tp_damage_attacker_handle_invalid = 0,
      tp_damage_inflictor_handle_valid = 0,
      tp_damage_inflictor_handle_invalid = 0,
      tp_damage_attacker_same_team = 0,
      tp_damage_attacker_opposing_team = 0,
      tp_damage_attacker_other_team = 0,
      tp_damage_attacker_self = 0,
      tp_damage_attacker_same_team_objective = 0,
      tp_damage_attacker_unit_type_counts = replicate 64 0,
      tp_damage_attacker_unit_type_overflow = 0,
      tp_damage_same_team_victim_unit_type_counts = replicate 64 0,
      tp_damage_same_team_victim_unit_type_overflow = 0\<rparr>"

text \<open>Clearing an array keeps its size.\<close>

definition zero_counts :: "u64 list \<Rightarrow> u64 list" where
  "zero_counts xs = map (\<lambda>_. 0) xs"

definition reset_target_probe_counters :: "target_probe_state \<Rightarrow> target_probe_state" where
  "reset_target_probe_counters st =
     st\<lparr>tp_last_source_team := 0xffffffff,
        tp_last_target_team := 0xffffffff,
        tp_last_target_unit_type := 0xffffffff,
        tp_last_filter_result := 0,
        tp_last_damage_victim_team := 0xffffffff,
        tp_last_damage_victim_unit_type := 0xffffffff,
        tp_last_damage_attacker_handle := 0xffffffff,
        tp_last_damage_inflictor_handle := 0xffffffff,
        tp_last_damage_attacker_team := 0xffffffff,
        tp_last_damage_attacker_unit_type := 0xffffffff,
        tp_filter_calls := 0,
        tp_filter_allowed := 0,
        tp_filter_denied := 0,
        tp_filter_same_team_calls := 0,
        tp_filter_same_team_allowed := 0,
        tp_filter_same_team_denied := 0,
        tp_filter_objective_target_calls := 0,
        tp_filter_objective_target_allowed := 0,
        tp_filter_objective_target_denied := 0,
        tp_filter_neutral_target_calls := 0,
        tp_filter_midboss_target_calls := 0,
        tp_filter_invalid_source_team := 0,
        tp_filter_invalid_target_team := 0,
        tp_source_spoof_attempts := 0,
        tp_source_spoof_applied := 0,
        tp_source_spoof_restored := 0,
        tp_source_spoof_allowed := 0,
        tp_source_spoof_denied := 0,
        tp_target_spoof_attempts := 0,
        tp_target_spoof_applied := 0,
        tp_target_spoof_restored := 0,
        tp_target_spoof_allowed := 0,
        tp_target_spoof_denied := 0,
        tp_bitset_allow_attempts := 0,
        tp_bitset_allow_applied := 0,
        tp_bitset_allow_failures := 0,
        tp_classifier_calls := 0,
        tp_classifier_invalid := 0,
        tp_classifier_spoof_attempts := 0,
        tp_classifier_spoof_applied := 0,
        tp_classifier_spoof_skipped := 0,
        tp_last_classifier_original_bit := 0xffffffff,
        tp_last_classifier_final_bit := 0xffffffff,
        tp_global_neutralize_attempts := 0,
        tp_global_neutralize_applied := 0,
        tp_global_neutralize_already := 0,
        tp_global_neutralize_null := 0,
        tp_global_neutralize_invalid_team := 0,
        tp_global_neutralize_write_failures := 0,
        tp_global_neutralize_original_team_counts := zero_counts (tp_global_neutralize_original_team_counts st),
        tp_global_neutralize_original_team_overflow := 0,
        tp_filter_forced_allowed := 0,
        tp_caller_forced_allowed := 0,
        tp_secondary_forced_allowed := 0,
        tp_secondary_calls := 0,
        tp_secondary_allowed := 0,
        tp_secondary_denied := 0,
        tp_caller_calls := 0,
        tp_caller_allowed := 0,
        tp_caller_denied := 0,
        tp_caller_unit_0x1a_bypass_candidates := 0,
        tp_filter_unit_type_counts := zero_counts (tp_filter_unit_type_counts st),
        tp_filter_unit_type_overflow := 0,
        tp_damage_victim_calls := 0,
        tp_damage_victim_objective := 0,
        tp_damage_victim_neutral := 0,
        tp_damage_victim_midboss := 0,
        tp_damage_victim_invalid_team := 0,
        tp_damage_victim_unit_type_counts := zero_counts (tp_damage_victim_unit_type_counts st),
        tp_damage_victim_unit_type_overflow := 0,
        tp_damage_attacker_handle_valid := 0,
        tp_damage_attacker_handle_invalid := 0,
        tp_damage_inflictor_handle_valid := 0,
        tp_damage_inflictor_handle_invalid := 0,
        tp_damage_attacker_same_team := 0,
        tp_damage_attacker_opposing_team := 0,
        tp_damage_attacker_other_team := 0,
        tp_damage_attacker_self := 0,
        tp_damage_attacker_same_team_objective := 0,
        tp_damage_attacker_unit_type_counts := zero_counts (tp_damage_attacker_unit_type_counts st),
        tp_damage_attacker_unit_type_overflow := 0,
        tp_damage_same_team_victim_unit_type_counts := zero_counts (tp_damage_same_team_victim_unit_type_counts st),
        tp_damage_same_team_victim_unit_type_overflow := 0\<rparr>"

definition target_probe_snapshot :: "target_probe_state \<Rightarrow> target_probe_state" where
  "target_probe_snapshot st =
     \<lparr>tp_enabled = tp_enabled st,
      tp_source_team_spoof_enabled = tp_source_team_spoof_enabled st,
      tp_target_team_spoof_enabled = tp_target_team_spoof_enabled st,
      tp_target_team_spoof_team = tp_target_team_spoof_team st,
      tp_target_bitset_allow_enabled = tp_target_bitset_allow_enabled st,
      tp_force_filter_same_team_allow_enabled = tp_force_filter_same_team_allow_enabled st,
      tp_force_caller_same_team_allow_enabled = tp_force_caller_same_team_allow_enabled st,
      tp_force_filter_objective_allow_enabled = tp_force_filter_objective_allow_enabled st,
      tp_force_caller_objective_allow_enabled = tp_force_caller_objective_allow_enabled st,
      tp_force_secondary_allow_enabled = tp_force_secondary_allow_enabled st,
      tp_neutral_simulation_enabled = tp_neutral_simulation_enabled st,
      tp_classifier_spoof_enabled = tp_classifier_spoof_enabled st,
      tp_classifier_spoof_bit = tp_classifier_spoof_bit st,
      tp_global_neutralize_enabled = tp_global_neutralize_enabled st,
      tp_global_neutralize_team = tp_global_neutralize_team st,
      tp_last_source_team = tp_last_source_team st,
      tp_last_target_team = tp_last_target_team st,
      tp_last_target_unit_type = tp_last_target_unit_type st,
      tp_last_filter_result = tp_last_filter_result st,
      tp_last_damage_victim_team = tp_last_damage_victim_team st,
      tp_last_damage_victim_unit_type = tp_last_damage_victim_unit_type st,
      tp_last_damage_attacker_handle = tp_last_damage_attacker_handle st,
      tp_last_damage_inflictor_handle = tp_last_damage_inflictor_handle st,
      tp_last_damage_attacker_team = tp_last_damage_attacker_team st,
      tp_last_damage_attacker_unit_type = tp_last_damage_attacker_unit_type st,
      tp_filter_calls = tp_filter_calls st,
      tp_filter_allowed = tp_filter_allowed st,
      tp_filter_denied = tp_filter_denied st,
      tp_filter_same_team_calls = tp_filter_same_team_calls st,
      tp_filter_same_team_allowed = tp_filter_same_team_allowed st,
      tp_filter_same_team_denied = tp_filter_same_team_denied st,
      tp_filter_objective_target_calls = tp_filter_objective_target_calls st,
      tp_filter_objective_target_allowed = tp_filter_objective_target_allowed st,
      tp_filter_objective_target_denied = tp_filter_objective_target_denied st,
      tp_filter_neutral_target_calls = tp_filter_neutral_target_calls st,
      tp_filter_midboss_target_calls = tp_filter_midboss_target_calls st,
      tp_filter_invalid_source_team = tp_filter_invalid_source_team st,
      tp_filter_invalid_target_team = tp_filter_invalid_target_team st,
      tp_source_spoof_attempts = tp_source_spoof_attempts st,
      tp_source_spoof_applied = tp_source_spoof_applied st,
      tp_source_spoof_restored = tp_source_spoof_restored st,
      tp_source_spoof_allowed = tp_source_spoof_allowed st,
      tp_source_spoof_denied = tp_source_spoof_denied st,
      tp_target_spoof_attempts = tp_target_spoof_attempts st,
      tp_target_spoof_applied = tp_target_spoof_applied st,
      tp_target_spoof_restored = tp_target_spoof_restored st,
      tp_target_spoof_allowed = tp_target_spoof_allowed st,
      tp_target_spoof_denied = tp_target_spoof_denied st,
      tp_bitset_allow_attempts = tp_bitset_allow_attempts st,
      tp_bitset_allow_applied = tp_bitset_allow_applied st,
      tp_bitset_allow_failures = tp_bitset_allow_failures st,
      tp_classifier_calls = tp_classifier_calls st,
      tp_classifier_invalid = tp_classifier_invalid st,
      tp_classifier_spoof_attempts = tp_classifier_spoof_attempts st,
      tp_classifier_spoof_applied = tp_classifier_spoof_applied st,
      tp_classifier_spoof_skipped = tp_classifier_spoof_skipped st,
      tp_last_classifier_original_bit = tp_last_classifier_original_bit st,
      tp_last_classifier_final_bit = tp_last_classifier_final_bit st,
      tp_global_neutralize_attempts = tp_global_neutralize_attempts st,
      tp_global_neutralize_applied = tp_global_neutralize_applied st,
      tp_global_neutralize_already = tp_global_neutralize_already st,
      tp_global_neutralize_null = tp_global_neutralize_null st,
      tp_global_neutralize_invalid_team = tp_global_neutralize_invalid_team st,
      tp_global_neutralize_write_failures = tp_global_neutralize_write_failures st,
      tp_global_neutralize_original_team_counts = tp_global_neutralize_original_team_counts st,
      tp_global_neutralize_original_team_overflow = tp_global_neutralize_original_team_overflow st,
      tp_filter_forced_allowed = tp_filter_forced_allowed st,
      tp_caller_forced_allowed = tp_caller_forced_allowed st,
      tp_secondary_forced_allowed = tp_secondary_forced_allowed st,
      tp_secondary_calls = tp_secondary_calls st,
      tp_secondary_allowed = tp_secondary_allowed st,
      tp_secondary_denied = tp_secondary_denied st,
      tp_caller_calls = tp_caller_calls st,
      tp_caller_allowed = tp_caller_allowed st,
      tp_caller_denied = tp_caller_denied st,
      tp_caller_unit_0x1a_bypass_candidates = tp_caller_unit_0x1a_bypass_candidates st,
      tp_filter_unit_type_counts = tp_filter_unit_type_counts st,
      tp_filter_unit_type_overflow = tp_filter_unit_type_overflow st,
      tp_damage_victim_calls = tp_damage_victim_calls st,
      tp_damage_victim_objective = tp_damage_victim_objective st,
      tp_damage_victim_neutral = tp_damage_victim_neutral st,
      tp_damage_victim_midboss = tp_damage_victim_midboss st,
      tp_damage_victim_invalid_team = tp_damage_victim_invalid_team st,
      tp_damage_victim_unit_type_counts = tp_damage_victim_unit_type_counts st,
      tp_damage_victim_unit_type_overflow = tp_damage_victim_unit_type_overflow st,
      tp_damage_attacker_handle_valid = tp_damage_attacker_handle_valid st,
      tp_damage_attacker_handle_invalid = tp_damage_attacker_handle_invalid st,
      tp_damage_inflictor_handle_valid = tp_damage_inflictor_handle_valid st,
      tp_damage_inflictor_handle_invalid = tp_damage_inflictor_handle_invalid st,
      tp_damage_attacker_same_team = tp_damage_attacker_same_team st,
      tp_damage_attacker_opposing_team = tp_damage_attacker_opposing_team st,
      tp_damage_attacker_other_team = tp_damage_attacker_other_team st,
      tp_damage_attacker_self = tp_damage_attacker_self st,
      tp_damage_attacker_same_team_objective = tp_damage_attacker_same_team_objective st,
      tp_damage_attacker_unit_type_counts = tp_damage_attacker_unit_type_counts st,
      tp_damage_attacker_unit_type_overflow = tp_damage_attacker_unit_type_overflow st,
      tp_damage_same_team_victim_unit_type_counts = tp_damage_same_team_victim_unit_type_counts st,
      tp_damage_same_team_victim_unit_type_overflow = tp_damage_same_team_victim_unit_type_overflow st\<rparr>"

lemma target_probe_snapshot_id [simp]: "target_probe_snapshot st = st"
  by (simp add: target_probe_snapshot_def)

definition configure_target_probe_from_environment ::
  "process_env \<Rightarrow> target_probe_state \<Rightarrow> target_probe_state" where
  "configure_target_probe_from_environment env st =
     st\<lparr>tp_enabled := (if env_flag_enabled env ''DWRT_DISABLE_TARGET_PROBE'' then 0 else 1),
        tp_source_team_spoof_enabled := flag32 (env_flag_enabled env ''DWRT_TARGET_PROBE_SOURCE_TEAM_SPOOF'' \<or>
            env_flag_enabled env ''DWRT_SOURCE_TEAM_SPOOF_EXPERIMENT''),
        tp_target_team_spoof_enabled := flag32 (env_flag_enabled env ''DWRT_TARGET_PROBE_TARGET_TEAM_SPOOF''),
        tp_target_bitset_allow_enabled := flag32 (env_flag_enabled env ''DWRT_TARGET_PROBE_ALLOW_TARGET_BITSET''),
        tp_target_team_spoof_team := tp_env_u32_or env ''DWRT_TARGET_PROBE_TARGET_TEAM_SPOOF_TEAM'' 0xffffffff,
        tp_force_filter_same_team_allow_enabled :=
          flag32 (env_flag_enabled env ''DWRT_TARGET_PROBE_FORCE_FILTER_SAME_TEAM_ALLOW''),
        tp_force_caller_same_team_allow_enabled :=
          flag32 (env_flag_enabled env ''DWRT_TARGET_PROBE_FORCE_CALLER_SAME_TEAM_ALLOW''),
        tp_force_filter_objective_allow_enabled :=
          flag32 (env_flag_enabled env ''DWRT_TARGET_PROBE_FORCE_FILTER_OBJECTIVE_ALLOW''),
        tp_force_caller_objective_allow_enabled :=
          flag32 (env_flag_enabled env ''DWRT_TARGET_PROBE_FORCE_CALLER_OBJECTIVE_ALLOW''),
        tp_force_secondary_allow_enabled :=
          flag32 (env_flag_enabled env ''DWRT_TARGET_PROBE_FORCE_SECONDARY_ALLOW''),
        tp_neutral_simulation_enabled := flag32 (env_flag_enabled env ''DWRT_TARGET_PROBE_NEUTRAL_SIMULATION''),
        tp_classifier_spoof_enabled := flag32 (env_flag_enabled env ''DWRT_TARGET_PROBE_CLASSIFIER_SPOOF''),
        tp_classifier_spoof_bit := env_classifier_bit_or env ''DWRT_TARGET_PROBE_CLASSIFIER_SPOOF_BIT'' 8,
        tp_global_neutralize_enabled := flag32 (env_flag_enabled env ''DWRT_TARGET_PROBE_GLOBAL_NEUTRALIZE''),
        tp_global_neutralize_team := env_team_or env ''DWRT_TARGET_PROBE_GLOBAL_NEUTRAL_TEAM'' 4\<rparr>"

end
