(* ===== verification/Target_Probe.thy ===== *)
theory Target_Probe
  imports Entity_Access Target_Probe_State Memory_Scopes
begin

section \<open>The target probe\<close>

text \<open>
  Model of \<open>native/dwrt-host/dwrt_target_probe.cpp\<close>, compiled with MSVC: the accesses inside
  \<open>__try\<close> blocks turn a fault into their failure value, the two accesses outside (the read of
  \<open>identity->designer_name\<close> in \<open>designer_name_for\<close>, the read of \<open>*out\<close> in
  \<open>finish_target_identity_classifier\<close>) end the process, which is \<open>None\<close>.  Parameters of the
  model are the engine's code and loader: \<open>uf\<close>, the virtual unit type getter applied to a code
  address and an entity (\<open>None\<close> when it faults; it is a getter and does not write memory),
  \<open>server\<close>, the base of \<open>server.dll\<close> or null, and the identity classifier.
\<close>

type_synonym unit_type_fn = "engine_memory \<Rightarrow> ptr \<Rightarrow> ptr \<Rightarrow> u32 option"

abbreviation invalid32 :: u32 where "invalid32 \<equiv> 0xffffffff"

subsection \<open>Protected accesses\<close>

definition safe_read_team :: "engine_memory \<Rightarrow> ptr \<Rightarrow> bool \<times> u32" where
  "safe_read_team m entity =
     (if entity = nullptr then (False, invalid32)
      else (case load8 m (team_field entity) of
              None \<Rightarrow> (False, invalid32)
            | Some t \<Rightarrow> (True, ucast t)))"

definition safe_write_team :: "engine_memory \<Rightarrow> ptr \<Rightarrow> u8 \<Rightarrow> bool \<times> engine_memory" where
  "safe_write_team m entity team =
     (if entity = nullptr then (False, m)
      else (case store8 m (team_field entity) team of
              None \<Rightarrow> (False, m)
            | Some m' \<Rightarrow> (True, m')))"

definition safe_read_damage_handle :: "engine_memory \<Rightarrow> ptr \<Rightarrow> u64 \<Rightarrow> bool \<times> u32" where
  "safe_read_damage_handle m info offset =
     (if info = nullptr then (False, invalid32)
      else (case load32 m (info + offset) of
              None \<Rightarrow> (False, invalid32)
            | Some h \<Rightarrow> (True, h)))"

text \<open>
  The entity system's chunk table: 64 pointers to chunks of 512 entries of 0x70 bytes, an entry
  holding the entity and, at 0x10, its handle.
\<close>

definition resolve_entity_handle :: "engine_memory \<Rightarrow> ptr \<Rightarrow> u32 \<Rightarrow> bool \<times> ptr" where
  "resolve_entity_handle m server handle =
     (if handle = invalid32 \<or> handle = 0xfffffffe then (False, nullptr)
      else if server = nullptr then (False, nullptr)
      else
        (case load64 m (server + 0x032b3280) of
           None \<Rightarrow> (False, nullptr)
         | Some table \<Rightarrow>
             if table = 0 then (False, nullptr)
             else
               let entry_index = handle AND 0x7fff
               in (case load64 m (table + ucast (drop_bit 9 entry_index) * 8) of
                     None \<Rightarrow> (False, nullptr)
                   | Some chunk \<Rightarrow>
                       if chunk = 0 then (False, nullptr)
                       else
                         let entry = chunk + ucast (entry_index AND 0x1ff) * 0x70
                         in (case load32 m (entry + 0x10) of
                               None \<Rightarrow> (False, nullptr)
                             | Some h \<Rightarrow>
                                 if h \<noteq> handle then (False, nullptr)
                                 else (case load64 m entry of
                                         None \<Rightarrow> (False, nullptr)
                                       | Some e \<Rightarrow> (e \<noteq> nullptr, e))))))"

definition safe_read_identity :: "engine_memory \<Rightarrow> ptr \<Rightarrow> bool \<times> ptr" where
  "safe_read_identity m entity =
     (if entity = nullptr then (False, nullptr)
      else (case load64 m (entity + 0x10) of
              None \<Rightarrow> (False, nullptr)
            | Some i \<Rightarrow> (i \<noteq> nullptr, i)))"

definition safe_unit_type :: "unit_type_fn \<Rightarrow> engine_memory \<Rightarrow> ptr \<Rightarrow> u32" where
  "safe_unit_type uf m entity =
     (if entity = nullptr then invalid32
      else (case load64 m entity of
              None \<Rightarrow> invalid32
            | Some vtable \<Rightarrow>
                (case load64 m (vtable + 0x200) of
                   None \<Rightarrow> invalid32
                 | Some fn \<Rightarrow> (case uf m fn entity of None \<Rightarrow> invalid32 | Some t \<Rightarrow> t))))"

subsection \<open>Names and teams\<close>

definition tp_opposing_team :: "u32 \<Rightarrow> u8" where
  "tp_opposing_team team = (if team = 2 then 3 else if team = 3 then 2 else 0)"

definition is_objective_name :: "string \<Rightarrow> bool" where
  "is_objective_name name \<longleftrightarrow> name \<in> set objective_names"

definition has_prefix :: "string \<Rightarrow> string \<Rightarrow> bool" where
  "has_prefix text p \<longleftrightarrow> length p \<le> length text \<and> take (length p) text = p"

definition is_neutral_name :: "string \<Rightarrow> bool" where
  "is_neutral_name name \<longleftrightarrow>
     has_prefix name ''npc_neutral'' \<or> has_prefix name ''CNPC_Neutral'' \<or>
     name = ''npc_trooper_neutral'' \<or> name = ''CNPC_TrooperNeutral''"

definition is_midboss_name :: "string \<Rightarrow> bool" where
  "is_midboss_name name \<longleftrightarrow> name = ''npc_midboss'' \<or> name = ''CNPC_MidBoss'' \<or> name = ''midboss''"

text \<open>The protected loop reads at most \<open>n\<close> characters.\<close>

primrec bounded_name :: "nat \<Rightarrow> engine_memory \<Rightarrow> ptr \<Rightarrow> string option" where
  "bounded_name 0 m p = Some []"
| "bounded_name (Suc n) m p =
     (case load8 m p of
        None \<Rightarrow> None
      | Some b \<Rightarrow> if b = 0 then Some []
                  else map_option ((#) (byte_char b)) (bounded_name n m (p + 1)))"

definition designer_name_for :: "engine_memory \<Rightarrow> ptr \<Rightarrow> string option" where
  "designer_name_for m entity =
     (let (ok, identity) = safe_read_identity m entity
      in if \<not> ok then Some []
         else
           (case load64 m (designer_name_field identity) of
              None \<Rightarrow> None
            | Some name \<Rightarrow>
                if name = nullptr then Some []
                else (case bounded_name 128 m name of None \<Rightarrow> Some [] | Some s \<Rightarrow> Some s)))"

subsection \<open>Histograms\<close>

definition record_unit_type :: "u32 \<Rightarrow> target_probe_state \<Rightarrow> target_probe_state" where
  "record_unit_type t st =
     (if unat t < length (tp_filter_unit_type_counts st)
      then tp_filter_unit_type_counts_update (bump t) st else inc tp_filter_unit_type_overflow_update st)"

definition record_damage_unit_type :: "u32 \<Rightarrow> target_probe_state \<Rightarrow> target_probe_state" where
  "record_damage_unit_type t st =
     (if unat t < length (tp_damage_victim_unit_type_counts st)
      then tp_damage_victim_unit_type_counts_update (bump t) st
      else inc tp_damage_victim_unit_type_overflow_update st)"

definition record_damage_attacker_unit_type :: "u32 \<Rightarrow> target_probe_state \<Rightarrow> target_probe_state" where
  "record_damage_attacker_unit_type t st =
     (if unat t < length (tp_damage_attacker_unit_type_counts st)
      then tp_damage_attacker_unit_type_counts_update (bump t) st
      else inc tp_damage_attacker_unit_type_overflow_update st)"

definition record_same_team_victim_unit_type :: "u32 \<Rightarrow> target_probe_state \<Rightarrow> target_probe_state" where
  "record_same_team_victim_unit_type t st =
     (if unat t < length (tp_damage_same_team_victim_unit_type_counts st)
      then tp_damage_same_team_victim_unit_type_counts_update (bump t) st
      else inc tp_damage_same_team_victim_unit_type_overflow_update st)"

definition record_global_neutralize_original_team :: "u32 \<Rightarrow> target_probe_state \<Rightarrow> target_probe_state" where
  "record_global_neutralize_original_team t st =
     (if unat t < length (tp_global_neutralize_original_team_counts st)
      then tp_global_neutralize_original_team_counts_update (bump t) st
      else inc tp_global_neutralize_original_team_overflow_update st)"

subsection \<open>Switches\<close>

definition target_bitset_allow_enabled :: "target_probe_state \<Rightarrow> bool" where
  "target_bitset_allow_enabled st \<longleftrightarrow>
     tp_target_bitset_allow_enabled st \<noteq> 0 \<or> tp_neutral_simulation_enabled st \<noteq> 0"

definition force_filter_same_team_allow_enabled :: "target_probe_state \<Rightarrow> bool" where
  "force_filter_same_team_allow_enabled st \<longleftrightarrow>
     tp_force_filter_same_team_allow_enabled st \<noteq> 0 \<or> tp_neutral_simulation_enabled st \<noteq> 0"

definition force_caller_same_team_allow_enabled :: "target_probe_state \<Rightarrow> bool" where
  "force_caller_same_team_allow_enabled st \<longleftrightarrow>
     tp_force_caller_same_team_allow_enabled st \<noteq> 0 \<or> tp_neutral_simulation_enabled st \<noteq> 0"

definition force_filter_objective_allow_enabled :: "target_probe_state \<Rightarrow> bool" where
  "force_filter_objective_allow_enabled st \<longleftrightarrow>
     tp_force_filter_objective_allow_enabled st \<noteq> 0 \<or> tp_neutral_simulation_enabled st \<noteq> 0"

definition force_caller_objective_allow_enabled :: "target_probe_state \<Rightarrow> bool" where
  "force_caller_objective_allow_enabled st \<longleftrightarrow>
     tp_force_caller_objective_allow_enabled st \<noteq> 0 \<or> tp_neutral_simulation_enabled st \<noteq> 0"

definition force_secondary_allow_enabled :: "target_probe_state \<Rightarrow> bool" where
  "force_secondary_allow_enabled st \<longleftrightarrow>
     tp_force_secondary_allow_enabled st \<noteq> 0 \<or> tp_neutral_simulation_enabled st \<noteq> 0"

definition configured_target_spoof_team :: "target_probe_state \<Rightarrow> u32 \<Rightarrow> u8" where
  "configured_target_spoof_team st source_team =
     (if tp_target_team_spoof_team st \<le> 0xff then ucast (tp_target_team_spoof_team st)
      else tp_opposing_team source_team)"

subsection \<open>Global neutralisation\<close>

definition maybe_global_neutralize_entity ::
  "target_probe_state \<Rightarrow> engine_memory \<Rightarrow> ptr \<Rightarrow> target_probe_state \<times> engine_memory" where
  "maybe_global_neutralize_entity st m entity =
     (if tp_enabled st = 0 \<or> tp_global_neutralize_enabled st = 0 then (st, m)
      else
        let st = inc tp_global_neutralize_attempts_update st
        in if entity = nullptr then (inc tp_global_neutralize_null_update st, m)
           else
             let (ok, original_team) = safe_read_team m entity
             in if \<not> ok then (inc tp_global_neutralize_invalid_team_update st, m)
                else
                  let st = record_global_neutralize_original_team original_team st;
                      neutral_team = tp_global_neutralize_team st
                  in if original_team = neutral_team then (inc tp_global_neutralize_already_update st, m)
                     else if neutral_team > 0xff
                     then (inc tp_global_neutralize_write_failures_update st, m)
                     else
                       let (ok, m') = safe_write_team m entity (ucast neutral_team)
                       in if ok then (inc tp_global_neutralize_applied_update st, m')
                          else (inc tp_global_neutralize_write_failures_update st, m'))"

subsection \<open>The target filter\<close>

record target_filter_scope =
  ts_source :: ptr
  ts_target :: ptr
  ts_original_source_team :: u8
  ts_original_target_team :: u8
  ts_source_spoof_applied :: u8
  ts_target_spoof_applied :: u8
  ts_same_team :: u8
  ts_target_objective :: u8

definition empty_target_scope :: target_filter_scope where
  "empty_target_scope =
     \<lparr>ts_source = nullptr, ts_target = nullptr, ts_original_source_team = 0,
      ts_original_target_team = 0, ts_source_spoof_applied = 0, ts_target_spoof_applied = 0,
      ts_same_team = 0, ts_target_objective = 0\<rparr>"

text \<open>
  What \<open>begin_target_filter\<close> counts before it decides on spoofing, from the two team reads, the
  unit type and the name of the target.
\<close>

definition observe_filter ::
  "bool \<times> u32 \<Rightarrow> bool \<times> u32 \<Rightarrow> u32 \<Rightarrow> string \<Rightarrow> bool \<Rightarrow> target_probe_state \<Rightarrow> target_probe_state" where
  "observe_filter src tgt unit_type name same_team st =
     (let st = inc tp_filter_calls_update st;
          st = inc_if (\<not> fst src) tp_filter_invalid_source_team_update st;
          st = inc_if (\<not> fst tgt) tp_filter_invalid_target_team_update st;
          st = record_unit_type unit_type st;
          st = st\<lparr>tp_last_source_team := snd src, tp_last_target_team := snd tgt,
                  tp_last_target_unit_type := unit_type\<rparr>;
          st = inc_if same_team tp_filter_same_team_calls_update st;
          st = inc_if (is_objective_name name) tp_filter_objective_target_calls_update st;
          st = inc_if (is_neutral_name name) tp_filter_neutral_target_calls_update st
      in inc_if (is_midboss_name name) tp_filter_midboss_target_calls_update st)"

text \<open>The two spoofs; the last component is the flag stored in the scope.\<close>

definition spoof_source ::
  "target_probe_state \<Rightarrow> engine_memory \<Rightarrow> ptr \<Rightarrow> ptr \<Rightarrow> u32 \<Rightarrow> bool
     \<Rightarrow> target_probe_state \<times> engine_memory \<times> u8" where
  "spoof_source st m source target target_team same_team =
     (if tp_source_team_spoof_enabled st \<noteq> 0 \<and> same_team \<and> source \<noteq> target
         \<and> tp_opposing_team target_team \<noteq> 0
      then let st = inc tp_source_spoof_attempts_update st;
               (ok, m') = safe_write_team m source (tp_opposing_team target_team)
           in if ok then (inc tp_source_spoof_applied_update st, m', 1) else (st, m', 0)
      else (st, m, 0))"

definition spoof_target ::
  "target_probe_state \<Rightarrow> engine_memory \<Rightarrow> ptr \<Rightarrow> ptr \<Rightarrow> u32 \<Rightarrow> bool
     \<Rightarrow> target_probe_state \<times> engine_memory \<times> u8" where
  "spoof_target st m source target source_team same_team =
     (if tp_target_team_spoof_enabled st \<noteq> 0 \<and> same_team \<and> source \<noteq> target
      then let st = inc tp_target_spoof_attempts_update st;
               (ok, m') = safe_write_team m target (configured_target_spoof_team st source_team)
           in if ok then (inc tp_target_spoof_applied_update st, m', 1) else (st, m', 0)
      else (st, m, 0))"

definition team_byte :: "u32 \<Rightarrow> u8" where
  "team_byte team = (if team \<le> 0xff then ucast team else 0)"

definition begin_target_filter ::
  "unit_type_fn \<Rightarrow> target_probe_state \<Rightarrow> engine_memory \<Rightarrow> ptr \<Rightarrow> ptr \<Rightarrow> bool
     \<Rightarrow> (target_probe_state \<times> engine_memory \<times> target_filter_scope) option" where
  "begin_target_filter uf st m source target recursive =
     (if tp_enabled st = 0 \<or> recursive then Some (st, m, empty_target_scope)
      else
        let (st, m) = maybe_global_neutralize_entity st m source;
            (st, m) = maybe_global_neutralize_entity st m target;
            src = safe_read_team m source;
            tgt = safe_read_team m target;
            unit_type = safe_unit_type uf m target
        in (case designer_name_for m target of
              None \<Rightarrow> None
            | Some name \<Rightarrow>
                let same_team = (snd src \<noteq> invalid32 \<and> snd tgt \<noteq> invalid32 \<and> snd src = snd tgt);
                    st = observe_filter src tgt unit_type name same_team st;
                    (st, m, source_applied) = spoof_source st m source target (snd tgt) same_team;
                    (st, m, target_applied) = spoof_target st m source target (snd src) same_team
                in Some (st, m,
                     \<lparr>ts_source = source, ts_target = target,
                      ts_original_source_team = team_byte (snd src),
                      ts_original_target_team = team_byte (snd tgt),
                      ts_source_spoof_applied = source_applied,
                      ts_target_spoof_applied = target_applied,
                      ts_same_team = of_bool same_team,
                      ts_target_objective = of_bool (is_objective_name name)\<rparr>)))"

definition record_result_common :: "bool \<Rightarrow> bool \<Rightarrow> bool \<Rightarrow> target_probe_state \<Rightarrow> target_probe_state" where
  "record_result_common result same_team objective_target st =
     (if result
      then inc_if objective_target tp_filter_objective_target_allowed_update
             (inc_if same_team tp_filter_same_team_allowed_update (inc tp_filter_allowed_update st))
      else inc_if objective_target tp_filter_objective_target_denied_update
             (inc_if same_team tp_filter_same_team_denied_update (inc tp_filter_denied_update st)))"

text \<open>The result after the forced allowances, and the counter of those.\<close>

definition force_filter_result ::
  "target_probe_state \<Rightarrow> target_filter_scope \<Rightarrow> bool \<Rightarrow> bool \<times> target_probe_state" where
  "force_filter_result st scope result =
     (if \<not> result \<and> (ts_same_team scope \<noteq> 0 \<and> force_filter_same_team_allow_enabled st \<or>
                      ts_target_objective scope \<noteq> 0 \<and> force_filter_objective_allow_enabled st)
      then (True, inc tp_filter_forced_allowed_update st) else (result, st))"

definition restore_source ::
  "target_probe_state \<Rightarrow> engine_memory \<Rightarrow> target_filter_scope \<Rightarrow> bool \<Rightarrow> target_probe_state \<times> engine_memory" where
  "restore_source st m scope final_result =
     (if ts_source_spoof_applied scope \<noteq> 0 \<and> ts_source scope \<noteq> nullptr
      then let st = (if final_result then inc tp_source_spoof_allowed_update st
                     else inc tp_source_spoof_denied_update st);
               (ok, m') = safe_write_team m (ts_source scope) (ts_original_source_team scope)
           in (inc_if ok tp_source_spoof_restored_update st, m')
      else (st, m))"

definition restore_target ::
  "target_probe_state \<Rightarrow> engine_memory \<Rightarrow> target_filter_scope \<Rightarrow> bool \<Rightarrow> target_probe_state \<times> engine_memory" where
  "restore_target st m scope final_result =
     (if ts_target_spoof_applied scope \<noteq> 0 \<and> ts_target scope \<noteq> nullptr
      then let st = (if final_result then inc tp_target_spoof_allowed_update st
                     else inc tp_target_spoof_denied_update st);
               (ok, m') = safe_write_team m (ts_target scope) (ts_original_target_team scope)
           in (inc_if ok tp_target_spoof_restored_update st, m')
      else (st, m))"

definition finish_target_filter ::
  "target_probe_state \<Rightarrow> engine_memory \<Rightarrow> target_filter_scope \<Rightarrow> bool
     \<Rightarrow> bool \<times> target_probe_state \<times> engine_memory" where
  "finish_target_filter st m scope result =
     (let (final_result, st) = force_filter_result st scope result;
          st = st\<lparr>tp_last_filter_result := flag32 final_result\<rparr>;
          st = record_result_common final_result (ts_same_team scope \<noteq> 0) (ts_target_objective scope \<noteq> 0) st;
          (st, m) = restore_source st m scope final_result;
          (st, m) = restore_target st m scope final_result
      in (final_result, st, m))"

subsection \<open>The two other gates\<close>

definition force_caller_result ::
  "target_probe_state \<Rightarrow> bool \<Rightarrow> bool \<Rightarrow> bool \<Rightarrow> bool \<times> target_probe_state" where
  "force_caller_result st same_team objective_target result =
     (if \<not> result \<and> (same_team \<and> force_caller_same_team_allow_enabled st \<or>
                      objective_target \<and> force_caller_objective_allow_enabled st)
      then (True, inc tp_caller_forced_allowed_update st) else (result, st))"

definition record_target_filter_caller ::
  "unit_type_fn \<Rightarrow> target_probe_state \<Rightarrow> engine_memory \<Rightarrow> ptr \<Rightarrow> ptr \<Rightarrow> bool
     \<Rightarrow> (bool \<times> target_probe_state \<times> engine_memory) option" where
  "record_target_filter_caller uf st m source target result =
     (if tp_enabled st = 0 then Some (result, st, m)
      else
        let (st, m) = maybe_global_neutralize_entity st m source;
            (st, m) = maybe_global_neutralize_entity st m target;
            (source_ok, source_team) = safe_read_team m source;
            (target_ok, target_team) = safe_read_team m target;
            same_team = (source_ok \<and> target_ok \<and> source_team = target_team)
        in (case designer_name_for m target of
              None \<Rightarrow> None
            | Some name \<Rightarrow>
                let (final_result, st) = force_caller_result st same_team (is_objective_name name) result;
                    st = inc tp_caller_calls_update st;
                    st = (if final_result then inc tp_caller_allowed_update st
                          else inc tp_caller_denied_update st);
                    st = inc_if (safe_unit_type uf m target = 0x1a)
                           tp_caller_unit_0x1a_bypass_candidates_update st
                in Some (final_result, st, m)))"

definition record_secondary_target_gate ::
  "target_probe_state \<Rightarrow> engine_memory \<Rightarrow> ptr \<Rightarrow> ptr \<Rightarrow> ptr \<Rightarrow> bool
     \<Rightarrow> bool \<times> target_probe_state \<times> engine_memory" where
  "record_secondary_target_gate st m source maybe_attacker maybe_target result =
     (if tp_enabled st = 0 then (result, st, m)
      else
        let (st, m) = maybe_global_neutralize_entity st m source;
            (st, m) = maybe_global_neutralize_entity st m maybe_attacker;
            (st, m) = maybe_global_neutralize_entity st m maybe_target;
            (final_result, st) =
              (if \<not> result \<and> force_secondary_allow_enabled st
               then (True, inc tp_secondary_forced_allowed_update st) else (result, st));
            st = inc tp_secondary_calls_update st;
            st = (if final_result then inc tp_secondary_allowed_update st
                  else inc tp_secondary_denied_update st)
        in (final_result, st, m))"

subsection \<open>The target bitset and the identity classifier\<close>

text \<open>
  The classifier is code of the engine: \<open>None\<close> is a null function pointer, otherwise it writes a
  bit index to the address it is given, here the returned word, or faults.
\<close>

type_synonym identity_classifier = "(engine_memory \<Rightarrow> ptr \<Rightarrow> u32 option) option"

text \<open>The protected block: the classifier, the range check, and the read-modify-write of one word.\<close>

definition bitset_word :: "ptr \<Rightarrow> u32 \<Rightarrow> ptr" where
  "bitset_word bitset bit_index = bitset + 4 * ucast (drop_bit 5 bit_index)"

definition bitset_mask :: "u32 \<Rightarrow> u32" where
  "bitset_mask bit_index = push_bit (unat (bit_index AND 0x1f)) 1"

definition set_target_bit :: "engine_memory \<Rightarrow> ptr \<Rightarrow> u32 \<Rightarrow> engine_memory option" where
  "set_target_bit m bitset bit_index =
     (if bit_index = invalid32 \<or> bit_index \<ge> 0x40000 then None
      else (case load32 m (bitset_word bitset bit_index) of
              None \<Rightarrow> None
            | Some w \<Rightarrow> store32 m (bitset_word bitset bit_index) (w OR bitset_mask bit_index)))"

definition maybe_allow_target_bitset ::
  "target_probe_state \<Rightarrow> engine_memory \<Rightarrow> target_filter_scope \<Rightarrow> ptr \<Rightarrow> ptr \<Rightarrow> identity_classifier
     \<Rightarrow> bool \<times> target_probe_state \<times> engine_memory" where
  "maybe_allow_target_bitset st m scope target bitset classifier =
     (if tp_enabled st = 0 \<or> \<not> target_bitset_allow_enabled st
         \<or> (ts_same_team scope = 0 \<and> ts_target_objective scope = 0)
      then (False, st, m)
      else
        let st = inc tp_bitset_allow_attempts_update st;
            failed = (False, inc tp_bitset_allow_failures_update st, m)
        in (case classifier of
              None \<Rightarrow> failed
            | Some f \<Rightarrow>
                if target = nullptr \<or> bitset = nullptr then failed
                else (case f m target of
                        None \<Rightarrow> failed
                      | Some bit_index \<Rightarrow>
                          (case set_target_bit m bitset bit_index of
                             None \<Rightarrow> failed
                           | Some m' \<Rightarrow> (True, inc tp_bitset_allow_applied_update st, m')))))"

text \<open>The thread local scope of the classifier spoof.\<close>

record classifier_spoof_scope =
  cs_target :: ptr
  cs_bit :: u32
  cs_active :: bool

definition empty_classifier_scope :: classifier_spoof_scope where
  "empty_classifier_scope = \<lparr>cs_target = nullptr, cs_bit = invalid32, cs_active = False\<rparr>"

definition begin_target_classifier_spoof_scope ::
  "target_probe_state \<Rightarrow> target_filter_scope \<Rightarrow> classifier_spoof_scope" where
  "begin_target_classifier_spoof_scope st scope =
     (if tp_enabled st = 0 \<or> tp_classifier_spoof_enabled st = 0 \<or> ts_target scope = nullptr
         \<or> (ts_same_team scope = 0 \<and> ts_target_objective scope = 0)
      then empty_classifier_scope
      else if tp_classifier_spoof_bit st > 31 then empty_classifier_scope
      else \<lparr>cs_target = ts_target scope, cs_bit = tp_classifier_spoof_bit st, cs_active = True\<rparr>)"

definition end_target_classifier_spoof_scope :: "classifier_spoof_scope \<Rightarrow> classifier_spoof_scope" where
  "end_target_classifier_spoof_scope cs = empty_classifier_scope"

text \<open>The protected write of the spoofed bit; the last component is \<open>final_bit\<close>.\<close>

definition spoof_classifier ::
  "target_probe_state \<Rightarrow> engine_memory \<Rightarrow> classifier_spoof_scope \<Rightarrow> ptr \<Rightarrow> ptr \<Rightarrow> u32
     \<Rightarrow> target_probe_state \<times> engine_memory \<times> u32" where
  "spoof_classifier st m cs target out original_bit =
     (if cs_active cs \<and> target = cs_target cs
      then
        let st = inc tp_classifier_spoof_attempts_update st
        in if cs_bit cs \<le> 31
           then (case store32 m out (cs_bit cs) of
                   None \<Rightarrow> (inc tp_classifier_spoof_skipped_update st, m, original_bit)
                 | Some m' \<Rightarrow> (inc tp_classifier_spoof_applied_update st, m', cs_bit cs))
           else (inc tp_classifier_spoof_skipped_update st, m, original_bit)
      else (st, m, original_bit))"

definition finish_target_identity_classifier ::
  "target_probe_state \<Rightarrow> engine_memory \<Rightarrow> classifier_spoof_scope \<Rightarrow> ptr \<Rightarrow> ptr
     \<Rightarrow> (target_probe_state \<times> engine_memory) option" where
  "finish_target_identity_classifier st m cs target out =
     (if tp_enabled st = 0 then Some (st, m)
      else
        let (st, m) = maybe_global_neutralize_entity st m target;
            st = inc tp_classifier_calls_update st
        in if out = nullptr then Some (inc tp_classifier_invalid_update st, m)
           else (case load32 m out of
                   None \<Rightarrow> None
                 | Some original_bit \<Rightarrow>
                     let st = inc_if (original_bit = invalid32) tp_classifier_invalid_update st;
                         (st, m, final_bit) = spoof_classifier st m cs target out original_bit
                     in Some (st\<lparr>tp_last_classifier_original_bit := ucast original_bit,
                                tp_last_classifier_final_bit := ucast final_bit\<rparr>, m)))"

subsection \<open>Damage victims\<close>

text \<open>What is counted about the victim.\<close>

definition observe_victim :: "bool \<times> u32 \<Rightarrow> u32 \<Rightarrow> string \<Rightarrow> target_probe_state \<Rightarrow> target_probe_state" where
  "observe_victim team unit_type name st =
     (let st = inc tp_damage_victim_calls_update st;
          st = inc_if (\<not> fst team) tp_damage_victim_invalid_team_update st;
          st = st\<lparr>tp_last_damage_victim_team := snd team, tp_last_damage_victim_unit_type := unit_type\<rparr>;
          st = record_damage_unit_type unit_type st;
          st = inc_if (is_objective_name name) tp_damage_victim_objective_update st;
          st = inc_if (is_neutral_name name) tp_damage_victim_neutral_update st
      in inc_if (is_midboss_name name) tp_damage_victim_midboss_update st)"

text \<open>What is counted about the handles, and the classification of the attacker's team.\<close>

definition observe_inflictor :: "bool \<Rightarrow> target_probe_state \<Rightarrow> target_probe_state" where
  "observe_inflictor valid st =
     (if valid then inc tp_damage_inflictor_handle_valid_update st
      else inc tp_damage_inflictor_handle_invalid_update st)"

definition classify_attacker_team ::
  "u32 \<Rightarrow> u32 \<Rightarrow> u32 \<Rightarrow> bool \<Rightarrow> target_probe_state \<Rightarrow> target_probe_state" where
  "classify_attacker_team attacker_team victim_team victim_unit_type objective_victim st =
     (if attacker_team = invalid32 \<or> victim_team = invalid32
      then inc tp_damage_attacker_other_team_update st
      else if attacker_team = victim_team
      then inc_if objective_victim tp_damage_attacker_same_team_objective_update
             (record_same_team_victim_unit_type victim_unit_type
               (inc tp_damage_attacker_same_team_update st))
      else if attacker_team = 2 \<and> victim_team = 3 \<or> attacker_team = 3 \<and> victim_team = 2
      then inc tp_damage_attacker_opposing_team_update st
      else inc tp_damage_attacker_other_team_update st)"

definition observe_attacker ::
  "unit_type_fn \<Rightarrow> engine_memory \<Rightarrow> bool \<times> ptr \<Rightarrow> ptr \<Rightarrow> u32 \<Rightarrow> u32 \<Rightarrow> bool
     \<Rightarrow> target_probe_state \<Rightarrow> target_probe_state" where
  "observe_attacker uf m attacker victim victim_team victim_unit_type objective_victim st =
     (if \<not> fst attacker
      then (inc tp_damage_attacker_handle_invalid_update st)
             \<lparr>tp_last_damage_attacker_team := invalid32, tp_last_damage_attacker_unit_type := invalid32\<rparr>
      else
        let st = inc tp_damage_attacker_handle_valid_update st;
            attacker_team = snd (safe_read_team m (snd attacker));
            attacker_unit_type = safe_unit_type uf m (snd attacker);
            st = st\<lparr>tp_last_damage_attacker_team := attacker_team,
                    tp_last_damage_attacker_unit_type := attacker_unit_type\<rparr>;
            st = record_damage_attacker_unit_type attacker_unit_type st;
            st = inc_if (snd attacker = victim) tp_damage_attacker_self_update st
        in classify_attacker_team attacker_team victim_team victim_unit_type objective_victim st)"

definition record_damage_victim ::
  "unit_type_fn \<Rightarrow> ptr \<Rightarrow> target_probe_state \<Rightarrow> engine_memory \<Rightarrow> ptr \<Rightarrow> ptr \<Rightarrow> bool
     \<Rightarrow> (target_probe_state \<times> engine_memory) option" where
  "record_damage_victim uf server st m victim info recursive =
     (if tp_enabled st = 0 \<or> recursive then Some (st, m)
      else
        let (st, m) = maybe_global_neutralize_entity st m victim;
            team = safe_read_team m victim;
            unit_type = safe_unit_type uf m victim
        in (case designer_name_for m victim of
              None \<Rightarrow> None
            | Some name \<Rightarrow>
                let st = observe_victim team unit_type name st;
                    attacker_handle = snd (safe_read_damage_handle m info 0x3c);
                    inflictor_handle = snd (safe_read_damage_handle m info 0x38);
                    st = st\<lparr>tp_last_damage_attacker_handle := attacker_handle,
                            tp_last_damage_inflictor_handle := inflictor_handle\<rparr>;
                    st = observe_inflictor (fst (resolve_entity_handle m server inflictor_handle)) st;
                    st = observe_attacker uf m (resolve_entity_handle m server attacker_handle)
                           victim (snd team) unit_type (is_objective_name name) st
                in Some (st, m)))"

end
