(* ===== verification/Float32.thy ===== *)
theory Float32
  imports Dwrt_Prelude
begin

section \<open>Single precision numbers\<close>

text \<open>
  The coordinates of the walker patrol are \<open>float\<close>: IEEE 754 binary32 values, kept as their bit
  patterns.  A finite value is an integer multiple of \<open>2 ^ -149\<close>, the smallest positive one, so
  arithmetic is done exactly on these integers and rounded once, to nearest with ties to even.
  \<open>std::from_chars\<close> is modelled for the general format: an optional minus sign and a decimal number,
  an infinity or a NaN, with an error for a value that rounds to infinity or to zero from a nonzero
  number.
\<close>

type_synonym f32 = u32

definition f32_abs :: "f32 \<Rightarrow> f32" where
  "f32_abs x = x AND 0x7fffffff"

definition f32_finite :: "f32 \<Rightarrow> bool" where
  "f32_finite x \<longleftrightarrow> f32_abs x < 0x7f800000"

definition f32_nan :: "f32 \<Rightarrow> bool" where
  "f32_nan x \<longleftrightarrow> f32_abs x > 0x7f800000"

definition f32_negative :: "f32 \<Rightarrow> bool" where
  "f32_negative x \<longleftrightarrow> x \<ge> 0x80000000"

text \<open>The magnitude of a finite value in units of \<open>2 ^ -149\<close>, from the pattern without its sign.\<close>

definition magnitude_units :: "nat \<Rightarrow> nat" where
  "magnitude_units b =
     (let e = b div 2 ^ 23; f = b mod 2 ^ 23
      in if e = 0 then f else (2 ^ 23 + f) * 2 ^ (e - 1))"

definition f32_units :: "f32 \<Rightarrow> int" where
  "f32_units x = (if f32_negative x then - int (magnitude_units (unat (f32_abs x)))
                  else int (magnitude_units (unat (f32_abs x))))"

text \<open>The number of binary digits.\<close>

fun bit_len :: "nat \<Rightarrow> nat" where
  "bit_len n = (if n = 0 then 0 else Suc (bit_len (n div 2)))"

declare bit_len.simps [simp del]

text \<open>
  Rounding \<open>num / den\<close> units to the pattern of a magnitude: the quotient is cut to 24 digits, the
  remainder decides, and a carry out of the digits moves into the exponent by itself.
\<close>

definition round_magnitude :: "nat \<Rightarrow> nat \<Rightarrow> nat" where
  "round_magnitude num den =
     (let k = bit_len (num div den) - 24;
          d = den * 2 ^ k;
          q = num div d;
          r = num mod d;
          q' = (if 2 * r > d \<or> 2 * r = d \<and> odd q then q + 1 else q)
      in min (k * 2 ^ 23 + q') 0x7f800000)"

definition f32_pattern :: "bool \<Rightarrow> nat \<Rightarrow> f32" where
  "f32_pattern negative b = (if negative then 0x80000000 + of_nat b else of_nat b)"

definition quiet_nan :: "f32 \<Rightarrow> f32" where
  "quiet_nan x = x OR 0x00400000"

text \<open>
  Addition: a NaN operand is returned quiet, infinities of opposite sign give the default NaN,
  a zero sum is positive unless both operands are negative zeros.
\<close>

definition f32_add :: "f32 \<Rightarrow> f32 \<Rightarrow> f32" where
  "f32_add a b =
     (if f32_nan a then quiet_nan a
      else if f32_nan b then quiet_nan b
      else if \<not> f32_finite a then (if f32_finite b \<or> a = b then a else 0xffc00000)
      else if \<not> f32_finite b then b
      else
        let n = f32_units a + f32_units b
        in if n = 0 then (if f32_negative a \<and> f32_negative b then 0x80000000 else 0)
           else f32_pattern (n < 0) (round_magnitude (nat \<bar>n\<bar>) 1))"

subsection \<open>Reading a number\<close>

definition digit_of :: "char \<Rightarrow> nat option" where
  "digit_of c = (let n = of_char c in if 48 \<le> n \<and> n \<le> 57 then Some (n - 48) else None)"

definition is_digit :: "char \<Rightarrow> bool" where
  "is_digit c \<longleftrightarrow> digit_of c \<noteq> None"

definition digits_number :: "string \<Rightarrow> nat" where
  "digits_number s = foldl (\<lambda>n c. n * 10 + the (digit_of c)) 0 s"

text \<open>The part behind the digits: nothing, or an exponent with at least one digit.\<close>

definition exponent_part :: "string \<Rightarrow> int option" where
  "exponent_part s =
     (case s of
        [] \<Rightarrow> Some 0
      | e # r \<Rightarrow>
          if e \<noteq> CHR ''e'' \<and> e \<noteq> CHR ''E'' then None
          else
            (let negative = (r \<noteq> [] \<and> hd r = CHR ''-'');
                 ds = (if r \<noteq> [] \<and> (hd r = CHR ''-'' \<or> hd r = CHR ''+'') then tl r else r)
             in if ds = [] \<or> \<not> list_all is_digit ds then None
                else Some (if negative then - int (digits_number ds) else int (digits_number ds))))"

text \<open>
  A whole text as decimal digits, its value being \<open>digits * 10 ^ exponent\<close>; \<open>None\<close> when the text is
  not a decimal number from end to end.
\<close>

definition decimal_number :: "string \<Rightarrow> (nat \<times> int) option" where
  "decimal_number s =
     (let whole = takeWhile is_digit s;
          r = dropWhile is_digit s;
          point = (r \<noteq> [] \<and> hd r = CHR ''.'');
          fraction = (if point then takeWhile is_digit (tl r) else []);
          rest = (if point then dropWhile is_digit (tl r) else r)
      in if whole = [] \<and> fraction = [] then None
         else map_option (\<lambda>e. (digits_number (whole @ fraction), e - int (length fraction)))
                (exponent_part rest))"

definition lower :: "string \<Rightarrow> string" where
  "lower s = map (\<lambda>c. let n = of_char c :: nat in if 65 \<le> n \<and> n \<le> 90 then char_of (n + 32) else c) s"

definition nan_text :: "string \<Rightarrow> bool" where
  "nan_text s \<longleftrightarrow>
     lower (take 3 s) = ''nan'' \<and>
     (length s = 3 \<or>
      4 < length s \<and> s ! 3 = CHR ''('' \<and> last s = CHR '')'' \<and>
      list_all (\<lambda>c. let n = of_char c :: nat
                    in 48 \<le> n \<and> n \<le> 57 \<or> 65 \<le> n \<and> n \<le> 90 \<or> 97 \<le> n \<and> n \<le> 122 \<or> n = 95)
        (butlast (drop 4 s)))"

text \<open>\<open>parse_float\<close>: the result of \<open>from_chars\<close> when there is no error and all the text is used.\<close>

definition parse_float :: "string \<Rightarrow> f32 option" where
  "parse_float text =
     (let negative = (text \<noteq> [] \<and> hd text = CHR ''-'');
          s = (if negative then tl text else text)
      in if lower s = ''inf'' \<or> lower s = ''infinity'' then Some (f32_pattern negative 0x7f800000)
         else if nan_text s then Some (f32_pattern negative 0x7fc00000)
         else
           (case decimal_number s of
              None \<Rightarrow> None
            | Some (digits, e) \<Rightarrow>
                if digits = 0 then Some (f32_pattern negative 0)
                else
                  let b = (if 0 \<le> e then round_magnitude (digits * 10 ^ nat e * 2 ^ 149) 1
                           else round_magnitude (digits * 2 ^ 149) (10 ^ nat (- e)))
                  in if b = 0 \<or> 0x7f800000 \<le> b then None else Some (f32_pattern negative b)))"

subsection \<open>Rounding is exact on representable values\<close>

lemma bit_len_eq: "2 ^ k \<le> n \<Longrightarrow> n < 2 ^ Suc k \<Longrightarrow> bit_len n = Suc k"
proof (induction k arbitrary: n)
  case 0
  then have "n = 1" by simp
  then show ?case by (simp add: bit_len.simps [of "Suc 0"] bit_len.simps [of 0])
next
  case (Suc k)
  then have "bit_len (n div 2) = Suc k" by (intro Suc.IH) auto
  moreover have "n \<noteq> 0" using Suc.prems(1) by (cases n) auto
  ultimately show ?case by (subst bit_len.simps) simp
qed

lemma bit_len_le: "n < 2 ^ k \<Longrightarrow> bit_len n \<le> k"
proof (induction k arbitrary: n)
  case 0
  then show ?case by (simp add: bit_len.simps)
next
  case (Suc k)
  then have "bit_len (n div 2) \<le> k" by (intro Suc.IH) auto
  then show ?case by (subst bit_len.simps) simp
qed

lemma round_magnitude_units:
  assumes "b < 0x7f800000"
  shows "round_magnitude (magnitude_units b) 1 = b"
proof (cases "b div 2 ^ 23 = 0")
  case True
  then have n: "magnitude_units b = b" "b < 2 ^ 23" by (auto simp: magnitude_units_def div_eq_0_iff)
  then have "bit_len b - 24 = 0" using bit_len_le [of b 23] by simp
  then show ?thesis using assms n by (simp add: round_magnitude_def)
next
  case False
  define e f where "e = b div 8388608" and "f = b mod 8388608"
  have b: "b = e * 8388608 + f" and f: "f < 8388608" by (simp_all add: e_def f_def)
  obtain j where j: "e = Suc j" using False by (cases e) (auto simp: e_def)
  have n: "magnitude_units b = (8388608 + f) * 2 ^ j"
    using j by (simp add: magnitude_units_def e_def [symmetric] f_def [symmetric])
  have "2 ^ (23 + j) \<le> (8388608 + f) * 2 ^ j" by (simp add: power_add)
  moreover have "(8388608 + f) * 2 ^ j < 2 ^ Suc (23 + j)" using f by (simp add: power_add)
  ultimately have "bit_len (magnitude_units b) = Suc (23 + j)" unfolding n by (rule bit_len_eq)
  then have "bit_len (magnitude_units b) - 24 = j" by simp
  moreover have "(magnitude_units b) div 2 ^ j = 8388608 + f" "(magnitude_units b) mod 2 ^ j = 0"
    by (simp_all add: n)
  ultimately show ?thesis using assms b j by (simp add: round_magnitude_def)
qed

lemma f32_split: "x = f32_pattern (f32_negative x) (unat (f32_abs x))"
proof -
  have m: "x AND 0x7fffffff = take_bit 31 x" by (simp add: take_bit_eq_mask mask_eq_exp_minus_1)
  have u: "unat x < 4294967296" by (rule unat_lt_32)
  have "unat (take_bit 31 x) = take_bit 31 (unat x)" by (rule unsigned_take_bit_eq)
  then have a: "unat (f32_abs x) = unat x mod 2147483648"
    unfolding f32_abs_def m take_bit_nat_def by simp
  show ?thesis
  proof (cases "f32_negative x")
    case True
    then have "2147483648 \<le> unat x" by (simp add: f32_negative_def word_le_nat_alt)
    moreover have "unat x mod 2147483648 = unat x - 2147483648"
      using u \<open>2147483648 \<le> unat x\<close> by (subst le_mod_geq) simp_all
    ultimately have "unat x = 2147483648 + unat (f32_abs x)" unfolding a by simp
    moreover have "x = of_nat (unat x)" by simp
    ultimately have "x = of_nat (2147483648 + unat (f32_abs x))" by (simp only:)
    with True show ?thesis by (simp add: f32_pattern_def)
  next
    case False
    then have "unat x < 2147483648" by (simp add: f32_negative_def word_le_nat_alt)
    then have "unat (f32_abs x) = unat x" unfolding a by simp
    with False show ?thesis by (simp add: f32_pattern_def)
  qed
qed

text \<open>
  A sum that is itself a finite value is computed without error; the sign of a zero sum aside.
\<close>

lemma f32_add_exact:
  assumes "f32_finite a" "f32_finite b" "f32_finite c" "f32_units c = f32_units a + f32_units b"
    and "f32_units c \<noteq> 0"
  shows "f32_add a b = c"
proof -
  have nan: "\<not> f32_nan a" "\<not> f32_nan b" using assms(1,2) by (auto simp: f32_finite_def f32_nan_def)
  have neg: "f32_units c < 0 \<longleftrightarrow> f32_negative c" using assms(5) by (auto simp: f32_units_def)
  have "nat \<bar>f32_units c\<bar> = magnitude_units (unat (f32_abs c))" by (simp add: f32_units_def)
  moreover have "unat (f32_abs c) < 0x7f800000" using assms(3) by (simp add: f32_finite_def word_less_nat_alt)
  ultimately have "round_magnitude (nat \<bar>f32_units c\<bar>) 1 = unat (f32_abs c)"
    by (simp only: round_magnitude_units)
  then have "f32_add a b = f32_pattern (f32_negative c) (unat (f32_abs c))"
    using assms(1-3,5) nan neg by (simp add: f32_add_def assms(4) [symmetric] Let_def)
  then show ?thesis using f32_split [of c] by simp
qed

end
