(* ===== verification/Walker_Patrol.thy ===== *)
theory Walker_Patrol
  imports Entity_Access Environment_Config Float32
begin

section \<open>The walker patrol experiment\<close>

text \<open>
  Model of \<open>native/dwrt-host/dwrt_walker_patrol.cpp\<close>: every \<open>stride\<close>-th damage callback on a walker
  teleports it, by the next of up to eight vectors, either as a velocity or as an offset to its
  origin.  Reads of the origin are protected, the identity and the virtual call are not.  The
  engine's \<open>Teleport\<close> is a parameter: given the code address, the entity, and the optional
  position and velocity, it returns the memory after the call or faults.
\<close>

record vec3 =
  v_x :: f32
  v_y :: f32
  v_z :: f32

definition zero_vec :: vec3 where
  "zero_vec = \<lparr>v_x = 0, v_y = 0, v_z = 0\<rparr>"

type_synonym teleport_fn = "engine_memory \<Rightarrow> ptr \<Rightarrow> ptr \<Rightarrow> vec3 option \<Rightarrow> vec3 option \<Rightarrow> engine_memory option"

record walker_patrol_state =
  wp_enabled :: u32
  wp_stride :: u32
  wp_mode :: u32
  wp_vectors :: "vec3 list"
  wp_waypoint_count :: u32
  wp_damage_callbacks :: u64
  wp_candidate_walkers :: u64
  wp_non_walker_victims :: u64
  wp_skipped_recursive :: u64
  wp_missing_identity :: u64
  wp_missing_designer_name :: u64
  wp_teleport_attempts :: u64
  wp_teleport_calls :: u64
  wp_body_component_missing :: u64
  wp_scene_node_missing :: u64
  wp_origin_read_attempts :: u64
  wp_origin_read_successes :: u64
  wp_origin_read_failures :: u64

definition initial_walker_patrol :: walker_patrol_state where
  "initial_walker_patrol =
     \<lparr>wp_enabled = 0, wp_stride = 16, wp_mode = 0, wp_vectors = replicate 8 zero_vec, wp_waypoint_count = 0,
      wp_damage_callbacks = 0,
      wp_candidate_walkers = 0,
      wp_non_walker_victims = 0,
      wp_skipped_recursive = 0,
      wp_missing_identity = 0,
      wp_missing_designer_name = 0,
      wp_teleport_attempts = 0,
      wp_teleport_calls = 0,
      wp_body_component_missing = 0,
      wp_scene_node_missing = 0,
      wp_origin_read_attempts = 0,
      wp_origin_read_successes = 0,
      wp_origin_read_failures = 0\<rparr>"

subsection \<open>Configuration\<close>

definition env_mode_or_velocity :: "process_env \<Rightarrow> u32" where
  "env_mode_or_velocity env =
     (if env_flag_enabled env ''DWRT_WALKER_PATROL_ORIGIN_NUDGE'' then 1
      else (case env_buffer (env_ansi env ''DWRT_WALKER_PATROL_MODE'' 32) 32 of
              None \<Rightarrow> 0
            | Some text \<Rightarrow>
                if text \<in> {''origin'', ''origin-nudge'', ''OriginNudge'', ''ORIGIN_NUDGE''} then 1 else 0))"

text \<open>Assigning the first elements of the array of vectors leaves the others.\<close>

definition overwrite_vectors :: "vec3 list \<Rightarrow> walker_patrol_state \<Rightarrow> walker_patrol_state" where
  "overwrite_vectors vs st =
     st\<lparr>wp_vectors := vs @ drop (length vs) (wp_vectors st), wp_waypoint_count := of_nat (length vs)\<rparr>"

definition default_vectors :: "u32 \<Rightarrow> vec3 list" where
  "default_vectors mode =
     (if mode = 1
      then [\<lparr>v_x = 0x43fa0000, v_y = 0, v_z = 0\<rparr>, \<lparr>v_x = 0, v_y = 0x43fa0000, v_z = 0\<rparr>,
            \<lparr>v_x = 0xc3fa0000, v_y = 0, v_z = 0\<rparr>, \<lparr>v_x = 0, v_y = 0xc3fa0000, v_z = 0\<rparr>]
      else [\<lparr>v_x = 0x44610000, v_y = 0, v_z = 0\<rparr>, \<lparr>v_x = 0, v_y = 0x44610000, v_z = 0\<rparr>,
            \<lparr>v_x = 0xc4610000, v_y = 0, v_z = 0\<rparr>, \<lparr>v_x = 0, v_y = 0xc4610000, v_z = 0\<rparr>])"

definition set_default_vectors :: "u32 \<Rightarrow> walker_patrol_state \<Rightarrow> walker_patrol_state" where
  "set_default_vectors mode st = overwrite_vectors (default_vectors mode) st"

text \<open>\<open>find\<close> of a separator: the text before it and the text behind it, if there is one.\<close>

definition split_first :: "char \<Rightarrow> string \<Rightarrow> string \<times> string option" where
  "split_first c s =
     (let r = dropWhile (\<lambda>d. d \<noteq> c) s
      in (takeWhile (\<lambda>d. d \<noteq> c) s, if r = [] then None else Some (tl r)))"

definition parse_vec3 :: "string \<Rightarrow> vec3 option" where
  "parse_vec3 text =
     (case split_first (CHR '','') text of
        (_, None) \<Rightarrow> None
      | (a, Some r) \<Rightarrow>
          (case split_first (CHR '','') r of
             (_, None) \<Rightarrow> None
           | (b, Some c) \<Rightarrow>
               (case (parse_float a, parse_float b, parse_float c) of
                  (Some x, Some y, Some z) \<Rightarrow> Some \<lparr>v_x = x, v_y = y, v_z = z\<rparr>
                | _ \<Rightarrow> None)))"

lemma split_first_shorter:
  assumes "split_first c s = (a, Some r)"
  shows "length r < length s"
proof -
  have "dropWhile (\<lambda>d. d \<noteq> c) s \<noteq> []" and r: "r = tl (dropWhile (\<lambda>d. d \<noteq> c) s)"
    using assms by (auto simp: split_first_def Let_def split: if_splits)
  then have "length r < length (dropWhile (\<lambda>d. d \<noteq> c) s)" by simp
  also have "\<dots> \<le> length s" by (rule length_dropWhile_le)
  finally show ?thesis .
qed

function parse_waypoints :: "string \<Rightarrow> vec3 list \<Rightarrow> vec3 list" where
  "parse_waypoints remaining parsed =
     (if remaining = [] \<or> length parsed \<ge> 8 then parsed
      else
        let (item, rest) = split_first (CHR '';'') remaining;
            parsed' = (case parse_vec3 item of
                         Some v \<Rightarrow> if item \<noteq> [] then parsed @ [v] else parsed
                       | None \<Rightarrow> parsed)
        in (case rest of None \<Rightarrow> parsed' | Some r \<Rightarrow> parse_waypoints r parsed'))"
  by pat_completeness auto

termination
  by (relation "measure (\<lambda>(remaining, parsed). length remaining)") (auto dest: split_first_shorter [OF sym])

declare parse_waypoints.simps [simp del]

definition parse_vector_environment :: "process_env \<Rightarrow> u32 \<Rightarrow> walker_patrol_state \<Rightarrow> walker_patrol_state" where
  "parse_vector_environment env mode st =
     (case env_buffer (env_ansi env ''DWRT_WALKER_PATROL_VELOCITIES'' 512) 512 of
        None \<Rightarrow> set_default_vectors mode st
      | Some buffer \<Rightarrow>
          (let parsed = parse_waypoints buffer []
           in if parsed = [] then set_default_vectors mode st else overwrite_vectors parsed st))"

definition configure_walker_patrol_from_environment ::
  "process_env \<Rightarrow> walker_patrol_state \<Rightarrow> walker_patrol_state" where
  "configure_walker_patrol_from_environment env st =
     (let mode = env_mode_or_velocity env
      in parse_vector_environment env mode
           (st\<lparr>wp_enabled := flag32 (env_flag_enabled env ''DWRT_WALKER_PATROL_EXPERIMENT''),
               wp_stride := wp_env_u32_or env ''DWRT_WALKER_PATROL_STRIDE'' 16,
               wp_mode := mode\<rparr>))"

definition reset_walker_patrol_counters :: "walker_patrol_state \<Rightarrow> walker_patrol_state" where
  "reset_walker_patrol_counters st =
     st\<lparr>wp_damage_callbacks := 0,
        wp_candidate_walkers := 0,
        wp_non_walker_victims := 0,
        wp_skipped_recursive := 0,
        wp_missing_identity := 0,
        wp_missing_designer_name := 0,
        wp_teleport_attempts := 0,
        wp_teleport_calls := 0,
        wp_body_component_missing := 0,
        wp_scene_node_missing := 0,
        wp_origin_read_attempts := 0,
        wp_origin_read_successes := 0,
        wp_origin_read_failures := 0\<rparr>"

subsection \<open>The origin of an entity\<close>

definition safe_read_pointer :: "engine_memory \<Rightarrow> ptr \<Rightarrow> u64 \<Rightarrow> bool \<times> ptr" where
  "safe_read_pointer m base offset =
     (if base = nullptr then (False, nullptr)
      else (case load64 m (base + offset) of None \<Rightarrow> (False, nullptr) | Some p \<Rightarrow> (True, p)))"

definition safe_read_vec3 :: "engine_memory \<Rightarrow> ptr \<Rightarrow> u64 \<Rightarrow> bool \<times> vec3" where
  "safe_read_vec3 m base offset =
     (if base = nullptr then (False, zero_vec)
      else (case (load32 m (base + offset), load32 m (base + offset + 4), load32 m (base + offset + 8)) of
              (Some x, Some y, Some z) \<Rightarrow> (True, \<lparr>v_x = x, v_y = y, v_z = z\<rparr>)
            | _ \<Rightarrow> (False, zero_vec)))"

definition plausible_origin :: "vec3 \<Rightarrow> bool" where
  "plausible_origin origin \<longleftrightarrow>
     f32_finite (v_x origin) \<and> f32_finite (v_y origin) \<and> f32_finite (v_z origin) \<and>
     f32_abs (v_x origin) < 0x49742400 \<and> f32_abs (v_y origin) < 0x49742400 \<and> f32_abs (v_z origin) < 0x49742400"

definition read_entity_abs_origin ::
  "walker_patrol_state \<Rightarrow> engine_memory \<Rightarrow> ptr \<Rightarrow> vec3 option \<times> walker_patrol_state" where
  "read_entity_abs_origin st m entity =
     (let st = inc wp_origin_read_attempts_update st;
          (ok, body) = safe_read_pointer m entity 0x30
      in if \<not> ok \<or> body = nullptr
         then (None, inc wp_origin_read_failures_update (inc wp_body_component_missing_update st))
         else
           let (ok, node) = safe_read_pointer m body 0x8
           in if \<not> ok \<or> node = nullptr
              then (None, inc wp_origin_read_failures_update (inc wp_scene_node_missing_update st))
              else
                let (ok, origin) = safe_read_vec3 m node 0xc8
                in if \<not> ok \<or> \<not> plausible_origin origin
                   then (None, inc wp_origin_read_failures_update st)
                   else (Some origin, inc wp_origin_read_successes_update st))"

subsection \<open>The callback\<close>

text \<open>The virtual call through slot 163 of the entity's table.\<close>

definition teleport_entity ::
  "teleport_fn \<Rightarrow> engine_memory \<Rightarrow> ptr \<Rightarrow> vec3 option \<Rightarrow> vec3 option \<Rightarrow> engine_memory option" where
  "teleport_entity tele m entity position velocity =
     do {
       vtable \<leftarrow> load64 m entity;
       fn \<leftarrow> load64 m (vtable + 163 * 8);
       tele m fn entity position velocity
     }"

definition add_vec :: "vec3 \<Rightarrow> vec3 \<Rightarrow> vec3" where
  "add_vec a b = \<lparr>v_x = f32_add (v_x a) (v_x b), v_y = f32_add (v_y a) (v_y b), v_z = f32_add (v_z a) (v_z b)\<rparr>"

text \<open>What is known of the victim, in the order of the early returns.\<close>

datatype walker_class = No_Identity | No_Name | No_Walker | Walker

definition walker_class :: "engine_memory \<Rightarrow> ptr \<Rightarrow> walker_class option" where
  "walker_class m entity =
     do {
       identity \<leftarrow> entity_identity m entity;
       if identity = nullptr then Some No_Identity
       else do {
         name \<leftarrow> load64 m (designer_name_field identity);
         named \<leftarrow> (if name = nullptr then Some False else map_option (\<lambda>c. c \<noteq> 0) (load8 m name));
         if \<not> named then Some No_Name
         else map_option (\<lambda>b. if b then Walker else No_Walker) (name_among walker_names m name)
       }
     }"

text \<open>The vector of the \<open>i\<close>-th candidate, a multiple of the stride.\<close>

definition waypoint :: "walker_patrol_state \<Rightarrow> u64 \<Rightarrow> u64 \<Rightarrow> vec3" where
  "waypoint st walker_index stride =
     wp_vectors st ! unat ((walker_index div stride - 1) mod ucast (wp_waypoint_count st))"

definition teleport_walker ::
  "teleport_fn \<Rightarrow> walker_patrol_state \<Rightarrow> engine_memory \<Rightarrow> ptr \<Rightarrow> vec3
     \<Rightarrow> (walker_patrol_state \<times> engine_memory) option" where
  "teleport_walker tele st m entity vector =
     (let st = inc wp_teleport_attempts_update st
      in if wp_mode st = 1
         then (case read_entity_abs_origin st m entity of
                 (None, st) \<Rightarrow> Some (st, m)
               | (Some origin, st) \<Rightarrow>
                   map_option (\<lambda>m'. (inc wp_teleport_calls_update st, m'))
                     (teleport_entity tele m entity (Some (add_vec origin vector)) None))
         else map_option (\<lambda>m'. (inc wp_teleport_calls_update st, m'))
                (teleport_entity tele m entity None (Some vector)))"

definition patrol_candidate ::
  "teleport_fn \<Rightarrow> walker_patrol_state \<Rightarrow> engine_memory \<Rightarrow> ptr
     \<Rightarrow> (walker_patrol_state \<times> engine_memory) option" where
  "patrol_candidate tele st m entity =
     (let walker_index = wp_candidate_walkers st + 1;
          st = inc wp_candidate_walkers_update st;
          stride = ucast (max 1 (wp_stride st))
      in if walker_index mod stride \<noteq> 0 then Some (st, m)
         else if wp_waypoint_count st = 0 then Some (st, m)
         else teleport_walker tele st m entity (waypoint st walker_index stride))"

definition maybe_apply_walker_patrol_on_damage ::
  "teleport_fn \<Rightarrow> walker_patrol_state \<Rightarrow> engine_memory \<Rightarrow> ptr \<Rightarrow> bool
     \<Rightarrow> (walker_patrol_state \<times> engine_memory) option" where
  "maybe_apply_walker_patrol_on_damage tele st m entity recursive =
     (if wp_enabled st = 0 then Some (st, m)
      else
        let st = inc wp_damage_callbacks_update st
        in if recursive then Some (inc wp_skipped_recursive_update st, m)
           else
             (case walker_class m entity of
                None \<Rightarrow> None
              | Some No_Identity \<Rightarrow> Some (inc wp_missing_identity_update st, m)
              | Some No_Name \<Rightarrow> Some (inc wp_missing_designer_name_update st, m)
              | Some No_Walker \<Rightarrow> Some (inc wp_non_walker_victims_update st, m)
              | Some Walker \<Rightarrow> patrol_candidate tele st m entity))"

text \<open>The snapshot has the fields of the state except the vectors.\<close>

record walker_patrol_snapshot =
  ws_enabled :: u32
  ws_stride :: u32
  ws_waypoint_count :: u32
  ws_mode :: u32
  ws_damage_callbacks :: u64
  ws_candidate_walkers :: u64
  ws_non_walker_victims :: u64
  ws_skipped_recursive :: u64
  ws_missing_identity :: u64
  ws_missing_designer_name :: u64
  ws_teleport_attempts :: u64
  ws_teleport_calls :: u64
  ws_body_component_missing :: u64
  ws_scene_node_missing :: u64
  ws_origin_read_attempts :: u64
  ws_origin_read_successes :: u64
  ws_origin_read_failures :: u64

definition walker_patrol_snapshot :: "walker_patrol_state \<Rightarrow> walker_patrol_snapshot" where
  "walker_patrol_snapshot st =
     \<lparr>ws_enabled = wp_enabled st,
      ws_stride = wp_stride st,
      ws_waypoint_count = wp_waypoint_count st,
      ws_mode = wp_mode st,
      ws_damage_callbacks = wp_damage_callbacks st,
      ws_candidate_walkers = wp_candidate_walkers st,
      ws_non_walker_victims = wp_non_walker_victims st,
      ws_skipped_recursive = wp_skipped_recursive st,
      ws_missing_identity = wp_missing_identity st,
      ws_missing_designer_name = wp_missing_designer_name st,
      ws_teleport_attempts = wp_teleport_attempts st,
      ws_teleport_calls = wp_teleport_calls st,
      ws_body_component_missing = wp_body_component_missing st,
      ws_scene_node_missing = wp_scene_node_missing st,
      ws_origin_read_attempts = wp_origin_read_attempts st,
      ws_origin_read_successes = wp_origin_read_successes st,
      ws_origin_read_failures = wp_origin_read_failures st\<rparr>"

end
