(* ===== verification/Host_State.thy ===== *)
theory Host_State
  imports Probe_Manifest Hook_Backend Probe_Abi Host_Testpoints Friendly_Fire Target_Probe Walker_Patrol
begin

section \<open>The state of the host, its hooks and its signatures\<close>

text \<open>
  \<open>g_state\<close> of \<open>dwrt_host.cpp\<close> with the globals around it, and the parts of the host that work on
  them: the resolution of the manifest's signatures in the server module and the installation of
  the seven probe hooks.  The module is read, and the hooks are written, in the same bytes: the
  code text of the process, of which some addresses are mapped.
\<close>

subsection \<open>State\<close>

record host_resolved_signature =
  rs_descriptor :: signature_descriptor
  rs_rvas :: "u32 list"
  rs_rva :: "u32 option"
  rs_error :: string
  rs_unique :: bool
  rs_expected_rva_ok :: bool

record original_functions =
  g_original_take_damage_old :: ptr
  g_original_accept_input :: ptr
  g_original_fire_output_internal :: ptr
  g_original_target_friendly_fire_filter :: ptr
  g_original_target_friendly_fire_caller :: ptr
  g_original_target_secondary_friendly_fire_gate :: ptr
  g_original_target_identity_classifier :: ptr

definition no_originals :: original_functions where
  "no_originals =
     \<lparr>g_original_take_damage_old = nullptr, g_original_accept_input = nullptr,
      g_original_fire_output_internal = nullptr, g_original_target_friendly_fire_filter = nullptr,
      g_original_target_friendly_fire_caller = nullptr,
      g_original_target_secondary_friendly_fire_gate = nullptr,
      g_original_target_identity_classifier = nullptr\<rparr>"

record host_state =
  hs_runtime :: shadow_shim
  hs_initialized :: bool
  hs_runtime_loaded :: bool
  hs_runtime_probe_ok :: bool
  hs_signatures_checked :: bool
  hs_used_live_server_module :: bool
  hs_used_mapped_file_fallback :: bool
  hs_hook_install_attempts :: u32
  hs_hooks_installed :: u32
  hs_hook_install_failures :: u32
  hs_signature_required_failures :: nat
  hs_last_error :: string
  hs_signatures :: "host_resolved_signature list"
  hs_hooks :: hook_backend

text \<open>
  The process the host is part of: its state, the globals of its components, the loader, the code
  bytes, and the files it has written, newest last.
\<close>

record 'r host =
  state :: host_state
  originals :: original_functions
  testpoints :: testpoint_state
  walker_patrol :: walker_patrol_state
  friendly_fire :: friendly_fire_state
  target_probe :: target_probe_state
  win :: "'r process"
  code :: code_text
  files :: "(wstring \<times> string) list"

text \<open>
  What the host is given: Windows, the code of the runtime library, SafetyHook, the environment
  variables, which addresses are mapped, the addresses of its own detours in the order they are
  installed, and the file system.
\<close>

record 'r host_env =
  env_windows :: windows
  env_runtime :: "'r runtime_code"
  env_hooks :: hook_environment
  env_variables :: process_env
  env_mapped :: "ptr \<Rightarrow> bool"
  env_detours :: "ptr list"
  fs_parent_path :: "wstring \<Rightarrow> wstring"
  fs_create_directories :: "nat \<Rightarrow> wstring \<Rightarrow> bool"
  fs_open :: "nat \<Rightarrow> wstring \<Rightarrow> bool"

text \<open>The code bytes as memory that can be read but not written through a pointer.\<close>

definition code_view :: "'r host_env \<Rightarrow> code_text \<Rightarrow> engine_memory" where
  "code_view env t =
     \<lparr>mem_byte = (\<lambda>a. if env_mapped env a then Some (t a) else None), mem_writable = (\<lambda>_. False)\<rparr>"

definition config_string_or :: "wstring option \<Rightarrow> string \<Rightarrow> wstring" where
  "config_string_or value fallback =
     (case value of None \<Rightarrow> wide fallback | Some v \<Rightarrow> if v = [] then wide fallback else v)"

text \<open>A configured path or name that is present: not null and not empty.\<close>

definition given :: "wstring option \<Rightarrow> bool" where
  "given v \<longleftrightarrow> v \<noteq> None \<and> v \<noteq> Some []"

subsection \<open>Resolving signatures\<close>

text \<open>\<open>None\<close> is a fault while the module is scanned.\<close>

definition resolve_mapped_signature ::
  "engine_memory \<Rightarrow> pe_module_view \<Rightarrow> signature_descriptor \<Rightarrow> host_resolved_signature option" where
  "resolve_mapped_signature m view descriptor =
     (let resolved = \<lparr>rs_descriptor = descriptor, rs_rvas = [], rs_rva = None, rs_error = [],
                      rs_unique = False, rs_expected_rva_ok = False\<rparr>
      in case compile_pattern (sd_pattern descriptor) of
           Inl error \<Rightarrow> Some (resolved\<lparr>rs_error := error\<rparr>)
         | Inr pattern \<Rightarrow>
             (case find_pattern_rvas m view pattern 3 of
                None \<Rightarrow> None
              | Some rvas \<Rightarrow>
                  (let resolved = resolved\<lparr>rs_rvas := rvas, rs_unique := length rvas = 1\<rparr>
                   in Some
                     (if rs_unique resolved
                      then resolved\<lparr>rs_rva := Some (rvas ! 0),
                             rs_expected_rva_ok := sd_expected_rva descriptor = 0 \<or>
                               rvas ! 0 = sd_expected_rva descriptor\<rparr>
                      else if rvas = []
                      then resolved\<lparr>rs_error := ''signature not found in mapped module''\<rparr>
                      else resolved\<lparr>rs_error := ''signature matched more than once in mapped module''\<rparr>))))"

definition signature_ok :: "u32 \<Rightarrow> host_resolved_signature \<Rightarrow> bool" where
  "signature_ok flags sig \<longleftrightarrow>
     rs_unique sig \<and> rs_rva sig \<noteq> None \<and> (rs_expected_rva_ok sig \<or> flags AND 8 \<noteq> 0)"

text \<open>The loop over the manifest: the resolved signatures and the number of required failures.\<close>

fun resolve_all ::
  "engine_memory \<Rightarrow> pe_module_view \<Rightarrow> u32 \<Rightarrow> signature_descriptor list
     \<Rightarrow> host_resolved_signature list \<times> nat \<Rightarrow> (host_resolved_signature list \<times> nat) option" where
  "resolve_all m view flags [] acc = Some acc"
| "resolve_all m view flags (d # ds) (sigs, failures) =
     (case resolve_mapped_signature m view d of
        None \<Rightarrow> None
      | Some sig \<Rightarrow>
          resolve_all m view flags ds
            (sigs @ [sig], if sd_required d \<and> \<not> signature_ok flags sig then failures + 1 else failures))"

definition find_resolved_signature :: "host_state \<Rightarrow> string \<Rightarrow> host_resolved_signature option" where
  "find_resolved_signature hs name = find (\<lambda>sig. name = sd_name (rs_descriptor sig)) (hs_signatures hs)"

definition resolved_target_address :: "pe_module_view \<Rightarrow> host_state \<Rightarrow> string \<Rightarrow> ptr" where
  "resolved_target_address view hs name =
     (case find_resolved_signature hs name of
        None \<Rightarrow> nullptr
      | Some sig \<Rightarrow> (case rs_rva sig of None \<Rightarrow> nullptr | Some rva \<Rightarrow> pm_base view + ucast rva))"

subsection \<open>Installing the probe hooks\<close>

text \<open>The hooks in the order they are installed, with the global that takes the original.\<close>

definition probe_hooks ::
  "(string \<times> (original_functions \<Rightarrow> ptr) \<times> (ptr \<Rightarrow> original_functions \<Rightarrow> original_functions)) list" where
  "probe_hooks =
     [(''CBaseEntity::TakeDamageOld'', g_original_take_damage_old,
         \<lambda>f. g_original_take_damage_old_update (\<lambda>_. f)),
      (''CEntityInstance::AcceptInput'', g_original_accept_input,
         \<lambda>f. g_original_accept_input_update (\<lambda>_. f)),
      (''CEntityIOOutput::FireOutputInternal'', g_original_fire_output_internal,
         \<lambda>f. g_original_fire_output_internal_update (\<lambda>_. f)),
      (''CitadelTargetFilter::FriendlyFire'', g_original_target_friendly_fire_filter,
         \<lambda>f. g_original_target_friendly_fire_filter_update (\<lambda>_. f)),
      (''CitadelTargetFilter::FriendlyFireCaller'', g_original_target_friendly_fire_caller,
         \<lambda>f. g_original_target_friendly_fire_caller_update (\<lambda>_. f)),
      (''CitadelTargetFilter::SecondaryFriendlyFireGate'', g_original_target_secondary_friendly_fire_gate,
         \<lambda>f. g_original_target_secondary_friendly_fire_gate_update (\<lambda>_. f)),
      (''CEntityIdentity::IndexForEntityInstance'', g_original_target_identity_classifier,
         \<lambda>f. g_original_target_identity_classifier_update (\<lambda>_. f))]"

type_synonym hooking = "host_state \<times> original_functions \<times> code_text"

text \<open>The closure \<open>install\<close>.\<close>

definition install_one ::
  "hook_environment \<Rightarrow> pe_module_view
     \<Rightarrow> (string \<times> (original_functions \<Rightarrow> ptr) \<times> (ptr \<Rightarrow> original_functions \<Rightarrow> original_functions)) \<times> ptr
     \<Rightarrow> hooking \<Rightarrow> hooking" where
  "install_one henv view hook s =
     (case (hook, s) of (((name, get_original, set_original), detour), (hs, orig, t)) \<Rightarrow>
        (let target = resolved_target_address view hs name;
             r = install_inline henv name target detour True (get_original orig) [] (hs_hooks hs) t;
             hs = hs\<lparr>hs_hooks := install_records r\<rparr>;
             orig = set_original (install_original r) orig;
             t = install_text r
         in if \<not> install_ok r
            then (hs\<lparr>hs_hook_install_failures := hs_hook_install_failures hs + 1,
                     hs_last_error :=
                       (if hs_last_error hs \<noteq> [] then hs_last_error hs @ ''; '' else hs_last_error hs)
                       @ name @ '': '' @ install_error r\<rparr>, orig, t)
            else (hs\<lparr>hs_hooks_installed := hs_hooks_installed hs + 1\<rparr>, orig, t)))"

definition install_probe_hooks ::
  "hook_environment \<Rightarrow> pe_module_view \<Rightarrow> ptr list \<Rightarrow> hooking \<Rightarrow> u32 \<times> hooking" where
  "install_probe_hooks henv view detours s =
     (case s of (hs, orig, t) \<Rightarrow>
        (let (none, t) = hooks_reset (hs_hooks hs) t;
             hs = hs\<lparr>hs_hook_install_attempts := 7, hs_hook_install_failures := 0,
                     hs_hooks_installed := 0, hs_hooks := none\<rparr>;
             (hs, orig, t) = fold (install_one henv view) (zip probe_hooks detours) (hs, no_originals, t)
         in if hs_hook_install_failures hs \<noteq> 0
            then (let (none, t) = hooks_reset (hs_hooks hs) t
                  in (10, hs\<lparr>hs_hooks := none\<rparr>, no_originals, t))
            else (0, hs, orig, t)))"

subsection \<open>Resolving against the server module\<close>

record host_config =
  cfg_abi_version :: u32
  cfg_flags :: u32
  cfg_runtime_path :: "wstring option"
  cfg_server_module_name :: "wstring option"
  cfg_server_path :: "wstring option"
  cfg_summary_path :: "wstring option"

definition path_text :: "wstring \<Rightarrow> string" where
  "path_text p = map (\<lambda>c. char_of (unat c)) p"

definition windows_error_message :: "windows \<Rightarrow> string \<Rightarrow> 'r process \<Rightarrow> string" where
  "windows_error_message w prefix p =
     prefix @ '' (GetLastError='' @ dec (unat (get_last_error w (moment p))) @ '')''"

text \<open>\<open>FreeLibrary\<close> on the fallback, when there is one.\<close>

definition free_fallback :: "ptr \<Rightarrow> 'r host \<Rightarrow> 'r host" where
  "free_fallback fallback h = (if fallback \<noteq> nullptr then h\<lparr>win := FreeLibrary fallback (win h)\<rparr> else h)"

text \<open>The part after the module was viewed; \<open>fallback\<close> is null for a live module.\<close>

definition resolve_in_module ::
  "'r host_env \<Rightarrow> host_config \<Rightarrow> pe_module_view \<Rightarrow> ptr \<Rightarrow> 'r host \<Rightarrow> (u32 \<times> 'r host) option" where
  "resolve_in_module env config view fallback h =
     (case resolve_all (code_view env (code h)) view (cfg_flags config) default_probe_signatures ([], 0) of
        None \<Rightarrow> None
      | Some (sigs, failures) \<Rightarrow>
          (let h = h\<lparr>state := (state h)\<lparr>hs_signatures := sigs, hs_signature_required_failures := failures,
                     hs_signatures_checked := True\<rparr>\<rparr>
           in if cfg_flags config AND 2 \<noteq> 0 \<and> failures \<noteq> 0
              then Some (8, free_fallback fallback
                     (h\<lparr>state := (state h)\<lparr>hs_last_error := ''required signature validation failed''\<rparr>\<rparr>))
              else if cfg_flags config AND 16 \<noteq> 0
              then
                if fallback \<noteq> nullptr
                then Some (10, free_fallback fallback
                       (h\<lparr>state := (state h)\<lparr>hs_last_error := ''refusing to install hooks into mapped-file fallback''\<rparr>\<rparr>))
                else
                  (let (status, hs, orig, t) =
                         install_probe_hooks (env_hooks env) view (env_detours env) (state h, originals h, code h);
                       h = h\<lparr>state := hs, originals := orig, code := t\<rparr>
                   in if status \<noteq> 0 then Some (status, h) else Some (0, free_fallback fallback h))
              else Some (0, free_fallback fallback h)))"

text \<open>Viewing the module at \<open>handle\<close> and going on with it.\<close>

definition view_and_resolve ::
  "'r host_env \<Rightarrow> host_config \<Rightarrow> ptr \<Rightarrow> ptr \<Rightarrow> wstring \<Rightarrow> 'r host \<Rightarrow> (u32 \<times> 'r host) option" where
  "view_and_resolve env config handle fallback path h =
     (case from_module_handle (code_view env (code h)) handle (path_text path) of
        None \<Rightarrow> None
      | Some (Inl error) \<Rightarrow>
          Some (7, free_fallback fallback (h\<lparr>state := (state h)\<lparr>hs_last_error := error\<rparr>\<rparr>))
      | Some (Inr view) \<Rightarrow> resolve_in_module env config view fallback h)"

definition resolve_server_signatures ::
  "'r host_env \<Rightarrow> host_config \<Rightarrow> 'r host \<Rightarrow> (u32 \<times> 'r host) option" where
  "resolve_server_signatures env config h =
     (let w = env_windows env;
          module_name = config_string_or (cfg_server_module_name config) ''server.dll'';
          (module_handle, p) = GetModuleHandleW w module_name (win h);
          h = h\<lparr>win := p\<rparr>
      in if module_handle \<noteq> nullptr
         then view_and_resolve env config module_handle nullptr module_name
                (h\<lparr>state := (state h)\<lparr>hs_used_live_server_module := True\<rparr>\<rparr>)
         else if cfg_flags config AND 4 \<noteq> 0 \<and> given (cfg_server_path config)
         then
           (let path = the (cfg_server_path config);
                (fallback, p) = LoadLibraryExW w path p;
                h = h\<lparr>win := p\<rparr>
            in if fallback = nullptr
               then Some (7, h\<lparr>state := (state h)\<lparr>hs_last_error :=
                      windows_error_message w ''failed to map server.dll fallback'' p\<rparr>\<rparr>)
               else view_and_resolve env config fallback fallback path
                      (h\<lparr>state := (state h)\<lparr>hs_used_mapped_file_fallback := True\<rparr>\<rparr>))
         else Some (7, h\<lparr>state := (state h)\<lparr>hs_last_error :=
                ''server.dll is not loaded and no mapped file fallback was allowed''\<rparr>\<rparr>))"

end
