(* ===== verification/Host_Summary.thy ===== *)
theory Host_Summary
  imports Json_Text Host_State
begin

section \<open>The summary of the host\<close>

text \<open>
  \<open>build_summary_json\<close> of \<open>dwrt_host.cpp\<close>: the values it writes, part by part and in the order it
  writes them, and the text.  The counters of the experiments and of the test points are not part
  of the state of the host; the function takes their snapshots.
\<close>

definition number :: "'a::len word \<Rightarrow> json" where
  "number w = JNum (unat w)"

definition number_row :: "'a::len word list \<Rightarrow> json" where
  "number_row ws = JArr (map number ws)"

definition walker_patrol_json :: "walker_patrol_snapshot \<Rightarrow> json" where
  "walker_patrol_json s = JObj
     [
      (''enabled'', number (ws_enabled s)),
      (''stride'', number (ws_stride s)),
      (''waypointCount'', number (ws_waypoint_count s)),
      (''mode'', number (ws_mode s)),
      (''damageCallbacks'', number (ws_damage_callbacks s)),
      (''candidateWalkers'', number (ws_candidate_walkers s)),
      (''nonWalkerVictims'', number (ws_non_walker_victims s)),
      (''skippedRecursive'', number (ws_skipped_recursive s)),
      (''missingIdentity'', number (ws_missing_identity s)),
      (''missingDesignerName'', number (ws_missing_designer_name s)),
      (''teleportAttempts'', number (ws_teleport_attempts s)),
      (''teleportCalls'', number (ws_teleport_calls s)),
      (''bodyComponentMissing'', number (ws_body_component_missing s)),
      (''sceneNodeMissing'', number (ws_scene_node_missing s)),
      (''originReadAttempts'', number (ws_origin_read_attempts s)),
      (''originReadSuccesses'', number (ws_origin_read_successes s)),
      (''originReadFailures'', number (ws_origin_read_failures s))]"

definition friendly_fire_json :: "friendly_fire_state \<Rightarrow> json" where
  "friendly_fire_json s = JObj
     [
      (''enabled'', number (ff_enabled s)),
      (''mode'', number (ff_mode s)),
      (''scope'', number (ff_scope s)),
      (''localTeam'', number (ff_local_team s)),
      (''damageCallbacks'', number (ff_damage_callbacks s)),
      (''skippedRecursive'', number (ff_skipped_recursive s)),
      (''missingIdentity'', number (ff_missing_identity s)),
      (''missingDesignerName'', number (ff_missing_designer_name s)),
      (''nonObjectiveVictims'', number (ff_non_objective_victims s)),
      (''objectiveCandidates'', number (ff_objective_candidates s)),
      (''invalidTeam'', number (ff_invalid_team s)),
      (''teamSpoofAttempts'', number (ff_team_spoof_attempts s)),
      (''teamSpoofApplied'', number (ff_team_spoof_applied s)),
      (''teamSpoofRestored'', number (ff_team_spoof_restored s))]"

text \<open>The part of the target probe, up to the identity classifier and after it.\<close>

definition target_probe_fields :: "target_probe_state \<Rightarrow> (string \<times> json) list" where
  "target_probe_fields s =
     [
      (''enabled'', number (tp_enabled s)),
      (''sourceTeamSpoofEnabled'', number (tp_source_team_spoof_enabled s)),
      (''targetTeamSpoofEnabled'', number (tp_target_team_spoof_enabled s)),
      (''targetTeamSpoofTeam'', number (tp_target_team_spoof_team s)),
      (''targetBitsetAllowEnabled'', number (tp_target_bitset_allow_enabled s)),
      (''forceFilterSameTeamAllowEnabled'', number (tp_force_filter_same_team_allow_enabled s)),
      (''forceCallerSameTeamAllowEnabled'', number (tp_force_caller_same_team_allow_enabled s)),
      (''forceFilterObjectiveAllowEnabled'', number (tp_force_filter_objective_allow_enabled s)),
      (''forceCallerObjectiveAllowEnabled'', number (tp_force_caller_objective_allow_enabled s)),
      (''forceSecondaryAllowEnabled'', number (tp_force_secondary_allow_enabled s)),
      (''neutralSimulationEnabled'', number (tp_neutral_simulation_enabled s)),
      (''classifierSpoofEnabled'', number (tp_classifier_spoof_enabled s)),
      (''classifierSpoofBit'', number (tp_classifier_spoof_bit s)),
      (''globalNeutralizeEnabled'', number (tp_global_neutralize_enabled s)),
      (''globalNeutralizeTeam'', number (tp_global_neutralize_team s)),
      (''lastSourceTeam'', number (tp_last_source_team s)),
      (''lastTargetTeam'', number (tp_last_target_team s)),
      (''lastTargetUnitType'', number (tp_last_target_unit_type s)),
      (''lastFilterResult'', number (tp_last_filter_result s)),
      (''lastDamageVictimTeam'', number (tp_last_damage_victim_team s)),
      (''lastDamageVictimUnitType'', number (tp_last_damage_victim_unit_type s)),
      (''lastDamageAttackerHandle'', number (tp_last_damage_attacker_handle s)),
      (''lastDamageInflictorHandle'', number (tp_last_damage_inflictor_handle s)),
      (''lastDamageAttackerTeam'', number (tp_last_damage_attacker_team s)),
      (''lastDamageAttackerUnitType'', number (tp_last_damage_attacker_unit_type s)),
      (''filterCalls'', number (tp_filter_calls s)),
      (''filterAllowed'', number (tp_filter_allowed s)),
      (''filterDenied'', number (tp_filter_denied s)),
      (''filterSameTeamCalls'', number (tp_filter_same_team_calls s)),
      (''filterSameTeamAllowed'', number (tp_filter_same_team_allowed s)),
      (''filterSameTeamDenied'', number (tp_filter_same_team_denied s)),
      (''filterObjectiveTargetCalls'', number (tp_filter_objective_target_calls s)),
      (''filterObjectiveTargetAllowed'', number (tp_filter_objective_target_allowed s)),
      (''filterObjectiveTargetDenied'', number (tp_filter_objective_target_denied s)),
      (''filterNeutralTargetCalls'', number (tp_filter_neutral_target_calls s)),
      (''filterMidbossTargetCalls'', number (tp_filter_midboss_target_calls s)),
      (''filterInvalidSourceTeam'', number (tp_filter_invalid_source_team s)),
      (''filterInvalidTargetTeam'', number (tp_filter_invalid_target_team s)),
      (''sourceSpoofAttempts'', number (tp_source_spoof_attempts s)),
      (''sourceSpoofApplied'', number (tp_source_spoof_applied s)),
      (''sourceSpoofRestored'', number (tp_source_spoof_restored s)),
      (''sourceSpoofAllowed'', number (tp_source_spoof_allowed s)),
      (''sourceSpoofDenied'', number (tp_source_spoof_denied s)),
      (''targetSpoofAttempts'', number (tp_target_spoof_attempts s)),
      (''targetSpoofApplied'', number (tp_target_spoof_applied s)),
      (''targetSpoofRestored'', number (tp_target_spoof_restored s)),
      (''targetSpoofAllowed'', number (tp_target_spoof_allowed s)),
      (''targetSpoofDenied'', number (tp_target_spoof_denied s)),
      (''bitsetAllowAttempts'', number (tp_bitset_allow_attempts s)),
      (''bitsetAllowApplied'', number (tp_bitset_allow_applied s)),
      (''bitsetAllowFailures'', number (tp_bitset_allow_failures s)),
      (''classifierCalls'', number (tp_classifier_calls s)),
      (''classifierInvalid'', number (tp_classifier_invalid s)),
      (''classifierSpoofAttempts'', number (tp_classifier_spoof_attempts s)),
      (''classifierSpoofApplied'', number (tp_classifier_spoof_applied s)),
      (''classifierSpoofSkipped'', number (tp_classifier_spoof_skipped s)),
      (''lastClassifierOriginalBit'', number (tp_last_classifier_original_bit s)),
      (''lastClassifierFinalBit'', number (tp_last_classifier_final_bit s))]"

definition target_probe_more_fields :: "target_probe_state \<Rightarrow> (string \<times> json) list" where
  "target_probe_more_fields s =
     [
      (''globalNeutralizeAttempts'', number (tp_global_neutralize_attempts s)),
      (''globalNeutralizeApplied'', number (tp_global_neutralize_applied s)),
      (''globalNeutralizeAlready'', number (tp_global_neutralize_already s)),
      (''globalNeutralizeNull'', number (tp_global_neutralize_null s)),
      (''globalNeutralizeInvalidTeam'', number (tp_global_neutralize_invalid_team s)),
      (''globalNeutralizeWriteFailures'', number (tp_global_neutralize_write_failures s)),
      (''globalNeutralizeOriginalTeamOverflow'', number (tp_global_neutralize_original_team_overflow s)),
      (''globalNeutralizeOriginalTeamCounts'', number_row (tp_global_neutralize_original_team_counts s)),
      (''filterForcedAllowed'', number (tp_filter_forced_allowed s)),
      (''callerForcedAllowed'', number (tp_caller_forced_allowed s)),
      (''secondaryForcedAllowed'', number (tp_secondary_forced_allowed s)),
      (''secondaryCalls'', number (tp_secondary_calls s)),
      (''secondaryAllowed'', number (tp_secondary_allowed s)),
      (''secondaryDenied'', number (tp_secondary_denied s)),
      (''callerCalls'', number (tp_caller_calls s)),
      (''callerAllowed'', number (tp_caller_allowed s)),
      (''callerDenied'', number (tp_caller_denied s)),
      (''callerUnit0x1aBypassCandidates'', number (tp_caller_unit_0x1a_bypass_candidates s)),
      (''filterUnitTypeOverflow'', number (tp_filter_unit_type_overflow s)),
      (''filterUnitTypeCounts'', number_row (tp_filter_unit_type_counts s)),
      (''damageVictimCalls'', number (tp_damage_victim_calls s)),
      (''damageVictimObjective'', number (tp_damage_victim_objective s)),
      (''damageVictimNeutral'', number (tp_damage_victim_neutral s)),
      (''damageVictimMidboss'', number (tp_damage_victim_midboss s)),
      (''damageVictimInvalidTeam'', number (tp_damage_victim_invalid_team s)),
      (''damageVictimUnitTypeOverflow'', number (tp_damage_victim_unit_type_overflow s)),
      (''damageVictimUnitTypeCounts'', number_row (tp_damage_victim_unit_type_counts s)),
      (''damageAttackerHandleValid'', number (tp_damage_attacker_handle_valid s)),
      (''damageAttackerHandleInvalid'', number (tp_damage_attacker_handle_invalid s)),
      (''damageInflictorHandleValid'', number (tp_damage_inflictor_handle_valid s)),
      (''damageInflictorHandleInvalid'', number (tp_damage_inflictor_handle_invalid s)),
      (''damageAttackerSameTeam'', number (tp_damage_attacker_same_team s)),
      (''damageAttackerOpposingTeam'', number (tp_damage_attacker_opposing_team s)),
      (''damageAttackerOtherTeam'', number (tp_damage_attacker_other_team s)),
      (''damageAttackerSelf'', number (tp_damage_attacker_self s)),
      (''damageAttackerSameTeamObjective'', number (tp_damage_attacker_same_team_objective s)),
      (''damageAttackerUnitTypeOverflow'', number (tp_damage_attacker_unit_type_overflow s)),
      (''damageAttackerUnitTypeCounts'', number_row (tp_damage_attacker_unit_type_counts s)),
      (''damageSameTeamVictimUnitTypeOverflow'', number (tp_damage_same_team_victim_unit_type_overflow s)),
      (''damageSameTeamVictimUnitTypeCounts'', number_row (tp_damage_same_team_victim_unit_type_counts s))]"

definition target_probe_json :: "target_probe_state \<Rightarrow> json" where
  "target_probe_json s = JObj (target_probe_fields s @ target_probe_more_fields s)"

definition testpoints_json :: "testpoint_snapshot \<Rightarrow> json" where
  "testpoints_json s = JObj
     [
      (''initializeCalls'', number (initialize_calls s)),
      (''initializeReentrantRejects'', number (initialize_reentrant_rejects s)),
      (''shutdownCalls'', number (shutdown_calls s)),
      (''callbackEntries'', number (callback_entries s)),
      (''callbackRecursiveEntries'', number (callback_recursive_entries s)),
      (''callbackCurrentDepth'', number (callback_current_depth s)),
      (''callbackMaxDepth'', number (callback_max_depth s))]"

definition signature_json :: "host_resolved_signature \<Rightarrow> json" where
  "signature_json sig =
     (let desc = rs_descriptor sig in JObj
       [(''name'', JStr (sd_name desc)),
        (''required'', JBool (sd_required desc)),
        (''matchCount'', JNum (length (rs_rvas sig))),
        (''unique'', JBool (rs_unique sig)),
        (''rva'', (case rs_rva sig of None \<Rightarrow> JNull | Some rva \<Rightarrow> JStr (hex_u64 (ucast rva)))),
        (''expectedRva'', JStr (hex_u64 (ucast (sd_expected_rva desc)))),
        (''expectedRvaOk'', JBool (rs_expected_rva_ok sig)),
        (''error'', JStr (rs_error sig))])"

definition DWRT_HOST_ABI_VERSION :: u32 where
  "DWRT_HOST_ABI_VERSION = 1"

definition state_fields :: "host_state \<Rightarrow> (string \<times> json) list" where
  "state_fields hs =
     [(''abiVersion'', number DWRT_HOST_ABI_VERSION),
      (''initialized'', JBool (hs_initialized hs)),
      (''runtimeLoaded'', JBool (hs_runtime_loaded hs)),
      (''runtimeProbeOk'', JBool (hs_runtime_probe_ok hs)),
      (''signaturesChecked'', JBool (hs_signatures_checked hs)),
      (''usedLiveServerModule'', JBool (hs_used_live_server_module hs)),
      (''usedMappedFileFallback'', JBool (hs_used_mapped_file_fallback hs)),
      (''signatureRequiredFailures'', JNum (hs_signature_required_failures hs)),
      (''hookInstallAttempts'', number (hs_hook_install_attempts hs)),
      (''hooksInstalled'', number (hs_hooks_installed hs)),
      (''hookInstallFailures'', number (hs_hook_install_failures hs))]"

text \<open>The value the summary stands for, and its text.\<close>

definition summary_json :: "'r host \<Rightarrow> json" where
  "summary_json h = JObj
     (state_fields (state h) @
      [(''walkerPatrol'', walker_patrol_json (walker_patrol_snapshot (walker_patrol h))),
       (''friendlyFire'', friendly_fire_json (friendly_fire_snapshot (friendly_fire h))),
       (''targetProbe'', target_probe_json (target_probe_snapshot (target_probe h))),
       (''testpoints'', testpoints_json (take_testpoint_snapshot (testpoints h))),
       (''lastError'', JStr (hs_last_error (state h))),
       (''signatures'', JArr (map signature_json (hs_signatures (state h))))])"

definition build_summary_json :: "'r host \<Rightarrow> string" where
  "build_summary_json h = layout 0 (summary_json h) @ [newline]"

text \<open>C20. The summary is strict JSON whatever the state is, error texts and all: a reader gets back exactly
  the values that were written, nothing cut short and nothing injected by an error text.\<close>
theorem summary_reads_back: "parse_json (build_summary_json h) = Some (summary_json h)"
  unfolding build_summary_json_def by (rule parse_json_layout)

end
