(* ===== verification/Host_Api.thy ===== *)
theory Host_Api
  imports Host_Summary
begin

section \<open>The exported functions of the host\<close>

text \<open>
  \<open>dwrt_host_api.hpp\<close> and the bodies of its functions in \<open>dwrt_host.cpp\<close>.  Each takes the state of
  the host and gives a status and the new state.  \<open>None\<close> is a call that does not return: a fault
  while the module is scanned, or an exception of the file system that leaves the function.  The
  functions hold the mutex from their first access to the state, so each is one step.
\<close>

text \<open>The host when its library has been loaded: every global has its initial value.\<close>

definition new_host :: "windows \<Rightarrow> code_text \<Rightarrow> 'r process \<Rightarrow> 'r host" where
  "new_host w t p =
     \<lparr>state =
        \<lparr>hs_runtime = new_shadow_shim w, hs_initialized = False, hs_runtime_loaded = False,
         hs_runtime_probe_ok = False, hs_signatures_checked = False, hs_used_live_server_module = False,
         hs_used_mapped_file_fallback = False, hs_hook_install_attempts = 0, hs_hooks_installed = 0,
         hs_hook_install_failures = 0, hs_signature_required_failures = 0, hs_last_error = [],
         hs_signatures = [], hs_hooks = []\<rparr>,
      originals = no_originals, testpoints = zero_testpoints, walker_patrol = initial_walker_patrol,
      friendly_fire = initial_friendly_fire, target_probe = initial_target_probe, win = p, code = t,
      files = []\<rparr>"

subsection \<open>Writing the summary\<close>

definition write_summary_if_requested :: "'r host_env \<Rightarrow> host_config \<Rightarrow> 'r host \<Rightarrow> (u32 \<times> 'r host) option" where
  "write_summary_if_requested env config h =
     (if \<not> given (cfg_summary_path config) then Some (0, h)
      else
        (let path = the (cfg_summary_path config);
             parent = fs_parent_path env path
         in if parent \<noteq> [] \<and> \<not> fs_create_directories env (moment (win h)) parent then None
            else if \<not> fs_open env (moment (win h)) path then Some (9, h)
            else Some (0, h\<lparr>files := files h @ [(path, build_summary_json h)]\<rparr>)))"

subsection \<open>Initialization\<close>

definition dwrt_host_abi_version :: u32 where
  "dwrt_host_abi_version = DWRT_HOST_ABI_VERSION"

text \<open>The fields both \<open>dwrt_host_initialize\<close> and \<open>dwrt_host_shutdown\<close> clear, and the hooks.\<close>

definition clear_status :: "host_state \<Rightarrow> host_state" where
  "clear_status hs =
     hs\<lparr>hs_last_error := [], hs_runtime_loaded := False, hs_runtime_probe_ok := False,
        hs_signatures_checked := False, hs_used_live_server_module := False,
        hs_used_mapped_file_fallback := False, hs_signature_required_failures := 0,
        hs_hook_install_attempts := 0, hs_hooks_installed := 0, hs_hook_install_failures := 0,
        hs_signatures := []\<rparr>"

definition remove_hooks :: "'r host \<Rightarrow> 'r host" where
  "remove_hooks h =
     (let (none, t) = hooks_reset (hs_hooks (state h)) (code h)
      in h\<lparr>state := (state h)\<lparr>hs_hooks := none\<rparr>, originals := no_originals, code := t\<rparr>)"

definition prepare :: "'r host_env \<Rightarrow> 'r host \<Rightarrow> 'r host" where
  "prepare env h =
     (let h = remove_hooks (h\<lparr>state := clear_status (state h)\<rparr>);
          vars = env_variables env
      in h\<lparr>walker_patrol := configure_walker_patrol_from_environment vars
              (reset_walker_patrol_counters (walker_patrol h)),
           friendly_fire := configure_friendly_fire_from_environment vars
              (reset_friendly_fire_counters (friendly_fire h)),
           target_probe := configure_target_probe_from_environment vars
              (reset_target_probe_counters (target_probe h))\<rparr>)"

text \<open>The part that starts the runtime; status 0 goes on to the signatures.\<close>

definition start_runtime :: "'r host_env \<Rightarrow> host_config \<Rightarrow> 'r host \<Rightarrow> u32 \<times> 'r host" where
  "start_runtime env config h =
     (let w = env_windows env;
          c = env_runtime env;
          required = cfg_flags config AND 1 \<noteq> 0;
          failed = (\<lambda>status h. (if required then status else 0, h))
      in if given (cfg_runtime_path config) then
           (let (ok, error, s, p) =
                  load w c (the (cfg_runtime_path config)) (hs_last_error (state h)) (hs_runtime (state h)) (win h);
                h = h\<lparr>state := (state h)\<lparr>hs_runtime := s, hs_last_error := error\<rparr>, win := p\<rparr>
            in if \<not> ok then failed 3 h
               else
                 (let h = h\<lparr>state := (state h)\<lparr>hs_runtime_loaded := True\<rparr>\<rparr>
                  in if abi_version c s \<noteq> 1
                     then failed 4 (h\<lparr>state := (state h)\<lparr>hs_last_error := ''unexpected DWRT runtime ABI version''\<rparr>\<rparr>)
                     else
                       (let (made, error, s, p) = create_runtime c (hs_last_error (state h)) s p;
                            h = h\<lparr>state := (state h)\<lparr>hs_runtime := s, hs_last_error := error\<rparr>, win := p\<rparr>
                        in if \<not> made then failed 5 h
                           else
                             (let (probe_ok, s, p) = exercise_probe_abi w c s p;
                                  h = h\<lparr>state := (state h)\<lparr>hs_runtime := s, hs_runtime_probe_ok := probe_ok\<rparr>, win := p\<rparr>
                              in if \<not> probe_ok \<and> required
                                 then (6, h\<lparr>state := (state h)\<lparr>hs_last_error := ''DWRT runtime probe ABI smoke mismatch''\<rparr>\<rparr>)
                                 else (0, h)))))
         else if required
         then (3, h\<lparr>state := (state h)\<lparr>hs_last_error := ''runtime path is required''\<rparr>\<rparr>)
         else (0, h))"

text \<open>\<open>None\<close> as the configuration is the null pointer.\<close>

definition dwrt_host_initialize ::
  "'r host_env \<Rightarrow> host_config option \<Rightarrow> 'r host \<Rightarrow> (u32 \<times> 'r host) option" where
  "dwrt_host_initialize env config h =
     (let h = h\<lparr>testpoints := record_initialize_call (testpoints h)\<rparr>
      in case config of
           None \<Rightarrow> Some (1, h)
         | Some config \<Rightarrow>
             if cfg_abi_version config \<noteq> DWRT_HOST_ABI_VERSION then Some (1, h)
             else if hs_initialized (state h)
             then Some (2, h\<lparr>testpoints := record_initialize_reentrant_reject (testpoints h)\<rparr>)
             else
               (let (status, h) = start_runtime env config (prepare env h)
                in if status \<noteq> 0 then Some (status, h)
                   else
                     (case resolve_server_signatures env config h of
                        None \<Rightarrow> None
                      | Some (resolve_status, h) \<Rightarrow>
                          if resolve_status \<noteq> 0 \<and> cfg_flags config AND 2 \<noteq> 0 then Some (resolve_status, h)
                          else write_summary_if_requested env config
                                 (h\<lparr>state := (state h)\<lparr>hs_initialized := True\<rparr>\<rparr>))))"

subsection \<open>Snapshots and probe settings\<close>

record host_snapshot =
  snap_abi_version :: u32
  snap_initialized :: u32
  snap_runtime_loaded :: u32
  snap_runtime_probe_ok :: u32
  snap_signatures_checked :: u32
  snap_signature_required_failures :: u32
  snap_used_live_server_module :: u32
  snap_used_mapped_file_fallback :: u32
  snap_hook_install_attempts :: u32
  snap_hooks_installed :: u32
  snap_hook_install_failures :: u32
  snap_initialize_calls :: u64
  snap_initialize_reentrant_rejects :: u64
  snap_shutdown_calls :: u64
  snap_callback_entries :: u64
  snap_callback_recursive_entries :: u64
  snap_callback_current_depth :: u32
  snap_callback_max_depth :: u32

text \<open>A snapshot before it is taken.\<close>

definition zero_host_snapshot :: host_snapshot where
  "zero_host_snapshot =
     \<lparr>snap_abi_version = 0, snap_initialized = 0, snap_runtime_loaded = 0, snap_runtime_probe_ok = 0,
      snap_signatures_checked = 0, snap_signature_required_failures = 0, snap_used_live_server_module = 0,
      snap_used_mapped_file_fallback = 0, snap_hook_install_attempts = 0, snap_hooks_installed = 0,
      snap_hook_install_failures = 0, snap_initialize_calls = 0, snap_initialize_reentrant_rejects = 0,
      snap_shutdown_calls = 0, snap_callback_entries = 0, snap_callback_recursive_entries = 0,
      snap_callback_current_depth = 0, snap_callback_max_depth = 0\<rparr>"

text \<open>
  An output pointer is \<open>None\<close> when it is null and otherwise the value it points to; the result holds
  the value after the call.
\<close>

definition dwrt_host_snapshot :: "host_snapshot option \<Rightarrow> 'r host \<Rightarrow> u32 \<times> host_snapshot option" where
  "dwrt_host_snapshot out h =
     (case out of
        None \<Rightarrow> (1, None)
      | Some _ \<Rightarrow>
          (let hs = state h; tp = take_testpoint_snapshot (testpoints h)
           in (0, Some
             \<lparr>snap_abi_version = DWRT_HOST_ABI_VERSION,
              snap_initialized = of_bool (hs_initialized hs),
              snap_runtime_loaded = of_bool (hs_runtime_loaded hs),
              snap_runtime_probe_ok = of_bool (hs_runtime_probe_ok hs),
              snap_signatures_checked = of_bool (hs_signatures_checked hs),
              snap_signature_required_failures = of_nat (hs_signature_required_failures hs),
              snap_used_live_server_module = of_bool (hs_used_live_server_module hs),
              snap_used_mapped_file_fallback = of_bool (hs_used_mapped_file_fallback hs),
              snap_hook_install_attempts = hs_hook_install_attempts hs,
              snap_hooks_installed = hs_hooks_installed hs,
              snap_hook_install_failures = hs_hook_install_failures hs,
              snap_initialize_calls = initialize_calls tp,
              snap_initialize_reentrant_rejects = initialize_reentrant_rejects tp,
              snap_shutdown_calls = shutdown_calls tp,
              snap_callback_entries = callback_entries tp,
              snap_callback_recursive_entries = callback_recursive_entries tp,
              snap_callback_current_depth = callback_current_depth tp,
              snap_callback_max_depth = callback_max_depth tp\<rparr>)))"

text \<open>The guard of the functions that need the runtime.\<close>

definition probes_available :: "'r host \<Rightarrow> bool" where
  "probes_available h \<longleftrightarrow> hs_initialized (state h) \<and> has_runtime (hs_runtime (state h))"

definition dwrt_host_set_probe_mount_mask :: "'r host_env \<Rightarrow> u32 \<Rightarrow> 'r host \<Rightarrow> u32 \<times> 'r host" where
  "dwrt_host_set_probe_mount_mask env mount_bits h =
     (if \<not> probes_available h then (11, h)
      else (0, h\<lparr>win := set_probe_mount_mask (env_runtime env) mount_bits (hs_runtime (state h)) (win h)\<rparr>))"

definition dwrt_host_reset_probe_counters :: "'r host_env \<Rightarrow> 'r host \<Rightarrow> u32 \<times> 'r host" where
  "dwrt_host_reset_probe_counters env h =
     (if \<not> probes_available h then (11, h)
      else (0, h\<lparr>win := probe_reset_counters (env_runtime env) (hs_runtime (state h)) (win h),
                 walker_patrol := reset_walker_patrol_counters (walker_patrol h),
                 friendly_fire := reset_friendly_fire_counters (friendly_fire h),
                 target_probe := reset_target_probe_counters (target_probe h)\<rparr>))"

definition dwrt_host_probe_snapshot ::
  "'r host_env \<Rightarrow> probe_counters option \<Rightarrow> 'r host \<Rightarrow> u32 \<times> probe_counters option" where
  "dwrt_host_probe_snapshot env out h =
     (case out of
        None \<Rightarrow> (1, None)
      | Some k \<Rightarrow>
          if \<not> probes_available h then (11, Some k)
          else (let (ok, k) = probe_snapshot (env_runtime env) k (hs_runtime (state h)) (win h)
                in (if ok \<noteq> 0 then 0 else 6, Some k)))"

definition dwrt_host_walker_patrol_snapshot ::
  "walker_patrol_snapshot option \<Rightarrow> 'r host \<Rightarrow> u32 \<times> walker_patrol_snapshot option" where
  "dwrt_host_walker_patrol_snapshot out h =
     (case out of None \<Rightarrow> (1, None) | Some _ \<Rightarrow> (0, Some (walker_patrol_snapshot (walker_patrol h))))"

definition dwrt_host_friendly_fire_snapshot ::
  "friendly_fire_state option \<Rightarrow> 'r host \<Rightarrow> u32 \<times> friendly_fire_state option" where
  "dwrt_host_friendly_fire_snapshot out h =
     (case out of None \<Rightarrow> (1, None) | Some _ \<Rightarrow> (0, Some (friendly_fire_snapshot (friendly_fire h))))"

definition dwrt_host_target_probe_snapshot ::
  "target_probe_state option \<Rightarrow> 'r host \<Rightarrow> u32 \<times> target_probe_state option" where
  "dwrt_host_target_probe_snapshot out h =
     (case out of None \<Rightarrow> (1, None) | Some _ \<Rightarrow> (0, Some (target_probe_snapshot (target_probe h))))"

subsection \<open>Shutdown\<close>

definition dwrt_host_shutdown :: "'r host_env \<Rightarrow> 'r host \<Rightarrow> u32 \<times> 'r host" where
  "dwrt_host_shutdown env h =
     (let h = remove_hooks (h\<lparr>testpoints := record_shutdown_call (testpoints h)\<rparr>);
          (s, p) = unload (env_runtime env) (hs_runtime (state h)) (win h)
      in (0, h\<lparr>state := (clear_status (state h))\<lparr>hs_runtime := s, hs_initialized := False\<rparr>, win := p,
               walker_patrol := reset_walker_patrol_counters (walker_patrol h)\<rparr>))"

end
