(* ===== verification/Live_Server.thy ===== *)
theory Live_Server
  imports Live_Module Host_Api
begin

section \<open>The module in memory\<close>

text \<open>
  The bytes of the module of \<open>Live_Module\<close> at an address, and what the host finds there: the headers
  read back as they were written, and every signature of the manifest is resolved.
\<close>

subsection \<open>Placing bytes\<close>

primrec placed :: "(nat \<times> u8 list) list \<Rightarrow> nat \<Rightarrow> u8 option" where
  "placed [] i = None"
| "placed (part # parts) i =
     (case part of (p, bs) \<Rightarrow> if p \<le> i \<and> i < p + length bs then Some (bs ! (i - p)) else placed parts i)"

definition parts_apart :: "nat \<times> u8 list \<Rightarrow> nat \<times> u8 list \<Rightarrow> bool" where
  "parts_apart x y \<longleftrightarrow> fst x + length (snd x) \<le> fst y \<or> fst y + length (snd y) \<le> fst x"

lemma placed_at:
  "sorted_wrt parts_apart parts \<Longrightarrow> (p, bs) \<in> set parts \<Longrightarrow> k < length bs \<Longrightarrow> placed parts (p + k) = Some (bs ! k)"
  by (induction parts) (auto simp: parts_apart_def)

definition placed_text :: "ptr \<Rightarrow> (nat \<times> u8 list) list \<Rightarrow> code_text" where
  "placed_text base parts a = (case placed parts (unat (a - base)) of None \<Rightarrow> 0xCC | Some b \<Rightarrow> b)"

lemma placed_text_at:
  assumes "sorted_wrt parts_apart parts" "(p, bs) \<in> set parts" "p + length bs \<le> 2 ^ 32"
  shows "code_bytes (base + of_nat p) (length bs) (placed_text base parts) = bs"
proof (rule nth_equalityI)
  fix k
  assume "k < length (code_bytes (base + of_nat p) (length bs) (placed_text base parts))"
  then have k: "k < length bs" by simp
  have "unat (of_nat (p + k) :: ptr) = p + k"
    using k assms(3) by (simp add: unat_of_nat take_bit_nat_eq_self del: of_nat_add)
  then have "unat (base + of_nat p + of_nat k - base) = p + k" by (simp add: add.assoc)
  then show "code_bytes (base + of_nat p) (length bs) (placed_text base parts) ! k = bs ! k"
    using k placed_at [OF assms(1,2) k] by (simp add: code_bytes_def placed_text_def)
qed simp

subsection \<open>The module\<close>

definition live_section :: "signature_descriptor \<Rightarrow> section_range" where
  "live_section d =
     \<lparr>sr_name = ''.text'', sr_virtual_address = sd_expected_rva d,
      sr_virtual_size = of_nat (length (live_bytes d)), sr_raw_offset = 0, sr_raw_size = 0,
      sr_characteristics = 0x60000020\<rparr>"

definition live_sections :: "section_range list" where
  "live_sections = map live_section default_probe_signatures"

definition live_fields :: nt_fields where
  "live_fields =
     \<lparr>nt_sections = length default_probe_signatures, nt_timestamp = 0x6830, nt_optional_size = 240,
      nt_image_base = 0x180000000, nt_image_size = 0x2000000\<rparr>"

definition live_parts :: "(nat \<times> u8 list) list" where
  "live_parts = (0, image_header live_fields live_sections)
     # map (\<lambda>d. (unat (sd_expected_rva d), live_bytes d)) default_probe_signatures"

definition live_base :: ptr where
  "live_base = 0x7FF600000000"

definition live_text :: code_text where
  "live_text = placed_text live_base live_parts"

lemma length_manifest: "length default_probe_signatures = 17"
  by (simp add: default_probe_signatures_def)

lemma live_header_fits: "header_fits live_fields live_sections"
  by (simp add: header_fits_def live_fields_def live_sections_def length_manifest list_all_iff live_section_def
      name_fits_def char_byte_def)

lemma length_live_header: "length (image_header live_fields live_sections) = 1008"
proof -
  have "length (concat (map section_header live_sections)) = 40 * length live_sections"
    using live_header_fits by (simp add: header_fits_def length_section_headers)
  then show ?thesis by (simp add: image_header_def live_sections_def length_manifest)
qed

lemma live_parts_apart: "sorted_wrt parts_apart live_parts"
proof -
  have "parts_apart (0, image_header live_fields live_sections) (unat (sd_expected_rva d), live_bytes d)"
    if "d \<in> set default_probe_signatures" for d
    using manifest_rva_bounds(1) [OF that] by (simp add: parts_apart_def length_live_header)
  moreover have "sorted_wrt parts_apart (map (\<lambda>d. (unat (sd_expected_rva d), live_bytes d)) default_probe_signatures)"
    unfolding sorted_wrt_map
    by (rule sorted_wrt_mono_rel [OF _ manifest_sorted [unfolded uint_nat]])
       (simp only: parts_apart_def prod.sel flip: of_nat_add, linarith)
  ultimately show ?thesis by (auto simp: live_parts_def)
qed

lemma live_code_bytes:
  assumes "d \<in> set default_probe_signatures"
  shows "code_bytes (live_base + ucast (sd_expected_rva d)) (length (live_bytes d)) live_text = live_bytes d"
proof -
  have "(unat (sd_expected_rva d), live_bytes d) \<in> set live_parts" using assms by (simp add: live_parts_def)
  moreover have "unat (sd_expected_rva d) + length (live_bytes d) \<le> 2 ^ 32"
    using manifest_rva_bounds(2) [OF assms] manifest_rows(3) [OF assms] by simp
  ultimately show ?thesis
    using placed_text_at [OF live_parts_apart, of "unat (sd_expected_rva d)" "live_bytes d" live_base]
    by (simp add: live_text_def)
qed

subsection \<open>What the host reads\<close>

text \<open>Memory in which every address can be read.\<close>

definition text_memory :: "code_text \<Rightarrow> engine_memory" where
  "text_memory t = \<lparr>mem_byte = (\<lambda>a. Some (t a)), mem_writable = (\<lambda>_. False)\<rparr>"

lemma load_text: "load_bytes (text_memory t) a n = Some (code_bytes a n t)"
proof (induction n arbitrary: a)
  case (Suc n)
  have "code_bytes a (Suc n) t = t a # code_bytes (a + 1) n t"
    unfolding code_bytes_def upt_conv_Cons [OF zero_less_Suc] map_Suc_upt [symmetric] by (simp add: comp_def add.assoc)
  then show ?case using Suc.IH [of "a + 1"] by (simp add: load8_def text_memory_def)
qed (simp add: code_bytes_def)

lemma code_bytes_span:
  assumes "code_bytes a (length bs) t = bs"
  shows "span_at (module_span (text_memory t) a) 0 bs"
proof -
  have "t (a + of_nat i) = bs ! i" if "i < length bs" for i
    using that arg_cong [OF assms, of "\<lambda>bs. bs ! i"] by (simp add: code_bytes_def)
  then show ?thesis by (simp add: span_at_def module_span_def load8_def text_memory_def)
qed

definition live_view :: "string \<Rightarrow> pe_module_view" where
  "live_view path = \<lparr>pm_path = path, pm_base = live_base, pm_image_base = live_base, pm_image_size = 0x2000000,
     pm_timestamp = 0x6830, pm_sections = live_sections\<rparr>"

lemma live_module_view:
  "from_module_handle (text_memory live_text) live_base path = Some (Inr (live_view path))"
proof -
  let ?h = "image_header live_fields live_sections"
  have "code_bytes (live_base + of_nat 0) (length ?h) live_text = ?h"
    unfolding live_text_def
    by (rule placed_text_at [OF live_parts_apart]) (simp_all add: live_parts_def length_live_header)
  then have "span_at (module_span (text_memory live_text) live_base) 0 ?h"
    by (intro code_bytes_span) simp
  from from_module_handle_layout [OF image_header_layout [OF live_header_fits this]]
  show ?thesis by (simp add: live_view_def live_fields_def live_base_def)
qed

subsection \<open>Every signature is found once\<close>

lemma live_scan_size:
  assumes "d \<in> set default_probe_signatures"
  shows "unat (section_scan_size (live_view path) (live_section d)) = length (live_bytes d)"
    "section_scanned (live_view path) p (live_section d) \<longleftrightarrow> length (cp_bytes p) \<le> length (live_bytes d)"
proof -
  let ?n = "of_nat (length (live_bytes d)) :: u32"
  have n: "unat ?n = length (live_bytes d)" "length (live_bytes d) < 200" "0 < length (live_bytes d)"
    using manifest_rows(3) [OF assms] live_bytes_pos [OF assms] by (simp_all add: unat_of_nat take_bit_nat_eq_self)
  then have "?n \<noteq> 0" by (metis less_numeral_extra(3) unat_0)
  have r: "sd_expected_rva d < 0x2000000"
    using manifest_rva_bounds(2) [OF assms] by (simp add: word_less_nat_alt)
  then have "unat (0x2000000 - sd_expected_rva d) = 0x2000000 - unat (sd_expected_rva d)"
    by (simp add: unat_sub)
  then have "?n \<le> 0x2000000 - sd_expected_rva d"
    using n manifest_rva_bounds(2) [OF assms] by (simp add: word_le_nat_alt)
  then have scan: "section_scan_size (live_view path) (live_section d) = ?n" "section_extent (live_section d) = ?n"
    using \<open>?n \<noteq> 0\<close> by (simp_all add: section_scan_size_def section_extent_def live_view_def live_section_def min_def)
  then show "unat (section_scan_size (live_view path) (live_section d)) = length (live_bytes d)" using n by simp
  have "section_executable (live_section d)" by (simp add: section_executable_def live_section_def)
  then show "section_scanned (live_view path) p (live_section d) \<longleftrightarrow> length (cp_bytes p) \<le> length (live_bytes d)"
    using scan n r \<open>?n \<noteq> 0\<close> by (auto simp: section_scanned_def live_section_def live_view_def)
qed

definition live_section_bytes :: "section_range \<Rightarrow> u8 list" where
  "live_section_bytes s = code_bytes (live_base + ucast (sr_virtual_address s)) (unat (sr_virtual_size s)) live_text"

lemma live_section_bytes: "d \<in> set default_probe_signatures \<Longrightarrow> live_section_bytes (live_section d) = live_bytes d"
  using live_code_bytes [of d] manifest_rows(3) [of d]
  by (simp add: live_section_bytes_def live_section_def unat_of_nat take_bit_nat_eq_self)

lemma live_sections_mapped: "sections_mapped (text_memory live_text) (live_view path) p live_section_bytes"
proof -
  have "load_bytes (text_memory live_text) (live_base + ucast (sd_expected_rva d)) (length (live_bytes d))
      = Some (live_section_bytes (live_section d))" if "d \<in> set default_probe_signatures" for d
    using that by (simp add: load_text live_code_bytes live_section_bytes)
  then show ?thesis
    using live_scan_size(1) by (auto simp: sections_mapped_def live_view_def live_sections_def live_section_def)
qed

lemma concat_only:
  "distinct xs \<Longrightarrow> x \<in> set xs \<Longrightarrow> P x \<Longrightarrow> \<forall>y\<in>set xs. f y = (if y = x then [v] else []) \<Longrightarrow>
   concat (map f (filter P xs)) = [v]"
proof (induction xs)
  case (Cons y ys)
  have none: "concat (map f (filter P zs)) = []" if "x \<notin> set zs" "set zs \<subseteq> set (y # ys)" for zs
    using that Cons.prems(4) by auto
  show ?case
  proof (cases "y = x")
    case True
    then show ?thesis using Cons.prems none [of ys] by auto
  next
    case False
    then show ?thesis using Cons by auto
  qed
qed simp

lemma live_rvas:
  assumes "d \<in> set default_probe_signatures"
  shows "find_pattern_rvas (text_memory live_text) (live_view path) \<lparr>cp_bytes = pattern_of d\<rparr> 3 = Some [sd_expected_rva d]"
proof -
  let ?p = "\<lparr>cp_bytes = pattern_of d\<rparr>" and ?rvas = "section_rvas \<lparr>cp_bytes = pattern_of d\<rparr> live_section_bytes"
  have "?rvas (live_section e) = (if e = d then [sd_expected_rva d] else [])" if "e \<in> set default_probe_signatures" for e
  proof -
    have "sr_virtual_address (live_section e) = sd_expected_rva e" by (simp add: live_section_def)
    then show ?thesis using live_offsets [OF assms that] by (simp add: section_rvas_def live_section_bytes [OF that])
  qed
  then have "concat (map (\<lambda>e. ?rvas (live_section e))
      (filter (\<lambda>e. section_scanned (live_view path) ?p (live_section e)) default_probe_signatures)) = [sd_expected_rva d]"
    using assms manifest_distinct live_scan_size(2) [OF assms, of path ?p]
    by (intro concat_only) (auto simp: distinct_map live_bytes_def)
  then have "module_rvas (live_view path) ?p live_section_bytes live_sections = [sd_expected_rva d]"
    by (simp add: module_rvas_def live_sections_def filter_map comp_def)
  then show ?thesis
    using find_pattern_rvas_eq [OF live_sections_mapped [of path ?p], of 3]
    by (simp add: live_view_def live_base_def)
qed

definition found_signature :: "signature_descriptor \<Rightarrow> host_resolved_signature" where
  "found_signature d =
     \<lparr>rs_descriptor = d, rs_rvas = [sd_expected_rva d], rs_rva = Some (sd_expected_rva d), rs_error = [],
      rs_unique = True, rs_expected_rva_ok = True\<rparr>"

lemma live_signature:
  "d \<in> set default_probe_signatures \<Longrightarrow>
   resolve_mapped_signature (text_memory live_text) (live_view path) d = Some (found_signature d)"
  using compile_pattern_of [of d] live_rvas [of d path]
  by (simp add: resolve_mapped_signature_def found_signature_def Let_def)

lemma resolve_all_found:
  "\<forall>d\<in>set ds. resolve_mapped_signature m view d = Some (found_signature d) \<Longrightarrow>
   resolve_all m view flags ds (sigs, failures) = Some (sigs @ map found_signature ds, failures)"
  by (induction ds arbitrary: sigs failures) (simp_all add: signature_ok_def found_signature_def)

lemma live_resolve_all:
  "resolve_all (text_memory live_text) (live_view path) flags default_probe_signatures ([], 0)
     = Some (map found_signature default_probe_signatures, 0)"
  using resolve_all_found [of default_probe_signatures] live_signature by simp

subsection \<open>Summary\<close>

text \<open>The manifest can be satisfied under the strictest settings: there is a module, mapped in memory with headers
  the host accepts, on which every signature of the table matches exactly once and at the RVA the table expects;
  so no pattern of the table occurs in the bytes another one describes, and no two expected places overlap.\<close>
theorem manifest_satisfiable:
  "\<exists>m view. from_module_handle m (pm_base view) (pm_path view) = Some (Inr view) \<and>
     list_all (\<lambda>d. case resolve_mapped_signature m view d of
         None \<Rightarrow> False
       | Some sig \<Rightarrow> signature_ok 2 sig \<and> rs_rvas sig = [sd_expected_rva d]) default_probe_signatures"
proof -
  let ?m = "text_memory live_text" and ?v = "live_view ''server.dll''"
  have "pm_base ?v = live_base" "pm_path ?v = ''server.dll''" by (simp_all add: live_view_def)
  then have "from_module_handle ?m (pm_base ?v) (pm_path ?v) = Some (Inr ?v)"
    using live_module_view by simp
  moreover have "list_all (\<lambda>d. case resolve_mapped_signature ?m ?v d of
         None \<Rightarrow> False
       | Some sig \<Rightarrow> signature_ok 2 sig \<and> rs_rvas sig = [sd_expected_rva d]) default_probe_signatures"
    unfolding list_all_iff by (simp add: live_signature signature_ok_def found_signature_def)
  ultimately show ?thesis by blast
qed

end
