(* ===== verification/Host_Detours.thy ===== *)
theory Host_Detours
  imports Host_Api
begin

section \<open>The detours\<close>

text \<open>
  The seven functions of \<open>dwrt_host.cpp\<close> the engine runs instead of its own.  A detour gets the
  original as an argument: what the engine does in it, which may run hooked functions again.  The
  engine is given as a tree of its own work, its calls of hooked functions and what it does with
  their results, so that every nesting and order of callbacks on one thread is one tree.  \<open>None\<close> is
  a fault.
\<close>

subsection \<open>World and engine\<close>

text \<open>The host, the memory of the engine and the thread's classifier scope.\<close>

record 'r world =
  the_host :: "'r host"
  memory :: engine_memory
  classifier_scope :: classifier_spoof_scope

text \<open>The functions of the engine the experiments call, and the base of the server module.\<close>

record engine =
  engine_unit_type :: unit_type_fn
  engine_server :: ptr
  engine_teleport :: teleport_fn
  engine_classifier :: "engine_memory \<Rightarrow> ptr \<Rightarrow> u32 option"

type_synonym 'r original = "'r world \<Rightarrow> (bool \<times> 'r world) option"

definition enter_callback :: "u32 \<Rightarrow> 'r world \<Rightarrow> bool \<times> 'r world" where
  "enter_callback pid w =
     (let h = the_host w; (t, scope) = callback_enter pid (testpoints h)
      in (recursive scope, w\<lparr>the_host := h\<lparr>testpoints := t\<rparr>\<rparr>))"

definition leave_callback :: "'r world \<Rightarrow> 'r world" where
  "leave_callback w =
     (let h = the_host w in w\<lparr>the_host := h\<lparr>testpoints := callback_leave (testpoints h)\<rparr>\<rparr>)"

text \<open>A call of the shim's probe functions, whose route the detours ignore.\<close>

definition with_shim ::
  "(shadow_shim \<Rightarrow> 'r process \<Rightarrow> u32 \<times> shadow_shim \<times> 'r process) \<Rightarrow> 'r world \<Rightarrow> 'r world" where
  "with_shim f w =
     (let h = the_host w; (route, s, p) = f (hs_runtime (state h)) (win h)
      in w\<lparr>the_host := h\<lparr>state := (state h)\<lparr>hs_runtime := s\<rparr>, win := p\<rparr>\<rparr>)"

definition neutralize :: "ptr \<Rightarrow> 'r world \<Rightarrow> 'r world" where
  "neutralize entity w =
     (let h = the_host w; (st, m) = maybe_global_neutralize_entity (target_probe h) (memory w) entity
      in w\<lparr>the_host := h\<lparr>target_probe := st\<rparr>, memory := m\<rparr>)"

subsection \<open>Damage\<close>

text \<open>The experiments before the original, in order; the scope is closed after it.\<close>

definition before_damage ::
  "engine \<Rightarrow> ptr \<Rightarrow> ptr \<Rightarrow> bool \<Rightarrow> 'r world \<Rightarrow> (friendly_fire_scope \<times> 'r world) option" where
  "before_damage eng self info rec w =
     (let h = the_host w
      in do {
        (tp, m) \<leftarrow> record_damage_victim (engine_unit_type eng) (engine_server eng) (target_probe h)
                    (memory w) self info rec;
        (wp, m) \<leftarrow> maybe_apply_walker_patrol_on_damage (engine_teleport eng) (walker_patrol h) m self rec;
        (ff, m, scope) \<leftarrow> begin_friendly_fire_damage (friendly_fire h) m self rec;
        Some (scope, w\<lparr>the_host := h\<lparr>target_probe := tp, walker_patrol := wp, friendly_fire := ff\<rparr>, memory := m\<rparr>)
      })"

definition after_damage :: "friendly_fire_scope \<Rightarrow> 'r world \<Rightarrow> 'r world option" where
  "after_damage scope w =
     (let h = the_host w
      in do {
        (ff, m) \<leftarrow> end_friendly_fire_damage (friendly_fire h) (memory w) scope;
        Some (w\<lparr>the_host := h\<lparr>friendly_fire := ff\<rparr>, memory := m\<rparr>)
      })"

definition detour_take_damage_old ::
  "'r host_env \<Rightarrow> engine \<Rightarrow> ptr \<Rightarrow> ptr \<Rightarrow> 'r original \<Rightarrow> 'r original" where
  "detour_take_damage_old env eng self info original w =
     (let (rec, w) = enter_callback 1 w
      in do {
        (scope, w) \<leftarrow> before_damage eng self info rec w;
        let w = (if rec then w
                 else with_shim (probe_record_damage (env_windows env) (env_runtime env) zero_damage) w);
        (r, w) \<leftarrow> (if g_original_take_damage_old (originals (the_host w)) \<noteq> nullptr
                   then original w else Some (False, w));
        w \<leftarrow> after_damage scope w;
        Some (r, leave_callback w)
      })"

subsection \<open>Entity input and output\<close>

definition detour_accept_input ::
  "'r host_env \<Rightarrow> engine \<Rightarrow> ptr \<Rightarrow> ptr \<Rightarrow> ptr \<Rightarrow> 'r original \<Rightarrow> 'r original" where
  "detour_accept_input env eng self activator caller original w =
     (let (rec, w) = enter_callback 2 w;
          w = (if rec then w
               else with_shim (probe_record_entity_input (env_windows env) (env_runtime env) zero_entity_io)
                      (neutralize caller (neutralize activator (neutralize self w))))
      in if g_original_accept_input (originals (the_host w)) = nullptr then Some (False, leave_callback w)
         else do {
           (r, w) \<leftarrow> original w;
           Some (r, leave_callback w)
         })"

definition detour_fire_output_internal ::
  "'r host_env \<Rightarrow> engine \<Rightarrow> ptr \<Rightarrow> ptr \<Rightarrow> ptr \<Rightarrow> 'r original \<Rightarrow> 'r original" where
  "detour_fire_output_internal env eng self activator caller original w =
     (let (rec, w) = enter_callback 3 w;
          w = (if rec then w
               else with_shim (probe_record_entity_output (env_windows env) (env_runtime env) zero_entity_io)
                      (neutralize caller (neutralize activator (neutralize self w))))
      in do {
        (r, w) \<leftarrow> (if g_original_fire_output_internal (originals (the_host w)) \<noteq> nullptr
                   then original w else Some (False, w));
        Some (r, leave_callback w)
      })"

subsection \<open>Target filters\<close>

text \<open>What the filter detour does before the original.\<close>

definition before_filter ::
  "engine \<Rightarrow> ptr \<Rightarrow> ptr \<Rightarrow> ptr \<Rightarrow> 'r world \<Rightarrow> (target_filter_scope \<times> 'r world) option" where
  "before_filter eng source target bitset w =
     (let h = the_host w
      in do {
        (tp, m, scope) \<leftarrow> begin_target_filter (engine_unit_type eng) (target_probe h) (memory w) source target False;
        let (applied, tp, m) =
          maybe_allow_target_bitset tp m scope target bitset
            (if g_original_target_identity_classifier (originals h) = nullptr then None
             else Some (engine_classifier eng));
        Some (scope, w\<lparr>the_host := h\<lparr>target_probe := tp\<rparr>, memory := m,
          classifier_scope := begin_target_classifier_spoof_scope tp scope\<rparr>)
      })"

definition after_filter :: "target_filter_scope \<Rightarrow> bool \<Rightarrow> 'r world \<Rightarrow> bool \<times> 'r world" where
  "after_filter scope result w =
     (let h = the_host w;
          (final_result, tp, m) = finish_target_filter (target_probe h) (memory w) scope result
      in (final_result, w\<lparr>the_host := h\<lparr>target_probe := tp\<rparr>, memory := m,
            classifier_scope := end_target_classifier_spoof_scope (classifier_scope w)\<rparr>))"

definition detour_target_friendly_fire_filter ::
  "'r host_env \<Rightarrow> engine \<Rightarrow> ptr \<Rightarrow> ptr \<Rightarrow> ptr \<Rightarrow> 'r original \<Rightarrow> 'r original" where
  "detour_target_friendly_fire_filter env eng source target bitset original w =
     (let (rec, w) = enter_callback 4 w
      in do {
        (scope, w) \<leftarrow> before_filter eng source target bitset w;
        (result, w) \<leftarrow> (if g_original_target_friendly_fire_filter (originals (the_host w)) \<noteq> nullptr
                        then original w else Some (True, w));
        let (result, w) = after_filter scope result w;
        Some (result, leave_callback w)
      })"

definition detour_target_friendly_fire_caller ::
  "'r host_env \<Rightarrow> engine \<Rightarrow> ptr \<Rightarrow> ptr \<Rightarrow> 'r original \<Rightarrow> 'r original" where
  "detour_target_friendly_fire_caller env eng source target original w =
     (let (rec, w) = enter_callback 5 w
      in do {
        (result, w) \<leftarrow> (if g_original_target_friendly_fire_caller (originals (the_host w)) \<noteq> nullptr
                        then original w else Some (True, w));
        if rec then Some (result, leave_callback w)
        else
          (let h = the_host w
           in do {
             (result, tp, m) \<leftarrow> record_target_filter_caller (engine_unit_type eng) (target_probe h) (memory w)
                                source target result;
             Some (result, leave_callback (w\<lparr>the_host := h\<lparr>target_probe := tp\<rparr>, memory := m\<rparr>))
           })
      })"

definition detour_target_secondary_friendly_fire_gate ::
  "'r host_env \<Rightarrow> engine \<Rightarrow> ptr \<Rightarrow> ptr \<Rightarrow> ptr \<Rightarrow> 'r original \<Rightarrow> 'r original" where
  "detour_target_secondary_friendly_fire_gate env eng source maybe_attacker maybe_target original w =
     (let (rec, w) = enter_callback 6 w
      in do {
        (result, w) \<leftarrow> (if g_original_target_secondary_friendly_fire_gate (originals (the_host w)) \<noteq> nullptr
                        then original w else Some (True, w));
        if rec then Some (result, leave_callback w)
        else
          (let h = the_host w;
               (result, tp, m) = record_secondary_target_gate (target_probe h) (memory w)
                 source maybe_attacker maybe_target result
           in Some (result, leave_callback (w\<lparr>the_host := h\<lparr>target_probe := tp\<rparr>, memory := m\<rparr>)))
      })"

text \<open>The classifier detour opens no callback scope.  The original writes the index to \<open>out\<close>.\<close>

definition detour_target_identity_classifier ::
  "'r host_env \<Rightarrow> engine \<Rightarrow> ptr \<Rightarrow> ptr \<Rightarrow> 'r original \<Rightarrow> 'r original" where
  "detour_target_identity_classifier env eng target out original w =
     do {
       (r, w) \<leftarrow> (if g_original_target_identity_classifier (originals (the_host w)) \<noteq> nullptr
                  then original w else Some (True, w));
       let h = the_host w;
       (tp, m) \<leftarrow> finish_target_identity_classifier (target_probe h) (memory w) (classifier_scope w) target out;
       Some (r, w\<lparr>the_host := h\<lparr>target_probe := tp\<rparr>, memory := m\<rparr>)
     }"

subsection \<open>The engine as a tree of calls\<close>

datatype hooked_call =
    Take_Damage_Old ptr ptr
  | Accept_Input ptr ptr ptr
  | Fire_Output_Internal ptr ptr ptr
  | Target_Filter ptr ptr ptr
  | Target_Filter_Caller ptr ptr
  | Secondary_Gate ptr ptr ptr
  | Identity_Classifier ptr ptr

text \<open>
  Returning a value, working on its own memory, and calling a hooked function: which one, what the
  original does in this call, and what the engine does with the result.
\<close>

datatype engine_code =
    Return bool
  | Work "engine_memory \<Rightarrow> engine_memory option" engine_code
  | Branch "engine_memory \<Rightarrow> bool" engine_code engine_code
  | Call hooked_call engine_code "bool \<Rightarrow> engine_code"

definition detour :: "'r host_env \<Rightarrow> engine \<Rightarrow> hooked_call \<Rightarrow> 'r original \<Rightarrow> 'r original" where
  "detour env eng f =
     (case f of
        Take_Damage_Old self info \<Rightarrow> detour_take_damage_old env eng self info
      | Accept_Input self activator caller \<Rightarrow> detour_accept_input env eng self activator caller
      | Fire_Output_Internal self activator caller \<Rightarrow> detour_fire_output_internal env eng self activator caller
      | Target_Filter source target bitset \<Rightarrow> detour_target_friendly_fire_filter env eng source target bitset
      | Target_Filter_Caller source target \<Rightarrow> detour_target_friendly_fire_caller env eng source target
      | Secondary_Gate source attacker target \<Rightarrow>
          detour_target_secondary_friendly_fire_gate env eng source attacker target
      | Identity_Classifier target out \<Rightarrow> detour_target_identity_classifier env eng target out)"

text \<open>The engine with the hooks in place, and the engine alone.\<close>

primrec run_hooked :: "'r host_env \<Rightarrow> engine \<Rightarrow> engine_code \<Rightarrow> 'r world \<Rightarrow> (bool \<times> 'r world) option" where
  "run_hooked env eng (Return r) w = Some (r, w)"
| "run_hooked env eng (Work f c) w =
     (case f (memory w) of None \<Rightarrow> None | Some m \<Rightarrow> run_hooked env eng c (w\<lparr>memory := m\<rparr>))"
| "run_hooked env eng (Branch b c d) w =
     (if b (memory w) then run_hooked env eng c w else run_hooked env eng d w)"
| "run_hooked env eng (Call f body k) w =
     (case detour env eng f (run_hooked env eng body) w of
        None \<Rightarrow> None
      | Some (r, w) \<Rightarrow> run_hooked env eng (k r) w)"

primrec run_plain :: "engine_code \<Rightarrow> engine_memory \<Rightarrow> (bool \<times> engine_memory) option" where
  "run_plain (Return r) m = Some (r, m)"
| "run_plain (Work f c) m = (case f m of None \<Rightarrow> None | Some m \<Rightarrow> run_plain c m)"
| "run_plain (Branch b c d) m = (if b m then run_plain c m else run_plain d m)"
| "run_plain (Call f body k) m =
     (case run_plain body m of None \<Rightarrow> None | Some (r, m) \<Rightarrow> run_plain (k r) m)"

end
