(* ===== verification/Target_Filter_Scope.thy ===== *)
theory Target_Filter_Scope
  imports Target_Probe
begin

section \<open>The target filter scope undoes its spoofs\<close>

text \<open>
  What \<open>begin_target_filter\<close> and \<open>finish_target_filter\<close> do to memory: the spoofed team bytes are
  written back exactly, both of them when source and target are spoofed in the same scope; only
  the global neutralisation, which is meant to stay, is left behind.
\<close>

subsection \<open>Protected reads and writes\<close>

lemma safe_read_team_cases:
  "safe_read_team m e = (False, invalid32) \<or>
     (\<exists>t. e \<noteq> nullptr \<and> load8 m (team_field e) = Some t \<and> safe_read_team m e = (True, ucast t))"
  by (auto simp: safe_read_team_def split: option.splits)

lemma ucast_u8_neq_invalid [simp]: "(ucast (t :: u8) :: u32) \<noteq> invalid32"
proof
  assume "(ucast t :: u32) = invalid32"
  then have "unat (ucast t :: u32) = unat (invalid32 :: u32)" by simp
  then show False using unat_lt_8 [of t] by (simp add: unsigned_ucast_eq take_bit_nat_eq_self)
qed

lemma team_byte_ucast [simp]: "team_byte (ucast (t :: u8)) = t"
proof -
  have "unat (ucast t :: u32) = unat t"
    using unat_lt_8 [of t] by (simp add: unsigned_ucast_eq take_bit_nat_eq_self)
  then have "(ucast t :: u32) \<le> 0xff" using unat_lt_8 [of t] by (simp add: word_le_nat_alt)
  moreover have "(ucast (ucast t :: u32) :: u8) = t" by (rule bit_word_eqI) (auto simp: bit_simps)
  ultimately show ?thesis by (simp add: team_byte_def)
qed

lemma safe_read_team_valid:
  assumes "snd (safe_read_team m e) \<noteq> invalid32"
  shows "e \<noteq> nullptr \<and> load8 m (team_field e) = Some (team_byte (snd (safe_read_team m e)))"
  using assms safe_read_team_cases [of m e] by auto

lemma safe_write_team_cases:
  "(\<exists>m'. e \<noteq> nullptr \<and> store8 m (team_field e) t = Some m' \<and> safe_write_team m e t = (True, m'))
     \<or> safe_write_team m e t = (False, m)"
  by (auto simp: safe_write_team_def split: option.splits)

lemma safe_write_team_store:
  "e \<noteq> nullptr \<Longrightarrow> store8 m (team_field e) t = Some m' \<Longrightarrow> safe_write_team m e t = (True, m')"
  by (simp add: safe_write_team_def)

lemma team_field_inject [simp]: "team_field a = team_field b \<longleftrightarrow> a = b"
  by (simp add: team_field_def)

subsection \<open>The phases\<close>

text \<open>
  The memory effect of a spoof: nothing, or a store to the team byte.  \<open>team_spoofed e a m m'\<close> is
  the relation for the flag \<open>a\<close>.
\<close>

definition team_spoofed :: "ptr \<Rightarrow> u8 \<Rightarrow> engine_memory \<Rightarrow> engine_memory \<Rightarrow> bool" where
  "team_spoofed e a m m' \<longleftrightarrow>
     a = 0 \<and> m' = m \<or> a = 1 \<and> e \<noteq> nullptr \<and> (\<exists>t. store8 m (team_field e) t = Some m')"

lemma spoof_source_memory:
  assumes "spoof_source st m source target team same = (st', m', a)"
  shows "team_spoofed source a m m' \<and> (a \<noteq> 0 \<longrightarrow> same \<and> source \<noteq> target)"
  using assms safe_write_team_cases [of source m "tp_opposing_team team"]
  by (auto simp: spoof_source_def team_spoofed_def Let_def split: if_splits)

lemma spoof_target_memory:
  assumes "spoof_target st m source target team same = (st', m', a)"
  shows "team_spoofed target a m m' \<and> (a \<noteq> 0 \<longrightarrow> same \<and> source \<noteq> target)"
  using assms safe_write_team_cases [of target m "configured_target_spoof_team st team"]
    safe_write_team_cases [of target m "configured_target_spoof_team (inc tp_target_spoof_attempts_update st) team"]
  by (auto simp: spoof_target_def team_spoofed_def Let_def split: if_splits)

text \<open>The effect of a restore on memory does not depend on the counters.\<close>

definition restore_team :: "engine_memory \<Rightarrow> ptr \<Rightarrow> u8 \<Rightarrow> u8 \<Rightarrow> engine_memory" where
  "restore_team m e a t = (if a \<noteq> 0 \<and> e \<noteq> nullptr then snd (safe_write_team m e t) else m)"

lemma restore_source_memory:
  "snd (restore_source st m sc r)
     = restore_team m (ts_source sc) (ts_source_spoof_applied sc) (ts_original_source_team sc)"
  by (simp add: restore_source_def restore_team_def Let_def split: prod.split)

lemma restore_target_memory:
  "snd (restore_target st m sc r)
     = restore_team m (ts_target sc) (ts_target_spoof_applied sc) (ts_original_target_team sc)"
  by (simp add: restore_target_def restore_team_def Let_def split: prod.split)

lemma finish_memory:
  "snd (snd (finish_target_filter st m sc r)) =
     restore_team (restore_team m (ts_source sc) (ts_source_spoof_applied sc) (ts_original_source_team sc))
       (ts_target sc) (ts_target_spoof_applied sc) (ts_original_target_team sc)"
  by (simp add: finish_target_filter_def Let_def split_def restore_source_memory restore_target_memory)

lemma restore_spoofed:
  assumes "team_spoofed e a m m'" "a \<noteq> 0 \<Longrightarrow> load8 m (team_field e) = Some t"
  shows "restore_team m' e a t = m"
  using assms byte_cell.spoof_restore [of m "team_field e" t]
  by (auto simp: team_spoofed_def restore_team_def safe_write_team_def)

lemma restore_both_spoofed:
  assumes "team_spoofed e a m m1" "team_spoofed f b m1 m2" "a \<noteq> 0 \<or> b \<noteq> 0 \<Longrightarrow> e \<noteq> f"
    and "a \<noteq> 0 \<or> b \<noteq> 0 \<Longrightarrow> load8 m (team_field e) = Some t"
    and "a \<noteq> 0 \<or> b \<noteq> 0 \<Longrightarrow> load8 m (team_field f) = Some u"
  shows "restore_team (restore_team m2 e a t) f b u = m"
proof (cases "a = 0 \<or> b = 0")
  case True
  then show ?thesis
  proof
    assume "a = 0"
    then have "m1 = m" using assms(1) by (simp add: team_spoofed_def)
    moreover have "restore_team m2 e a t = m2" using \<open>a = 0\<close> by (simp add: restore_team_def)
    ultimately show ?thesis using restore_spoofed [of f b m m2 u] assms by simp
  next
    assume b: "b = 0"
    then have "m2 = m1" using assms(2) by (simp add: team_spoofed_def)
    then show ?thesis using b restore_spoofed [of e a m m1 t] assms by (simp add: restore_team_def [of _ f])
  qed
next
  case False
  then obtain x y where s: "store8 m (team_field e) x = Some m1" "store8 m1 (team_field f) y = Some m2"
    "e \<noteq> nullptr" "f \<noteq> nullptr"
    using assms(1,2) by (auto simp: team_spoofed_def)
  obtain n where "store8 m2 (team_field e) t = Some n" "store8 n (team_field f) u = Some m"
    using byte_cell.spoof_restore_two [of "team_field e" "team_field f" m t u x m1 y m2] s assms(3-5) False
    by auto
  then show ?thesis using s False by (simp add: restore_team_def safe_write_team_store)
qed

subsection \<open>The whole scope\<close>

text \<open>The memory and state after the two neutralisations at the start of the filter.\<close>

definition neutralize_pair ::
  "target_probe_state \<Rightarrow> engine_memory \<Rightarrow> ptr \<Rightarrow> ptr \<Rightarrow> target_probe_state \<times> engine_memory" where
  "neutralize_pair st m source target =
     (let (st, m) = maybe_global_neutralize_entity st m source
      in maybe_global_neutralize_entity st m target)"

definition filter_memory ::
  "target_probe_state \<Rightarrow> engine_memory \<Rightarrow> ptr \<Rightarrow> ptr \<Rightarrow> bool \<Rightarrow> engine_memory" where
  "filter_memory st m source target recursive =
     (if tp_enabled st = 0 \<or> recursive then m else snd (neutralize_pair st m source target))"

lemma begin_target_filter_shape:
  assumes "begin_target_filter uf st m source target recursive = Some (st1, m1, sc)"
  obtains (idle) "sc = empty_target_scope" "m1 = m" "st1 = st" "tp_enabled st = 0 \<or> recursive"
  | (opened) m0 m' where "m0 = filter_memory st m source target recursive"
      "ts_source sc = source" "ts_target sc = target"
      "team_spoofed source (ts_source_spoof_applied sc) m0 m'"
      "team_spoofed target (ts_target_spoof_applied sc) m' m1"
      "ts_source_spoof_applied sc \<noteq> 0 \<or> ts_target_spoof_applied sc \<noteq> 0 \<Longrightarrow>
         source \<noteq> target \<and> load8 m0 (team_field source) = Some (ts_original_source_team sc)
         \<and> load8 m0 (team_field target) = Some (ts_original_target_team sc)"
proof (cases "tp_enabled st = 0 \<or> recursive")
  case True
  with assms idle show thesis by (simp add: begin_target_filter_def)
next
  case False
  obtain sta ma where a: "maybe_global_neutralize_entity st m source = (sta, ma)" by fastforce
  obtain stb mb where b: "maybe_global_neutralize_entity sta ma target = (stb, mb)" by fastforce
  have fm: "mb = filter_memory st m source target recursive"
    using False by (simp add: filter_memory_def neutralize_pair_def a b)
  let ?src = "safe_read_team mb source" and ?tgt = "safe_read_team mb target"
  let ?same = "snd ?src \<noteq> invalid32 \<and> snd ?tgt \<noteq> invalid32 \<and> snd ?src = snd ?tgt"
  obtain name where name: "designer_name_for mb target = Some name"
    using assms False by (cases "designer_name_for mb target")
      (simp_all add: begin_target_filter_def a b Let_def)
  let ?st = "observe_filter ?src ?tgt (safe_unit_type uf mb target) name ?same stb"
  obtain stc mc sa where c: "spoof_source ?st mb source target (snd ?tgt) ?same = (stc, mc, sa)"
    by (metis prod_cases3)
  obtain std md ta where d: "spoof_target stc mc source target (snd ?src) ?same = (std, md, ta)"
    by (metis prod_cases3)
  have sc: "sc = \<lparr>ts_source = source, ts_target = target,
      ts_original_source_team = team_byte (snd ?src), ts_original_target_team = team_byte (snd ?tgt),
      ts_source_spoof_applied = sa, ts_target_spoof_applied = ta,
      ts_same_team = of_bool ?same, ts_target_objective = of_bool (is_objective_name name)\<rparr>" and "m1 = md"
    using assms False name c d by (simp_all add: begin_target_filter_def a b Let_def)
  show thesis
  proof (rule opened [OF fm])
    show "ts_source_spoof_applied sc \<noteq> 0 \<or> ts_target_spoof_applied sc \<noteq> 0 \<Longrightarrow>
         source \<noteq> target \<and> load8 mb (team_field source) = Some (ts_original_source_team sc)
         \<and> load8 mb (team_field target) = Some (ts_original_target_team sc)"
      using spoof_source_memory [OF c] spoof_target_memory [OF d]
        safe_read_team_valid [of mb source] safe_read_team_valid [of mb target] by (auto simp: sc)
  qed (use sc \<open>m1 = md\<close> spoof_source_memory [OF c] spoof_target_memory [OF d] in auto)
qed

lemma finish_undoes_begin:
  assumes "begin_target_filter uf st m source target recursive = Some (st1, m1, sc)"
  shows "snd (snd (finish_target_filter st' m1 sc result)) = filter_memory st m source target recursive"
  using assms
proof (cases rule: begin_target_filter_shape)
  case idle
  then show ?thesis
    by (auto simp: finish_memory restore_team_def empty_target_scope_def filter_memory_def)
next
  case (opened m0 m')
  then have "restore_team (restore_team m1 source (ts_source_spoof_applied sc) (ts_original_source_team sc))
      target (ts_target_spoof_applied sc) (ts_original_target_team sc) = m0"
    by (intro restore_both_spoofed) auto
  with opened show ?thesis by (simp add: finish_memory)
qed

subsection \<open>Neutralisation\<close>

lemma neutralize_off [simp]:
  "tp_enabled st = 0 \<or> tp_global_neutralize_enabled st = 0 \<Longrightarrow> maybe_global_neutralize_entity st m e = (st, m)"
  by (simp add: maybe_global_neutralize_entity_def)

lemma neutralize_cases:
  assumes "maybe_global_neutralize_entity st m e = (st', m')"
  shows "m' = m \<or> tp_global_neutralize_team st \<le> 0xff
           \<and> store8 m (team_field e) (ucast (tp_global_neutralize_team st)) = Some m'"
proof (cases "tp_enabled st = 0 \<or> tp_global_neutralize_enabled st = 0 \<or> e = nullptr \<or> \<not> fst (safe_read_team m e)
    \<or> snd (safe_read_team m e) = tp_global_neutralize_team st \<or> tp_global_neutralize_team st > 0xff")
  case True
  then have "snd (maybe_global_neutralize_entity st m e) = m"
    by (auto simp: maybe_global_neutralize_entity_def record_global_neutralize_original_team_def Let_def split_def)
  with assms show ?thesis by simp
next
  case False
  then have "snd (maybe_global_neutralize_entity st m e)
      = snd (safe_write_team m e (ucast (tp_global_neutralize_team st)))"
    by (simp add: maybe_global_neutralize_entity_def record_global_neutralize_original_team_def Let_def split_def)
  with assms have "m' = snd (safe_write_team m e (ucast (tp_global_neutralize_team st)))" by simp
  then show ?thesis
    using False safe_write_team_cases [of e m "ucast (tp_global_neutralize_team st)"] by (auto simp: not_less)
qed

subsection \<open>Open spoofs\<close>

definition tp_open_spoofs :: "target_probe_state \<Rightarrow> u64" where
  "tp_open_spoofs st =
     (tp_source_spoof_applied st - tp_source_spoof_restored st)
     + (tp_target_spoof_applied st - tp_target_spoof_restored st)"

definition scope_weight :: "target_filter_scope \<Rightarrow> u64" where
  "scope_weight sc = of_bool (ts_source_spoof_applied sc \<noteq> 0) + of_bool (ts_target_spoof_applied sc \<noteq> 0)"

text \<open>The operations that touch neither the open spoofs nor the neutralisation switch.\<close>

definition spoof_frame :: "target_probe_state \<Rightarrow> target_probe_state \<Rightarrow> bool" where
  "spoof_frame st st' \<longleftrightarrow>
     tp_open_spoofs st' = tp_open_spoofs st \<and>
     tp_global_neutralize_enabled st' = tp_global_neutralize_enabled st"

lemma spoof_frame_refl [simp]: "spoof_frame st st"
  by (simp add: spoof_frame_def)

lemma observe_filter_frame: "spoof_frame st (observe_filter a b u n s st)"
  by (simp add: spoof_frame_def tp_open_spoofs_def observe_filter_def record_unit_type_def Let_def)

lemma force_filter_frame: "spoof_frame st (snd (force_filter_result st sc r))"
  by (simp add: spoof_frame_def tp_open_spoofs_def force_filter_result_def)

lemma result_common_frame:
  "spoof_frame st (record_result_common r a b (st\<lparr>tp_last_filter_result := x\<rparr>))"
  by (simp add: spoof_frame_def tp_open_spoofs_def record_result_common_def)

lemma spoof_source_frame:
  assumes "spoof_source st m s t team same = (st', m', a)"
  shows "tp_open_spoofs st' = tp_open_spoofs st + of_bool (a \<noteq> 0) \<and>
     tp_global_neutralize_enabled st' = tp_global_neutralize_enabled st"
  using assms by (auto simp: spoof_source_def tp_open_spoofs_def Let_def split: if_splits prod.splits)

lemma spoof_target_frame:
  assumes "spoof_target st m s t team same = (st', m', a)"
  shows "tp_open_spoofs st' = tp_open_spoofs st + of_bool (a \<noteq> 0) \<and>
     tp_global_neutralize_enabled st' = tp_global_neutralize_enabled st"
  using assms by (auto simp: spoof_target_def tp_open_spoofs_def Let_def split: if_splits prod.splits)

lemma safe_write_ok: "fst (safe_write_team m e t) \<longleftrightarrow> e \<noteq> nullptr \<and> can_write m (team_field e)"
  by (auto simp: safe_write_team_def store8_eq_None_iff split: option.split)
    (auto dest: store8_SomeD)

lemma restore_source_frame:
  assumes "ts_source_spoof_applied sc \<noteq> 0 \<Longrightarrow> ts_source sc \<noteq> nullptr \<and> can_write m (team_field (ts_source sc))"
  shows "tp_open_spoofs (fst (restore_source st m sc r)) = tp_open_spoofs st - of_bool (ts_source_spoof_applied sc \<noteq> 0)
     \<and> tp_global_neutralize_enabled (fst (restore_source st m sc r)) = tp_global_neutralize_enabled st"
  using assms safe_write_ok [of m "ts_source sc" "ts_original_source_team sc"]
  by (cases "ts_source sc = nullptr") (auto simp: restore_source_def tp_open_spoofs_def Let_def split_def)

lemma restore_target_frame:
  assumes "ts_target_spoof_applied sc \<noteq> 0 \<Longrightarrow> ts_target sc \<noteq> nullptr \<and> can_write m (team_field (ts_target sc))"
  shows "tp_open_spoofs (fst (restore_target st m sc r)) = tp_open_spoofs st - of_bool (ts_target_spoof_applied sc \<noteq> 0)
     \<and> tp_global_neutralize_enabled (fst (restore_target st m sc r)) = tp_global_neutralize_enabled st"
  using assms safe_write_ok [of m "ts_target sc" "ts_original_target_team sc"]
  by (cases "ts_target sc = nullptr") (auto simp: restore_target_def tp_open_spoofs_def Let_def split_def)

lemma restore_team_can_write [simp]: "can_write (restore_team m e a t) = can_write m"
  using safe_write_team_cases [of e m t] can_write_store8 [of m "team_field e" t]
  by (auto simp: restore_team_def fun_eq_iff)

lemma team_spoofed_can_write:
  "team_spoofed e a m m' \<Longrightarrow> can_write m' = can_write m \<and> (a \<noteq> 0 \<longrightarrow> e \<noteq> nullptr \<and> can_write m (team_field e))"
  using can_write_store8 by (auto simp: team_spoofed_def fun_eq_iff dest: store8_SomeD)

subsection \<open>The scope contract\<close>

text \<open>
  The arguments of a filter call are source, target, recursion flag and the result the engine's
  filter returns; the latter travels with the scope to where \<open>finish_target_filter\<close> gets it.
\<close>

type_synonym filter_call = "ptr \<times> ptr \<times> bool \<times> bool"

definition tf_open ::
  "unit_type_fn \<Rightarrow> target_probe_state \<Rightarrow> engine_memory \<Rightarrow> filter_call
     \<Rightarrow> (target_probe_state \<times> engine_memory \<times> (target_filter_scope \<times> bool)) option" where
  "tf_open uf st m a =
     (case a of (source, target, recursive, result) \<Rightarrow>
        map_option (\<lambda>(st, m, sc). (st, m, (sc, result))) (begin_target_filter uf st m source target recursive))"

definition tf_close ::
  "target_probe_state \<Rightarrow> engine_memory \<Rightarrow> target_filter_scope \<times> bool
     \<Rightarrow> (target_probe_state \<times> engine_memory) option" where
  "tf_close st m sc = Some (snd (finish_target_filter st m (fst sc) (snd sc)))"

definition no_neutralize :: "target_probe_state \<Rightarrow> bool" where
  "no_neutralize st \<longleftrightarrow> tp_global_neutralize_enabled st = 0"

lemma begin_target_filter_open_spoofs:
  assumes "begin_target_filter uf st m source target recursive = Some (st1, m1, sc)" "no_neutralize st"
  shows "no_neutralize st1 \<and> tp_open_spoofs st1 = tp_open_spoofs st + scope_weight sc"
proof (cases "tp_enabled st = 0 \<or> recursive")
  case True
  with assms show ?thesis
    by (auto simp: begin_target_filter_def scope_weight_def empty_target_scope_def)
next
  case False
  let ?src = "safe_read_team m source" and ?tgt = "safe_read_team m target"
  let ?same = "snd ?src \<noteq> invalid32 \<and> snd ?tgt \<noteq> invalid32 \<and> snd ?src = snd ?tgt"
  have off: "maybe_global_neutralize_entity st m e = (st, m)" for e
    using assms(2) by (simp add: no_neutralize_def)
  obtain name where name: "designer_name_for m target = Some name"
    using assms False by (cases "designer_name_for m target")
      (simp_all add: begin_target_filter_def off Let_def)
  let ?st = "observe_filter ?src ?tgt (safe_unit_type uf m target) name ?same st"
  obtain stc mc sa where c: "spoof_source ?st m source target (snd ?tgt) ?same = (stc, mc, sa)"
    by (metis prod_cases3)
  obtain std md ta where d: "spoof_target stc mc source target (snd ?src) ?same = (std, md, ta)"
    by (metis prod_cases3)
  have r: "ts_source_spoof_applied sc = sa" "ts_target_spoof_applied sc = ta" "st1 = std"
    using assms False name c d by (auto simp: begin_target_filter_def off Let_def)
  show ?thesis
    using observe_filter_frame [of st ?src ?tgt "safe_unit_type uf m target" name ?same]
      spoof_source_frame [OF c] spoof_target_frame [OF d] assms(2)
    by (simp add: r scope_weight_def no_neutralize_def spoof_frame_def)
qed

lemma finish_target_filter_open_spoofs:
  assumes b: "begin_target_filter uf st m source target recursive = Some (st1, m1, sc)" and "no_neutralize st'"
  shows "no_neutralize (fst (snd (finish_target_filter st' m1 sc r)))
     \<and> tp_open_spoofs (fst (snd (finish_target_filter st' m1 sc r))) = tp_open_spoofs st' - scope_weight sc"
proof -
  have cw: "(ts_source_spoof_applied sc \<noteq> 0 \<longrightarrow> ts_source sc \<noteq> nullptr \<and> can_write m1 (team_field (ts_source sc)))
      \<and> (ts_target_spoof_applied sc \<noteq> 0 \<longrightarrow> ts_target sc \<noteq> nullptr \<and> can_write m1 (team_field (ts_target sc)))"
    using b
  proof (cases rule: begin_target_filter_shape)
    case idle
    then show ?thesis by (simp add: empty_target_scope_def)
  next
    case (opened m0 m')
    then show ?thesis using team_spoofed_can_write by fastforce
  qed
  obtain r1 sta where a: "force_filter_result st' sc r = (r1, sta)" by fastforce
  let ?st = "record_result_common r1 (ts_same_team sc \<noteq> 0) (ts_target_objective sc \<noteq> 0)
      (sta\<lparr>tp_last_filter_result := flag32 r1\<rparr>)"
  have frame: "tp_open_spoofs ?st = tp_open_spoofs st' \<and>
      tp_global_neutralize_enabled ?st = tp_global_neutralize_enabled st'"
    using force_filter_frame [of st' sc r] result_common_frame [of sta r1] by (simp add: a spoof_frame_def)
  have "can_write (snd (restore_source ?st m1 sc r1)) = can_write m1" by (simp add: restore_source_memory)
  then show ?thesis
    using frame cw restore_source_frame [of sc m1 ?st r1] assms(2)
      restore_target_frame [of sc "snd (restore_source ?st m1 sc r1)" "fst (restore_source ?st m1 sc r1)" r1]
    by (simp add: finish_target_filter_def a Let_def split_def no_neutralize_def scope_weight_def)
qed

interpretation tf: memory_scope "tf_open uf" tf_close no_neutralize tp_open_spoofs
    "\<lambda>sc. scope_weight (fst sc)" for uf
proof unfold_locales
  fix s m a s1 m1 sc s'
  assume inv: "no_neutralize s" and o: "tf_open uf s m a = Some (s1, m1, sc)"
  obtain source target recursive result where a: "a = (source, target, recursive, result)"
    by (metis prod_cases4)
  obtain sc0 where b: "begin_target_filter uf s m source target recursive = Some (s1, m1, sc0)"
    and sc: "sc = (sc0, result)"
    using o by (auto simp: tf_open_def a)
  show "no_neutralize s1 \<and> tp_open_spoofs s1 = tp_open_spoofs s + scope_weight (fst sc)"
    using begin_target_filter_open_spoofs [OF b inv] by (simp add: sc)
  assume inv': "no_neutralize s'"
  have "filter_memory s m source target recursive = m"
    using inv by (simp add: filter_memory_def neutralize_pair_def no_neutralize_def)
  then have "snd (snd (finish_target_filter s' m1 sc0 result)) = m"
    using finish_undoes_begin [OF b] by simp
  then show "\<exists>s2. tf_close s' m1 sc = Some (s2, m) \<and> no_neutralize s2
      \<and> tp_open_spoofs s2 = tp_open_spoofs s' - scope_weight (fst sc)"
    using finish_target_filter_open_spoofs [OF b inv', of result]
    by (intro exI [of _ "fst (snd (finish_target_filter s' m1 sc0 result))"])
      (auto simp: tf_close_def sc prod_eq_iff)
qed

end
