(* ===== verification/Host_Detour_Properties.thy ===== *)
theory Host_Detour_Properties
  imports Host_Detours Target_Filter_Scope
begin

section \<open>What the detours do to the engine and to the host\<close>

text \<open>
  Two facts about every run of the engine under the hooks: with the experiments off the hooks are
  not observable, and whatever the engine does, the callbacks leave the hooks, the code and the
  library references alone and are balanced in depth, with only an outermost callback reaching the
  runtime.
\<close>

named_theorems detours \<open>the bodies of the detours and their parts\<close>

lemmas [detours] = detour_take_damage_old_def detour_accept_input_def detour_fire_output_internal_def
  detour_target_friendly_fire_filter_def detour_target_friendly_fire_caller_def
  detour_target_secondary_friendly_fire_gate_def detour_target_identity_classifier_def

subsection \<open>Hooks that are not observable\<close>

definition originals_set :: "original_functions \<Rightarrow> bool" where
  "originals_set orig \<longleftrightarrow> (\<forall>(name, get, set) \<in> set probe_hooks. get orig \<noteq> nullptr)"

definition idle :: "'r world \<Rightarrow> bool" where
  "idle w \<longleftrightarrow>
     (let h = the_host w
      in tp_enabled (target_probe h) = 0 \<and> wp_enabled (walker_patrol h) = 0 \<and>
         ff_enabled (friendly_fire h) = 0 \<and> originals_set (originals h))"

text \<open>Code under the hooks that does to results and memory what the plain code does.\<close>

definition follows :: "'r original \<Rightarrow> (engine_memory \<Rightarrow> (bool \<times> engine_memory) option) \<Rightarrow> bool" where
  "follows run plain \<longleftrightarrow>
     (\<forall>w. idle w \<longrightarrow>
        (case run w of
           None \<Rightarrow> plain (memory w) = None
         | Some (r, w') \<Rightarrow> plain (memory w) = Some (r, memory w') \<and> idle w'))"

lemma originals_set_simps:
  "originals_set orig \<longleftrightarrow>
     g_original_take_damage_old orig \<noteq> nullptr \<and> g_original_accept_input orig \<noteq> nullptr \<and>
     g_original_fire_output_internal orig \<noteq> nullptr \<and> g_original_target_friendly_fire_filter orig \<noteq> nullptr \<and>
     g_original_target_friendly_fire_caller orig \<noteq> nullptr \<and>
     g_original_target_secondary_friendly_fire_gate orig \<noteq> nullptr \<and>
     g_original_target_identity_classifier orig \<noteq> nullptr"
  by (simp add: originals_set_def probe_hooks_def)

lemma followsD:
  assumes "follows run plain" "idle w"
  shows "run w = None \<and> plain (memory w) = None \<or>
    (\<exists>r w'. run w = Some (r, w') \<and> plain (memory w) = Some (r, memory w') \<and> idle w')"
  using assms unfolding follows_def by (cases "run w") auto

lemma idle_parts [simp]:
  assumes "idle w"
  shows "idle (snd (enter_callback pid w))" "memory (snd (enter_callback pid w)) = memory w"
    "idle (leave_callback w)" "memory (leave_callback w) = memory w"
    "idle (with_shim f w)" "memory (with_shim f w) = memory w" "neutralize e w = w"
  using assms
  by (simp_all add: idle_def enter_callback_def leave_callback_def with_shim_def neutralize_def Let_def
      split: prod.splits)

lemma idle_original:
  assumes "idle w"
  shows "g_original_take_damage_old (originals (the_host w)) \<noteq> nullptr"
    "g_original_accept_input (originals (the_host w)) \<noteq> nullptr"
    "g_original_fire_output_internal (originals (the_host w)) \<noteq> nullptr"
    "g_original_target_friendly_fire_filter (originals (the_host w)) \<noteq> nullptr"
    "g_original_target_friendly_fire_caller (originals (the_host w)) \<noteq> nullptr"
    "g_original_target_secondary_friendly_fire_gate (originals (the_host w)) \<noteq> nullptr"
    "g_original_target_identity_classifier (originals (the_host w)) \<noteq> nullptr"
  using assms by (simp_all add: idle_def originals_set_simps Let_def)

lemma idle_damage:
  assumes "idle w"
  shows "before_damage eng self info rec w = Some (empty_ff_scope, w)"
    and "after_damage empty_ff_scope w = Some w"
  using assms
  by (simp_all add: before_damage_def after_damage_def idle_def Let_def record_damage_victim_def
      maybe_apply_walker_patrol_on_damage_def begin_friendly_fire_damage_def end_friendly_fire_damage_def
      empty_ff_scope_def)

lemma idle_filter:
  assumes "idle w"
  shows "\<exists>w'. before_filter eng source target bitset w = Some (empty_target_scope, w') \<and> idle w' \<and> memory w' = memory w"
    and "\<exists>w'. after_filter empty_target_scope r w = (r, w') \<and> idle w' \<and> memory w' = memory w"
proof -
  show "\<exists>w'. before_filter eng source target bitset w = Some (empty_target_scope, w') \<and> idle w' \<and> memory w' = memory w"
    using assms by (simp add: before_filter_def idle_def Let_def begin_target_filter_def maybe_allow_target_bitset_def)
  show "\<exists>w'. after_filter empty_target_scope r w = (r, w') \<and> idle w' \<and> memory w' = memory w"
    using assms
    by (simp add: after_filter_def idle_def Let_def finish_target_filter_def force_filter_result_def
        record_result_common_def restore_source_def restore_target_def empty_target_scope_def)
qed

lemma idle_gates:
  assumes "idle w"
  shows "record_target_filter_caller uf (target_probe (the_host w)) m s t r = Some (r, target_probe (the_host w), m)"
    "record_secondary_target_gate (target_probe (the_host w)) m s a t r = (r, target_probe (the_host w), m)"
    "finish_target_identity_classifier (target_probe (the_host w)) m cs t out = Some (target_probe (the_host w), m)"
  using assms
  by (simp_all add: idle_def Let_def record_target_filter_caller_def record_secondary_target_gate_def
      finish_target_identity_classifier_def)

lemma same_world: "w\<lparr>the_host := (the_host w)\<lparr>target_probe := target_probe (the_host w)\<rparr>, memory := memory w\<rparr> = w"
  by simp

lemma enter_idle:
  assumes "idle w"
  obtains rec w' where "enter_callback pid w = (rec, w')" "idle w'" "memory w' = memory w"
  using idle_parts(1,2) [OF assms, of pid] by (cases "enter_callback pid w") auto

lemma detour_follows:
  assumes f: "follows original plain"
  shows "follows (detour env eng call original) plain"
  unfolding follows_def
proof (intro allI impI)
  fix w :: "'a world"
  assume w: "idle w"
  have claim: "detour env eng call original w = None \<and> plain (memory w) = None \<or>
    (\<exists>r w'. detour env eng call original w = Some (r, w') \<and> plain (memory w) = Some (r, memory w') \<and> idle w')"
  proof (cases call)
    case (Take_Damage_Old self info)
    obtain rec w1 where e: "enter_callback 1 w = (rec, w1)" "idle w1" "memory w1 = memory w"
      using enter_idle [OF w] .
    define w2 where "w2 = (if rec then w1
      else with_shim (probe_record_damage (env_windows env) (env_runtime env) zero_damage) w1)"
    have w2: "idle w2" "memory w2 = memory w" using e by (simp_all add: w2_def)
    show ?thesis
      using followsD [OF f w2(1)] idle_original(1) [OF w2(1)]
      by (auto simp: Take_Damage_Old detour_def detours e idle_damage w2_def [symmetric] w2(2))
  next
    case (Accept_Input self activator caller)
    obtain rec w1 where e: "enter_callback 2 w = (rec, w1)" "idle w1" "memory w1 = memory w"
      using enter_idle [OF w] .
    define w2 where "w2 = (if rec then w1
      else with_shim (probe_record_entity_input (env_windows env) (env_runtime env) zero_entity_io) w1)"
    have w2: "idle w2" "memory w2 = memory w" using e by (simp_all add: w2_def)
    have "detour env eng call original w = original w2 \<bind> (\<lambda>(r, w). Some (r, leave_callback w))"
      using idle_original(2) [OF w2(1)] e(2)
      by (cases rec) (simp_all add: Accept_Input detour_def detours e(1) w2_def)
    then show ?thesis using followsD [OF f w2(1)] by (auto simp: w2(2))
  next
    case (Fire_Output_Internal self activator caller)
    obtain rec w1 where e: "enter_callback 3 w = (rec, w1)" "idle w1" "memory w1 = memory w"
      using enter_idle [OF w] .
    define w2 where "w2 = (if rec then w1
      else with_shim (probe_record_entity_output (env_windows env) (env_runtime env) zero_entity_io) w1)"
    have w2: "idle w2" "memory w2 = memory w" using e by (simp_all add: w2_def)
    have "detour env eng call original w = original w2 \<bind> (\<lambda>(r, w). Some (r, leave_callback w))"
      using idle_original(3) [OF w2(1)] e(2)
      by (cases rec) (simp_all add: Fire_Output_Internal detour_def detours e(1) w2_def)
    then show ?thesis using followsD [OF f w2(1)] by (auto simp: w2(2))
  next
    case (Target_Filter source target bitset)
    obtain rec w1 where e: "enter_callback 4 w = (rec, w1)" "idle w1" "memory w1 = memory w"
      using enter_idle [OF w] .
    obtain w2 where b: "before_filter eng source target bitset w1 = Some (empty_target_scope, w2)"
      "idle w2" "memory w2 = memory w" using idle_filter(1) [OF e(2)] e(3) by metis
    show ?thesis
      using followsD [OF f b(2)]
    proof (elim disjE exE conjE)
      assume "original w2 = None" "plain (memory w2) = None"
      then show ?thesis using idle_original [OF b(2)] by (simp add: Target_Filter detour_def detours e b)
    next
      fix r w3
      assume o: "original w2 = Some (r, w3)" "plain (memory w2) = Some (r, memory w3)" "idle w3"
      obtain w4 where a: "after_filter empty_target_scope r w3 = (r, w4)" "idle w4" "memory w4 = memory w3"
        using idle_filter(2) [OF o(3)] by metis
      show ?thesis
        using o a idle_original [OF b(2)] by (simp add: Target_Filter detour_def detours e b)
    qed
  next
    case (Target_Filter_Caller source target)
    obtain rec w1 where e: "enter_callback 5 w = (rec, w1)" "idle w1" "memory w1 = memory w"
      using enter_idle [OF w] .
    show ?thesis
      using followsD [OF f e(2)] idle_original(5) [OF e(2)]
      by (cases rec) (auto simp: Target_Filter_Caller detour_def detours e idle_gates same_world)
  next
    case (Secondary_Gate source attacker target)
    obtain rec w1 where e: "enter_callback 6 w = (rec, w1)" "idle w1" "memory w1 = memory w"
      using enter_idle [OF w] .
    show ?thesis
      using followsD [OF f e(2)] idle_original(6) [OF e(2)]
      by (cases rec) (auto simp: Secondary_Gate detour_def detours e idle_gates same_world)
  next
    case (Identity_Classifier target out)
    show ?thesis
      using followsD [OF f w] idle_original(7) [OF w]
      by (auto simp: Identity_Classifier detour_def detours idle_gates same_world)
  qed
  then show "case detour env eng call original w of
      None \<Rightarrow> plain (memory w) = None
    | Some (r, w') \<Rightarrow> plain (memory w) = Some (r, memory w') \<and> idle w'"
    by auto
qed

lemma run_hooked_follows: "follows (run_hooked env eng c) (run_plain c)"
proof (induction c)
  case (Return r)
  then show ?case by (simp add: follows_def)
next
  case (Work f c)
  show ?case
    unfolding follows_def
  proof (intro allI impI)
    fix w :: "'a world"
    assume "idle w"
    then have i: "idle (w\<lparr>memory := m\<rparr>)" for m by (simp add: idle_def Let_def)
    show "case run_hooked env eng (Work f c) w of
        None \<Rightarrow> run_plain (Work f c) (memory w) = None
      | Some (r, w') \<Rightarrow> run_plain (Work f c) (memory w) = Some (r, memory w') \<and> idle w'"
    proof (cases "f (memory w)")
      case (Some m)
      then show ?thesis using followsD [OF Work i [of m]] by auto
    qed simp
  qed
next
  case (Branch b c d)
  then show ?case by (simp add: follows_def)
next
  case (Call f body k)
  show ?case
    unfolding follows_def
  proof (intro allI impI)
    fix w :: "'a world"
    assume w: "idle w"
    from followsD [OF detour_follows [OF Call.IH(1)] w, of env eng f]
    show "case run_hooked env eng (Call f body k) w of
        None \<Rightarrow> run_plain (Call f body k) (memory w) = None
      | Some (r, w') \<Rightarrow> run_plain (Call f body k) (memory w) = Some (r, memory w') \<and> idle w'"
    proof (elim disjE exE conjE)
      fix r w'
      assume "detour env eng f (run_hooked env eng body) w = Some (r, w')"
        "run_plain body (memory w) = Some (r, memory w')" "idle w'"
      moreover have "follows (run_hooked env eng (k r)) (run_plain (k r))" using Call.IH(2) by simp
      ultimately show ?thesis using followsD by (fastforce split: option.splits)
    qed simp
  qed
qed

text \<open>C2. With the three experiments off and the seven originals in place, the engine computes under the
  hooks what it computes without them: the same results, the same memory and the same faults, for
  every nesting of hooked calls.\<close>
theorem hooks_transparent_when_idle:
  assumes "idle w"
  shows "map_option (\<lambda>(r, w'). (r, memory w')) (run_hooked env eng c w) = run_plain c (memory w)"
  using followsD [OF run_hooked_follows [of env eng c] assms] by auto

text \<open>A world with the hooks in place and nothing configured, and a filter called from damage.\<close>

definition hooked_originals :: original_functions where
  "hooked_originals =
     \<lparr>g_original_take_damage_old = 0x10000, g_original_accept_input = 0x10040,
      g_original_fire_output_internal = 0x10080, g_original_target_friendly_fire_filter = 0x100C0,
      g_original_target_friendly_fire_caller = 0x10100,
      g_original_target_secondary_friendly_fire_gate = 0x10140,
      g_original_target_identity_classifier = 0x10180\<rparr>"

definition hooked_world :: "unit world" where
  "hooked_world =
     \<lparr>the_host = (new_host example_windows (\<lambda>a. 0xCC) (example_process ()))
        \<lparr>originals := hooked_originals, target_probe := initial_target_probe\<lparr>tp_enabled := 0\<rparr>\<rparr>,
      memory = boss_memory, classifier_scope = empty_classifier_scope\<rparr>"

definition damage_with_filter :: engine_code where
  "damage_with_filter =
     Call (Take_Damage_Old 0x1000 0)
       (Call (Target_Filter 0x1000 0x1000 0) (Branch (\<lambda>m. load8 m 0x2000 = None) (Return False) (Return True))
          (\<lambda>allowed. if allowed then Work (\<lambda>m. store8 m 0x1000 1) (Return True) else Return False))
       Return"

lemma hooked_world_idle: "idle hooked_world"
  by (simp add: hooked_world_def idle_def new_host_def originals_set_simps hooked_originals_def
      initial_target_probe_def initial_walker_patrol_def initial_friendly_fire_def)

theorem hooks_transparent_when_idle_witness:
  "\<forall>env eng. map_option (\<lambda>(r, w'). (r, memory w')) (run_hooked env eng damage_with_filter hooked_world)
     = run_plain damage_with_filter (memory hooked_world)"
  using hooks_transparent_when_idle [OF hooked_world_idle] by blast

subsection \<open>What callbacks leave alone\<close>

definition depth :: "'r world \<Rightarrow> u32" where
  "depth w = t_callback_depth (testpoints (the_host w))"

text \<open>The shim and the process: what the runtime and Windows can see of the host.\<close>

definition outside :: "'r world \<Rightarrow> shadow_shim \<times> 'r process" where
  "outside w = (hs_runtime (state (the_host w)), win (the_host w))"

text \<open>
  Only the runtime's counters and memory, the test points and the experiments may change; the
  hooks, the originals, the code, the files and the loader's references do not.
\<close>

definition same_hooks :: "'r host \<Rightarrow> 'r host \<Rightarrow> bool" where
  "same_hooks h h' \<longleftrightarrow>
     originals h' = originals h \<and> code h' = code h \<and> files h' = files h \<and>
     state h' = (state h)\<lparr>hs_runtime := hs_runtime (state h')\<rparr> \<and>
     timing_enabled (hs_runtime (state h')) = timing_enabled (hs_runtime (state h)) \<and>
     (shim_inv (hs_runtime (state h)) \<longrightarrow>
        shim_inv (hs_runtime (state h')) \<and>
        other_refs (hs_runtime (state h')) (win h') = other_refs (hs_runtime (state h)) (win h))"

lemma same_hooks_refl [simp]: "same_hooks h h"
  by (simp add: same_hooks_def)

lemma runtime_only_trans:
  "x = a\<lparr>hs_runtime := p\<rparr> \<Longrightarrow> y = x\<lparr>hs_runtime := q\<rparr> \<Longrightarrow> y = a\<lparr>hs_runtime := q\<rparr>"
  by simp

lemma same_hooks_trans [trans]: "same_hooks a b \<Longrightarrow> same_hooks b c \<Longrightarrow> same_hooks a c"
  unfolding same_hooks_def by (intro conjI) (auto intro: runtime_only_trans)

text \<open>A part of a detour around the original: it may reach the runtime unless \<open>rec\<close>.\<close>

definition settled :: "bool \<Rightarrow> 'r world \<Rightarrow> 'r world \<Rightarrow> bool" where
  "settled rec w w' \<longleftrightarrow>
     same_hooks (the_host w) (the_host w') \<and> testpoints (the_host w') = testpoints (the_host w) \<and>
     (rec \<longrightarrow> outside w' = outside w)"

text \<open>A whole run, \<open>n\<close> callbacks deep.\<close>

definition balanced_run :: "nat \<Rightarrow> 'r world \<Rightarrow> 'r world \<Rightarrow> bool" where
  "balanced_run n w w' \<longleftrightarrow>
     same_hooks (the_host w) (the_host w') \<and>
     (unat (depth w) + n < 4294967296 \<longrightarrow>
        depth w' = depth w \<and> (depth w \<noteq> 0 \<longrightarrow> outside w' = outside w))"

lemma settled_refl [simp]: "settled rec w w"
  by (simp add: settled_def)

lemma settled_trans: "settled rec a b \<Longrightarrow> settled rec b c \<Longrightarrow> settled rec a c"
  unfolding settled_def using same_hooks_trans by metis

lemma settled_mono: "settled True a b \<Longrightarrow> settled rec a b"
  by (simp add: settled_def)

lemma balanced_run_refl [simp]: "balanced_run n w w"
  by (simp add: balanced_run_def)

lemma balanced_run_trans: "balanced_run n a b \<Longrightarrow> balanced_run n b c \<Longrightarrow> balanced_run n a c"
  unfolding balanced_run_def using same_hooks_trans by metis

lemma balanced_run_mono: "balanced_run n a b \<Longrightarrow> n \<le> k \<Longrightarrow> balanced_run k a b"
  by (simp add: balanced_run_def)

lemma settled_experiments:
  "settled True w (w\<lparr>the_host := (the_host w)\<lparr>target_probe := tp\<rparr>, memory := m\<rparr>)"
  "settled True w (w\<lparr>the_host := (the_host w)\<lparr>target_probe := tp\<rparr>, memory := m, classifier_scope := cs\<rparr>)"
  "settled True w (w\<lparr>the_host := (the_host w)\<lparr>friendly_fire := ff\<rparr>, memory := m\<rparr>)"
  "settled True w (w\<lparr>the_host := (the_host w)\<lparr>target_probe := tp, walker_patrol := wp, friendly_fire := ff\<rparr>, memory := m\<rparr>)"
  by (simp_all add: settled_def same_hooks_def outside_def)

lemma settled_neutralize: "settled rec w (neutralize e w)"
  by (rule settled_mono) (simp add: neutralize_def Let_def settled_experiments split: prod.splits)

lemma settled_before_damage: "before_damage eng self info r w = Some (scope, w') \<Longrightarrow> settled rec w w'"
  by (rule settled_mono) (auto simp: before_damage_def Let_def settled_experiments split: bind_splits)

lemma settled_after_damage: "after_damage scope w = Some w' \<Longrightarrow> settled rec w w'"
  by (rule settled_mono) (auto simp: after_damage_def Let_def settled_experiments split: bind_splits)

lemma settled_before_filter: "before_filter eng s t b w = Some (scope, w') \<Longrightarrow> settled rec w w'"
  by (rule settled_mono) (auto simp: before_filter_def Let_def settled_experiments split: bind_splits prod.splits)

lemma settled_after_filter: "after_filter scope r w = (r', w') \<Longrightarrow> settled rec w w'"
  by (rule settled_mono) (auto simp: after_filter_def Let_def settled_experiments split: prod.splits)

text \<open>The probe functions of the shim.\<close>

definition forwards :: "(shadow_shim \<Rightarrow> 'r process \<Rightarrow> u32 \<times> shadow_shim \<times> 'r process) \<Rightarrow> bool" where
  "forwards f \<longleftrightarrow>
     (\<forall>s p x s' p'. f s p = (x, s', p') \<longrightarrow>
        timing_enabled s' = timing_enabled s \<and>
        (shim_inv s \<longrightarrow> shim_inv s' \<and> other_refs s' p' = other_refs s p))"

lemma forward_route_timing:
  "forward_route w f call counting timing s p = (x, s', p') \<Longrightarrow> timing_enabled s' = timing_enabled s"
  using arg_cong [OF forward_route_state(1) [of w f call counting timing s p x s' p'], of timing_enabled] by simp

lemma probes_forward [simp]:
  "forwards (probe_record_damage w c e)" "forwards (probe_record_entity_input w c io)"
  "forwards (probe_record_entity_output w c io)"
  unfolding forwards_def
  by (auto simp: probe_record_damage_def probe_record_entity_input_def probe_record_entity_output_def
      dest: forward_route_timing forward_route_inv [OF _ _ conjI [OF count_keeps_loads(5,6)] conjI [OF duration_keeps_loads(5,6)]])

lemma settled_with_shim: "forwards f \<Longrightarrow> settled False w (with_shim f w)"
  by (auto simp: settled_def with_shim_def same_hooks_def forwards_def Let_def split: prod.splits)

lemma outside_with_shim: "outside (with_shim f w) = (case outside w of (s, p) \<Rightarrow> snd (f s p))"
  by (simp add: outside_def with_shim_def Let_def split: prod.splits)

lemma outside_settled: "settled True w w' \<Longrightarrow> outside w' = outside w"
  by (simp add: settled_def)

text \<open>What an outermost callback tells the runtime.\<close>

definition runtime_event ::
  "'r host_env \<Rightarrow> hooked_call \<Rightarrow> shadow_shim \<times> 'r process \<Rightarrow> shadow_shim \<times> 'r process" where
  "runtime_event env f x =
     (case x of (s, p) \<Rightarrow>
        (case f of
           Take_Damage_Old _ _ \<Rightarrow> snd (probe_record_damage (env_windows env) (env_runtime env) zero_damage s p)
         | Accept_Input _ _ _ \<Rightarrow> snd (probe_record_entity_input (env_windows env) (env_runtime env) zero_entity_io s p)
         | Fire_Output_Internal _ _ _ \<Rightarrow>
             snd (probe_record_entity_output (env_windows env) (env_runtime env) zero_entity_io s p)
         | _ \<Rightarrow> (s, p)))"

fun opens_scope :: "hooked_call \<Rightarrow> bool" where
  "opens_scope (Identity_Classifier target out) = False"
| "opens_scope f = True"

text \<open>The shape of the detours that open a scope.\<close>

definition bracketed :: "'r host_env \<Rightarrow> hooked_call \<Rightarrow> 'r original \<Rightarrow> 'r world \<Rightarrow> 'r world \<Rightarrow> bool" where
  "bracketed env f original w w' \<longleftrightarrow>
     (\<exists>pid rec w1 w2 w3 w4.
        enter_callback pid w = (rec, w1) \<and> settled rec w1 w2 \<and>
        (\<not> rec \<longrightarrow> outside w2 = runtime_event env f (outside w1)) \<and>
        (w3 = w2 \<or> (\<exists>x. original w2 = Some (x, w3))) \<and>
        settled True w3 w4 \<and> w' = leave_callback w4)"

lemma bracketedI:
  "enter_callback pid w = (rec, w1) \<Longrightarrow> settled rec w1 w2 \<Longrightarrow>
   (\<not> rec \<Longrightarrow> outside w2 = runtime_event env f (outside w1)) \<Longrightarrow>
   w3 = w2 \<or> (\<exists>x. original w2 = Some (x, w3)) \<Longrightarrow> settled True w3 w4 \<Longrightarrow>
   bracketed env f original w (leave_callback w4)"
  unfolding bracketed_def by blast

lemma settled_event:
  assumes "settled True w w1" "forwards f"
  shows "settled rec w (if rec then w1 else with_shim f w1)"
    "\<not> rec \<Longrightarrow> outside (if rec then w1 else with_shim f w1) = (case outside w of (s, p) \<Rightarrow> snd (f s p))"
  using settled_trans [OF settled_mono [OF assms(1)] settled_with_shim [OF assms(2)]] assms(1)
  by (auto simp: outside_with_shim outside_settled)

lemma neutralize_three: "settled True w (neutralize a (neutralize b (neutralize c w)))"
  using settled_neutralize settled_trans by blast

lemma original_or_skipped:
  "(if g \<noteq> nullptr then original w else Some (d, w)) = Some (x, w') \<Longrightarrow>
   w' = w \<or> (\<exists>x. original w = Some (x, w'))"
  by (auto split: if_splits)

lemma detour_bracketed:
  assumes "opens_scope f" "detour env eng f original w = Some (r, w')"
  shows "bracketed env f original w w'"
proof (cases f)
  case (Take_Damage_Old self info)
  let ?p = "probe_record_damage (env_windows env) (env_runtime env) zero_damage"
  obtain rec w1 where e: "enter_callback 1 w = (rec, w1)" by (cases "enter_callback 1 w")
  obtain scope w2 x w4 w5 where b: "before_damage eng self info rec w1 = Some (scope, w2)"
    and o: "(let w = if rec then w2 else with_shim ?p w2
       in if g_original_take_damage_old (originals (the_host w)) \<noteq> nullptr then original w else Some (False, w)) = Some (x, w4)"
    and a: "after_damage scope w4 = Some w5" "w' = leave_callback w5"
    using assms(2) by (auto simp: Take_Damage_Old detour_def detours e Let_def split: bind_splits)
  have s: "settled True w1 w2" using b by (rule settled_before_damage)
  show ?thesis
    unfolding a(2)
  proof (rule bracketedI [OF e, where original = original])
    show "settled rec w1 (if rec then w2 else with_shim ?p w2)" using settled_event(1) [OF s] by simp
    show "outside (if rec then w2 else with_shim ?p w2) = runtime_event env f (outside w1)" if "\<not> rec"
      using settled_event(2) [OF s _ that] by (simp add: runtime_event_def Take_Damage_Old split: prod.splits)
    show "w4 = (if rec then w2 else with_shim ?p w2) \<or> (\<exists>x. original (if rec then w2 else with_shim ?p w2) = Some (x, w4))"
      using o unfolding Let_def by (rule original_or_skipped)
    show "settled True w4 w5" using a(1) by (rule settled_after_damage)
  qed
next
  case (Accept_Input self activator caller)
  let ?p = "probe_record_entity_input (env_windows env) (env_runtime env) zero_entity_io"
  obtain rec w1 where e: "enter_callback 2 w = (rec, w1)" by (cases "enter_callback 2 w")
  let ?w2 = "if rec then w1 else neutralize caller (neutralize activator (neutralize self w1))"
  let ?w3 = "if rec then ?w2 else with_shim ?p ?w2"
  obtain x w4 where o: "w4 = ?w3 \<or> original ?w3 = Some (x, w4)" "w' = leave_callback w4"
    using assms(2)
    by (cases rec) (auto simp: Accept_Input detour_def detours e Let_def split: bind_splits if_splits)
  have s: "settled True w1 ?w2" by (simp add: neutralize_three)
  show ?thesis
    unfolding o(2)
  proof (rule bracketedI [OF e, where original = original])
    show "settled rec w1 ?w3" using settled_event(1) [OF s] by simp
    show "outside ?w3 = runtime_event env f (outside w1)" if "\<not> rec"
      using settled_event(2) [OF s _ that] by (simp add: runtime_event_def Accept_Input split: prod.splits)
    show "w4 = ?w3 \<or> (\<exists>x. original ?w3 = Some (x, w4))" using o(1) by blast
  qed simp
next
  case (Fire_Output_Internal self activator caller)
  let ?p = "probe_record_entity_output (env_windows env) (env_runtime env) zero_entity_io"
  obtain rec w1 where e: "enter_callback 3 w = (rec, w1)" by (cases "enter_callback 3 w")
  let ?w2 = "if rec then w1 else neutralize caller (neutralize activator (neutralize self w1))"
  let ?w3 = "if rec then ?w2 else with_shim ?p ?w2"
  obtain x w4 where o: "w4 = ?w3 \<or> original ?w3 = Some (x, w4)" "w' = leave_callback w4"
    using assms(2)
    by (cases rec) (auto simp: Fire_Output_Internal detour_def detours e Let_def split: bind_splits if_splits)
  have s: "settled True w1 ?w2" by (simp add: neutralize_three)
  show ?thesis
    unfolding o(2)
  proof (rule bracketedI [OF e, where original = original])
    show "settled rec w1 ?w3" using settled_event(1) [OF s] by simp
    show "outside ?w3 = runtime_event env f (outside w1)" if "\<not> rec"
      using settled_event(2) [OF s _ that] by (simp add: runtime_event_def Fire_Output_Internal split: prod.splits)
    show "w4 = ?w3 \<or> (\<exists>x. original ?w3 = Some (x, w4))" using o(1) by blast
  qed simp
next
  case (Target_Filter source target bitset)
  obtain rec w1 where e: "enter_callback 4 w = (rec, w1)" by (cases "enter_callback 4 w")
  obtain scope w2 x w3 y w4 where b: "before_filter eng source target bitset w1 = Some (scope, w2)"
    and o: "(if g_original_target_friendly_fire_filter (originals (the_host w2)) \<noteq> nullptr then original w2
       else Some (True, w2)) = Some (x, w3)"
    and a: "after_filter scope x w3 = (y, w4)" "w' = leave_callback w4"
    using assms(2) by (auto simp: Target_Filter detour_def detours e Let_def split: bind_splits prod.splits)
  show ?thesis
    unfolding a(2)
  proof (rule bracketedI [OF e, where original = original])
    show "settled rec w1 w2" using b by (rule settled_before_filter)
    show "outside w2 = runtime_event env f (outside w1)"
      using outside_settled [OF settled_before_filter [OF b]]
      by (simp add: runtime_event_def Target_Filter split: prod.splits)
    show "w3 = w2 \<or> (\<exists>x. original w2 = Some (x, w3))" using o by (rule original_or_skipped)
    show "settled True w3 w4" using a(1) by (rule settled_after_filter)
  qed
next
  case (Target_Filter_Caller source target)
  obtain rec w1 where e: "enter_callback 5 w = (rec, w1)" by (cases "enter_callback 5 w")
  obtain x w3 w4 where o: "(if g_original_target_friendly_fire_caller (originals (the_host w1)) \<noteq> nullptr
       then original w1 else Some (True, w1)) = Some (x, w3)"
    and a: "settled True w3 w4" "w' = leave_callback w4"
    using assms(2)
    by (cases rec; auto simp: Target_Filter_Caller detour_def detours e Let_def split: bind_splits prod.splits)
       (metis settled_refl settled_experiments(1))+
  show ?thesis
    unfolding a(2)
  proof (rule bracketedI [OF e settled_refl, where original = original])
    show "outside w1 = runtime_event env f (outside w1)"
      by (simp add: runtime_event_def Target_Filter_Caller split: prod.splits)
    show "w3 = w1 \<or> (\<exists>x. original w1 = Some (x, w3))" using o by (rule original_or_skipped)
  qed (rule a(1))
next
  case (Secondary_Gate source attacker target)
  obtain rec w1 where e: "enter_callback 6 w = (rec, w1)" by (cases "enter_callback 6 w")
  obtain x w3 w4 where o: "(if g_original_target_secondary_friendly_fire_gate (originals (the_host w1)) \<noteq> nullptr
       then original w1 else Some (True, w1)) = Some (x, w3)"
    and a: "settled True w3 w4" "w' = leave_callback w4"
    using assms(2)
    by (cases rec; auto simp: Secondary_Gate detour_def detours e Let_def split: bind_splits prod.splits)
       (metis settled_refl settled_experiments(1))+
  show ?thesis
    unfolding a(2)
  proof (rule bracketedI [OF e settled_refl, where original = original])
    show "outside w1 = runtime_event env f (outside w1)"
      by (simp add: runtime_event_def Secondary_Gate split: prod.splits)
    show "w3 = w1 \<or> (\<exists>x. original w1 = Some (x, w3))" using o by (rule original_or_skipped)
  qed (rule a(1))
qed (use assms in simp_all)

text \<open>Entering and leaving, with the depth below its bound.\<close>

lemma enter_facts:
  assumes "enter_callback pid w = (rec, w1)"
  shows "same_hooks (the_host w) (the_host w1)" "outside w1 = outside w" "depth w1 = depth w + 1"
    "rec \<longleftrightarrow> depth w \<noteq> 0"
proof -
  obtain t sc where c: "callback_enter pid (testpoints (the_host w)) = (t, sc)"
    by (cases "callback_enter pid (testpoints (the_host w))")
  then have t: "t_callback_depth t = depth w + 1" "recursive sc \<longleftrightarrow> depth w \<noteq> 0"
    using depth_after_enter [of pid "testpoints (the_host w)"]
    by (auto simp: depth_def callback_enter_def Let_def)
  have w1: "w1 = w\<lparr>the_host := (the_host w)\<lparr>testpoints := t\<rparr>\<rparr>" "rec = recursive sc"
    using assms by (simp_all add: enter_callback_def c Let_def)
  show "same_hooks (the_host w) (the_host w1)" "outside w1 = outside w" "depth w1 = depth w + 1"
    "rec \<longleftrightarrow> depth w \<noteq> 0"
    using t by (simp_all add: w1 same_hooks_def outside_def depth_def)
qed

lemma leave_facts:
  "same_hooks (the_host w) (the_host (leave_callback w))" "outside (leave_callback w) = outside w"
  "depth (leave_callback w) = (if depth w = 0 then 0 else depth w - 1)"
  by (simp_all add: leave_callback_def callback_leave_def same_hooks_def outside_def depth_def Let_def)

lemma settled_facts:
  assumes "settled rec w w'"
  shows "same_hooks (the_host w) (the_host w')" "depth w' = depth w" "rec \<Longrightarrow> outside w' = outside w"
  using assms by (simp_all add: settled_def depth_def)

lemma bracketed_balanced:
  assumes orig: "\<And>w r w'. original w = Some (r, w') \<Longrightarrow> balanced_run n w w'"
    and b: "bracketed env f original w w'"
  shows "balanced_run (Suc n) w w'"
    and "unat (depth w) + Suc n < 4294967296 \<Longrightarrow> depth w = 0 \<Longrightarrow>
      outside w' = runtime_event env f (outside w)"
proof -
  obtain pid rec w1 w2 w3 w4 where e: "enter_callback pid w = (rec, w1)" and s: "settled rec w1 w2"
    and ev: "\<not> rec \<longrightarrow> outside w2 = runtime_event env f (outside w1)"
    and o: "w3 = w2 \<or> (\<exists>x. original w2 = Some (x, w3))"
    and t: "settled True w3 w4" "w' = leave_callback w4"
    using b unfolding bracketed_def by blast
  note facts = enter_facts [OF e] settled_facts [OF s] settled_facts [OF t(1)] leave_facts [of w4]
  have run: "balanced_run n w2 w3" using o orig by auto
  have hooks: "same_hooks (the_host w) (the_host w')"
    using facts run same_hooks_trans unfolding t(2) balanced_run_def by metis
  have deep: "depth w' = depth w \<and> outside w' = outside w2" if "unat (depth w) + Suc n < 4294967296"
  proof -
    have u: "unat (depth w1) = Suc (unat (depth w))"
      using that facts(3) by (simp add: unat_Suc_u32)
    then have "depth w3 = depth w2 \<and> outside w3 = outside w2"
      using run that facts(6) unfolding balanced_run_def by (auto simp: unat_eq_0 [symmetric])
    moreover have "depth w1 \<noteq> 0" using u by auto
    ultimately show ?thesis using facts by (simp add: t(2))
  qed
  show "balanced_run (Suc n) w w'"
    unfolding balanced_run_def using hooks deep facts by auto
  show "outside w' = runtime_event env f (outside w)"
    if "unat (depth w) + Suc n < 4294967296" "depth w = 0"
    using deep [OF that(1)] that(2) ev facts by simp
qed

lemma classifier_balanced:
  assumes orig: "\<And>w r w'. original w = Some (r, w') \<Longrightarrow> balanced_run n w w'"
    and d: "detour env eng (Identity_Classifier target out) original w = Some (r, w')"
  shows "balanced_run n w w'"
proof -
  obtain x w1 where o: "(if g_original_target_identity_classifier (originals (the_host w)) \<noteq> nullptr
       then original w else Some (True, w)) = Some (x, w1)" and s: "settled True w1 w'"
    using d by (auto simp: detour_def detours Let_def settled_experiments split: bind_splits prod.splits)
  have "balanced_run n w w1" using o orig by (auto split: if_splits)
  moreover have "balanced_run n w1 w'" using settled_facts [OF s] by (simp add: balanced_run_def)
  ultimately show ?thesis by (rule balanced_run_trans)
qed

text \<open>How deep the hooked calls of a tree are nested.\<close>

primrec nesting :: "engine_code \<Rightarrow> nat" where
  "nesting (Return r) = 0"
| "nesting (Work f c) = nesting c"
| "nesting (Branch b c d) = max (nesting c) (nesting d)"
| "nesting (Call f body k) = max (Suc (nesting body)) (max (nesting (k True)) (nesting (k False)))"

lemma detour_balanced:
  assumes orig: "\<And>w r w'. original w = Some (r, w') \<Longrightarrow> balanced_run n w w'"
    and d: "detour env eng f original w = Some (r, w')"
  shows "balanced_run (Suc n) w w'"
proof (cases "opens_scope f")
  case True
  show ?thesis using orig detour_bracketed [OF True d] by (rule bracketed_balanced(1))
next
  case False
  then obtain target out where f: "f = Identity_Classifier target out" by (cases f) auto
  have "balanced_run n w w'" using orig d [unfolded f] by (rule classifier_balanced)
  then show ?thesis by (rule balanced_run_mono) simp
qed

lemma run_balanced: "run_hooked env eng c w = Some (r, w') \<Longrightarrow> balanced_run (nesting c) w w'"
proof (induction c arbitrary: w r w')
  case (Work f c)
  then obtain m where "run_hooked env eng c (w\<lparr>memory := m\<rparr>) = Some (r, w')" by (auto split: option.splits)
  from Work.IH [OF this] show ?case by (simp add: balanced_run_def depth_def outside_def)
next
  case (Branch b c d)
  show ?case
  proof (cases "b (memory w)")
    case True
    then show ?thesis using Branch.prems by (intro balanced_run_mono [OF Branch.IH(1)]) simp_all
  next
    case False
    then show ?thesis using Branch.prems by (intro balanced_run_mono [OF Branch.IH(2)]) simp_all
  qed
next
  case (Call f body k)
  from Call.prems obtain x w1 where d: "detour env eng f (run_hooked env eng body) w = Some (x, w1)"
    and k: "run_hooked env eng (k x) w1 = Some (r, w')" by (auto split: option.splits)
  have "balanced_run (Suc (nesting body)) w w1" by (rule detour_balanced [OF Call.IH(1) d])
  moreover have "balanced_run (nesting (k x)) w1 w'" using Call.IH(2) [OF rangeI k] .
  moreover have "nesting (k x) \<le> nesting (Call f body k)" by (cases x) simp_all
  moreover have "Suc (nesting body) \<le> nesting (Call f body k)" by simp
  ultimately show ?case using balanced_run_mono balanced_run_trans by metis
qed simp

text \<open>C1. Whatever the engine does in the hooked functions, one outermost callback reaches the runtime exactly
  once, with its own kind of event, or not at all for the target filters: the callbacks nested in
  it never do, and the depth is back at 0 when it returns.\<close>
theorem one_event_per_callback:
  assumes "run_hooked env eng (Call f body Return) w = Some (r, w')"
    and "depth w = 0" and "Suc (nesting body) < 4294967296" and "opens_scope f"
  shows "outside w' = runtime_event env f (outside w) \<and> depth w' = 0"
proof -
  have d: "detour env eng f (run_hooked env eng body) w = Some (r, w')"
    using assms(1) by (auto split: option.splits)
  note b = detour_bracketed [OF assms(4) d]
  have "outside w' = runtime_event env f (outside w)"
    using bracketed_balanced(2) [OF run_balanced b] assms(2,3) by simp
  moreover have "depth w' = depth w"
    using bracketed_balanced(1) [OF run_balanced b] assms(2,3) by (simp add: balanced_run_def)
  ultimately show ?thesis using assms(2) by simp
qed

theorem one_event_per_callback_witness:
  "\<forall>env eng. \<exists>w'. run_hooked env eng
     (Call (Take_Damage_Old 0x1000 0) (Call (Accept_Input 0x1000 0 0) (Return True) Return) Return) hooked_world =
       Some (True, w') \<and>
     outside w' = runtime_event env (Take_Damage_Old 0x1000 0) (outside hooked_world) \<and> depth w' = 0"
proof (intro allI)
  fix env eng
  let ?f = "Take_Damage_Old 0x1000 0" and ?b = "Call (Accept_Input 0x1000 0 0) (Return True) Return"
  obtain w' where r: "run_hooked env eng (Call ?f ?b Return) hooked_world = Some (True, w')"
    using followsD [OF run_hooked_follows [of env eng "Call ?f ?b Return"] hooked_world_idle] by auto
  have "depth hooked_world = 0" by (simp add: depth_def hooked_world_def new_host_def zero_testpoints_def)
  from one_event_per_callback [OF r this]
  show "\<exists>w'. run_hooked env eng (Call ?f ?b Return) hooked_world = Some (True, w') \<and>
     outside w' = runtime_event env ?f (outside hooked_world) \<and> depth w' = 0"
    using r by simp
qed

end
