(* ===== verification/Host_Hook_Properties.thy ===== *)
theory Host_Hook_Properties
  imports Host_Detour_Properties "HOL-Library.Sublist"
begin

section \<open>The host's hooks, runtime and signatures\<close>

text \<open>
  What the parts of the initialization do to the hooks, the code and the shim: installing the probe
  hooks puts all seven in place or none, starting the runtime keeps the shim's invariant and
  touches nothing else, and signatures that are where the manifest expects them give hooks that do
  not overlap.
\<close>

subsection \<open>Installing the probe hooks\<close>

definition hook_name :: "(string \<times> 'a \<times> 'b) \<times> 'c \<Rightarrow> string" where
  "hook_name p = fst (fst p)"

text \<open>Name and target of a hook that is asked for, and of one that is in place.\<close>

definition wanted :: "pe_module_view \<Rightarrow> host_state \<Rightarrow> (string \<times> 'a \<times> 'b) \<times> 'c \<Rightarrow> string \<times> ptr" where
  "wanted view hs p = (hook_name p, resolved_target_address view hs (hook_name p))"

definition in_place :: "inline_hook_record \<Rightarrow> string \<times> ptr" where
  "in_place r = (record_name r, hook_target (record_hook r))"

lemma resolved_target_signatures:
  "hs_signatures hs' = hs_signatures hs \<Longrightarrow> resolved_target_address view hs' = resolved_target_address view hs"
  by (simp add: resolved_target_address_def find_resolved_signature_def fun_eq_iff)

lemma create_target: "hook_create env target d t = Inr h \<Longrightarrow> hook_target h = target"
  by (auto simp: hook_create_def split: sum.splits)

lemma enable_target: "hook_enable h t = Inr (h', t') \<Longrightarrow> hook_target h' = hook_target h \<and> original_bytes h' = original_bytes h"
  by (auto simp: hook_enable_def split: if_splits sum.splits)

text \<open>\<open>install_inline\<close> adds the hook it reports and nothing else.\<close>

lemma install_inline_cases:
  "(let r = install_inline env name target d True orig e rs t
    in if install_ok r then \<exists>x. install_records r = rs @ [x] \<and> in_place x = (name, target) \<and>
         (\<exists>h. hook_create env target d t = Inr h \<and> original_bytes (record_hook x) = original_bytes h)
       else install_records r = rs)"
  by (auto simp: install_inline_def Let_def in_place_def dest: create_target enable_target split: sum.splits)

lemma install_one_cases:
  assumes "install_one henv view p (hs, orig, t) = (hs', orig', t')"
  shows "(\<exists>x. hs' = hs\<lparr>hs_hooks := hs_hooks hs @ [x], hs_hooks_installed := hs_hooks_installed hs + 1\<rparr> \<and>
           in_place x = wanted view hs p \<and>
           (\<exists>h. hook_create henv (snd (wanted view hs p)) (snd p) t = Inr h \<and>
              original_bytes (record_hook x) = original_bytes h)) \<or>
         (\<exists>e. hs' = hs\<lparr>hs_hook_install_failures := hs_hook_install_failures hs + 1, hs_last_error := e\<rparr>)"
    and "setup_sizes henv \<Longrightarrow> undo_chain record_destroy t0 (hs_hooks hs) t \<Longrightarrow>
         undo_chain record_destroy t0 (hs_hooks hs') t'"
proof -
  obtain name get set d where p: "p = ((name, get, set), d)" by (cases p) auto
  let ?r = "install_inline henv name (resolved_target_address view hs name) d True (get orig) [] (hs_hooks hs) t"
  note c = install_inline_cases [of henv name "resolved_target_address view hs name" d "get orig" "[]" "hs_hooks hs" t]
  have s: "t' = install_text ?r" "hs_hooks hs' = install_records ?r"
    using assms by (auto simp: install_one_def p Let_def split: if_splits)
  show "(\<exists>x. hs' = hs\<lparr>hs_hooks := hs_hooks hs @ [x], hs_hooks_installed := hs_hooks_installed hs + 1\<rparr> \<and>
           in_place x = wanted view hs p \<and>
           (\<exists>h. hook_create henv (snd (wanted view hs p)) (snd p) t = Inr h \<and>
              original_bytes (record_hook x) = original_bytes h)) \<or>
         (\<exists>e. hs' = hs\<lparr>hs_hook_install_failures := hs_hook_install_failures hs + 1, hs_last_error := e\<rparr>)"
  proof (cases "install_ok ?r")
    case True
    then show ?thesis
      using assms c by (auto simp: install_one_def p Let_def wanted_def hook_name_def)
  next
    case False
    then have "install_records ?r = hs_hooks hs" using c by (simp add: Let_def)
    then show ?thesis
      using assms False by (auto simp: install_one_def p Let_def)
  qed
  show "undo_chain record_destroy t0 (hs_hooks hs') t'"
    if "setup_sizes henv" "undo_chain record_destroy t0 (hs_hooks hs) t"
    unfolding s by (rule install_chain [OF that])
qed

text \<open>No hook moves more bytes than \<open>n\<close>.\<close>

definition setup_bounded :: "nat \<Rightarrow> hook_environment \<Rightarrow> bool" where
  "setup_bounded n henv \<longleftrightarrow>
     (\<forall>target d t h. hook_create henv target d t = Inr h \<longrightarrow> length (original_bytes h) \<le> n)"

lemma install_fold:
  assumes "fold (install_one henv view) ps (hs, orig, t) = (hs', orig', t')"
  shows "\<exists>rs f e. hs' = hs\<lparr>hs_hooks := hs_hooks hs @ rs, hs_hooks_installed := hs_hooks_installed hs + of_nat (length rs),
             hs_hook_install_failures := hs_hook_install_failures hs + of_nat f, hs_last_error := e\<rparr> \<and>
           length rs + f = length ps \<and> subseq (map in_place rs) (map (wanted view hs) ps) \<and>
           (setup_bounded n henv \<longrightarrow> (\<forall>r\<in>set rs. length (original_bytes (record_hook r)) \<le> n))"
    and "setup_sizes henv \<Longrightarrow> undo_chain record_destroy t0 (hs_hooks hs) t \<Longrightarrow>
         undo_chain record_destroy t0 (hs_hooks hs') t'"
  using assms
proof (induction ps arbitrary: hs orig t)
  case Nil
  {
    case 1
    then show ?case by (intro exI [of _ "[]"] exI [of _ 0] exI [of _ "hs_last_error hs"]) simp
  next
    case 2
    then show ?case by simp
  }
next
  case (Cons p ps)
  {
    case 1
    obtain hs1 o1 t1 where p: "install_one henv view p (hs, orig, t) = (hs1, o1, t1)"
      by (cases "install_one henv view p (hs, orig, t)")
    from 1 have r: "fold (install_one henv view) ps (hs1, o1, t1) = (hs', orig', t')" by (simp add: p)
    obtain rs f e where tl: "hs' = hs1\<lparr>hs_hooks := hs_hooks hs1 @ rs,
        hs_hooks_installed := hs_hooks_installed hs1 + of_nat (length rs),
        hs_hook_install_failures := hs_hook_install_failures hs1 + of_nat f, hs_last_error := e\<rparr>"
      "length rs + f = length ps" "subseq (map in_place rs) (map (wanted view hs1) ps)"
      "setup_bounded n henv \<longrightarrow> (\<forall>r\<in>set rs. length (original_bytes (record_hook r)) \<le> n)"
      using Cons.IH(1) [OF r] by blast
    from install_one_cases(1) [OF p] show ?case
    proof (elim disjE exE conjE)
      fix x h
      assume x: "hs1 = hs\<lparr>hs_hooks := hs_hooks hs @ [x], hs_hooks_installed := hs_hooks_installed hs + 1\<rparr>"
        "in_place x = wanted view hs p"
        "hook_create henv (snd (wanted view hs p)) (snd p) t = Inr h"
        "original_bytes (record_hook x) = original_bytes h"
      have w: "wanted view hs1 = wanted view hs"
        using resolved_target_signatures [of hs1 hs view] x(1) by (simp add: wanted_def fun_eq_iff)
      have sub: "subseq (map in_place (x # rs)) (map (wanted view hs) (p # ps))"
        using tl(3) x(2) by (simp add: w)
      have len: "length (original_bytes (record_hook x)) \<le> n" if "setup_bounded n henv"
        using that x(3,4) by (simp add: setup_bounded_def)
      show ?thesis
        using tl(1,2,4) sub len x(1)
        by (intro exI [of _ "x # rs"] exI [of _ f] exI [of _ e]) (simp add: algebra_simps)
    next
      fix e'
      assume x: "hs1 = hs\<lparr>hs_hook_install_failures := hs_hook_install_failures hs + 1, hs_last_error := e'\<rparr>"
      have w: "wanted view hs1 = wanted view hs"
        using resolved_target_signatures [of hs1 hs view] x(1) by (simp add: wanted_def fun_eq_iff)
      have sub: "subseq (map in_place rs) (map (wanted view hs) (p # ps))"
        using tl(3) by (auto simp: w)
      show ?thesis
        using tl(1,2,4) sub x
        by (intro exI [of _ rs] exI [of _ "Suc f"] exI [of _ e]) (simp add: algebra_simps)
    qed
  next
    case 2
    obtain hs1 o1 t1 where p: "install_one henv view p (hs, orig, t) = (hs1, o1, t1)"
      by (cases "install_one henv view p (hs, orig, t)")
    from 2 have r: "fold (install_one henv view) ps (hs1, o1, t1) = (hs', orig', t')" by (simp add: p)
    from 2 show ?case using Cons.IH(2) r install_one_cases(2) [OF p] by blast
  }
qed

text \<open>Places so far from each other that \<open>n\<close> bytes at each do not overlap.\<close>

definition spaced :: "nat \<Rightarrow> ptr list \<Rightarrow> bool" where
  "spaced n as \<longleftrightarrow> distinct as \<and> (\<forall>a\<in>set as. \<forall>b\<in>set as. a \<noteq> b \<longrightarrow> patched a n \<inter> patched b n = {})"

lemma subseq_facts: "subseq xs ys \<Longrightarrow> set xs \<subseteq> set ys \<and> (distinct ys \<longrightarrow> distinct xs)"
  by (induction rule: list_emb.induct) auto

lemma spaced_apart:
  assumes "subseq (map in_place rs) ws" "spaced n (map snd ws)"
    and "\<And>r. r \<in> set rs \<Longrightarrow> length (original_bytes (record_hook r)) \<le> n"
  shows "hooks.all_apart rs"
  unfolding hooks.all_apart_def
proof (intro allI impI)
  let ?t = "\<lambda>r. hook_target (record_hook r)"
  have s: "subseq (map ?t rs) (map snd ws)"
    using subseq_map [OF assms(1), of snd] by (simp add: in_place_def comp_def)
  have d: "distinct (map ?t rs)" using subseq_facts [OF s] assms(2) by (simp add: spaced_def)
  have i: "set (map ?t rs) \<subseteq> set (map snd ws)" using subseq_facts [OF s] by blast
  fix i j assume ij: "i < length rs" "j < length rs" "i \<noteq> j"
  have "?t (rs ! i) \<noteq> ?t (rs ! j)" using d ij by (metis length_map nth_eq_iff_index_eq nth_map)
  moreover have "?t (rs ! i) \<in> set (map snd ws)" "?t (rs ! j) \<in> set (map snd ws)" using i ij by auto
  ultimately have "patched (?t (rs ! i)) n \<inter> patched (?t (rs ! j)) n = {}"
    using assms(2) unfolding spaced_def by blast
  moreover have "hook_range r \<subseteq> patched (?t r) n" if "r \<in> set rs" for r
    using assms(3) [OF that] by (auto simp: hook_range_def patched_def)
  ultimately show "records_apart (rs ! i) (rs ! j)"
    using ij nth_mem unfolding records_apart_def by blast
qed

definition hook_targets :: "pe_module_view \<Rightarrow> host_state \<Rightarrow> ptr list" where
  "hook_targets view hs = map (\<lambda>p. resolved_target_address view hs (fst p)) probe_hooks"

lemma length_probe_hooks [simp]: "length probe_hooks = 7"
  by (simp add: probe_hooks_def)

lemma wanted_probe_hooks:
  assumes "length detours = 7"
  shows "map fst (map (wanted view hs) (zip probe_hooks detours)) = map fst probe_hooks"
    "map snd (map (wanted view hs) (zip probe_hooks detours)) = hook_targets view hs"
proof -
  have "map fst (zip probe_hooks detours) = probe_hooks"
    using assms by simp
  then have "map (g \<circ> fst) (zip probe_hooks detours) = map g probe_hooks" for g :: "_ \<Rightarrow> 'x"
    by (metis map_map)
  from this [of fst] this [of "\<lambda>p. resolved_target_address view hs (fst p)"]
  show "map fst (map (wanted view hs) (zip probe_hooks detours)) = map fst probe_hooks"
    "map snd (map (wanted view hs) (zip probe_hooks detours)) = hook_targets view hs"
    by (simp_all add: wanted_def hook_name_def comp_def hook_targets_def)
qed

lemma reset_no_hooks [simp]: "hooks_reset [] t = ([], t)"
  by (simp add: hooks_reset_def)

lemma hooks_reset_fst [simp]: "fst (hooks_reset rs t) = []"
  by (simp add: hooks_reset_def)

lemma hooks_reset_chain:
  assumes "undo_chain record_destroy t rs t1" "hooks.all_apart rs"
  shows "hooks_reset rs t1 = ([], t)"
proof -
  have "record_destroy = (\<lambda>r. hook_destroy (record_hook r))" by (simp add: record_destroy_def fun_eq_iff)
  then show ?thesis using hooks.undo_any_order [OF assms refl] by (simp add: hooks_reset_def)
qed

text \<open>All seven hooks, or none.\<close>

definition hooks_installed_whole :: "host_state \<Rightarrow> bool" where
  "hooks_installed_whole hs \<longleftrightarrow>
     map record_name (hs_hooks hs) = map fst probe_hooks \<and> hs_hooks_installed hs = 7 \<and>
     hs_hook_install_failures hs = 0"

lemma install_probe_hooks_cases:
  assumes i: "install_probe_hooks henv view detours (hs, orig, t) = (status, hs', orig', t')"
    and "length detours = 7" "hs_hooks hs = []"
  shows "hs' = hs\<lparr>hs_hooks := hs_hooks hs', hs_hooks_installed := hs_hooks_installed hs',
           hs_hook_install_failures := hs_hook_install_failures hs', hs_hook_install_attempts := 7,
           hs_last_error := hs_last_error hs'\<rparr>"
    and "status = 0 \<and> hooks_installed_whole hs' \<or>
         status = 10 \<and> hs_hooks hs' = [] \<and> orig' = no_originals \<and> hs_hook_install_failures hs' \<noteq> 0"
    and "setup_sizes henv \<Longrightarrow> setup_bounded n henv \<Longrightarrow> spaced n (hook_targets view hs) \<Longrightarrow>
         undo_chain record_destroy t (hs_hooks hs') t' \<and> hooks.all_apart (hs_hooks hs')"
proof -
  let ?hs = "hs\<lparr>hs_hook_install_attempts := 7, hs_hook_install_failures := 0, hs_hooks_installed := 0, hs_hooks := []\<rparr>"
  let ?ps = "zip probe_hooks detours"
  obtain hs1 o1 t1 where f: "fold (install_one henv view) ?ps (?hs, no_originals, t) = (hs1, o1, t1)"
    by (cases "fold (install_one henv view) ?ps (?hs, no_originals, t)")
  have w: "wanted view ?hs = wanted view hs"
    using resolved_target_signatures [of ?hs hs view] by (simp add: wanted_def fun_eq_iff)
  from install_fold(1) [OF f, of n] obtain rs k e where raw:
    "hs1 = ?hs\<lparr>hs_hooks := hs_hooks ?hs @ rs, hs_hooks_installed := hs_hooks_installed ?hs + of_nat (length rs),
       hs_hook_install_failures := hs_hook_install_failures ?hs + of_nat k, hs_last_error := e\<rparr>"
    "length rs + k = length ?ps" "subseq (map in_place rs) (map (wanted view ?hs) ?ps)"
    "setup_bounded n henv \<longrightarrow> (\<forall>r\<in>set rs. length (original_bytes (record_hook r)) \<le> n)"
    by blast
  have r: "hs1 = ?hs\<lparr>hs_hooks := rs, hs_hooks_installed := of_nat (length rs),
      hs_hook_install_failures := of_nat k, hs_last_error := e\<rparr>" "length rs + k = 7"
    "subseq (map in_place rs) (map (wanted view hs) ?ps)"
    using raw(1-3) assms(2) by (simp_all add: w)
  have k: "of_nat k = (0 :: u32) \<longleftrightarrow> k = 0"
  proof -
    have u: "unat (of_nat k :: u32) = k" using r(2) by (simp add: unat_of_nat_u32)
    show ?thesis using unat_eq_0 [of "of_nat k :: u32"] unfolding u by blast
  qed
  note i = i [unfolded install_probe_hooks_def, simplified, unfolded assms(3), simplified, unfolded f, simplified]
  show "hs' = hs\<lparr>hs_hooks := hs_hooks hs', hs_hooks_installed := hs_hooks_installed hs',
           hs_hook_install_failures := hs_hook_install_failures hs', hs_hook_install_attempts := 7,
           hs_last_error := hs_last_error hs'\<rparr>"
    using i r(1) by (auto simp: Let_def hooks_reset_def split: if_splits)
  show "status = 0 \<and> hooks_installed_whole hs' \<or>
         status = 10 \<and> hs_hooks hs' = [] \<and> orig' = no_originals \<and> hs_hook_install_failures hs' \<noteq> 0"
  proof (cases "k = 0")
    case True
    have "map in_place rs = map (wanted view hs) ?ps"
      using r(2,3) True assms(2) by (intro subseq_same_length) simp_all
    then have "map fst (map in_place rs) = map fst probe_hooks"
      using wanted_probe_hooks(1) [OF assms(2)] by metis
    then have "map record_name rs = map fst probe_hooks" by (simp add: in_place_def comp_def)
    then show ?thesis using i r(1,2) True by (auto simp: hooks_installed_whole_def)
  next
    case False
    then show ?thesis using i r(1) k by (auto simp: Let_def hooks_reset_def)
  qed
  assume a: "setup_sizes henv" "setup_bounded n henv" "spaced n (hook_targets view hs)"
  have apart: "hooks.all_apart rs"
    using spaced_apart [OF r(3)] wanted_probe_hooks(2) [OF assms(2), of view hs] a(2,3) raw(4) by simp
  have chain: "undo_chain record_destroy t rs t1"
    using install_fold(2) [OF f a(1), of t] r(1) by simp
  note reset = hooks_reset_chain [OF chain apart]
  show "undo_chain record_destroy t (hs_hooks hs') t' \<and> hooks.all_apart (hs_hooks hs')"
    using i r(1) chain apart reset by (auto simp: Let_def hooks.all_apart_def split: if_splits)
qed

subsection \<open>Initialization, part by part\<close>

lemma remove_hooks_simps [simp]:
  "state (remove_hooks h) = (state h)\<lparr>hs_hooks := []\<rparr>" "originals (remove_hooks h) = no_originals"
  "code (remove_hooks h) = snd (hooks_reset (hs_hooks (state h)) (code h))" "win (remove_hooks h) = win h"
  "files (remove_hooks h) = files h" "testpoints (remove_hooks h) = testpoints h"
  by (simp_all add: remove_hooks_def hooks_reset_def Let_def)

text \<open>What starting the runtime does to the rest of the host.\<close>

lemma exercise_probe_abi_inv:
  assumes "exercise_probe_abi w c s p = (ok, s', p')" "shim_inv s"
  shows "shim_inv s' \<and> other_refs s' p' = other_refs s p"
proof -
  obtain x1 s1 p1 where c1: "probe_record_damage w c zero_damage s p = (x1, s1, p1)"
    by (cases "probe_record_damage w c zero_damage s p")
  let ?p2 = "set_probe_mount_mask c 3 s1 p1"
  obtain x3 s3 p3 where c3: "probe_record_damage w c zero_damage s1 ?p2 = (x3, s3, p3)"
    by (cases "probe_record_damage w c zero_damage s1 ?p2")
  obtain x4 s4 p4 where c4: "probe_record_entity_input w c zero_entity_io s3 p3 = (x4, s4, p4)"
    by (cases "probe_record_entity_input w c zero_entity_io s3 p3")
  have mask: "other_refs s (set_probe_mount_mask c b t q) = other_refs s q"
    "other_refs s (probe_reset_counters c t q) = other_refs s q" for s t q b
    by (simp_all add: other_refs_def set_probe_mount_mask_def probe_reset_counters_def Let_def fun_eq_iff)
  have fwd: "shim_inv s' \<and> other_refs s' p' = other_refs s p"
    if "forwards f" "f s p = (x, s', p')" "shim_inv s" for f s p x s' p'
    using that unfolding forwards_def by blast
  note f1 = fwd [OF probes_forward(1) c1 assms(2)]
  note f3 = fwd [OF probes_forward(1) c3 conjunct1 [OF f1]]
  note f4 = fwd [OF probes_forward(2) c4 conjunct1 [OF f3]]
  have "s' = s4" "other_refs s4 p' = other_refs s4 p4"
    using assms(1) by (auto simp: exercise_probe_abi_def c1 c3 c4 Let_def mask split: prod.splits)
  then show ?thesis using f1 f3 f4 by (simp add: mask)
qed

definition shim_ok :: "(ptr \<Rightarrow> int) \<Rightarrow> 'r host \<Rightarrow> bool" where
  "shim_ok refs h \<longleftrightarrow> shim_inv (hs_runtime (state h)) \<and> other_refs (hs_runtime (state h)) (win h) = refs"

definition same_rest :: "'r host \<Rightarrow> 'r host \<Rightarrow> bool" where
  "same_rest h h' \<longleftrightarrow>
     originals h' = originals h \<and> code h' = code h \<and> files h' = files h \<and>
     hs_hooks (state h') = hs_hooks (state h) \<and> hs_initialized (state h') = hs_initialized (state h) \<and>
     hs_hooks_installed (state h') = hs_hooks_installed (state h) \<and>
     hs_hook_install_failures (state h') = hs_hook_install_failures (state h)"

lemma same_rest_simps [simp]: "same_rest h h"
  by (simp add: same_rest_def)

lemma start_runtime_ok:
  assumes "start_runtime env config h = (status, h')" "shim_ok refs h"
  shows "shim_ok refs h' \<and> same_rest h h'"
proof (cases "given (cfg_runtime_path config)")
  case False
  then show ?thesis
    using assms by (auto simp: start_runtime_def Let_def same_rest_def shim_ok_def split: if_splits)
next
  case given: True
  let ?w = "env_windows env" and ?c = "env_runtime env"
  obtain ok error s1 p1 where l: "load ?w ?c (the (cfg_runtime_path config)) (hs_last_error (state h))
      (hs_runtime (state h)) (win h) = (ok, error, s1, p1)" by (metis prod_cases4)
  have i0: "shim_inv (hs_runtime (state h))" using assms(2) by (simp add: shim_ok_def)
  note load = load_cases(2,6) [OF i0 l]
  show ?thesis
  proof (cases "ok \<and> abi_version ?c s1 = 1")
    case False
    then show ?thesis
      using assms load given
      by (auto simp: start_runtime_def l Let_def same_rest_def shim_ok_def split: if_splits)
  next
    case True
    obtain made error2 s2 p2 where c: "create_runtime ?c error s1 p1 = (made, error2, s2, p2)"
      by (metis prod_cases4)
    note create = create_runtime_inv(1,2) [OF load(1) c]
    obtain pr s3 p3 where e: "exercise_probe_abi ?w ?c s2 p2 = (pr, s3, p3)" by (metis prod_cases3)
    note exercise = exercise_probe_abi_inv [OF e create(1)]
    show ?thesis
      using assms load create exercise given True
      by (auto simp: start_runtime_def l c e Let_def same_rest_def shim_ok_def split: if_splits)
  qed
qed

subsection \<open>Signatures that are where the manifest expects them\<close>

lemma resolve_mapped_signature_facts:
  assumes "resolve_mapped_signature m view d = Some sig"
  shows "rs_descriptor sig = d"
    "rs_expected_rva_ok sig \<Longrightarrow> sd_expected_rva d = 0 \<or> rs_rva sig = Some (sd_expected_rva d)"
  using assms
  by (auto simp: resolve_mapped_signature_def Let_def split: sum.splits option.splits if_splits)

lemma resolve_all_facts:
  assumes "resolve_all m view flags ds (sigs, f) = Some (sigs', f')"
  shows "\<exists>new. sigs' = sigs @ new \<and> map rs_descriptor new = ds \<and> f \<le> f' \<and>
    (f' = f \<longrightarrow> (\<forall>sig\<in>set new. sd_required (rs_descriptor sig) \<longrightarrow> signature_ok flags sig)) \<and>
    (\<forall>sig\<in>set new. rs_expected_rva_ok sig \<longrightarrow> sd_expected_rva (rs_descriptor sig) = 0 \<or>
        rs_rva sig = Some (sd_expected_rva (rs_descriptor sig)))"
  using assms
proof (induction ds arbitrary: sigs f)
  case (Cons d ds)
  obtain sig where r: "resolve_mapped_signature m view d = Some sig"
    using Cons.prems by (auto split: option.splits)
  note facts = resolve_mapped_signature_facts [OF r]
  let ?f = "if sd_required d \<and> \<not> signature_ok flags sig then f + 1 else f"
  have "resolve_all m view flags ds (sigs @ [sig], ?f) = Some (sigs', f')"
    using Cons.prems by (simp add: r)
  from Cons.IH [OF this] obtain new where n: "sigs' = (sigs @ [sig]) @ new" "map rs_descriptor new = ds" "?f \<le> f'"
    "f' = ?f \<longrightarrow> (\<forall>sig\<in>set new. sd_required (rs_descriptor sig) \<longrightarrow> signature_ok flags sig)"
    "\<forall>sig\<in>set new. rs_expected_rva_ok sig \<longrightarrow> sd_expected_rva (rs_descriptor sig) = 0 \<or>
        rs_rva sig = Some (sd_expected_rva (rs_descriptor sig))" by blast
  have ok: "?f = f \<and> (sd_required d \<longrightarrow> signature_ok flags sig)" if "f' = f"
    using n(3) that by (cases "sd_required d \<and> \<not> signature_ok flags sig") simp_all
  show ?case
  proof (intro exI [of _ "sig # new"] conjI impI)
    show "f \<le> f'" using n(3) by (simp split: if_splits)
    show "\<forall>s\<in>set (sig # new). sd_required (rs_descriptor s) \<longrightarrow> signature_ok flags s" if "f' = f"
    proof -
      have "f' = ?f" using ok [OF that] that by metis
      then have "\<forall>sig\<in>set new. sd_required (rs_descriptor sig) \<longrightarrow> signature_ok flags sig" using n(4) by blast
      then show ?thesis using ok [OF that] facts(1) by simp
    qed
    show "\<forall>s\<in>set (sig # new). rs_expected_rva_ok s \<longrightarrow> sd_expected_rva (rs_descriptor s) = 0 \<or>
        rs_rva s = Some (sd_expected_rva (rs_descriptor s))"
      using facts n(5) by simp
  qed (use n(1,2) facts(1) in simp_all)
qed simp

lemma find_by_descriptor:
  "map rs_descriptor sigs = ds \<Longrightarrow> find (\<lambda>d. name = sd_name d) ds = Some d \<Longrightarrow>
   \<exists>sig\<in>set sigs. find (\<lambda>sig. name = sd_name (rs_descriptor sig)) sigs = Some sig \<and> rs_descriptor sig = d"
  by (induction sigs arbitrary: ds) (auto split: if_splits)

definition manifest_entry :: "string \<Rightarrow> signature_descriptor option" where
  "manifest_entry name = find (\<lambda>d. name = sd_name d) default_probe_signatures"

text \<open>Where the hooked functions are expected; all of them are required.\<close>

definition hooked_rvas :: "u32 list" where
  "hooked_rvas = [0xc6bcb0, 0x1f17910, 0x1f1d130, 0x18d9180, 0x7839d0, 0x1aedb10, 0x1f18bb0]"

lemma manifest_hooks:
  "list_all2 (\<lambda>p rva. \<exists>d. manifest_entry (fst p) = Some d \<and> sd_required d \<and> sd_expected_rva d = rva \<and> rva \<noteq> 0)
     probe_hooks hooked_rvas"
  by (simp add: probe_hooks_def hooked_rvas_def manifest_entry_def default_probe_signatures_def)

lemma hooked_rvas_spaced:
  "distinct hooked_rvas"
  "a \<in> set hooked_rvas \<Longrightarrow> b \<in> set hooked_rvas \<Longrightarrow> a \<noteq> b \<Longrightarrow> unat a + 28 \<le> unat b \<or> unat b + 28 \<le> unat a"
  by (auto simp: hooked_rvas_def)

lemma unat_ucast_ptr: "unat (ucast c :: ptr) = unat (c :: u32)"
  using unat_lt_32 [of c] by (simp add: unsigned_ucast_eq take_bit_nat_eq_self)

lemma patched_apart:
  fixes a b :: u32
  assumes "unat a + 28 \<le> unat b"
  shows "patched (base + ucast a) 28 \<inter> patched (base + ucast b) 28 = {}"
proof -
  have False if x: "unat (x - (base + ucast a)) < 28" "unat (x - (base + ucast b)) < 28" for x
  proof -
    have s: "unat (d + ucast c) = unat d + unat c" if "unat d < 28" for d :: ptr and c :: u32
      using that unat_lt_32 [of c] by (simp add: unat_word_ariths unat_ucast_ptr)
    have "unat (x - (base + ucast a)) + unat a = unat (x - base)" using s [OF x(1), of a] by simp
    moreover have "unat (x - (base + ucast b)) + unat b = unat (x - base)" using s [OF x(2), of b] by simp
    ultimately show False using x assms by linarith
  qed
  then show ?thesis by (auto simp: patched_def)
qed

text \<open>With no required failure and no drift allowed the targets are the expected ones, far apart.\<close>

lemma strict_targets:
  assumes r: "resolve_all m view flags default_probe_signatures ([], 0) = Some (sigs, 0)"
    and "flags AND 8 = 0" "hs_signatures hs = sigs"
  shows "hook_targets view hs = map (\<lambda>rva. pm_base view + ucast rva) hooked_rvas"
proof -
  from resolve_all_facts [OF r] have s: "map rs_descriptor sigs = default_probe_signatures"
    "\<And>sig. sig \<in> set sigs \<Longrightarrow> sd_required (rs_descriptor sig) \<Longrightarrow> signature_ok flags sig"
    "\<And>sig. sig \<in> set sigs \<Longrightarrow> rs_expected_rva_ok sig \<Longrightarrow> sd_expected_rva (rs_descriptor sig) = 0 \<or>
        rs_rva sig = Some (sd_expected_rva (rs_descriptor sig))" by auto
  have t: "resolved_target_address view hs name = pm_base view + ucast rva"
    if "manifest_entry name = Some d" "sd_required d" "sd_expected_rva d = rva" "rva \<noteq> 0" for name d rva
  proof -
    obtain sig where sig: "sig \<in> set sigs" "find (\<lambda>sig. name = sd_name (rs_descriptor sig)) sigs = Some sig"
      "rs_descriptor sig = d"
      using find_by_descriptor [OF s(1)] \<open>manifest_entry name = Some d\<close> unfolding manifest_entry_def by blast
    have "rs_expected_rva_ok sig" using s(2) [OF sig(1)] assms(2) that(2) sig(3) by (simp add: signature_ok_def)
    then have "rs_rva sig = Some rva" using s(3) [OF sig(1)] sig(3) that(3,4) by simp
    then show ?thesis by (simp add: resolved_target_address_def find_resolved_signature_def assms(3) sig(2))
  qed
  have "list_all2 (\<lambda>p rva. resolved_target_address view hs (fst p) = pm_base view + ucast rva) probe_hooks hooked_rvas"
    using manifest_hooks by (rule list_all2_mono) (blast intro: t)
  then show ?thesis by (simp add: hook_targets_def list_eq_iff_nth_eq list_all2_conv_all_nth)
qed

lemma strict_spaced:
  assumes "hook_targets view hs = map (\<lambda>rva. pm_base view + ucast rva) hooked_rvas"
  shows "spaced 28 (hook_targets view hs)"
proof -
  have inj: "a = b" if "pm_base view + ucast a = pm_base view + ucast b" for a b :: u32
  proof -
    have "unat (ucast a :: ptr) = unat (ucast b :: ptr)" using that by simp
    then show ?thesis by (simp only: unat_ucast_ptr word_unat_eq_iff)
  qed
  have "distinct (hook_targets view hs)"
    unfolding assms distinct_map by (auto intro: inj_onI inj hooked_rvas_spaced(1))
  moreover have "patched a 28 \<inter> patched b 28 = {}"
    if ab: "a \<in> set (hook_targets view hs)" "b \<in> set (hook_targets view hs)" "a \<noteq> b" for a b
  proof -
    obtain x y where xy: "x \<in> set hooked_rvas" "y \<in> set hooked_rvas"
      "a = pm_base view + ucast x" "b = pm_base view + ucast y" using ab(1,2) by (auto simp: assms)
    then have "x \<noteq> y" using ab(3) by auto
    with hooked_rvas_spaced(2) [OF xy(1,2)] consider "unat x + 28 \<le> unat y" | "unat y + 28 \<le> unat x" by auto
    then show ?thesis by cases (auto simp: xy dest: patched_apart [of _ _ "pm_base view"])
  qed
  ultimately show ?thesis by (simp add: spaced_def)
qed

end
