(* ===== verification/Live_Host.thy ===== *)
theory Live_Host
  imports Live_Server Host_Hook_Properties
begin

section \<open>An initialization that succeeds\<close>

text \<open>
  The host in a process with the module of \<open>Live_Server\<close> and the Rust runtime: with every requirement
  on and hooks asked for, \<open>dwrt_host_initialize\<close> returns 0 and the seven hooks are in place.  The
  lemmas on the way are general: a runtime library that is found and complete is started, and hooks
  on targets that can be set up are all installed.
\<close>

subsection \<open>Starting the Rust runtime\<close>

lemma load_complete:
  assumes "shim_module s = nullptr" "shim_runtime s = nullptr" "shim_inv s"
    and "load_library_w w (moment p) path \<noteq> nullptr"
    and "\<forall>x\<in>set export_names. get_proc_address w (load_library_w w (moment p) path) x \<noteq> nullptr"
  shows "\<exists>s' p'. load w c path error s p = (True, error, s', p') \<and> shim_inv s' \<and> loaded s' \<and>
    shim_runtime s' = nullptr \<and> runtime_memory p' = runtime_memory p"
proof -
  obtain ok e s1 p1 where l: "load w c path error s p = (ok, e, s1, p1)" by (metis prod_cases4)
  have u: "snd (unload c s p) = p"
    using assms(1,2) by (simp add: unload_def destroy_runtime_def Let_def)
  note facts = load_cases [OF assms(3) l, unfolded u]
  have ok: "ok" using facts(1) assms(4,5) by simp
  have "runtime_memory p1 = runtime_memory p"
    using l u by (auto simp: load_def LoadLibraryW_def Let_def split: if_splits prod.splits)
  then show ?thesis using l ok facts(2,3,4,7) assms(4) by (simp add: loaded_def)
qed

lemma start_runtime_rust:
  assumes "given (cfg_runtime_path config)" "env_runtime env = rust_code alloc"
    and "shim_module (hs_runtime (state h)) = nullptr" "shim_runtime (hs_runtime (state h)) = nullptr"
    and "shim_inv (hs_runtime (state h))" "allocates alloc (runtime_memory (win h))"
    and "load_library_w (env_windows env) (moment (win h)) (the (cfg_runtime_path config)) \<noteq> nullptr"
    and "\<forall>m. \<forall>x\<in>set export_names. get_proc_address (env_windows env) m x \<noteq> nullptr"
  shows "\<exists>h'. start_runtime env config h = (0, h')"
proof -
  let ?w = "env_windows env" and ?c = "rust_code alloc"
  obtain s1 p1 where l: "load ?w ?c (the (cfg_runtime_path config)) (hs_last_error (state h)) (hs_runtime (state h)) (win h)
      = (True, hs_last_error (state h), s1, p1)"
    and s1: "shim_inv s1" "loaded s1" "shim_runtime s1 = nullptr" "runtime_memory p1 = runtime_memory (win h)"
    using load_complete [OF assms(3,4,5,7)] assms(8) by blast
  have abi: "abi_version ?c s1 = 1"
    using s1 by (simp add: abi_version_def shim_inv_def loaded_def all_bound_def rust_code_def dwrt_abi_version_def Let_def)
  obtain made error s2 p2 where c: "create_runtime ?c (hs_last_error (state h)) s1 p1 = (made, error, s2, p2)"
    by (metis prod_cases4)
  obtain ok s3 p3 where e: "exercise_probe_abi ?w ?c s2 p2 = (ok, s3, p3)" by (metis prod_cases3)
  have "allocates alloc (runtime_memory (snd (destroy_runtime ?c s1 p1)))"
    using assms(6) s1(3,4) by (simp add: destroy_runtime_def Let_def)
  from rust.handshake [OF s1(1,2) this c e] have "made" "ok" by simp_all
  then show ?thesis using assms(1,2) by (simp add: start_runtime_def l abi c e Let_def)
qed

subsection \<open>Installing the hooks\<close>

lemma install_simple_ok:
  assumes "target \<noteq> nullptr" "d \<noteq> nullptr"
  shows "install_ok (install_inline simple_hooks name target d True orig e rs t)"
  using assms
  by (simp add: simple_hooks_def install_inline_def hook_create_def hook_enable_def hook_jump_def emit_jmp_e9_def Let_def)

lemma install_all_ok:
  assumes "\<forall>p\<in>set ps. resolved_target_address view hs (fst (fst p)) \<noteq> nullptr \<and> snd p \<noteq> nullptr"
    and "fold (install_one simple_hooks view) ps (hs, orig, t) = (hs', orig', t')"
  shows "hs_hook_install_failures hs' = hs_hook_install_failures hs"
  using assms
proof (induction ps arbitrary: hs orig t)
  case (Cons p ps)
  obtain name g s d where p: "p = ((name, g, s), d)" by (metis prod_cases4 prod.collapse)
  obtain hs1 o1 t1 where i: "install_one simple_hooks view p (hs, orig, t) = (hs1, o1, t1)"
    by (cases "install_one simple_hooks view p (hs, orig, t)")
  have "install_ok (install_inline simple_hooks name (resolved_target_address view hs name) d True (g orig) [] (hs_hooks hs) t)"
    using Cons.prems(1) p by (intro install_simple_ok) auto
  then have k: "hs_hook_install_failures hs1 = hs_hook_install_failures hs" "hs_signatures hs1 = hs_signatures hs"
    using i by (auto simp: install_one_def p Let_def)
  have "resolved_target_address view hs1 = resolved_target_address view hs"
    using resolved_target_signatures [of hs1 hs view] k(2) by simp
  then show ?case using Cons.IH [of hs1 o1 t1] Cons.prems i k(1) by simp
qed simp

lemma live_hook_targets:
  assumes "hs_signatures hs = map found_signature default_probe_signatures"
  shows "list_all (\<lambda>p. resolved_target_address (live_view path) hs (fst p) \<noteq> nullptr) probe_hooks"
  by (simp add: probe_hooks_def resolved_target_address_def find_resolved_signature_def assms
      default_probe_signatures_def found_signature_def live_view_def live_base_def)

lemma live_hooks_installed:
  assumes "hs_signatures hs = map found_signature default_probe_signatures" "hs_hooks hs = []"
    and "list_all (\<lambda>d. d \<noteq> nullptr) ds" "length ds = 7"
  shows "\<exists>hs' orig' t'. install_probe_hooks simple_hooks (live_view path) ds (hs, orig, t) = (0, hs', orig', t')
    \<and> map record_name (hs_hooks hs') = map fst probe_hooks"
proof -
  obtain status hs' orig' t' where i: "install_probe_hooks simple_hooks (live_view path) ds (hs, orig, t) = (status, hs', orig', t')"
    by (metis prod_cases4)
  let ?hs = "hs\<lparr>hs_hook_install_attempts := 7, hs_hook_install_failures := 0, hs_hooks_installed := 0, hs_hooks := []\<rparr>"
  obtain hs1 o1 t1 where f: "fold (install_one simple_hooks (live_view path)) (zip probe_hooks ds) (?hs, no_originals, t) = (hs1, o1, t1)"
    by (cases "fold (install_one simple_hooks (live_view path)) (zip probe_hooks ds) (?hs, no_originals, t)")
  have sig: "hs_signatures ?hs = map found_signature default_probe_signatures" using assms(1) by simp
  have "\<forall>p\<in>set (zip probe_hooks ds). resolved_target_address (live_view path) ?hs (fst (fst p)) \<noteq> nullptr \<and> snd p \<noteq> nullptr"
  proof (rule ballI)
    fix p
    assume "p \<in> set (zip probe_hooks ds)"
    then have "fst p \<in> set probe_hooks" "snd p \<in> set ds" 
      using set_zip_leftD [of "fst p" "snd p"] set_zip_rightD [of "fst p" "snd p"] by simp_all
    then show "resolved_target_address (live_view path) ?hs (fst (fst p)) \<noteq> nullptr \<and> snd p \<noteq> nullptr"
      using live_hook_targets [OF sig, of path] assms(3) unfolding list_all_iff by blast
  qed
  from install_all_ok [OF this f] have "hs_hook_install_failures hs1 = 0" by simp
  then have "status = 0" using i assms(2) f by (auto simp: install_probe_hooks_def Let_def)
  moreover have "hooks_installed_whole hs'"
    using install_probe_hooks_cases(2) [OF i assms(4,2)] \<open>status = 0\<close> by simp
  ultimately show ?thesis using i by (simp add: hooks_installed_whole_def)
qed

subsection \<open>The process\<close>

definition live_env :: "windows \<Rightarrow> runtime_heap host_env" where
  "live_env w =
     \<lparr>env_windows = w, env_runtime = rust_code (\<lambda>_. 0x5000), env_hooks = simple_hooks,
      env_variables = \<lparr>env_wide = (\<lambda>name n. (0, [])), env_ansi = (\<lambda>name n. (0, []))\<rparr>,
      env_mapped = (\<lambda>a. True), env_detours = [1, 2, 3, 4, 5, 6, 7], fs_parent_path = (\<lambda>p. []),
      fs_create_directories = (\<lambda>n p. True), fs_open = (\<lambda>n p. True)\<rparr>"

lemma live_env_simps [simp]:
  "env_windows (live_env w) = w" "env_runtime (live_env w) = rust_code (\<lambda>_. 0x5000)"
  "env_hooks (live_env w) = simple_hooks" "env_detours (live_env w) = [1, 2, 3, 4, 5, 6, 7]"
  by (simp_all add: live_env_def)

lemma live_code_view: "code_view (live_env w) t = text_memory t"
  by (simp add: code_view_def live_env_def text_memory_def)

text \<open>The runtime library is found with all its exports.\<close>

definition runtime_found :: "windows \<Rightarrow> host_config \<Rightarrow> bool" where
  "runtime_found w config \<longleftrightarrow> given (cfg_runtime_path config) \<and>
     (\<forall>n. load_library_w w n (the (cfg_runtime_path config)) \<noteq> nullptr) \<and>
     (\<forall>m. \<forall>x\<in>set export_names. get_proc_address w m x \<noteq> nullptr)"

text \<open>The module is loaded, or it is mapped from its file, in which case no hooks are asked for.\<close>

definition server_live :: "windows \<Rightarrow> host_config \<Rightarrow> bool" where
  "server_live w config \<longleftrightarrow>
     (\<forall>n. get_module_handle_w w n (config_string_or (cfg_server_module_name config) ''server.dll'') = live_base)"

definition server_mapped :: "windows \<Rightarrow> host_config \<Rightarrow> bool" where
  "server_mapped w config \<longleftrightarrow>
     (\<forall>n. get_module_handle_w w n (config_string_or (cfg_server_module_name config) ''server.dll'') = nullptr) \<and>
     cfg_flags config AND 4 \<noteq> 0 \<and> cfg_flags config AND 16 = 0 \<and> given (cfg_server_path config) \<and>
     (\<forall>n. load_library_ex_w w n (the (cfg_server_path config)) = live_base)"

definition hooks_as_asked :: "host_config \<Rightarrow> 'r host \<Rightarrow> bool" where
  "hooks_as_asked config h \<longleftrightarrow>
     (if cfg_flags config AND 16 \<noteq> 0 then map record_name (hs_hooks (state h)) = map fst probe_hooks
      else hs_hooks (state h) = [])"

lemma live_runtime_starts:
  assumes "hs_runtime (state h) = new_shadow_shim w" "runtime_memory (win h) = Map.empty" "runtime_found w config"
  shows "\<exists>h'. start_runtime (live_env w) config h = (0, h')"
proof (rule start_runtime_rust [where alloc = "\<lambda>_. 0x5000"])
  show "shim_inv (hs_runtime (state h))" using assms(1) new_shim_inv by simp
  show "allocates (\<lambda>_. 0x5000) (runtime_memory (win h))"
    using assms(2) by (simp add: allocates_def)
qed (use assms in \<open>simp_all add: new_shadow_shim_def runtime_found_def\<close>)

lemma free_fallback_hooks: "hooks_as_asked config (free_fallback f h) = hooks_as_asked config h"
  by (simp add: free_fallback_def hooks_as_asked_def)

lemma live_resolves_in_module:
  assumes "code h = live_text" "hs_hooks (state h) = []" "fallback = nullptr \<or> cfg_flags config AND 16 = 0"
  shows "\<exists>h'. resolve_in_module (live_env w) config (live_view path) fallback h = Some (0, h') \<and> hooks_as_asked config h'"
proof -
  let ?hs = "(state h)\<lparr>hs_signatures := map found_signature default_probe_signatures,
    hs_signature_required_failures := 0, hs_signatures_checked := True\<rparr>"
  note resolve = live_resolve_all [of path "cfg_flags config"] assms(1)
  show ?thesis
  proof (cases "cfg_flags config AND 16 = 0")
    case True
    then show ?thesis
      using resolve assms(2)
      by (simp add: resolve_in_module_def live_code_view free_fallback_hooks Let_def) (simp add: hooks_as_asked_def)
  next
    case False
    obtain hs orig t where i: "install_probe_hooks simple_hooks (live_view path) [1, 2, 3, 4, 5, 6, 7] (?hs, originals h, live_text)
        = (0, hs, orig, t)" "map record_name (hs_hooks hs) = map fst probe_hooks"
      using live_hooks_installed [of ?hs "[1, 2, 3, 4, 5, 6, 7]" path "originals h" live_text] assms(2) by auto
    then show ?thesis
      using resolve False assms(3)
      by (simp add: resolve_in_module_def live_code_view free_fallback_def hooks_as_asked_def Let_def)
  qed
qed

lemma live_resolves:
  assumes "code h = live_text" "hs_hooks (state h) = []" "server_live w config \<or> server_mapped w config"
  shows "\<exists>h'. resolve_server_signatures (live_env w) config h = Some (0, h') \<and> hooks_as_asked config h'"
proof -
  let ?name = "config_string_or (cfg_server_module_name config) ''server.dll''" and ?file = "the (cfg_server_path config)"
  have base: "live_base \<noteq> nullptr" by (simp add: live_base_def)
  have view: "view_and_resolve (live_env w) config live_base f path k =
      resolve_in_module (live_env w) config (live_view (path_text path)) f k" if "code k = live_text" for f path k
    using live_module_view [of "path_text path"] that by (simp add: view_and_resolve_def live_code_view)
  show ?thesis
  proof (cases "server_live w config")
    case True
    then obtain p where g: "GetModuleHandleW w ?name (win h) = (live_base, p)"
      by (simp add: server_live_def GetModuleHandleW_def)
    let ?h = "h\<lparr>win := p, state := (state h)\<lparr>hs_used_live_server_module := True\<rparr>\<rparr>"
    have "resolve_server_signatures (live_env w) config h
        = resolve_in_module (live_env w) config (live_view (path_text ?name)) nullptr ?h"
      using g base view [of ?h] assms(1) by (simp add: resolve_server_signatures_def Let_def)
    then show ?thesis using live_resolves_in_module [of ?h] assms by simp
  next
    case False
    then have m: "server_mapped w config" using assms(3) by blast
    then obtain p q where g: "GetModuleHandleW w ?name (win h) = (nullptr, p)" "LoadLibraryExW w ?file p = (live_base, q)"
      by (simp add: server_mapped_def GetModuleHandleW_def LoadLibraryExW_def Let_def)
    let ?h = "h\<lparr>win := q, state := (state h)\<lparr>hs_used_mapped_file_fallback := True\<rparr>\<rparr>"
    have "resolve_server_signatures (live_env w) config h
        = resolve_in_module (live_env w) config (live_view (path_text ?file)) live_base ?h"
      using g m base view [of ?h] assms(1) by (simp add: resolve_server_signatures_def server_mapped_def Let_def)
    then show ?thesis using live_resolves_in_module [of ?h live_base config] assms m by (simp add: server_mapped_def)
  qed
qed

lemma live_initialize_started:
  assumes "cfg_abi_version config = DWRT_HOST_ABI_VERSION" "server_live w config \<or> server_mapped w config"
    and start: "\<And>h. hs_runtime (state h) = new_shadow_shim w \<Longrightarrow> win h = p \<Longrightarrow>
      \<exists>h'. start_runtime (live_env w) config h = (0, h')"
  shows "\<exists>h. dwrt_host_initialize (live_env w) (Some config) (new_host w live_text p) = Some (0, h) \<and> hooks_as_asked config h"
proof -
  let ?new = "new_host w live_text p"
  let ?h = "prepare (live_env w) (?new\<lparr>testpoints := record_initialize_call (testpoints ?new)\<rparr>)"
  have h: "hs_runtime (state ?h) = new_shadow_shim w" "win ?h = p" "code ?h = live_text" "hs_hooks (state ?h) = []"
    by (simp_all add: prepare_def new_host_def clear_status_def Let_def)
  obtain h1 where s: "start_runtime (live_env w) config ?h = (0, h1)" using start [OF h(1,2)] by blast
  have "shim_ok (other_refs (hs_runtime (state ?h)) (win ?h)) ?h" using new_shim_inv by (simp add: shim_ok_def h(1))
  from start_runtime_ok [OF s this] have "code h1 = live_text" "hs_hooks (state h1) = []"
    using h(3,4) by (simp_all add: same_rest_def)
  from live_resolves [OF this assms(2)] obtain h2 where
    r: "resolve_server_signatures (live_env w) config h1 = Some (0, h2)" "hooks_as_asked config h2" by blast
  have "\<not> hs_initialized (state ?new)" by (simp add: new_host_def)
  then have i: "dwrt_host_initialize (live_env w) (Some config) ?new =
      write_summary_if_requested (live_env w) config (h2\<lparr>state := (state h2)\<lparr>hs_initialized := True\<rparr>\<rparr>)"
    using s r assms(1) by (simp add: dwrt_host_initialize_def Let_def)
  show ?thesis
    unfolding i using r(2)
    by (simp add: write_summary_if_requested_def live_env_def hooks_as_asked_def Let_def)
qed

lemma live_initialize:
  assumes "cfg_abi_version config = DWRT_HOST_ABI_VERSION" "runtime_found w config"
    and "server_live w config \<or> server_mapped w config" "runtime_memory p = Map.empty"
  shows "\<exists>h. dwrt_host_initialize (live_env w) (Some config) (new_host w live_text p) = Some (0, h) \<and> hooks_as_asked config h"
  by (rule live_initialize_started [OF assms(1,3)]) (simp add: live_runtime_starts assms)

text \<open>Without a runtime, when none is required.\<close>

lemma live_initialize_bare:
  assumes "cfg_abi_version config = DWRT_HOST_ABI_VERSION" "cfg_runtime_path config = None" "cfg_flags config AND 1 = 0"
    and "server_live w config \<or> server_mapped w config"
  shows "\<exists>h. dwrt_host_initialize (live_env w) (Some config) (new_host w live_text p) = Some (0, h) \<and> hooks_as_asked config h"
  by (rule live_initialize_started [OF assms(1,4)]) (simp add: start_runtime_def assms(2,3) given_def Let_def)

subsection \<open>A live process\<close>

definition live_windows :: windows where
  "live_windows = complete_windows\<lparr>get_module_handle_w := (\<lambda>n name. live_base)\<rparr>"

text \<open>The runtime and the signatures as \<open>flags\<close> require, and hooks when they ask for them.\<close>

definition live_config :: "u32 \<Rightarrow> host_config" where
  "live_config flags =
     \<lparr>cfg_abi_version = 1, cfg_flags = flags, cfg_runtime_path = Some (wide ''dwrt_runtime.dll''),
      cfg_server_module_name = None, cfg_server_path = None, cfg_summary_path = None\<rparr>"

definition live_host :: "runtime_heap host" where
  "live_host = new_host live_windows live_text (example_process Map.empty)"

lemma live_config_flags [simp]: "cfg_flags (live_config flags) = flags"
  by (simp add: live_config_def)

lemma live_host_initialize:
  "\<exists>h. dwrt_host_initialize (live_env live_windows) (Some (live_config flags)) live_host = Some (0, h) \<and>
     hooks_as_asked (live_config flags) h"
  unfolding live_host_def
proof (rule live_initialize)
  show "runtime_found live_windows (live_config flags)"
    by (simp add: runtime_found_def live_config_def live_windows_def complete_windows_def example_windows_def given_def wide_def)
  show "server_live live_windows (live_config flags) \<or> server_mapped live_windows (live_config flags)"
    by (simp add: server_live_def live_windows_def)
qed (simp_all add: live_config_def DWRT_HOST_ABI_VERSION_def example_process_def)

end
