(* ===== verification/Host_Api_Properties.thy ===== *)
theory Host_Api_Properties
  imports Live_Host
begin

section \<open>Every sequence of API calls and engine runs\<close>

text \<open>
  The host as a state machine: API calls and runs of the engine, in any order, each under an
  environment of its own.  The probe hooks are installed all together or not at all, the libraries
  the host has loaded are given back, and the code of the server module is restored.
\<close>

subsection \<open>Resolution\<close>

text \<open>The host after resolution: hooks in place as a whole, on a live module, or not at all.\<close>

definition hooks_whole :: "'r host \<Rightarrow> bool" where
  "hooks_whole h \<longleftrightarrow>
     hooks_installed_whole (state h) \<and> hs_used_live_server_module (state h) \<and>
     \<not> hs_used_mapped_file_fallback (state h) \<and> hs_signatures_checked (state h)"

definition no_hooks :: "'r host \<Rightarrow> bool" where
  "no_hooks h \<longleftrightarrow> hs_hooks (state h) = [] \<and> originals h = no_originals"

text \<open>A configuration under which installed hooks are known not to overlap.\<close>

definition strict_config :: "host_config \<Rightarrow> bool" where
  "strict_config config \<longleftrightarrow>
     cfg_flags config AND 16 \<noteq> 0 \<longrightarrow> cfg_flags config AND 2 \<noteq> 0 \<and> cfg_flags config AND 8 = 0"

definition safe_hooks :: "hook_environment \<Rightarrow> bool" where
  "safe_hooks henv \<longleftrightarrow> setup_sizes henv \<and> setup_bounded 28 henv"

lemma free_fallback_simps [simp]:
  "state (free_fallback f h) = state h" "originals (free_fallback f h) = originals h"
  "code (free_fallback f h) = code h" "files (free_fallback f h) = files h"
  "library_refs (win (free_fallback f h)) k = library_refs (win h) k - of_bool (f \<noteq> nullptr \<and> k = f)"
  by (simp_all add: free_fallback_def)

text \<open>What resolution keeps of the host, whatever comes out.\<close>

definition resolve_frame :: "'r host \<Rightarrow> 'r host \<Rightarrow> bool" where
  "resolve_frame h h' \<longleftrightarrow>
     hs_runtime (state h') = hs_runtime (state h) \<and> hs_initialized (state h') = hs_initialized (state h) \<and>
     hs_used_live_server_module (state h') = hs_used_live_server_module (state h) \<and>
     hs_used_mapped_file_fallback (state h') = hs_used_mapped_file_fallback (state h) \<and> files h' = files h"

definition code_kept :: "code_text \<Rightarrow> 'r host \<Rightarrow> bool" where
  "code_kept t h \<longleftrightarrow> undo_chain record_destroy t (hs_hooks (state h)) (code h) \<and> hooks.all_apart (hs_hooks (state h))"

lemma no_hooks_code: "hs_hooks (state h) = [] \<Longrightarrow> code_kept t h \<longleftrightarrow> code h = t"
  by (auto simp: code_kept_def hooks.all_apart_def elim: undo_chain.cases)

lemma resolve_in_module_ok:
  assumes r: "resolve_in_module env config view fallback h = Some (status, h')"
    and d: "length (env_detours env) = 7" and n: "no_hooks h"
  shows "resolve_frame h h'"
    and "library_refs (win h') k = library_refs (win h) k - of_bool (fallback \<noteq> nullptr \<and> k = fallback)"
    and "no_hooks h' \<or> status = 0 \<and> fallback = nullptr \<and> hooks_installed_whole (state h') \<and> hs_signatures_checked (state h')"
    and "strict_config config \<Longrightarrow> safe_hooks (env_hooks env) \<Longrightarrow> code_kept (code h) h'"
proof -
  let ?m = "code_view env (code h)" and ?f = "cfg_flags config"
  obtain sigs failures where s: "resolve_all ?m view ?f default_probe_signatures ([], 0) = Some (sigs, failures)"
    using r by (auto simp: resolve_in_module_def split: option.splits)
  let ?hs = "(state h)\<lparr>hs_signatures := sigs, hs_signature_required_failures := failures, hs_signatures_checked := True\<rparr>"
  obtain st hs orig t where i: "install_probe_hooks (env_hooks env) view (env_detours env) (?hs, originals h, code h) =
      (st, hs, orig, t)" by (metis prod_cases4)
  have e: "hs_hooks ?hs = []" using n by (simp add: no_hooks_def)
  note install = install_probe_hooks_cases [OF i d e]
  consider (plain) hs1 where "h' = free_fallback fallback (h\<lparr>state := hs1\<rparr>)" "hs1 = ?hs \<or> (\<exists>e. hs1 = ?hs\<lparr>hs_last_error := e\<rparr>)"
    | (hooked) "fallback = nullptr" "h' = h\<lparr>state := hs, originals := orig, code := t\<rparr>" "status = st" "?f AND 16 \<noteq> 0"
        "\<not> (?f AND 2 \<noteq> 0 \<and> failures \<noteq> 0)"
  proof (cases "?f AND 2 \<noteq> 0 \<and> failures \<noteq> 0 \<or> ?f AND 16 = 0 \<or> fallback \<noteq> nullptr")
    case True
    then show ?thesis using r plain by (auto simp: resolve_in_module_def s Let_def split: if_splits)
  next
    case False
    then have "h' = h\<lparr>state := hs, originals := orig, code := t\<rparr>" "status = st"
      using r by (auto simp: resolve_in_module_def s i Let_def free_fallback_def split: if_splits)
    then show ?thesis using False hooked by blast
  qed
  note two = this
  have frame: "hs_runtime hs = hs_runtime (state h)" "hs_initialized hs = hs_initialized (state h)"
    "hs_used_live_server_module hs = hs_used_live_server_module (state h)"
    "hs_used_mapped_file_fallback hs = hs_used_mapped_file_fallback (state h)"
    "hs_signatures_checked hs"
    by (subst install(1), simp)+
  show "resolve_frame h h'" by (rule two) (auto simp: resolve_frame_def frame)
  show "library_refs (win h') k = library_refs (win h) k - of_bool (fallback \<noteq> nullptr \<and> k = fallback)"
    by (rule two) auto
  show "no_hooks h' \<or> status = 0 \<and> fallback = nullptr \<and> hooks_installed_whole (state h') \<and> hs_signatures_checked (state h')"
  proof (rule two)
    show ?thesis if "fallback = nullptr" "h' = h\<lparr>state := hs, originals := orig, code := t\<rparr>" "status = st"
      using install(2) that frame(5) by (auto simp: no_hooks_def)
  qed (use n in \<open>auto simp: no_hooks_def\<close>)
  assume c: "strict_config config" "safe_hooks (env_hooks env)"
  show "code_kept (code h) h'"
  proof (rule two)
    assume h': "h' = h\<lparr>state := hs, originals := orig, code := t\<rparr>" and on: "?f AND 16 \<noteq> 0"
      and none: "\<not> (?f AND 2 \<noteq> 0 \<and> failures \<noteq> 0)"
    have strict: "failures = 0" "?f AND 8 = 0" using c(1) on none by (auto simp: strict_config_def)
    have "hook_targets view ?hs = map (\<lambda>rva. pm_base view + ucast rva) hooked_rvas"
      by (rule strict_targets [OF s [unfolded strict(1)] strict(2)]) simp
    then have "spaced 28 (hook_targets view ?hs)" by (rule strict_spaced)
    then show ?thesis using install(3) [of 28] c(2) by (simp add: code_kept_def h' safe_hooks_def)
  qed (use n in \<open>auto simp: no_hooks_def no_hooks_code\<close>)
qed

lemma view_and_resolve_ok:
  assumes r: "view_and_resolve env config handle fallback path h = Some (status, h')"
    and d: "length (env_detours env) = 7" and n: "no_hooks h"
  shows "resolve_frame h h'"
    and "library_refs (win h') k = library_refs (win h) k - of_bool (fallback \<noteq> nullptr \<and> k = fallback)"
    and "no_hooks h' \<or> status = 0 \<and> fallback = nullptr \<and> hooks_installed_whole (state h') \<and> hs_signatures_checked (state h')"
    and "strict_config config \<Longrightarrow> safe_hooks (env_hooks env) \<Longrightarrow> code_kept (code h) h'"
proof -
  consider (bad) e where "h' = free_fallback fallback (h\<lparr>state := (state h)\<lparr>hs_last_error := e\<rparr>\<rparr>)"
    | (viewed) view where "resolve_in_module env config view fallback h = Some (status, h')"
    using r by (auto simp: view_and_resolve_def split: option.splits sum.splits)
  note two = this
  show "resolve_frame h h'"
    by (rule two) (auto simp: resolve_frame_def dest: resolve_in_module_ok(1) [OF _ d n])
  show "library_refs (win h') k = library_refs (win h) k - of_bool (fallback \<noteq> nullptr \<and> k = fallback)"
    by (rule two) (simp, erule resolve_in_module_ok(2) [OF _ d n])
  show "no_hooks h' \<or> status = 0 \<and> fallback = nullptr \<and> hooks_installed_whole (state h') \<and> hs_signatures_checked (state h')"
    by (rule two) (use n in \<open>auto simp: no_hooks_def dest: resolve_in_module_ok(3) [OF _ d n]\<close>)
  assume c: "strict_config config" "safe_hooks (env_hooks env)"
  show "code_kept (code h) h'"
    by (rule two) (use n in \<open>auto simp: no_hooks_def no_hooks_code dest: resolve_in_module_ok(4) [OF _ d n c]\<close>)
qed

lemma resolve_server_signatures_ok:
  assumes r: "resolve_server_signatures env config h = Some (status, h')"
    and d: "length (env_detours env) = 7" and n: "no_hooks h" and s: "shim_ok refs h"
    and fb: "\<not> hs_used_mapped_file_fallback (state h)"
  shows "shim_ok refs h' \<and> hs_initialized (state h') = hs_initialized (state h) \<and> files h' = files h"
    and "no_hooks h' \<or> status = 0 \<and> hooks_whole h'"
    and "strict_config config \<Longrightarrow> safe_hooks (env_hooks env) \<Longrightarrow> code_kept (code h) h'"
proof -
  let ?w = "env_windows env"
  let ?name = "config_string_or (cfg_server_module_name config) ''server.dll''"
  let ?path = "the (cfg_server_path config)"
  obtain m p where g: "GetModuleHandleW ?w ?name (win h) = (m, p)" by fastforce
  obtain f q where l: "LoadLibraryExW ?w ?path p = (f, q)" by fastforce
  have refs: "library_refs p = library_refs (win h)"
    "library_refs q = (\<lambda>k. library_refs (win h) k + of_bool (k = f \<and> f \<noteq> nullptr))"
    using g l by (auto simp: GetModuleHandleW_def LoadLibraryExW_def Let_def library_refs_add_ref)
  let ?live = "h\<lparr>win := p, state := (state h)\<lparr>hs_used_live_server_module := True\<rparr>\<rparr>"
  let ?mapped = "h\<lparr>win := q, state := (state h)\<lparr>hs_used_mapped_file_fallback := True\<rparr>\<rparr>"
  have shim: "shim_ok refs h1"
    if "hs_runtime (state h1) = hs_runtime (state h)" "library_refs (win h1) = library_refs (win h)" for h1 :: "'a host"
    using s that by (simp add: shim_ok_def other_refs_def fun_eq_iff)
  consider (missing) e where "h' = h\<lparr>win := p, state := (state h)\<lparr>hs_last_error := e\<rparr>\<rparr>"
    | (unmapped) e where "f = nullptr" "h' = h\<lparr>win := q, state := (state h)\<lparr>hs_last_error := e\<rparr>\<rparr>"
    | (live) "view_and_resolve env config m nullptr ?name ?live = Some (status, h')"
    | (mapped) "f \<noteq> nullptr" "view_and_resolve env config f f ?path ?mapped = Some (status, h')"
    using r by (auto simp: resolve_server_signatures_def g l Let_def split: if_splits)
  note four = this
  have n1: "no_hooks ?live" "no_hooks ?mapped" using n by (simp_all add: no_hooks_def)
  show "shim_ok refs h' \<and> hs_initialized (state h') = hs_initialized (state h) \<and> files h' = files h"
  proof (rule four)
    assume "view_and_resolve env config m nullptr ?name ?live = Some (status, h')"
    note k = view_and_resolve_ok(1,2) [OF this d n1(1)]
    then show ?thesis by (intro conjI shim ext) (simp_all add: resolve_frame_def refs)
  next
    assume "f \<noteq> nullptr" "view_and_resolve env config f f ?path ?mapped = Some (status, h')"
    note k = this(1) view_and_resolve_ok(1,2) [OF this(2) d n1(2)]
    then show ?thesis by (intro conjI shim ext) (simp_all add: resolve_frame_def refs)
  qed (auto intro!: shim simp: refs)
  show "no_hooks h' \<or> status = 0 \<and> hooks_whole h'"
  proof (rule four)
    assume "view_and_resolve env config m nullptr ?name ?live = Some (status, h')"
    note k = view_and_resolve_ok(1,3) [OF this d n1(1)]
    then show ?thesis using fb by (auto simp: hooks_whole_def resolve_frame_def)
  next
    assume "f \<noteq> nullptr" "view_and_resolve env config f f ?path ?mapped = Some (status, h')"
    with view_and_resolve_ok(3) [OF this(2) d n1(2)] show ?thesis by simp
  qed (use n in \<open>auto simp: no_hooks_def\<close>)
  assume c: "strict_config config" "safe_hooks (env_hooks env)"
  show "code_kept (code h) h'"
  proof (rule four)
    assume "view_and_resolve env config m nullptr ?name ?live = Some (status, h')"
    from view_and_resolve_ok(4) [OF this d n1(1) c] show ?thesis by simp
  next
    assume "view_and_resolve env config f f ?path ?mapped = Some (status, h')"
    from view_and_resolve_ok(4) [OF this d n1(2) c] show ?thesis by simp
  qed (use n in \<open>auto simp: no_hooks_def no_hooks_code\<close>)
qed

subsection \<open>Initialization and shutdown\<close>

definition valid_config :: "host_config option \<Rightarrow> bool" where
  "valid_config config \<longleftrightarrow> (\<exists>c. config = Some c \<and> cfg_abi_version c = DWRT_HOST_ABI_VERSION)"

lemma prepare_simps [simp]:
  "originals (prepare env h) = no_originals" "files (prepare env h) = files h" "win (prepare env h) = win h"
  "code (prepare env h) = snd (hooks_reset (hs_hooks (state h)) (code h))"
  "testpoints (prepare env h) = testpoints h"
  "state (prepare env h) = (clear_status (state h))\<lparr>hs_hooks := []\<rparr>"
  by (simp_all add: prepare_def clear_status_def Let_def)

lemma prepare_clears [simp]:
  "no_hooks (prepare env h)" "shim_ok refs (prepare env h) = shim_ok refs h"
  "hs_initialized (state (prepare env h)) = hs_initialized (state h)"
  "\<not> hs_used_mapped_file_fallback (state (prepare env h))"
  by (simp_all add: no_hooks_def shim_ok_def clear_status_def)

lemma start_runtime_status:
  "start_runtime env config h = (status, h') \<Longrightarrow>
   status \<in> {0, 3, 4, 5, 6} \<and> hs_used_mapped_file_fallback (state h') = hs_used_mapped_file_fallback (state h)"
  by (auto simp: start_runtime_def Let_def split: if_splits prod.splits)

lemma resolve_status:
  "resolve_server_signatures env config h = Some (status, h') \<Longrightarrow> status \<in> {0, 7, 8, 10}"
proof -
  have m: "resolve_in_module env config view f h = Some (status, h') \<Longrightarrow> status \<in> {0, 7, 8, 10}" for view f h
    by (auto simp: resolve_in_module_def install_probe_hooks_def Let_def split: if_splits option.splits prod.splits)
  have "view_and_resolve env config m f path h = Some (status, h') \<Longrightarrow> status \<in> {0, 7, 8, 10}" for m f path h
    using m by (auto simp: view_and_resolve_def split: option.splits sum.splits)
  then show "resolve_server_signatures env config h = Some (status, h') \<Longrightarrow> status \<in> {0, 7, 8, 10}"
    by (auto simp: resolve_server_signatures_def Let_def split: if_splits prod.splits)
qed

lemma write_summary_cases:
  "write_summary_if_requested env config h = Some (status, h') \<Longrightarrow>
   status \<in> {0, 9} \<and> (\<exists>more. h' = h\<lparr>files := files h @ more\<rparr>)"
  by (auto simp: write_summary_if_requested_def Let_def split: if_splits intro: exI [of _ "[]"])

definition counted :: "'r host \<Rightarrow> 'r host" where
  "counted h = h\<lparr>testpoints := record_initialize_call (testpoints h)\<rparr>"

lemma counted_simps [simp]:
  "state (counted h) = state h" "win (counted h) = win h" "originals (counted h) = originals h"
  "code (counted h) = code h" "files (counted h) = files h"
  by (simp_all add: counted_def)

lemma clear_status_simps [simp]:
  "hs_runtime (clear_status hs) = hs_runtime hs" "hs_initialized (clear_status hs) = hs_initialized hs"
  "hs_hooks (clear_status hs) = hs_hooks hs" "\<not> hs_used_mapped_file_fallback (clear_status hs)"
  by (simp_all add: clear_status_def)

text \<open>The ways \<open>dwrt_host_initialize\<close> can return.\<close>

lemma initialize_cases:
  assumes "dwrt_host_initialize env config h = Some (status, h')"
  obtains (bad_argument) "\<not> valid_config config" "status = 1" "h' = counted h"
  | (already) "valid_config config" "hs_initialized (state h)" "status = 2"
      "h' = (counted h)\<lparr>testpoints := record_initialize_reentrant_reject (testpoints (counted h))\<rparr>"
  | (no_runtime) c where "valid_config config" "config = Some c" "\<not> hs_initialized (state h)"
      "status \<noteq> 0" "start_runtime env c (prepare env (counted h)) = (status, h')"
  | (unresolved) c h1 where "valid_config config" "config = Some c" "\<not> hs_initialized (state h)"
      "start_runtime env c (prepare env (counted h)) = (0, h1)"
      "resolve_server_signatures env c h1 = Some (status, h')" "status \<noteq> 0"
  | (accepted) c h1 resolve_status h2 more where "valid_config config" "config = Some c" "\<not> hs_initialized (state h)"
      "start_runtime env c (prepare env (counted h)) = (0, h1)"
      "resolve_server_signatures env c h1 = Some (resolve_status, h2)" "status \<in> {0, 9}"
      "h' = h2\<lparr>state := (state h2)\<lparr>hs_initialized := True\<rparr>, files := files h2 @ more\<rparr>"
proof (cases "valid_config config \<and> \<not> hs_initialized (state h)")
  case False
  then show ?thesis
    using assms bad_argument already
    by (auto simp: dwrt_host_initialize_def valid_config_def counted_def Let_def split: option.splits if_splits)
next
  case True
  then obtain c where c: "config = Some c" "cfg_abi_version c = DWRT_HOST_ABI_VERSION" by (auto simp: valid_config_def)
  obtain st h1 where s: "start_runtime env c (prepare env (counted h)) = (st, h1)" by fastforce
  show ?thesis
  proof (cases "st = 0")
    case False
    then have "status = st" "h' = h1"
      using assms True by (simp_all add: dwrt_host_initialize_def c s Let_def counted_def [symmetric])
    then show ?thesis using no_runtime True c s False by blast
  next
    case st: True
    obtain rs h2 where r: "resolve_server_signatures env c h1 = Some (rs, h2)"
      using assms True
      by (auto simp: dwrt_host_initialize_def c s st Let_def counted_def [symmetric] split: option.splits)
    show ?thesis
    proof (cases "rs \<noteq> 0 \<and> cfg_flags c AND 2 \<noteq> 0")
      case True2: True
      then have "status = rs" "h' = h2"
        using assms True by (simp_all add: dwrt_host_initialize_def c s st r Let_def counted_def [symmetric])
      then show ?thesis using unresolved True c s st r True2 by blast
    next
      case False
      then have "write_summary_if_requested env c (h2\<lparr>state := (state h2)\<lparr>hs_initialized := True\<rparr>\<rparr>) = Some (status, h')"
        using assms True by (auto simp: dwrt_host_initialize_def c s st r Let_def counted_def [symmetric])
      from write_summary_cases [OF this] obtain more where "status \<in> {0, 9}"
        "h' = h2\<lparr>state := (state h2)\<lparr>hs_initialized := True\<rparr>, files := files h2 @ more\<rparr>" by auto
      then show ?thesis using accepted True c s [unfolded st] r by blast
    qed
  qed
qed

definition host_inv :: "(ptr \<Rightarrow> int) \<Rightarrow> 'r host \<Rightarrow> bool" where
  "host_inv refs h \<longleftrightarrow> shim_ok refs h \<and> (no_hooks h \<or> hooks_whole h \<and> hs_initialized (state h))"

lemma same_rest_no_hooks: "same_rest h h' \<Longrightarrow> no_hooks h \<Longrightarrow> no_hooks h'"
  by (simp add: same_rest_def no_hooks_def)

lemma initialize_inv:
  assumes i: "dwrt_host_initialize env config h = Some (status, h')"
    and inv: "host_inv refs h" and d: "length (env_detours env) = 7"
  shows "host_inv refs h'"
    and "status \<notin> {0, 1, 2, 9} \<Longrightarrow> no_hooks h' \<and> \<not> hs_initialized (state h')"
    and "status \<in> {0, 9} \<Longrightarrow> hs_initialized (state h')"
proof -
  have ok: "shim_ok refs (prepare env (counted h))" using inv by (simp add: host_inv_def counted_def shim_ok_def)
  have "host_inv refs h' \<and> (status \<notin> {0, 1, 2, 9} \<longrightarrow> no_hooks h' \<and> \<not> hs_initialized (state h')) \<and>
    (status \<in> {0, 9} \<longrightarrow> hs_initialized (state h'))"
    using i
  proof (cases rule: initialize_cases)
    case bad_argument
    then show ?thesis using inv by (auto simp: host_inv_def counted_def shim_ok_def no_hooks_def hooks_whole_def)
  next
    case already
    then show ?thesis using inv by (auto simp: host_inv_def counted_def shim_ok_def no_hooks_def hooks_whole_def)
  next
    case (no_runtime c)
    note s = start_runtime_ok [OF no_runtime(5) ok] start_runtime_status [OF no_runtime(5)]
    then have "no_hooks h'" using same_rest_no_hooks prepare_clears(1) by blast
    then show ?thesis using s no_runtime(3,4) by (auto simp: host_inv_def same_rest_def clear_status_def counted_def)
  next
    case (unresolved c h1)
    note s = start_runtime_ok [OF unresolved(4) ok] start_runtime_status [OF unresolved(4)]
    have n: "no_hooks h1" using s same_rest_no_hooks prepare_clears(1) by blast
    have fb: "\<not> hs_used_mapped_file_fallback (state h1)" using s by simp
    note r = resolve_server_signatures_ok(1,2) [OF unresolved(5) d n conjunct1 [OF s(1)] fb] resolve_status [OF unresolved(5)]
    then show ?thesis using s unresolved(3,6) by (auto simp: host_inv_def same_rest_def clear_status_def counted_def)
  next
    case (accepted c h1 rs h2 more)
    note s = start_runtime_ok [OF accepted(4) ok] start_runtime_status [OF accepted(4)]
    have n: "no_hooks h1" using s same_rest_no_hooks prepare_clears(1) by blast
    have fb: "\<not> hs_used_mapped_file_fallback (state h1)" using s by simp
    note r = resolve_server_signatures_ok(1,2) [OF accepted(5) d n conjunct1 [OF s(1)] fb]
    then show ?thesis using accepted(6,7)
      by (auto simp: host_inv_def shim_ok_def no_hooks_def hooks_whole_def hooks_installed_whole_def)
  qed
  then show "host_inv refs h'"
    "status \<notin> {0, 1, 2, 9} \<Longrightarrow> no_hooks h' \<and> \<not> hs_initialized (state h')"
    "status \<in> {0, 9} \<Longrightarrow> hs_initialized (state h')" by auto
qed

lemma initialize_code:
  assumes i: "dwrt_host_initialize env config h = Some (status, h')"
    and inv: "host_inv refs h" and d: "length (env_detours env) = 7"
    and k: "code_kept t h" and c: "\<And>c. config = Some c \<Longrightarrow> strict_config c" "safe_hooks (env_hooks env)"
  shows "code_kept t h'"
proof -
  have ok: "shim_ok refs (prepare env (counted h))" using inv by (simp add: host_inv_def counted_def shim_ok_def)
  have p: "code (prepare env (counted h)) = t"
    using k hooks_reset_chain unfolding code_kept_def by fastforce
  show ?thesis
    using i
  proof (cases rule: initialize_cases)
    case (no_runtime c)
    have "same_rest (prepare env (counted h)) h'" using start_runtime_ok [OF no_runtime(5) ok] by blast
    then show ?thesis using p by (auto simp: same_rest_def intro!: no_hooks_code [THEN iffD2])
  next
    case (unresolved c1 h1)
    note s = start_runtime_ok [OF unresolved(4) ok] start_runtime_status [OF unresolved(4)]
    have n: "no_hooks h1" using s same_rest_no_hooks prepare_clears(1) by blast
    have fb: "\<not> hs_used_mapped_file_fallback (state h1)" using s by simp
    have "code h1 = t" using s(1) p by (simp add: same_rest_def)
    then show ?thesis
      using resolve_server_signatures_ok(3) [OF unresolved(5) d n conjunct1 [OF s(1)] fb c(1) [OF unresolved(2)] c(2)]
      by simp
  next
    case (accepted c1 h1 rs h2 more)
    note s = start_runtime_ok [OF accepted(4) ok] start_runtime_status [OF accepted(4)]
    have n: "no_hooks h1" using s same_rest_no_hooks prepare_clears(1) by blast
    have fb: "\<not> hs_used_mapped_file_fallback (state h1)" using s by simp
    have "code h1 = t" using s(1) p by (simp add: same_rest_def)
    then have "code_kept t h2"
      using resolve_server_signatures_ok(3) [OF accepted(5) d n conjunct1 [OF s(1)] fb c(1) [OF accepted(2)] c(2)]
      by simp
    then show ?thesis by (simp add: accepted(7) code_kept_def)
  qed (use k in \<open>simp_all add: code_kept_def counted_def\<close>)
qed

lemma shutdown_inv:
  assumes "host_inv refs h"
  shows "host_inv refs (snd (dwrt_host_shutdown env h))" "no_hooks (snd (dwrt_host_shutdown env h))"
    "\<not> hs_initialized (state (snd (dwrt_host_shutdown env h)))"
    "library_refs (win (snd (dwrt_host_shutdown env h))) = refs"
    "code_kept t h \<Longrightarrow> code (snd (dwrt_host_shutdown env h)) = t"
proof -
  let ?s = "hs_runtime (state h)"
  obtain s p where u: "unload (env_runtime env) ?s (win h) = (s, p)" by fastforce
  have i: "shim_inv ?s" "other_refs ?s (win h) = refs" using assms by (simp_all add: host_inv_def shim_ok_def)
  note f = unload_inv [OF i(1), of "env_runtime env" "win h", unfolded u]
  show n: "no_hooks (snd (dwrt_host_shutdown env h))"
    by (simp add: dwrt_host_shutdown_def u Let_def no_hooks_def)
  show "\<not> hs_initialized (state (snd (dwrt_host_shutdown env h)))"
    by (simp add: dwrt_host_shutdown_def u Let_def)
  show r: "library_refs (win (snd (dwrt_host_shutdown env h))) = refs"
    using f(5) i(2) by (simp add: dwrt_host_shutdown_def u Let_def fun_eq_iff)
  show "host_inv refs (snd (dwrt_host_shutdown env h))"
    using n r f(1,2) by (simp add: host_inv_def shim_ok_def other_refs_def dwrt_host_shutdown_def u Let_def fun_eq_iff)
  show "code (snd (dwrt_host_shutdown env h)) = t" if "code_kept t h"
    using that hooks_reset_chain unfolding code_kept_def
    by (fastforce simp: dwrt_host_shutdown_def u Let_def)
qed

subsection \<open>The host as a state machine\<close>

datatype host_event =
    Initialize "host_config option"
  | Set_Mount_Mask u32
  | Reset_Counters
  | Shutdown
  | Engine_Runs engine engine_code

text \<open>The engine reaches the detours only through the hooks.\<close>

fun host_step :: "'r host_env \<Rightarrow> host_event \<Rightarrow> 'r world \<Rightarrow> 'r world option" where
  "host_step env (Initialize config) w =
     map_option (\<lambda>(status, h). w\<lparr>the_host := h\<rparr>) (dwrt_host_initialize env config (the_host w))"
| "host_step env (Set_Mount_Mask b) w =
     Some (w\<lparr>the_host := snd (dwrt_host_set_probe_mount_mask env b (the_host w))\<rparr>)"
| "host_step env Reset_Counters w =
     Some (w\<lparr>the_host := snd (dwrt_host_reset_probe_counters env (the_host w))\<rparr>)"
| "host_step env Shutdown w = Some (w\<lparr>the_host := snd (dwrt_host_shutdown env (the_host w))\<rparr>)"
| "host_step env (Engine_Runs eng c) w =
     (if hs_hooks (state (the_host w)) = []
      then map_option (\<lambda>(r, m). w\<lparr>memory := m\<rparr>) (run_plain c (memory w))
      else map_option snd (run_hooked env eng c w))"

fun host_run :: "('r host_env \<times> host_event) list \<Rightarrow> 'r world \<Rightarrow> 'r world option" where
  "host_run [] w = Some w"
| "host_run ((env, e) # es) w = (case host_step env e w of None \<Rightarrow> None | Some w \<Rightarrow> host_run es w)"

definition event_ok :: "'r host_env \<times> host_event \<Rightarrow> bool" where
  "event_ok x \<longleftrightarrow> length (env_detours (fst x)) = 7"

definition event_strict :: "'r host_env \<times> host_event \<Rightarrow> bool" where
  "event_strict x \<longleftrightarrow> safe_hooks (env_hooks (fst x)) \<and>
     (case snd x of Initialize (Some c) \<Rightarrow> strict_config c | _ \<Rightarrow> True)"

lemma mask_refs [simp]:
  "library_refs (set_probe_mount_mask c b s p) = library_refs p"
  "library_refs (probe_reset_counters c s p) = library_refs p"
  by (simp_all add: set_probe_mount_mask_def probe_reset_counters_def Let_def)

lemma engine_run_inv:
  assumes "host_step env (Engine_Runs eng c) w = Some w'"
  shows "same_hooks (the_host w) (the_host w')"
  using assms run_balanced [of env eng c w]
  by (auto simp: balanced_run_def split: if_splits prod.splits)

lemma host_step_inv:
  assumes s: "host_step env e w = Some w'" and inv: "host_inv refs (the_host w)"
    and d: "length (env_detours env) = 7"
  shows "host_inv refs (the_host w')"
    and "event_strict (env, e) \<Longrightarrow> code_kept t (the_host w) \<Longrightarrow> code_kept t (the_host w')"
proof -
  have "host_inv refs (the_host w') \<and>
    (event_strict (env, e) \<longrightarrow> code_kept t (the_host w) \<longrightarrow> code_kept t (the_host w'))"
  proof (cases e)
    case (Initialize config)
    then obtain st h where i: "dwrt_host_initialize env config (the_host w) = Some (st, h)" "the_host w' = h"
      using s by auto
    have "code_kept t h" if "event_strict (env, e)" "code_kept t (the_host w)"
      using initialize_code [OF i(1) inv d that(2)] that(1) Initialize
      by (cases config) (simp_all add: event_strict_def)
    then show ?thesis using initialize_inv(1) [OF i(1) inv d] i(2) by blast
  next
    case Shutdown
    have "code_kept t (the_host w')" if "code_kept t (the_host w)"
      using s Shutdown shutdown_inv(2,5) [OF inv] that
      by (auto intro!: no_hooks_code [THEN iffD2] simp: no_hooks_def)
    then show ?thesis using s Shutdown shutdown_inv(1) [OF inv] by auto
  next
    case (Engine_Runs eng c)
    from engine_run_inv [OF s [unfolded this]] have h: "same_hooks (the_host w) (the_host w')" .
    obtain r where st: "state (the_host w') = (state (the_host w))\<lparr>hs_runtime := r\<rparr>"
      using h unfolding same_hooks_def by blast
    have "hs_hooks (state (the_host w')) = hs_hooks (state (the_host w))"
      "hs_initialized (state (the_host w')) = hs_initialized (state (the_host w))"
      "hooks_whole (the_host w') = hooks_whole (the_host w)"
      by (simp_all add: st hooks_whole_def hooks_installed_whole_def)
    then show ?thesis using h inv by (auto simp: same_hooks_def host_inv_def shim_ok_def no_hooks_def code_kept_def)
  next
    case (Set_Mount_Mask b)
    then show ?thesis
      using s inv
      by (cases "probes_available (the_host w)")
         (auto simp: dwrt_host_set_probe_mount_mask_def host_inv_def shim_ok_def other_refs_def no_hooks_def
           hooks_whole_def code_kept_def)
  next
    case Reset_Counters
    then show ?thesis
      using s inv
      by (cases "probes_available (the_host w)")
         (auto simp: dwrt_host_reset_probe_counters_def host_inv_def shim_ok_def other_refs_def no_hooks_def
           hooks_whole_def code_kept_def)
  qed
  then show "host_inv refs (the_host w')"
    "event_strict (env, e) \<Longrightarrow> code_kept t (the_host w) \<Longrightarrow> code_kept t (the_host w')" by blast+
qed

lemma host_run_inv:
  assumes "host_run es w = Some w'" "host_inv refs (the_host w)" "\<forall>x\<in>set es. event_ok x"
  shows "host_inv refs (the_host w') \<and>
    ((\<forall>x\<in>set es. event_strict x) \<longrightarrow> code_kept t (the_host w) \<longrightarrow> code_kept t (the_host w'))"
  using assms
proof (induction es arbitrary: w)
  case (Cons x es)
  obtain env e where x: "x = (env, e)" by fastforce
  obtain w1 where s: "host_step env e w = Some w1" "host_run es w1 = Some w'"
    using Cons.prems(1) by (auto simp: x split: option.splits)
  have d: "length (env_detours env) = 7" using Cons.prems(3) by (simp add: event_ok_def x)
  note step = host_step_inv [OF s(1) Cons.prems(2) d]
  show ?case using Cons.IH [OF s(2) step(1)] Cons.prems(3) step(2) by (auto simp: x)
qed simp

text \<open>A host whose globals have their initial values.\<close>

definition fresh :: "code_text \<Rightarrow> (ptr \<Rightarrow> int) \<Rightarrow> 'r world \<Rightarrow> bool" where
  "fresh t refs w \<longleftrightarrow> (\<exists>wn p. the_host w = new_host wn t p \<and> library_refs p = refs)"

lemma fresh_inv:
  assumes "fresh t refs w"
  shows "host_inv refs (the_host w)" "code_kept t (the_host w)"
  using assms new_shim_inv
  by (auto simp: fresh_def host_inv_def shim_ok_def new_host_def no_hooks_def other_refs_def
      new_shadow_shim_def intro!: no_hooks_code [THEN iffD2])

text \<open>C4. At every moment of every run the probe hooks are in place all seven, by name and in order, or none
  of them; they are in place only while the host is initialized, on the live server module and
  with the signatures checked, and without them every original is null.\<close>
theorem hooks_all_or_nothing:
  assumes "fresh t refs w" "host_run es w = Some w'" "\<forall>x\<in>set es. event_ok x"
  shows "let hs = state (the_host w') in
    hs_hooks hs = [] \<and> originals (the_host w') = no_originals \<or>
    map record_name (hs_hooks hs) = map fst probe_hooks \<and> hs_hooks_installed hs = 7 \<and>
    hs_hook_install_failures hs = 0 \<and> hs_initialized hs \<and> hs_used_live_server_module hs \<and>
    \<not> hs_used_mapped_file_fallback hs \<and> hs_signatures_checked hs"
  using host_run_inv [OF assms(2) fresh_inv(1) [OF assms(1)] assms(3)]
  by (auto simp: host_inv_def no_hooks_def hooks_whole_def hooks_installed_whole_def Let_def)

text \<open>C5. Every library the host loads it gives back: at every moment of every run it holds one reference to
  the runtime library it has loaded and none to any other, so the mapped fallback is always
  released, on the error paths too, and after a shutdown it holds none at all.\<close>
theorem host_library_balance:
  assumes "fresh t refs w" "host_run es w = Some w'" "\<forall>x\<in>set es. event_ok x"
  shows "library_refs (win (the_host w')) k =
      refs k + of_bool (k = shim_module (hs_runtime (state (the_host w'))) \<and> k \<noteq> nullptr) \<and>
    library_refs (win (snd (dwrt_host_shutdown env (the_host w')))) = refs"
proof -
  have i: "host_inv refs (the_host w')"
    using host_run_inv [OF assms(2) fresh_inv(1) [OF assms(1)] assms(3)] by blast
  then have "other_refs (hs_runtime (state (the_host w'))) (win (the_host w')) = refs"
    by (simp add: host_inv_def shim_ok_def)
  then show ?thesis using shutdown_inv(4) [OF i] by (auto simp: other_refs_def)
qed

text \<open>C3. When hooks are only installed with signatures required and no drift allowed, and SafetyHook
  replaces no more bytes than it saved and moves at most 28, the host never leaves a trace in the code
  of the server: whenever it is not initialized, as after every shutdown and every failed
  initialization, every code byte is the original one.  Without the strict flags two hooks may share
  a target, and nothing is claimed.\<close>
theorem code_restored:
  assumes "fresh t refs w" "host_run es w = Some w'" "\<forall>x\<in>set es. event_ok x \<and> event_strict x"
    and "\<not> hs_initialized (state (the_host w'))"
  shows "code (the_host w') = t"
proof -
  have ok: "\<forall>x\<in>set es. event_ok x" and strict: "\<forall>x\<in>set es. event_strict x" using assms(3) by auto
  note run = host_run_inv [OF assms(2) fresh_inv(1) [OF assms(1)] ok, of t]
  have "no_hooks (the_host w')" using run assms(4) by (auto simp: host_inv_def)
  moreover have "code_kept t (the_host w')" using run strict fresh_inv(2) [OF assms(1)] by blast
  ultimately show ?thesis using no_hooks_code by (auto simp: no_hooks_def)
qed

text \<open>C16. The status of \<open>dwrt_host_initialize\<close> and what it leaves: a null or foreign configuration and a
  second call are rejected and change nothing but the test points; every other failure leaves the
  host not initialized and without hooks, except that of writing the summary, after which the host
  is initialized all the same.\<close>
theorem initialize_status:
  assumes "dwrt_host_initialize env config h = Some (status, h')" "host_inv refs h" "length (env_detours env) = 7"
  shows "(status = 1 \<longleftrightarrow> \<not> valid_config config) \<and>
    (status = 2 \<longleftrightarrow> valid_config config \<and> hs_initialized (state h)) \<and>
    (status \<in> {1, 2} \<longrightarrow> h' = h\<lparr>testpoints := testpoints h'\<rparr>) \<and>
    (status \<in> {0, 9} \<longrightarrow> hs_initialized (state h')) \<and>
    (status \<notin> {0, 1, 2, 9} \<longrightarrow> status \<in> {3, 4, 5, 6, 7, 8, 10} \<and> \<not> hs_initialized (state h') \<and> no_hooks h')"
  using assms(1)
proof (cases rule: initialize_cases)
  case (no_runtime c)
  then show ?thesis
    using start_runtime_status [OF no_runtime(5)] initialize_inv(2) [OF assms] by auto
next
  case (unresolved c h1)
  then show ?thesis using resolve_status [OF unresolved(5)] initialize_inv(2) [OF assms] by auto
next
  case (accepted c h1 rs h2 more)
  then show ?thesis using initialize_inv(3) [OF assms] by auto
qed (auto simp: counted_def)

subsection \<open>A run\<close>

text \<open>
  The process of \<open>Live_Host\<close>: the host is initialized with every requirement and with hooks, a second
  initialization is rejected, and the host is shut down.
\<close>

definition live_world :: "runtime_heap world" where
  "live_world = \<lparr>the_host = live_host, memory = boss_memory, classifier_scope = empty_classifier_scope\<rparr>"

definition live_event :: "host_event \<Rightarrow> runtime_heap host_env \<times> host_event" where
  "live_event e = (live_env live_windows, e)"

definition live_start :: "(runtime_heap host_env \<times> host_event) list" where
  "live_start = [live_event (Initialize (Some (live_config 19)))]"

definition live_run :: "(runtime_heap host_env \<times> host_event) list" where
  "live_run = live_start @ map live_event [Initialize (Some (live_config 19)), Reset_Counters, Shutdown]"

lemma live_fresh: "fresh live_text (\<lambda>h. 0) live_world"
  unfolding fresh_def
  by (intro exI [of _ live_windows] exI [of _ "example_process Map.empty"])
     (simp add: live_world_def live_host_def example_process_def)

lemma live_started:
  "\<exists>w'. host_run live_start live_world = Some w' \<and> hs_initialized (state (the_host w')) \<and>
     hs_hooks (state (the_host w')) \<noteq> []"
proof -
  obtain h where i: "dwrt_host_initialize (live_env live_windows) (Some (live_config 19)) live_host = Some (0, h)"
    "hooks_as_asked (live_config 19) h" using live_host_initialize by blast
  have "host_inv (\<lambda>h. 0) live_host" using fresh_inv(1) [OF live_fresh] by (simp add: live_world_def)
  from initialize_inv(3) [OF i(1) this] have "hs_initialized (state h)" by simp
  moreover have "map record_name (hs_hooks (state h)) = map fst probe_hooks" using i(2) by (simp add: hooks_as_asked_def)
  then have "length (hs_hooks (state h)) = 7" by (metis length_map length_probe_hooks)
  ultimately show ?thesis using i(1) by (auto simp: live_start_def live_event_def live_world_def)
qed

lemma host_run_append: "host_run (es @ fs) w = (case host_run es w of None \<Rightarrow> None | Some w \<Rightarrow> host_run fs w)"
  by (induction es w rule: host_run.induct) (auto split: option.splits)

lemma live_ran:
  "\<exists>w'. host_run live_run live_world = Some w' \<and> \<not> hs_initialized (state (the_host w'))"
proof -
  let ?e = "live_env live_windows"
  obtain w1 where s: "host_run live_start live_world = Some w1" and up: "hs_initialized (state (the_host w1))"
    using live_started by blast
  have "\<exists>h. dwrt_host_initialize ?e (Some (live_config 19)) (the_host w1) = Some (2, h)"
    using up by (simp add: dwrt_host_initialize_def live_config_def DWRT_HOST_ABI_VERSION_def Let_def)
  then obtain h where "dwrt_host_initialize ?e (Some (live_config 19)) (the_host w1) = Some (2, h)" by blast
  then show ?thesis
    using s by (simp add: live_run_def live_event_def host_run_append)
      (simp add: dwrt_host_shutdown_def Let_def split: prod.splits)
qed

lemma live_events_ok:
  "\<forall>x\<in>set live_start. event_ok x" "\<forall>x\<in>set live_run. event_ok x \<and> event_strict x"
proof -
  have "safe_hooks simple_hooks"
    by (auto simp: safe_hooks_def setup_sizes_def setup_bounded_def simple_hooks_def hook_create_def)
  then show "\<forall>x\<in>set live_run. event_ok x \<and> event_strict x"
    by (simp add: live_run_def live_start_def live_event_def event_ok_def event_strict_def strict_config_def)
qed (simp add: live_start_def live_event_def event_ok_def)

theorem hooks_all_or_nothing_witness:
  "\<exists>w'. host_run live_start live_world = Some w' \<and> map record_name (hs_hooks (state (the_host w'))) = map fst probe_hooks \<and>
     hs_used_live_server_module (state (the_host w')) \<and> hs_signatures_checked (state (the_host w'))"
proof -
  obtain w' where r: "host_run live_start live_world = Some w'" "hs_hooks (state (the_host w')) \<noteq> []"
    using live_started by blast
  from hooks_all_or_nothing [OF live_fresh r(1) live_events_ok(1)] r show ?thesis by (simp add: Let_def)
qed

theorem host_library_balance_witness:
  "\<exists>w'. host_run live_start live_world = Some w' \<and> hs_hooks (state (the_host w')) \<noteq> [] \<and>
     library_refs (win (snd (dwrt_host_shutdown (live_env live_windows) (the_host w')))) = (\<lambda>h. 0)"
proof -
  obtain w' where r: "host_run live_start live_world = Some w'" "hs_hooks (state (the_host w')) \<noteq> []"
    using live_started by blast
  from host_library_balance [OF live_fresh r(1) live_events_ok(1)] r show ?thesis by blast
qed

theorem code_restored_witness:
  "\<exists>w'. host_run live_run live_world = Some w' \<and> code (the_host w') = live_text"
proof -
  obtain w' where r: "host_run live_run live_world = Some w'" "\<not> hs_initialized (state (the_host w'))"
    using live_ran by blast
  from code_restored [OF live_fresh r(1) live_events_ok(2) r(2)] r(1) show ?thesis by blast
qed

theorem initialize_status_witness:
  "\<exists>h'. dwrt_host_initialize (live_env live_windows) (Some (live_config 19)) live_host = Some (0, h') \<and>
     hs_initialized (state h') \<and> hs_hooks (state h') \<noteq> []"
proof -
  obtain h' where i: "dwrt_host_initialize (live_env live_windows) (Some (live_config 19)) live_host = Some (0, h')"
    "hooks_as_asked (live_config 19) h'" using live_host_initialize by blast
  have "host_inv (\<lambda>h. 0) live_host" using fresh_inv(1) [OF live_fresh] by (simp add: live_world_def)
  from initialize_status [OF i(1) this] i show ?thesis by (auto simp: hooks_as_asked_def probe_hooks_def)
qed

end
