(* ===== verification/Target_Probe_Counters.thy ===== *)
theory Target_Probe_Counters
  imports Target_Probe
begin

section \<open>The books of the target probe\<close>

text \<open>
  Every call counted by an operation of the target probe is accounted for by exactly one of its
  outcomes, and every histogram together with its overflow counter adds up to the number of
  recorded values.  \<open>tp_books\<close> lists the differences; counters are 64 bit words, so the sums are
  modulo their width, and the fetch-and-add of the source cannot break them.
\<close>

definition tp_books :: "target_probe_state \<Rightarrow> u64 list" where
  "tp_books st =
     [tp_caller_calls st - (tp_caller_allowed st + tp_caller_denied st),
      tp_secondary_calls st - (tp_secondary_allowed st + tp_secondary_denied st),
      tp_classifier_spoof_attempts st - (tp_classifier_spoof_applied st + tp_classifier_spoof_skipped st),
      tp_bitset_allow_attempts st - (tp_bitset_allow_applied st + tp_bitset_allow_failures st),
      tp_global_neutralize_attempts st
        - (tp_global_neutralize_applied st + tp_global_neutralize_already st + tp_global_neutralize_null st
           + tp_global_neutralize_invalid_team st + tp_global_neutralize_write_failures st),
      sum_list (tp_global_neutralize_original_team_counts st) + tp_global_neutralize_original_team_overflow st
        - (tp_global_neutralize_applied st + tp_global_neutralize_already st
           + tp_global_neutralize_write_failures st),
      tp_filter_calls st - (sum_list (tp_filter_unit_type_counts st) + tp_filter_unit_type_overflow st),
      tp_damage_victim_calls st
        - (sum_list (tp_damage_victim_unit_type_counts st) + tp_damage_victim_unit_type_overflow st),
      tp_damage_victim_calls st - (tp_damage_inflictor_handle_valid st + tp_damage_inflictor_handle_invalid st),
      tp_damage_victim_calls st - (tp_damage_attacker_handle_valid st + tp_damage_attacker_handle_invalid st),
      tp_damage_attacker_handle_valid st
        - (sum_list (tp_damage_attacker_unit_type_counts st) + tp_damage_attacker_unit_type_overflow st),
      tp_damage_attacker_handle_valid st
        - (tp_damage_attacker_same_team st + tp_damage_attacker_opposing_team st
           + tp_damage_attacker_other_team st),
      tp_damage_attacker_same_team st
        - (sum_list (tp_damage_same_team_victim_unit_type_counts st)
           + tp_damage_same_team_victim_unit_type_overflow st)]"

definition tp_balanced :: "target_probe_state \<Rightarrow> bool" where
  "tp_balanced st \<longleftrightarrow> set (tp_books st) \<subseteq> {0}"

lemma sum_list_zero_counts [simp]: "sum_list (zero_counts xs) = 0"
  by (induction xs) (simp_all add: zero_counts_def)

lemma reset_balanced [invariants]: "tp_balanced (reset_target_probe_counters st)"
  by (simp add: tp_balanced_def tp_books_def reset_target_probe_counters_def)

lemma configure_books [counting]: "tp_books (configure_target_probe_from_environment env st) = tp_books st"
  by (simp add: tp_books_def configure_target_probe_from_environment_def)

subsection \<open>Histograms\<close>

lemmas histogram_defs = record_unit_type_def record_damage_unit_type_def
  record_damage_attacker_unit_type_def record_same_team_victim_unit_type_def
  record_global_neutralize_original_team_def

subsection \<open>Each operation keeps the books\<close>

lemma neutralize_books [counting]: "tp_books (fst (maybe_global_neutralize_entity st m e)) = tp_books st"
  by (auto simp: tp_books_def maybe_global_neutralize_entity_def histogram_defs sum_list_bump Let_def split_def)

lemma observe_filter_books [counting]: "tp_books (observe_filter a b u n s st) = tp_books st"
  by (simp add: tp_books_def observe_filter_def histogram_defs sum_list_bump Let_def)

lemma spoof_source_books [counting]: "tp_books (fst (spoof_source st m s t team same)) = tp_books st"
  by (simp add: tp_books_def spoof_source_def Let_def split_def)

lemma spoof_target_books [counting]: "tp_books (fst (spoof_target st m s t team same)) = tp_books st"
  by (simp add: tp_books_def spoof_target_def Let_def split_def)

lemma neutralize_books_eq: "maybe_global_neutralize_entity st m e = (st', m') \<Longrightarrow> tp_books st' = tp_books st"
  by (metis neutralize_books fst_conv)

lemma begin_target_filter_books [counting]:
  assumes "begin_target_filter uf st m source target recursive = Some (st1, m1, sc)"
  shows "tp_books st1 = tp_books st"
proof (cases "tp_enabled st = 0 \<or> recursive")
  case True
  with assms show ?thesis by (simp add: begin_target_filter_def)
next
  case False
  with assms show ?thesis
    by (auto simp: begin_target_filter_def Let_def split_def counting split: option.splits)
qed

lemma finish_target_filter_books [counting]:
  "tp_books (fst (snd (finish_target_filter st m sc r))) = tp_books st"
  by (simp add: tp_books_def finish_target_filter_def force_filter_result_def record_result_common_def
      restore_source_def restore_target_def Let_def split_def)

lemma force_caller_books [counting]: "tp_books (snd (force_caller_result st a b r)) = tp_books st"
  by (simp add: tp_books_def force_caller_result_def)

lemma caller_counts_books [counting]:
  "tp_books (tp_caller_unit_0x1a_bypass_candidates_update f st) = tp_books st"
  "tp_books (inc tp_caller_allowed_update (inc tp_caller_calls_update st)) = tp_books st"
  "tp_books (inc tp_caller_denied_update (inc tp_caller_calls_update st)) = tp_books st"
  by (simp_all add: tp_books_def)

lemma record_target_filter_caller_books [counting]:
  assumes "record_target_filter_caller uf st m source target result = Some (r, st', m')"
  shows "tp_books st' = tp_books st"
  using assms
  by (auto simp: record_target_filter_caller_def Let_def split_def counting split: option.splits if_splits)

lemma secondary_counts_books [counting]:
  "tp_books (inc tp_secondary_allowed_update (inc tp_secondary_calls_update st)) = tp_books st"
  "tp_books (inc tp_secondary_denied_update (inc tp_secondary_calls_update st)) = tp_books st"
  "tp_books (inc tp_secondary_forced_allowed_update st) = tp_books st"
  by (simp_all add: tp_books_def)

lemma record_secondary_target_gate_books [counting]:
  "tp_books (fst (snd (record_secondary_target_gate st m a b c r))) = tp_books st"
  by (simp add: record_secondary_target_gate_def Let_def split_def counting if_distrib [of snd])

lemma maybe_allow_target_bitset_books [counting]:
  "tp_books (fst (snd (maybe_allow_target_bitset st m sc target bitset classifier))) = tp_books st"
  by (simp add: tp_books_def maybe_allow_target_bitset_def Let_def split: option.split)

lemma spoof_classifier_books [counting]:
  "tp_books (fst (spoof_classifier st m cs target out b)) = tp_books st"
  by (simp add: tp_books_def spoof_classifier_def Let_def split: option.split)

lemma classifier_counts_books [counting]:
  "tp_books (st\<lparr>tp_last_classifier_original_bit := x, tp_last_classifier_final_bit := y\<rparr>) = tp_books st"
  "tp_books (inc_if b tp_classifier_invalid_update st) = tp_books st"
  "tp_books (inc tp_classifier_calls_update st) = tp_books st"
  "tp_books (inc tp_classifier_invalid_update st) = tp_books st"
  by (simp_all add: tp_books_def)

lemma finish_target_identity_classifier_books [counting]:
  assumes "finish_target_identity_classifier st m cs target out = Some (st', m')"
  shows "tp_books st' = tp_books st"
  using assms
  by (auto simp: finish_target_identity_classifier_def Let_def split_def counting
      split: option.splits if_splits)

text \<open>
  The damage counters move together.  Each part of the operation shifts some of the books, and
  the shifts cancel: \<open>shift k d\<close> adds \<open>d\<close> to book \<open>k\<close>.
\<close>

definition shift :: "nat \<Rightarrow> u64 \<Rightarrow> u64 list \<Rightarrow> u64 list" where
  "shift k d xs = xs[k := xs ! k + d]"

lemma attacker_valid_books:
  "tp_books (inc tp_damage_attacker_handle_valid_update st) = shift 9 (- 1) (shift 10 1 (shift 11 1 (tp_books st)))"
  by (simp add: tp_books_def shift_def)

lemma attacker_type_books:
  "tp_books (record_damage_attacker_unit_type t st) = shift 10 (- 1) (tp_books st)"
  by (simp add: tp_books_def shift_def record_damage_attacker_unit_type_def sum_list_bump)

lemma same_team_books:
  "tp_books (record_same_team_victim_unit_type t (inc tp_damage_attacker_same_team_update st))
     = shift 11 (- 1) (tp_books st)"
  by (simp add: tp_books_def shift_def record_same_team_victim_unit_type_def sum_list_bump)

lemma other_team_books:
  "tp_books (inc tp_damage_attacker_other_team_update st) = shift 11 (- 1) (tp_books st)"
  "tp_books (inc tp_damage_attacker_opposing_team_update st) = shift 11 (- 1) (tp_books st)"
  "tp_books (tp_damage_attacker_same_team_objective_update f st) = tp_books st"
  "tp_books (tp_damage_attacker_self_update f st) = tp_books st"
  "tp_books (st\<lparr>tp_last_damage_attacker_team := x, tp_last_damage_attacker_unit_type := y\<rparr>) = tp_books st"
  "tp_books (st\<lparr>tp_last_damage_attacker_handle := v, tp_last_damage_inflictor_handle := w\<rparr>) = tp_books st"
  "tp_books (inc tp_damage_attacker_handle_invalid_update st) = shift 9 (- 1) (tp_books st)"
  by (simp_all add: tp_books_def shift_def)

lemma classify_attacker_books:
  "tp_books (classify_attacker_team a v u ov st) = shift 11 (- 1) (tp_books st)"
  by (simp add: classify_attacker_team_def same_team_books other_team_books)

lemma shift_simps:
  "j \<noteq> k \<Longrightarrow> shift j d (shift k e xs) = shift k e (shift j d xs)"
  "k < length xs \<Longrightarrow> shift k d (shift k e xs) = shift k (d + e) xs"
  "k < length xs \<Longrightarrow> shift k 0 xs = xs"
  by (simp_all add: shift_def list_update_swap ac_simps)

lemma length_shift [simp]: "length (shift k d xs) = length xs"
  by (simp add: shift_def)

lemma length_tp_books [simp]: "length (tp_books st) = 13"
  by (simp add: tp_books_def)

lemma observe_attacker_books:
  "tp_books (observe_attacker uf m attacker victim vt vu ov st) = shift 9 (- 1) (tp_books st)"
  by (simp add: observe_attacker_def Let_def classify_attacker_books attacker_type_books other_team_books
      attacker_valid_books shift_simps)

lemma observe_inflictor_books: "tp_books (observe_inflictor valid st) = shift 8 (- 1) (tp_books st)"
  by (simp add: tp_books_def shift_def observe_inflictor_def)

lemma observe_victim_books: "tp_books (observe_victim team u n st) = shift 8 1 (shift 9 1 (tp_books st))"
  by (simp add: tp_books_def shift_def observe_victim_def record_damage_unit_type_def sum_list_bump Let_def)

lemma victim_counts_books [counting]:
  "tp_books (observe_attacker uf m attacker victim vt vu ov
     (observe_inflictor valid
       ((observe_victim team u n st)\<lparr>tp_last_damage_attacker_handle := x, tp_last_damage_inflictor_handle := y\<rparr>)))
   = tp_books st"
  by (simp add: observe_attacker_books observe_inflictor_books observe_victim_books other_team_books shift_simps)

lemma record_damage_victim_books [counting]:
  assumes "record_damage_victim uf server st m victim info recursive = Some (st', m')"
  shows "tp_books st' = tp_books st"
  using assms
  by (auto simp: record_damage_victim_def Let_def split_def counting split: option.splits if_splits)

subsection \<open>Every history\<close>

text \<open>
  The state machine of the probe: each rule is one call of an operation, with any arguments, on a
  memory the engine may have changed in any way since the last call.
\<close>

inductive tp_step :: "target_probe_state \<Rightarrow> target_probe_state \<Rightarrow> bool" where
  configure: "tp_step st (configure_target_probe_from_environment env st)"
| reset: "tp_step st (reset_target_probe_counters st)"
| neutralize: "tp_step st (fst (maybe_global_neutralize_entity st m entity))"
| begin_filter: "begin_target_filter uf st m source target recursive = Some (st', m', sc) \<Longrightarrow> tp_step st st'"
| finish_filter: "tp_step st (fst (snd (finish_target_filter st m sc result)))"
| allow_bitset: "tp_step st (fst (snd (maybe_allow_target_bitset st m sc target bitset classifier)))"
| finish_classifier: "finish_target_identity_classifier st m cs target out = Some (st', m') \<Longrightarrow> tp_step st st'"
| damage: "record_damage_victim uf server st m victim info recursive = Some (st', m') \<Longrightarrow> tp_step st st'"
| filter_caller: "record_target_filter_caller uf st m source target result = Some (r, st', m') \<Longrightarrow> tp_step st st'"
| secondary: "tp_step st (fst (snd (record_secondary_target_gate st m source attacker target result)))"

lemma tp_step_balanced: "tp_step st st' \<Longrightarrow> tp_balanced st \<Longrightarrow> tp_balanced st'"
proof (induction rule: tp_step.induct)
  case (reset st)
  show ?case by (rule reset_balanced)
qed (simp_all add: tp_balanced_def counting)

lemma initial_target_probe_balanced: "tp_balanced initial_target_probe"
  by (simp add: tp_balanced_def tp_books_def initial_target_probe_def sum_list_replicate)

lemma tp_reachable_balanced: "tp_step\<^sup>*\<^sup>* initial_target_probe st \<Longrightarrow> tp_balanced st"
  by (induction rule: rtranclp_induct) (auto simp: initial_target_probe_balanced tp_step_balanced)

text \<open>C26. In every history of configurations, resets and calls, with any memory contents in between,
  the counters stay consistent: each caller and secondary gate call was allowed or denied, each
  bitset, classifier and neutralisation attempt has one outcome, every damage victim has a valid or
  an invalid attacker handle with one team relation, and each histogram adds up.\<close>

theorem target_probe_books_balanced:
  assumes "tp_step\<^sup>*\<^sup>* initial_target_probe st"
  shows "tp_caller_calls st = tp_caller_allowed st + tp_caller_denied st
    \<and> tp_secondary_calls st = tp_secondary_allowed st + tp_secondary_denied st
    \<and> tp_bitset_allow_attempts st = tp_bitset_allow_applied st + tp_bitset_allow_failures st
    \<and> tp_classifier_spoof_attempts st = tp_classifier_spoof_applied st + tp_classifier_spoof_skipped st
    \<and> tp_global_neutralize_attempts st =
      tp_global_neutralize_applied st + tp_global_neutralize_already st + tp_global_neutralize_null st
      + tp_global_neutralize_invalid_team st + tp_global_neutralize_write_failures st
    \<and> tp_damage_victim_calls st = tp_damage_attacker_handle_valid st + tp_damage_attacker_handle_invalid st
    \<and> tp_damage_attacker_handle_valid st = tp_damage_attacker_same_team st
      + tp_damage_attacker_opposing_team st + tp_damage_attacker_other_team st
    \<and> tp_filter_calls st = sum_list (tp_filter_unit_type_counts st) + tp_filter_unit_type_overflow st
    \<and> tp_damage_victim_calls st =
      sum_list (tp_damage_victim_unit_type_counts st) + tp_damage_victim_unit_type_overflow st"
proof -
  have "set (tp_books st) \<subseteq> {0}" using tp_reachable_balanced [OF assms] by (simp only: tp_balanced_def)
  then show ?thesis
    unfolding tp_books_def list.set insert_subset singleton_iff right_minus_eq
    by (elim conjE) (intro conjI; assumption)
qed

theorem target_probe_books_balanced_witness:
  "\<exists>st. tp_step\<^sup>*\<^sup>* initial_target_probe st \<and> tp_secondary_calls st = 1
     \<and> tp_secondary_calls st = tp_secondary_allowed st + tp_secondary_denied st"
proof -
  define st where "st = fst (snd (record_secondary_target_gate initial_target_probe
      \<lparr>mem_byte = (\<lambda>_. None), mem_writable = (\<lambda>_. False)\<rparr> 0 0 0 False))"
  have step: "tp_step\<^sup>*\<^sup>* initial_target_probe st"
    unfolding st_def by (intro r_into_rtranclp tp_step.secondary)
  have "tp_secondary_calls st = 1"
    by (simp add: st_def record_secondary_target_gate_def initial_target_probe_def Let_def
        maybe_global_neutralize_entity_def force_secondary_allow_enabled_def)
  then show ?thesis using target_probe_books_balanced [OF step] step by blast
qed

end
