(* ===== verification/Target_Probe_Properties.thy ===== *)
theory Target_Probe_Properties
  imports Target_Filter_Scope Target_Probe_Counters
begin

section \<open>Properties of the target probe\<close>

text \<open>
  The properties of the target probe as a whole, over the contract of its filter scope, its books
  and the accesses of its handlers, each with a concrete instance.
\<close>

subsection \<open>A concrete server memory\<close>

text \<open>
  Two entities of team 2, at 0x1000 and 0x2000, with writable team bytes and no identity.
\<close>

definition two_entities :: engine_memory where
  "two_entities = \<lparr>mem_byte = (\<lambda>a.
      if a = 0x133c \<or> a = 0x233c then Some 2
      else if 0x1010 \<le> a \<and> a < 0x1018 \<or> 0x2010 \<le> a \<and> a < 0x2018 then Some 0
      else None), mem_writable = (\<lambda>a. a = 0x133c \<or> a = 0x233c)\<rparr>"

definition no_unit_type :: unit_type_fn where
  "no_unit_type m fn entity = None"

definition both_spoofs :: target_probe_state where
  "both_spoofs = initial_target_probe\<lparr>tp_source_team_spoof_enabled := 1, tp_target_team_spoof_enabled := 1\<rparr>"

lemma both_spoofs_simps [simp]:
  "tp_enabled both_spoofs = 1" "tp_source_team_spoof_enabled both_spoofs = 1"
  "tp_target_team_spoof_enabled both_spoofs = 1" "tp_target_team_spoof_team both_spoofs = invalid32"
  "no_neutralize both_spoofs" "tp_global_neutralize_enabled both_spoofs = 0"
  "tp_open_spoofs both_spoofs = 0"
  by (simp_all add: both_spoofs_def initial_target_probe_def no_neutralize_def tp_open_spoofs_def)

lemma two_entities_reads [simp]:
  "load8 two_entities 0x133c = Some 2" "load8 two_entities 0x233c = Some 2"
  "safe_read_team two_entities 0x1000 = (True, 2)" "safe_read_team two_entities 0x2000 = (True, 2)"
  "load64 two_entities 0x2010 = Some 0" "load64 two_entities 0x2000 = None"
  "safe_unit_type uf two_entities 0x2000 = invalid32"
  "designer_name_for two_entities 0x2000 = Some []"
  by (simp_all add: two_entities_def load8_def safe_read_team_def team_field_def load64_def
      load_bytes_numeral safe_unit_type_def designer_name_for_def safe_read_identity_def)

lemma two_entities_filter:
  "\<exists>st1 m1 sc. begin_target_filter no_unit_type both_spoofs two_entities 0x1000 0x2000 False = Some (st1, m1, sc)
     \<and> load8 m1 0x133c = Some 3 \<and> load8 m1 0x233c = Some 3 \<and> scope_weight sc = 2"
proof -
  obtain m1 where m1: "store8 two_entities 0x133c 3 = Some m1"
    by (simp add: store8_def can_write_def two_entities_def)
  have "can_write m1 0x233c"
    using can_write_store8 [OF m1] by (simp add: can_write_def two_entities_def)
  then obtain m2 where m2: "store8 m1 0x233c 3 = Some m2"
    using store8_eq_None_iff [of m1 "0x233c" 3] by auto
  have l: "load8 m2 0x133c = Some 3" "load8 m2 0x233c = Some 3"
    using load8_store8_same [OF m1] load8_store8_other [OF m2, of "0x133c"] load8_store8_same [OF m2] by auto
  have w: "safe_write_team two_entities 0x1000 3 = (True, m1)" "safe_write_team m1 0x2000 3 = (True, m2)"
    using m1 m2 by (simp_all add: safe_write_team_def team_field_def)
  have cfg: "tp_source_team_spoof_enabled (observe_filter a b u n s st) = tp_source_team_spoof_enabled st"
    "tp_target_team_spoof_enabled (observe_filter a b u n s st) = tp_target_team_spoof_enabled st"
    "tp_target_team_spoof_team (observe_filter a b u n s st) = tp_target_team_spoof_team st" for a b u n s st
    by (simp_all add: observe_filter_def record_unit_type_def Let_def)
  show ?thesis
    using l
    by (simp add: begin_target_filter_def Let_def spoof_source_def spoof_target_def cfg w tp_opposing_team_def
        configured_target_spoof_team_def scope_weight_def)
qed

subsection \<open>The filter scope\<close>

text \<open>C10. Whatever the filter spoofed, finishing it puts the memory back to what it was after the
  configured neutralisation of source and target, and to exactly what it was when that is off.\<close>

theorem target_filter_restores_memory:
  assumes "begin_target_filter uf st m source target recursive = Some (st1, m1, sc)"
  shows "snd (snd (finish_target_filter st' m1 sc result)) = filter_memory st m source target recursive"
  using assms by (rule finish_undoes_begin)

theorem target_filter_restores_memory_witness:
  "\<exists>st1 m1 sc. begin_target_filter no_unit_type both_spoofs two_entities 0x1000 0x2000 False = Some (st1, m1, sc)
     \<and> load8 m1 0x133c = Some 3 \<and> load8 m1 0x233c = Some 3
     \<and> snd (snd (finish_target_filter st1 m1 sc True)) = two_entities"
proof -
  obtain st1 m1 sc
    where b: "begin_target_filter no_unit_type both_spoofs two_entities 0x1000 0x2000 False = Some (st1, m1, sc)"
    and l: "load8 m1 0x133c = Some 3" "load8 m1 0x233c = Some 3"
    using two_entities_filter by blast
  have "filter_memory both_spoofs two_entities 0x1000 0x2000 False = two_entities"
    by (simp add: filter_memory_def neutralize_pair_def)
  with target_filter_restores_memory [OF b, of st1 True] b l show ?thesis by auto
qed

text \<open>C11. Filter calls nested in each other to any depth leave the memory as it was and no spoof
  open, as long as the global neutralisation is off.\<close>

theorem target_filter_nesting_undone:
  assumes "run_scoped (tf_open uf) tf_close call (st, m) = Some (st', m')" "tp_global_neutralize_enabled st = 0"
  shows "m' = m \<and> tp_open_spoofs st' = tp_open_spoofs st"
  using tf.run_undone [OF assms(1)] assms(2) by (simp add: tf.undone_def no_neutralize_def)

theorem target_filter_nesting_undone_witness:
  "\<exists>st' m'. run_scoped (tf_open no_unit_type) tf_close
       (Scoped (0x1000, 0x2000, False, True) [Scoped (0x1000, 0x2000, True, False) []]) (both_spoofs, two_entities)
       = Some (st', m') \<and> m' = two_entities \<and> tp_open_spoofs st' = 0"
proof -
  obtain st1 m1 sc
    where b: "begin_target_filter no_unit_type both_spoofs two_entities 0x1000 0x2000 False = Some (st1, m1, sc)"
    using two_entities_filter by blast
  have e: "begin_target_filter no_unit_type st1 m1 0x1000 0x2000 True = Some (st1, m1, empty_target_scope)"
    by (simp add: begin_target_filter_def)
  obtain st2 m2 where e1: "snd (finish_target_filter st1 m1 empty_target_scope False) = (st2, m2)" by fastforce
  obtain st' m' where e2: "snd (finish_target_filter st2 m2 sc True) = (st', m')" by fastforce
  have run: "run_scoped (tf_open no_unit_type) tf_close
       (Scoped (0x1000, 0x2000, False, True) [Scoped (0x1000, 0x2000, True, False) []]) (both_spoofs, two_entities)
       = Some (st', m')"
    by (simp add: tf_open_def tf_close_def b e e1 e2)
  with target_filter_nesting_undone [OF run] show ?thesis by auto
qed

text \<open>The filter answers what the engine's filter answered, or true when the scope's team or
  objective is one that the configuration forces; the probe never turns an allowance into a denial.\<close>

theorem target_filter_result:
  "fst (finish_target_filter st m sc result) \<longleftrightarrow>
     result
     \<or> ts_same_team sc \<noteq> 0 \<and> force_filter_same_team_allow_enabled st
     \<or> ts_target_objective sc \<noteq> 0 \<and> force_filter_objective_allow_enabled st"
  by (auto simp: finish_target_filter_def force_filter_result_def Let_def split_def)

text \<open>C25. An enabled, direct filter call faults exactly when the target has an identity pointer whose
  designer name field cannot be read: the one access that is not protected.\<close>

theorem begin_target_filter_fault_iff:
  "begin_target_filter uf st m source target recursive = None \<longleftrightarrow>
     tp_enabled st \<noteq> 0 \<and> \<not> recursive \<and> target \<noteq> nullptr \<and>
     (\<exists>identity. identity \<noteq> nullptr
        \<and> load64 (filter_memory st m source target recursive) (target + 0x10) = Some identity
        \<and> load64 (filter_memory st m source target recursive) (identity + 0x20) = None)"
proof (cases "tp_enabled st = 0 \<or> recursive")
  case True
  then show ?thesis by (auto simp: begin_target_filter_def)
next
  case False
  obtain sta ma where a: "maybe_global_neutralize_entity st m source = (sta, ma)" by fastforce
  obtain stb mb where b: "maybe_global_neutralize_entity sta ma target = (stb, mb)" by fastforce
  have "begin_target_filter uf st m source target recursive = None \<longleftrightarrow> designer_name_for mb target = None"
    using False by (auto simp: begin_target_filter_def a b Let_def split_def split: option.split)
  also have "\<dots> \<longleftrightarrow> target \<noteq> nullptr \<and> (\<exists>identity. identity \<noteq> nullptr
      \<and> load64 mb (target + 0x10) = Some identity \<and> load64 mb (identity + 0x20) = None)"
    by (auto simp: designer_name_for_def safe_read_identity_def designer_name_field_def split: option.splits)
  finally show ?thesis using False by (simp add: filter_memory_def neutralize_pair_def a b)
qed

subsection \<open>Neutralisation\<close>

text \<open>An entity whose team byte can be read and written has the configured neutral team after
  \<open>maybe_global_neutralize_entity\<close>, and no other byte of the memory has changed.\<close>

theorem neutralize_sets_team:
  assumes "tp_enabled st \<noteq> 0" "tp_global_neutralize_enabled st \<noteq> 0" "tp_global_neutralize_team st \<le> 0xff"
    and "entity \<noteq> nullptr" "can_write m (team_field entity)"
  shows "load8 (snd (maybe_global_neutralize_entity st m entity)) (team_field entity)
           = Some (ucast (tp_global_neutralize_team st))
     \<and> (\<forall>a. a \<noteq> team_field entity \<longrightarrow>
           load8 (snd (maybe_global_neutralize_entity st m entity)) a = load8 m a)"
proof -
  obtain t where t: "load8 m (team_field entity) = Some t"
    using assms(5) by (auto simp: can_write_def load8_def)
  obtain m' where m': "store8 m (team_field entity) (ucast (tp_global_neutralize_team st)) = Some m'"
    using assms(5) store8_eq_None_iff by fastforce
  have read: "safe_read_team m entity = (True, ucast t)" using t assms(4) by (simp add: safe_read_team_def)
  show ?thesis
  proof (cases "ucast t = tp_global_neutralize_team st")
    case True
    then have "snd (maybe_global_neutralize_entity st m entity) = m"
      using assms by (simp add: maybe_global_neutralize_entity_def read Let_def
          record_global_neutralize_original_team_def)
    moreover have "ucast (tp_global_neutralize_team st) = t"
      unfolding True [symmetric] by (rule bit_word_eqI) (auto simp: bit_simps)
    ultimately show ?thesis using t by simp
  next
    case False
    then have "snd (maybe_global_neutralize_entity st m entity) = m'"
      using assms m' by (simp add: maybe_global_neutralize_entity_def read Let_def
          record_global_neutralize_original_team_def safe_write_team_def)
    then show ?thesis using load8_store8_same [OF m'] load8_store8_other [OF m'] by simp
  qed
qed

theorem neutralize_sets_team_witness:
  "load8 (snd (maybe_global_neutralize_entity
      (initial_target_probe\<lparr>tp_global_neutralize_enabled := 1\<rparr>) two_entities 0x1000)) 0x133c = Some 4"
proof -
  have "tp_enabled (initial_target_probe\<lparr>tp_global_neutralize_enabled := 1\<rparr>) \<noteq> 0"
    "tp_global_neutralize_enabled (initial_target_probe\<lparr>tp_global_neutralize_enabled := 1\<rparr>) \<noteq> 0"
    "tp_global_neutralize_team (initial_target_probe\<lparr>tp_global_neutralize_enabled := 1\<rparr>) \<le> 0xff"
    "(0x1000 :: ptr) \<noteq> nullptr" "can_write two_entities (team_field 0x1000)"
    by (simp_all add: initial_target_probe_def can_write_def two_entities_def team_field_def)
  then have "load8 (snd (maybe_global_neutralize_entity
      (initial_target_probe\<lparr>tp_global_neutralize_enabled := 1\<rparr>) two_entities 0x1000)) (team_field 0x1000)
      = Some (ucast (tp_global_neutralize_team (initial_target_probe\<lparr>tp_global_neutralize_enabled := 1\<rparr>)))"
    by (rule neutralize_sets_team [THEN conjunct1])
  then show ?thesis by (simp add: team_field_def initial_target_probe_def)
qed

subsection \<open>Entity handles\<close>

text \<open>A stale handle never resolves: of all handles that name the same table entry, at most one
  resolves, and it is the one stored in the entry.\<close>

theorem resolved_handles_agree:
  assumes "fst (resolve_entity_handle m server h1)" "fst (resolve_entity_handle m server h2)"
    and "h1 AND 0x7fff = h2 AND 0x7fff"
  shows "h1 = h2 \<and> snd (resolve_entity_handle m server h1) \<noteq> nullptr"
  using assms by (auto simp: resolve_entity_handle_def Let_def split: if_splits option.splits)

text \<open>
  A server module at 0x10000000 whose chunk table holds one entity at 0x1000 under the handle 0x8005.
\<close>

definition handle_memory :: engine_memory where
  "handle_memory = \<lparr>mem_byte = (\<lambda>a.
      if 0x132b3280 \<le> a \<and> a < 0x132b3288 then Some (if a = 0x132b3281 then 0x50 else 0)
      else if 0x5000 \<le> a \<and> a < 0x5008 then Some (if a = 0x5001 then 0x60 else 0)
      else if 0x6230 \<le> a \<and> a < 0x6238 then Some (if a = 0x6231 then 0x10 else 0)
      else if 0x6240 \<le> a \<and> a < 0x6244
      then Some (if a = 0x6240 then 0x05 else if a = 0x6241 then 0x80 else 0)
      else None), mem_writable = (\<lambda>_. False)\<rparr>"

lemma handle_memory_reads:
  "load64 handle_memory 0x132b3280 = Some 0x5000" "load64 handle_memory 0x5000 = Some 0x6000"
  "load64 handle_memory 0x6230 = Some 0x1000" "load32 handle_memory 0x6240 = Some 0x8005"
  by (simp_all add: handle_memory_def load64_def load32_def load_bytes_numeral load8_def)

theorem resolved_handles_agree_witness:
  "resolve_entity_handle handle_memory 0x10000000 0x8005 = (True, 0x1000)
     \<and> \<not> fst (resolve_entity_handle handle_memory 0x10000000 0x10005)"
proof -
  have r: "resolve_entity_handle handle_memory 0x10000000 0x8005 = (True, 0x1000)"
    by (simp add: resolve_entity_handle_def Let_def handle_memory_reads)
  then have "fst (resolve_entity_handle handle_memory 0x10000000 0x8005)" by simp
  moreover have "(0x8005 :: u32) AND 0x7fff = 0x10005 AND 0x7fff" "(0x8005 :: u32) \<noteq> 0x10005" by simp_all
  ultimately show ?thesis using r resolved_handles_agree [of handle_memory "0x10000000" "0x8005" "0x10005"] by auto
qed

subsection \<open>The target bitset\<close>

lemma store32_bytes:
  assumes "store32 m a w = Some m'"
  shows "load32 m' a = Some w \<and> (\<forall>b. b - a \<ge> 4 \<longrightarrow> load8 m' b = load8 m b)"
proof -
  have ne: "a + 1 \<noteq> a" "a + 2 \<noteq> a" "a + 3 \<noteq> a" "a + 1 \<noteq> a + 2" "a + 1 \<noteq> a + 3" "a + 2 \<noteq> a + 3"
    by simp_all
  obtain m1 m2 m3 where s: "store8 m a (ucast w) = Some m1" "store8 m1 (a + 1) (ucast (drop_bit 8 w)) = Some m2"
    "store8 m2 (a + 2) (ucast (drop_bit 16 w)) = Some m3" "store8 m3 (a + 3) (ucast (drop_bit 24 w)) = Some m'"
    using assms by (auto simp: store32_def word_bytes32_def add.assoc split: option.splits)
  have l: "load8 m' a = Some (ucast w)" "load8 m' (a + 1) = Some (ucast (drop_bit 8 w))"
    "load8 m' (a + 2) = Some (ucast (drop_bit 16 w))" "load8 m' (a + 3) = Some (ucast (drop_bit 24 w))"
    using ne load8_store8_same [OF s(1)] load8_store8_same [OF s(2)] load8_store8_same [OF s(3)]
      load8_store8_same [OF s(4)]
    by (auto simp: load8_store8_other [OF s(4)] load8_store8_other [OF s(3)] load8_store8_other [OF s(2)])
  have "load32 m' a = Some (le_word (word_bytes32 w))"
    using l by (simp add: load32_def load_bytes_numeral word_bytes32_def add.assoc)
  moreover have "load8 m' b = load8 m b" if "b - a \<ge> 4" for b
  proof -
    have "b \<noteq> a" "b \<noteq> a + 1" "b \<noteq> a + 2" "b \<noteq> a + 3"
      using that by (auto simp: word_le_nat_alt)
    then show ?thesis
      by (simp add: load8_store8_other [OF s(4)] load8_store8_other [OF s(3)] load8_store8_other [OF s(2)]
          load8_store8_other [OF s(1)])
  qed
  ultimately show ?thesis by (simp add: le_word_word_bytes32)
qed

text \<open>C34. A granted bitset allowance sets exactly the classified bit: the index is below 0x40000, its
  word gains the one bit, and no byte outside that word changes.\<close>

theorem bitset_allow_sets_one_bit:
  assumes "maybe_allow_target_bitset st m sc target bitset (Some classifier) = (True, st', m')"
  shows "\<exists>bit_index w. classifier m target = Some bit_index \<and> bit_index < 0x40000
     \<and> load32 m (bitset_word bitset bit_index) = Some w
     \<and> load32 m' (bitset_word bitset bit_index) = Some (w OR bitset_mask bit_index)
     \<and> (\<forall>b. b - bitset_word bitset bit_index \<ge> 4 \<longrightarrow> load8 m' b = load8 m b)"
proof -
  obtain bit_index where b: "classifier m target = Some bit_index"
    and s: "set_target_bit m bitset bit_index = Some m'"
    using assms by (auto simp: maybe_allow_target_bitset_def Let_def split: if_splits option.splits)
  then obtain w where "bit_index < 0x40000" "load32 m (bitset_word bitset bit_index) = Some w"
    "store32 m (bitset_word bitset bit_index) (w OR bitset_mask bit_index) = Some m'"
    by (auto simp: set_target_bit_def not_le split: if_splits option.splits)
  with b store32_bytes show ?thesis by blast
qed

text \<open>One word of writable memory for a bitset at 0x4000.\<close>

definition bitset_memory :: engine_memory where
  "bitset_memory = \<lparr>mem_byte = (\<lambda>a. if 0x4000 \<le> a \<and> a < 0x4004 then Some 0 else None),
     mem_writable = (\<lambda>a. True)\<rparr>"

theorem bitset_allow_sets_one_bit_witness:
  "\<exists>st' m'. maybe_allow_target_bitset (initial_target_probe\<lparr>tp_neutral_simulation_enabled := 1\<rparr>) bitset_memory
       (empty_target_scope\<lparr>ts_same_team := 1\<rparr>) 0x1000 0x4000 (Some (\<lambda>m e. Some 5)) = (True, st', m')
     \<and> load32 m' 0x4000 = Some 0x20"
proof -
  have l: "load32 bitset_memory 0x4000 = Some 0"
    by (simp add: load32_def load_bytes_numeral load8_def bitset_memory_def)
  have "store32 bitset_memory 0x4000 0x20 \<noteq> None"
    by (simp add: store32_def word_bytes32_def store8_def can_write_def bitset_memory_def)
  then obtain m' where m': "store32 bitset_memory 0x4000 0x20 = Some m'" by blast
  have set: "set_target_bit bitset_memory 0x4000 5 = Some m'"
    using l m' by (simp add: set_target_bit_def bitset_word_def bitset_mask_def)
  then obtain st' where run: "maybe_allow_target_bitset (initial_target_probe\<lparr>tp_neutral_simulation_enabled := 1\<rparr>)
      bitset_memory (empty_target_scope\<lparr>ts_same_team := 1\<rparr>) 0x1000 0x4000 (Some (\<lambda>m e. Some 5)) = (True, st', m')"
    by (simp add: maybe_allow_target_bitset_def Let_def target_bitset_allow_enabled_def initial_target_probe_def)
  have "load32 m' 0x4000 = Some 0x20"
    using bitset_allow_sets_one_bit [OF run] l by (auto simp: bitset_word_def bitset_mask_def)
  with run show ?thesis by blast
qed

subsection \<open>The classifier spoof\<close>

text \<open>C31. After the identity classifier hook the stored bit is the engine's own, unless a classifier
  scope is active for this very target: then it is the configured bit, below 32, or the engine's
  when the result cannot be written.\<close>

theorem classifier_result:
  assumes "finish_target_identity_classifier st m cs target out = Some (st', m')"
    and "tp_enabled st \<noteq> 0" "tp_global_neutralize_enabled st = 0" "out \<noteq> nullptr"
  shows "load32 m' out = (if cs_active cs \<and> target = cs_target cs \<and> cs_bit cs \<le> 31
             \<and> store32 m out (cs_bit cs) \<noteq> None then Some (cs_bit cs) else load32 m out)"
proof -
  obtain b where b: "load32 m out = Some b"
    using assms by (auto simp: finish_target_identity_classifier_def Let_def split: option.splits if_splits)
  let ?st = "inc_if (b = invalid32) tp_classifier_invalid_update (inc tp_classifier_calls_update st)"
  obtain st2 m2 b2 where sp: "spoof_classifier ?st m cs target out b = (st2, m2, b2)"
    by (metis prod_cases3)
  have "m' = m2"
    using assms b sp by (simp add: finish_target_identity_classifier_def Let_def split_def)
  then show ?thesis
    using sp store32_bytes [of m out "cs_bit cs"]
    by (auto simp: spoof_classifier_def Let_def split: if_splits option.splits)
qed

theorem classifier_result_witness:
  "\<exists>st' m'. finish_target_identity_classifier initial_target_probe bitset_memory
       \<lparr>cs_target = 0x1000, cs_bit = 8, cs_active = True\<rparr> 0x1000 0x4000 = Some (st', m')
     \<and> load32 m' 0x4000 = Some 8"
proof -
  let ?cs = "\<lparr>cs_target = 0x1000, cs_bit = 8, cs_active = True\<rparr> :: classifier_spoof_scope"
  have l: "load32 bitset_memory 0x4000 = Some 0"
    by (simp add: load32_def load_bytes_numeral load8_def bitset_memory_def)
  have w: "store32 bitset_memory 0x4000 8 \<noteq> None"
    by (simp add: store32_def word_bytes32_def store8_def can_write_def bitset_memory_def)
  have "tp_enabled initial_target_probe \<noteq> 0" "tp_global_neutralize_enabled initial_target_probe = 0"
    by (simp_all add: initial_target_probe_def)
  moreover from this have "finish_target_identity_classifier initial_target_probe bitset_memory ?cs 0x1000 0x4000 \<noteq> None"
    using l by (simp add: finish_target_identity_classifier_def Let_def split_def)
  ultimately show ?thesis
    using classifier_result [of initial_target_probe bitset_memory ?cs "0x1000" "0x4000"] w by fastforce
qed

end
