(* ===== verification/Walker_Patrol_Properties.thy ===== *)
theory Walker_Patrol_Properties
  imports Walker_Patrol
begin

section \<open>Properties of the walker patrol\<close>

text \<open>
  The configuration invariant (the array of vectors and its count stay within bounds), the counters,
  the schedule of the teleports over a history of callbacks, and what a callback may do to memory.
\<close>

subsection \<open>Configuration\<close>

definition walker_ok :: "walker_patrol_state \<Rightarrow> bool" where
  "walker_ok st \<longleftrightarrow> length (wp_vectors st) = 8 \<and> unat (wp_waypoint_count st) \<le> 8"

lemma parse_waypoints_length: "length parsed \<le> 8 \<Longrightarrow> length (parse_waypoints s parsed) \<le> 8"
proof (induction s parsed rule: parse_waypoints.induct)
  case (1 remaining parsed)
  show ?case
  proof (cases "remaining = [] \<or> length parsed \<ge> 8")
    case True
    with "1.prems" show ?thesis by (subst parse_waypoints.simps) auto
  next
    case False
    obtain item rest where s: "split_first (CHR '';'') remaining = (item, rest)" by fastforce
    let ?p = "case parse_vec3 item of Some v \<Rightarrow> if item \<noteq> [] then parsed @ [v] else parsed | None \<Rightarrow> parsed"
    have p: "length ?p \<le> 8" using False by (auto split: option.split)
    have unfold: "parse_waypoints remaining parsed = (case rest of None \<Rightarrow> ?p | Some r \<Rightarrow> parse_waypoints r ?p)"
      using False by (subst parse_waypoints.simps) (simp add: s Let_def)
    show ?thesis
    proof (cases rest)
      case None
      with p show ?thesis by (simp only: unfold option.case)
    next
      case (Some r)
      have "length (parse_waypoints r ?p) \<le> 8"
        using "1.IH" [OF False s [symmetric] refl refl Some p] .
      with Some show ?thesis by (simp only: unfold option.case)
    qed
  qed
qed

lemma overwrite_vectors_ok:
  assumes "length (wp_vectors st) = 8" "vs \<noteq> []" "length vs \<le> 8"
  shows "length (wp_vectors (overwrite_vectors vs st)) = 8 \<and> 1 \<le> wp_waypoint_count (overwrite_vectors vs st)
     \<and> unat (wp_waypoint_count (overwrite_vectors vs st)) \<le> 8"
proof -
  have "unat (of_nat (length vs) :: u32) = length vs" using assms(3) by (simp add: unat_of_nat_u32)
  then show ?thesis using assms by (simp add: overwrite_vectors_def word_le_nat_alt Suc_le_eq)
qed

lemma overwrite_vectors_frame [simp]:
  "wp_stride (overwrite_vectors vs st) = wp_stride st" "wp_mode (overwrite_vectors vs st) = wp_mode st"
  by (simp_all add: overwrite_vectors_def)

lemma env_mode_bound: "env_mode_or_velocity env \<le> 1"
  by (simp add: env_mode_or_velocity_def split: option.split)

text \<open>C33. Whatever the environment says, the configured patrol has between one and eight waypoints in
  its array of eight, a stride from 1 to 100000 and a known mode.\<close>

theorem walker_configuration_in_bounds:
  assumes "length (wp_vectors st) = 8" and "st' = configure_walker_patrol_from_environment env st"
  shows "walker_ok st' \<and> 1 \<le> wp_waypoint_count st' \<and> 1 \<le> wp_stride st' \<and> wp_stride st' \<le> 100000
     \<and> wp_mode st' \<le> 1"
proof -
  let ?mode = "env_mode_or_velocity env"
  let ?st = "st\<lparr>wp_enabled := flag32 (env_flag_enabled env ''DWRT_WALKER_PATROL_EXPERIMENT''),
      wp_stride := wp_env_u32_or env ''DWRT_WALKER_PATROL_STRIDE'' 16, wp_mode := ?mode\<rparr>"
  have "\<exists>vs. vs \<noteq> [] \<and> length vs \<le> 8 \<and> parse_vector_environment env ?mode ?st = overwrite_vectors vs ?st"
  proof (cases "env_buffer (env_ansi env ''DWRT_WALKER_PATROL_VELOCITIES'' 512) 512")
    case None
    then show ?thesis
      by (intro exI [of _ "default_vectors ?mode"])
        (simp add: parse_vector_environment_def set_default_vectors_def default_vectors_def)
  next
    case (Some b)
    then show ?thesis using parse_waypoints_length [of "[]" b]
      by (cases "parse_waypoints b [] = []")
        (auto simp: parse_vector_environment_def set_default_vectors_def default_vectors_def
          intro: exI [of _ "default_vectors ?mode"] exI [of _ "parse_waypoints b []"])
  qed
  then obtain vs where vs: "vs \<noteq> []" "length vs \<le> 8" "st' = overwrite_vectors vs ?st"
    using assms(2) by (auto simp: configure_walker_patrol_from_environment_def Let_def)
  then show ?thesis
    using overwrite_vectors_ok [of ?st vs] assms(1) wp_env_u32_or_bound [of 16 env] env_mode_bound [of env]
    by (simp add: walker_ok_def)
qed

theorem walker_configuration_in_bounds_witness:
  "\<exists>env. wp_stride (configure_walker_patrol_from_environment env initial_walker_patrol) = 25
     \<and> 1 \<le> wp_waypoint_count (configure_walker_patrol_from_environment env initial_walker_patrol)"
proof -
  define env where "env = \<lparr>env_wide = (\<lambda>name cap. documented_read
        (if name = ''DWRT_WALKER_PATROL_STRIDE'' then Some (decimal 25) else None) cap),
      env_ansi = (\<lambda>name cap. documented_read None cap)\<rparr>"
  have s: "wp_env_u32_or env ''DWRT_WALKER_PATROL_STRIDE'' 16 = of_nat 25"
    by (rule wp_env_u32_or_decimal) (simp_all add: env_def)
  have "length (wp_vectors initial_walker_patrol) = 8" by (simp add: initial_walker_patrol_def)
  moreover have "wp_stride (configure_walker_patrol_from_environment env initial_walker_patrol) = 25"
    using s by (simp add: configure_walker_patrol_from_environment_def Let_def parse_vector_environment_def
        set_default_vectors_def env_def)
  ultimately show ?thesis using walker_configuration_in_bounds by blast
qed

lemma waypoint_in_bounds:
  assumes "wp_waypoint_count st \<noteq> 0"
  shows "unat ((i div s - 1) mod ucast (wp_waypoint_count st) :: u64) < unat (wp_waypoint_count st)"
proof -
  have u: "unat (ucast (wp_waypoint_count st) :: u64) = unat (wp_waypoint_count st)"
    using unat_lt_32 [of "wp_waypoint_count st"] by (simp add: unsigned_ucast_eq take_bit_nat_eq_self)
  have "0 < unat (wp_waypoint_count st)" using assms by (simp add: unat_gt_0)
  then show ?thesis by (simp add: unat_mod_distrib u)
qed

subsection \<open>One callback\<close>

text \<open>The configuration part of the state, which callbacks do not touch.\<close>

definition wp_config :: "walker_patrol_state \<Rightarrow> u32 \<times> u32 \<times> u32 \<times> vec3 list \<times> u32" where
  "wp_config st = (wp_enabled st, wp_stride st, wp_mode st, wp_vectors st, wp_waypoint_count st)"

lemma read_origin_frame:
  assumes "read_entity_abs_origin st m e = (r, st')"
  shows "wp_config st' = wp_config st \<and> wp_candidate_walkers st' = wp_candidate_walkers st
     \<and> wp_teleport_attempts st' = wp_teleport_attempts st \<and> wp_damage_callbacks st' = wp_damage_callbacks st
     \<and> wp_teleport_calls st' = wp_teleport_calls st \<and> (\<forall>v. r = Some v \<longrightarrow> plausible_origin v)"
  using assms
  by (auto simp: read_entity_abs_origin_def wp_config_def Let_def split: if_splits prod.splits)

lemma teleport_walker_cases:
  assumes "teleport_walker tele st m e vec = Some (st', m')"
  shows "wp_config st' = wp_config st \<and> wp_candidate_walkers st' = wp_candidate_walkers st
     \<and> wp_teleport_attempts st' = wp_teleport_attempts st + 1 \<and> wp_damage_callbacks st' = wp_damage_callbacks st
     \<and> (m' = m \<or> (\<exists>origin. plausible_origin origin
                    \<and> teleport_entity tele m e (Some (add_vec origin vec)) None = Some m')
           \<or> teleport_entity tele m e None (Some vec) = Some m')"
proof (cases "wp_mode st = 1")
  case False
  with assms show ?thesis by (auto simp: teleport_walker_def Let_def wp_config_def)
next
  case True
  obtain r st1 where r: "read_entity_abs_origin (inc wp_teleport_attempts_update st) m e = (r, st1)" by fastforce
  note frame = read_origin_frame [OF r]
  show ?thesis
  proof (cases r)
    case None
    with assms True r frame show ?thesis by (auto simp: teleport_walker_def Let_def wp_config_def)
  next
    case (Some v)
    with assms True r frame show ?thesis by (auto simp: teleport_walker_def Let_def wp_config_def)
  qed
qed

definition stride_of :: "walker_patrol_state \<Rightarrow> u64" where
  "stride_of st = ucast (max 1 (wp_stride st))"

text \<open>A candidate either only counts, or is due: then it is an attempt with the waypoint in turn.\<close>

lemma patrol_candidate_cases:
  assumes "patrol_candidate tele st m e = Some (st', m')"
  obtains (skip) "m' = m" "wp_config st' = wp_config st" "wp_candidate_walkers st' = wp_candidate_walkers st + 1"
      "wp_teleport_attempts st' = wp_teleport_attempts st"
      "(wp_candidate_walkers st + 1) mod stride_of st \<noteq> 0 \<or> wp_waypoint_count st = 0"
  | (due) vec where "vec = waypoint st (wp_candidate_walkers st + 1) (stride_of st)"
      "wp_config st' = wp_config st" "wp_candidate_walkers st' = wp_candidate_walkers st + 1"
      "wp_teleport_attempts st' = wp_teleport_attempts st + 1"
      "(wp_candidate_walkers st + 1) mod stride_of st = 0" "wp_waypoint_count st \<noteq> 0"
      "m' = m \<or> (\<exists>origin. plausible_origin origin
                    \<and> teleport_entity tele m e (Some (add_vec origin vec)) None = Some m')
           \<or> teleport_entity tele m e None (Some vec) = Some m'"
proof (cases "(wp_candidate_walkers st + 1) mod stride_of st \<noteq> 0 \<or> wp_waypoint_count st = 0")
  case True
  with assms have "m' = m \<and> st' = inc wp_candidate_walkers_update st"
    by (auto simp: patrol_candidate_def stride_of_def Let_def split: if_splits)
  with True show thesis by (intro skip) (simp_all add: wp_config_def)
next
  case False
  let ?st = "inc wp_candidate_walkers_update st"
  let ?v = "waypoint ?st (wp_candidate_walkers st + 1) (stride_of st)"
  have v: "?v = waypoint st (wp_candidate_walkers st + 1) (stride_of st)" by (simp add: waypoint_def)
  have "teleport_walker tele ?st m e ?v = Some (st', m')"
    using assms False by (simp add: patrol_candidate_def stride_of_def Let_def)
  from teleport_walker_cases [OF this] False show thesis
    by (intro due [OF refl]) (simp_all add: v wp_config_def)
qed

lemma callback_cases:
  assumes "maybe_apply_walker_patrol_on_damage tele st m e recursive = Some (st', m')"
  obtains (other) "m' = m" "wp_config st' = wp_config st" "wp_candidate_walkers st' = wp_candidate_walkers st"
      "wp_teleport_attempts st' = wp_teleport_attempts st"
  | (candidate) st1 where "wp_enabled st \<noteq> 0" "\<not> recursive" "walker_class m e = Some Walker"
      "st1 = inc wp_damage_callbacks_update st" "patrol_candidate tele st1 m e = Some (st', m')"
proof (cases "wp_enabled st \<noteq> 0 \<and> \<not> recursive \<and> walker_class m e = Some Walker")
  case True
  with assms show thesis by (intro candidate) (simp_all add: maybe_apply_walker_patrol_on_damage_def)
next
  case False
  with assms have "m' = m \<and> wp_config st' = wp_config st \<and> wp_candidate_walkers st' = wp_candidate_walkers st
      \<and> wp_teleport_attempts st' = wp_teleport_attempts st"
    by (auto simp: maybe_apply_walker_patrol_on_damage_def wp_config_def Let_def
        split: if_splits option.splits walker_class.splits)
  with other show thesis by blast
qed

text \<open>C14. A callback changes memory only through the engine's \<open>Teleport\<close> on a walker that was hit
  directly while the experiment is on and whose number is a multiple of the stride; it is given the
  waypoint in turn, as a velocity or added to an origin whose coordinates are finite and below a
  million.\<close>

theorem patrol_only_teleports_due_walkers:
  assumes "maybe_apply_walker_patrol_on_damage tele st m e recursive = Some (st', m')" "m' \<noteq> m"
  shows "wp_enabled st \<noteq> 0 \<and> \<not> recursive \<and> walker_class m e = Some Walker
     \<and> (wp_candidate_walkers st + 1) mod stride_of st = 0
     \<and> (\<exists>vec. vec = waypoint st (wp_candidate_walkers st + 1) (stride_of st)
          \<and> (teleport_entity tele m e None (Some vec) = Some m'
             \<or> (\<exists>origin. plausible_origin origin
                  \<and> teleport_entity tele m e (Some (add_vec origin vec)) None = Some m')))"
  using assms(1)
proof (cases rule: callback_cases)
  case other
  with assms(2) show ?thesis by simp
next
  case (candidate st1)
  have st1: "wp_candidate_walkers st1 = wp_candidate_walkers st" "stride_of st1 = stride_of st"
    "waypoint st1 = waypoint st"
    by (simp_all add: candidate(4) stride_of_def waypoint_def fun_eq_iff)
  from candidate(5) show ?thesis
  proof (cases rule: patrol_candidate_cases)
    case skip
    with assms(2) show ?thesis by simp
  next
    case (due vec)
    then show ?thesis using assms(2) candidate(1-3) unfolding st1 by blast
  qed
qed

text \<open>A walker at 0x1000 with its virtual table at 0x5000, and an engine whose \<open>Teleport\<close> marks a byte.\<close>

definition walker_memory :: engine_memory where
  "walker_memory = \<lparr>mem_byte = with_text 0x3000 ''CNPC_Boss_Tier2''
      (with_ptr 0x1000 0x5000 (with_ptr 0x5518 0x7000 (with_ptr 0x1010 0x2000
        (with_ptr 0x2020 0x3000 [0x100 \<mapsto> 0])))),
      mem_writable = (\<lambda>a. a = 0x100)\<rparr>"

definition marking_teleport :: teleport_fn where
  "marking_teleport m fn e pos vel = store8 m 0x100 1"

definition patrolling :: walker_patrol_state where
  "patrolling = set_default_vectors 0 (initial_walker_patrol\<lparr>wp_enabled := 1, wp_stride := 1\<rparr>)"

lemmas walker_layout = walker_memory_def with_text_def with_ptr_def char_byte_def

lemma walker_memory_walker: "walker_class walker_memory 0x1000 = Some Walker"
proof -
  have "c_string walker_memory 0x3000 = Some ''CNPC_Boss_Tier2''"
    by (rule c_string_with_text) (simp_all add: walker_memory_def)
  moreover have "load64 walker_memory 0x1010 = Some 0x2000" "load64 walker_memory 0x2020 = Some 0x3000"
    "load8 walker_memory 0x3000 = Some 67"
    by (simp_all add: load64_def load_bytes_numeral load8_def walker_layout)
  ultimately show ?thesis
    by (simp add: walker_class_def entity_identity_def designer_name_field_def
        name_among_c_string walker_names_def)
qed

theorem patrol_only_teleports_due_walkers_witness:
  "\<exists>st' m'. maybe_apply_walker_patrol_on_damage marking_teleport patrolling walker_memory 0x1000 False
       = Some (st', m') \<and> m' \<noteq> walker_memory
     \<and> (wp_candidate_walkers patrolling + 1) mod stride_of patrolling = 0"
proof -
  have "load64 walker_memory 0x1000 = Some 0x5000" "load64 walker_memory 0x5518 = Some 0x7000"
    by (simp_all add: load64_def load_bytes_numeral load8_def walker_layout)
  moreover obtain m' where m': "store8 walker_memory 0x100 1 = Some m'"
    by (simp add: store8_def can_write_def walker_layout)
  ultimately obtain st' where run:
    "maybe_apply_walker_patrol_on_damage marking_teleport patrolling walker_memory 0x1000 False = Some (st', m')"
    by (simp add: maybe_apply_walker_patrol_on_damage_def walker_memory_walker patrol_candidate_def
        teleport_walker_def teleport_entity_def marking_teleport_def patrolling_def set_default_vectors_def
        overwrite_vectors_def default_vectors_def initial_walker_patrol_def Let_def)
  have "load8 m' 0x100 = Some 1" "load8 walker_memory 0x100 = Some 0"
    using load8_store8_same [OF m'] by (simp_all add: load8_def walker_layout)
  then have "m' \<noteq> walker_memory" by auto
  moreover from this have "(wp_candidate_walkers patrolling + 1) mod stride_of patrolling = 0"
    using patrol_only_teleports_due_walkers [OF run] by simp
  ultimately show ?thesis using run by (intro exI conjI)
qed

subsection \<open>The schedule\<close>

text \<open>
  One attempt for every \<open>stride\<close> candidates, as long as the candidate counter has not wrapped.
\<close>

definition on_schedule :: "walker_patrol_state \<Rightarrow> bool" where
  "on_schedule st \<longleftrightarrow> wp_teleport_attempts st = wp_candidate_walkers st div stride_of st"

lemma stride_of_pos: "0 < unat (stride_of st)"
proof -
  have "unat (stride_of st) = unat (max 1 (wp_stride st))"
    using unat_lt_32 [of "max 1 (wp_stride st)"] by (simp add: stride_of_def unsigned_ucast_eq take_bit_nat_eq_self)
  moreover have "max 1 (wp_stride st) \<noteq> 0" by (auto simp: max_def)
  ultimately show ?thesis by (simp add: unat_gt_0)
qed

lemma div_step:
  fixes n s :: u64
  assumes "n \<noteq> - 1" "0 < unat s"
  shows "(n + 1) div s = (if (n + 1) mod s = 0 then n div s + 1 else n div s)"
proof -
  have n: "unat (n + 1) = Suc (unat n)" using assms(1) using unatSuc [of n] by (simp add: add.commute add_eq_0_iff)
  have m: "(n + 1) mod s = 0 \<longleftrightarrow> Suc (unat n) mod unat s = 0"
    by (simp add: n [symmetric] unat_mod_distrib [symmetric] unat_eq_zero)
  have d: "unat (n div s + 1) = Suc (unat n div unat s)" if "(n + 1) mod s = 0"
  proof -
    have "Suc (unat n) div unat s = Suc (unat n div unat s)" using that m by (simp add: div_Suc)
    moreover have "Suc (unat n) div unat s \<le> Suc (unat n)" by simp
    ultimately have "Suc (unat n div unat s) < 18446744073709551616"
      using unat_lt_64 [of "n + 1"] n by linarith
    then show ?thesis by (simp add: unat_word_ariths unat_div_distrib)
  qed
  show ?thesis
  proof (rule word_unat_eq_iff [THEN iffD2])
    show "unat ((n + 1) div s) = unat (if (n + 1) mod s = 0 then n div s + 1 else n div s)"
      using m d by (simp add: unat_div_distrib n div_Suc)
  qed
qed

lemma candidate_on_schedule:
  assumes "patrol_candidate tele st m e = Some (st', m')" "on_schedule st" "wp_waypoint_count st \<noteq> 0"
    and "wp_candidate_walkers st \<noteq> - 1"
  shows "on_schedule st' \<and> wp_config st' = wp_config st"
proof -
  have s: "stride_of st' = stride_of st" if "wp_config st' = wp_config st"
    using that by (simp add: stride_of_def wp_config_def)
  note step = div_step [OF assms(4) stride_of_pos [of st]]
  from assms(1) show ?thesis
  proof (cases rule: patrol_candidate_cases)
    case skip
    then show ?thesis using assms(2,3) s step by (simp add: on_schedule_def)
  next
    case (due vec)
    then show ?thesis using assms(2) s step by (simp add: on_schedule_def)
  qed
qed

lemma callback_on_schedule:
  assumes "maybe_apply_walker_patrol_on_damage tele st m e recursive = Some (st', m')"
    and "on_schedule st" "wp_waypoint_count st \<noteq> 0" "wp_candidate_walkers st \<noteq> - 1"
  shows "on_schedule st' \<and> wp_config st' = wp_config st
     \<and> unat (wp_candidate_walkers st') \<le> Suc (unat (wp_candidate_walkers st))"
  using assms(1)
proof (cases rule: callback_cases)
  case other
  then show ?thesis using assms(2) by (simp add: on_schedule_def stride_of_def wp_config_def)
next
  case (candidate st1)
  have st1: "on_schedule st1" "wp_waypoint_count st1 \<noteq> 0" "wp_candidate_walkers st1 \<noteq> - 1"
    "wp_config st1 = wp_config st" "wp_candidate_walkers st1 = wp_candidate_walkers st"
    using assms(2-4) by (simp_all add: candidate(4) on_schedule_def stride_of_def wp_config_def)
  have "wp_candidate_walkers st' = wp_candidate_walkers st + 1"
    using candidate(5) st1(5) by (cases rule: patrol_candidate_cases) simp_all
  then have "unat (wp_candidate_walkers st') \<le> Suc (unat (wp_candidate_walkers st))"
    by (simp add: unat_word_ariths)
  with candidate_on_schedule [OF candidate(5) st1(1-3)] st1(4) show ?thesis by simp
qed

text \<open>A history of damage callbacks, each with the memory of its moment.\<close>

primrec run_patrol ::
  "teleport_fn \<Rightarrow> walker_patrol_state \<Rightarrow> (engine_memory \<times> ptr \<times> bool) list \<Rightarrow> walker_patrol_state option" where
  "run_patrol tele st [] = Some st"
| "run_patrol tele st (ev # evs) =
     (case ev of (m, e, recursive) \<Rightarrow>
        (case maybe_apply_walker_patrol_on_damage tele st m e recursive of
           None \<Rightarrow> None
         | Some (st', m') \<Rightarrow> run_patrol tele st' evs))"

lemma run_patrol_on_schedule:
  assumes "run_patrol tele st evs = Some st'" "on_schedule st" "wp_waypoint_count st \<noteq> 0"
    and "unat (wp_candidate_walkers st) + length evs < 18446744073709551616"
  shows "on_schedule st' \<and> wp_config st' = wp_config st"
  using assms
proof (induction evs arbitrary: st)
  case (Cons ev evs)
  obtain m e r where ev: "ev = (m, e, r)" by (metis prod_cases3)
  with Cons.prems(1) obtain st1 m1 where st1: "maybe_apply_walker_patrol_on_damage tele st m e r = Some (st1, m1)"
    "run_patrol tele st1 evs = Some st'"
    by (auto split: option.splits)
  have "unat (wp_candidate_walkers st) < 18446744073709551615" using Cons.prems(4) by simp
  then have "wp_candidate_walkers st \<noteq> - 1" by (auto simp: unsigned_minus_1_eq_mask mask_eq_exp_minus_1)
  note c = callback_on_schedule [OF st1(1) Cons.prems(2,3) this]
  then have "wp_waypoint_count st1 \<noteq> 0" using Cons.prems(3) by (simp add: wp_config_def)
  with c Cons.IH [OF st1(2)] Cons.prems(4) show ?case by simp
qed simp

text \<open>C13. In any history of damage callbacks after a reset, one walker in \<open>stride\<close> is selected: the
  number of teleport attempts is the number of walkers hit divided by the stride.\<close>

theorem patrol_schedule:
  assumes "run_patrol tele (reset_walker_patrol_counters st) history = Some st'"
    and "wp_waypoint_count st \<noteq> 0" "length history < 18446744073709551616"
  shows "unat (wp_teleport_attempts st') = unat (wp_candidate_walkers st') div max 1 (unat (wp_stride st))
     \<and> wp_vectors st' = wp_vectors st"
proof -
  let ?st = "reset_walker_patrol_counters st"
  have "on_schedule ?st" "wp_waypoint_count ?st \<noteq> 0" "wp_config ?st = wp_config st"
    and u: "unat (wp_candidate_walkers ?st) + length history < 18446744073709551616"
    using assms(2,3) by (simp_all add: on_schedule_def reset_walker_patrol_counters_def wp_config_def)
  then have s: "on_schedule st'" "wp_config st' = wp_config st"
    using run_patrol_on_schedule [OF assms(1)] by auto
  have "unat (stride_of st') = unat (max 1 (wp_stride st))"
    using s(2) unat_lt_32 [of "max 1 (wp_stride st)"]
    by (simp add: stride_of_def wp_config_def unsigned_ucast_eq take_bit_nat_eq_self)
  also have "\<dots> = max 1 (unat (wp_stride st))" by (auto simp: max_def word_le_nat_alt)
  finally show ?thesis using s by (simp add: on_schedule_def unat_div_distrib wp_config_def)
qed

theorem patrol_schedule_witness:
  "\<exists>st'. run_patrol marking_teleport (reset_walker_patrol_counters (patrolling\<lparr>wp_stride := 2\<rparr>))
       (replicate 3 (walker_memory, 0x1000, False)) = Some st'
     \<and> unat (wp_teleport_attempts st') = unat (wp_candidate_walkers st') div 2"
proof -
  let ?st = "reset_walker_patrol_counters (patrolling\<lparr>wp_stride := 2\<rparr>)"
  have r: "load64 walker_memory 0x1000 = Some 0x5000" "load64 walker_memory 0x5518 = Some 0x7000"
    by (simp_all add: load64_def load_bytes_numeral load8_def walker_layout)
  obtain m' where m': "store8 walker_memory 0x100 1 = Some m'"
    by (simp add: store8_def can_write_def walker_layout)
  have "run_patrol marking_teleport ?st (replicate 3 (walker_memory, 0x1000, False)) \<noteq> None"
    using r m'
    by (simp add: numeral_3_eq_3 maybe_apply_walker_patrol_on_damage_def walker_memory_walker patrol_candidate_def
        teleport_walker_def teleport_entity_def marking_teleport_def patrolling_def set_default_vectors_def
        overwrite_vectors_def default_vectors_def initial_walker_patrol_def reset_walker_patrol_counters_def Let_def)
  then obtain st' where run: "run_patrol marking_teleport ?st (replicate 3 (walker_memory, 0x1000, False)) = Some st'"
    by blast
  have "wp_waypoint_count (patrolling\<lparr>wp_stride := 2\<rparr>) \<noteq> 0"
    by (simp add: patrolling_def set_default_vectors_def overwrite_vectors_def default_vectors_def)
  with run patrol_schedule [OF run] show ?thesis by (intro exI [of _ st']) (simp add: max_def)
qed

text \<open>The nudged coordinate is exact whenever the sum of origin and offset is itself a number of
  the format.\<close>

theorem nudge_exact:
  assumes "f32_finite a" "f32_finite b" "f32_finite c" "f32_units c = f32_units a + f32_units b"
    and "f32_units c \<noteq> 0"
  shows "f32_add a b = c"
  using assms by (rule f32_add_exact)

theorem nudge_exact_witness: "f32_add 0x43fa0000 0x44610000 = 0x44af0000"
  by (rule nudge_exact)
    (simp_all add: f32_finite_def f32_abs_def f32_units_def f32_negative_def magnitude_units_def)

end
