(* ===== verification/Command_Line.thy ===== *)
theory Command_Line
  imports Host_State
begin

section \<open>The command-line programs\<close>

text \<open>
  What the smoke programs and the injector share: the conversion of wide text for messages, and how
  a program ends.  \<open>WideCharToMultiByte\<close> belongs to Windows and is the parameter \<open>utf8\<close>: the bytes it
  writes for a text, none when it fails.
\<close>

definition narrow :: "(wstring \<Rightarrow> string) \<Rightarrow> wstring \<Rightarrow> string" where
  "narrow utf8 value = (if value = [] then [] else utf8 value)"

text \<open>
  A program ends with an exit status and a message on the error stream (none on success), and leaves
  what it has printed, the process, and the files it has written, newest last.
\<close>

record 'r program_exit =
  exit_status :: nat
  exit_message :: string
  exit_output :: string
  exit_process :: "'r process"
  exit_files :: "(wstring \<times> string) list"

definition exits ::
  "nat \<Rightarrow> string \<Rightarrow> string \<Rightarrow> 'r process \<Rightarrow> (wstring \<times> string) list \<Rightarrow> 'r program_exit" where
  "exits n message output p fs =
     \<lparr>exit_status = n, exit_message = message, exit_output = output, exit_process = p, exit_files = fs\<rparr>"

lemma exits_simps [simp]:
  "exit_status (exits n m out p fs) = n" "exit_message (exits n m out p fs) = m"
  "exit_output (exits n m out p fs) = out" "exit_process (exits n m out p fs) = p"
  "exit_files (exits n m out p fs) = fs"
  by (simp_all add: exits_def)

text \<open>The lambda \<open>require_value\<close> finds no argument after the option.\<close>

definition missing_value :: "(wstring \<Rightarrow> string) \<Rightarrow> string \<Rightarrow> string" where
  "missing_value utf8 name = ''missing value for '' @ narrow utf8 (wide name)"

definition unknown_argument :: "(wstring \<Rightarrow> string) \<Rightarrow> wstring \<Rightarrow> string" where
  "unknown_argument utf8 arg = ''unknown argument: '' @ narrow utf8 arg"

lemma argument_errors [simp]: "missing_value utf8 name \<noteq> []" "unknown_argument utf8 arg \<noteq> []"
  by (simp_all add: missing_value_def unknown_argument_def)

text \<open>Literals compare as the narrow texts they are made of.\<close>

lemma of_char_u16: "(of_nat (of_char c) :: u16) = of_nat (of_char d) \<longleftrightarrow> c = d"
proof -
  have "unat (of_nat (of_char c) :: u16) = of_char c" for c :: char
  proof -
    have "of_char c < (65536 :: nat)" by (rule less_trans [OF nat_of_char_less_256]) simp
    then show ?thesis by (simp add: unat_of_nat)
  qed
  then show ?thesis by (metis of_char_eq_iff)
qed

lemma wide_eq_iff [simp]: "wide s = wide t \<longleftrightarrow> s = t"
  by (simp add: wide_def inj_map_eq_map of_char_u16 inj_on_def)

lemma wide_Nil_iff [simp]: "wide s = [] \<longleftrightarrow> s = []"
  by (simp add: wide_def)

end
