(* ===== verification/Bootstrap_Smoke.thy ===== *)
theory Bootstrap_Smoke
  imports Command_Line Host_Api_Properties
begin

section \<open>The bootstrap smoke program\<close>

text \<open>
  \<open>bootstrap_smoke.cpp\<close>: a program that loads the host's library, initializes the host with every
  requirement on, looks at its snapshot, checks that a second initialization is rejected, and shuts
  the host down.  The functions behind the exports are those of \<open>Host_Api\<close>, on a host whose globals
  have their initial value.  \<open>None\<close> is a call of the host that does not return.
\<close>

subsection \<open>Options\<close>

record bootstrap_options =
  bo_host_path :: wstring
  bo_runtime_path :: wstring
  bo_server_path :: wstring
  bo_output_path :: wstring

definition no_bootstrap_options :: bootstrap_options where
  "no_bootstrap_options =
     \<lparr>bo_host_path = [], bo_runtime_path = [], bo_server_path = [], bo_output_path = []\<rparr>"

text \<open>The loop over the arguments; \<open>Inl []\<close> is the request for help.\<close>

fun bootstrap_arguments ::
  "(wstring \<Rightarrow> string) \<Rightarrow> wstring list \<Rightarrow> bootstrap_options \<Rightarrow> string + bootstrap_options" where
  "bootstrap_arguments utf8 [] opts = Inr opts"
| "bootstrap_arguments utf8 (arg # args) opts =
     (if arg = wide ''--host'' then
        (case args of
           [] \<Rightarrow> Inl (missing_value utf8 ''--host'')
         | v # args \<Rightarrow> bootstrap_arguments utf8 args (opts\<lparr>bo_host_path := v\<rparr>))
      else if arg = wide ''--runtime'' then
        (case args of
           [] \<Rightarrow> Inl (missing_value utf8 ''--runtime'')
         | v # args \<Rightarrow> bootstrap_arguments utf8 args (opts\<lparr>bo_runtime_path := v\<rparr>))
      else if arg = wide ''--server'' then
        (case args of
           [] \<Rightarrow> Inl (missing_value utf8 ''--server'')
         | v # args \<Rightarrow> bootstrap_arguments utf8 args (opts\<lparr>bo_server_path := v\<rparr>))
      else if arg = wide ''--output'' then
        (case args of
           [] \<Rightarrow> Inl (missing_value utf8 ''--output'')
         | v # args \<Rightarrow> bootstrap_arguments utf8 args (opts\<lparr>bo_output_path := v\<rparr>))
      else if arg = wide ''--help'' \<or> arg = wide ''-h'' then Inl []
      else Inl (unknown_argument utf8 arg))"

definition bootstrap_parse_options :: "(wstring \<Rightarrow> string) \<Rightarrow> wstring list \<Rightarrow> string + bootstrap_options" where
  "bootstrap_parse_options utf8 argv =
     (case bootstrap_arguments utf8 (drop 1 argv) no_bootstrap_options of
        Inl e \<Rightarrow> Inl e
      | Inr opts \<Rightarrow>
          if bo_host_path opts = [] \<or> bo_runtime_path opts = [] \<or> bo_server_path opts = [] \<or>
             bo_output_path opts = []
          then Inl ''--host, --runtime, --server, and --output are required''
          else Inr opts)"

subsection \<open>The session\<close>

text \<open>\<open>required_proc\<close>: a later missing export overwrites the text of an earlier one.\<close>

definition required_proc :: "windows \<Rightarrow> ptr \<Rightarrow> string \<Rightarrow> string \<Rightarrow> ptr \<times> string" where
  "required_proc w module name error =
     (let f = get_proc_address w module name
      in (f, if f = nullptr then ''missing host export: '' @ name else error))"

definition bootstrap_config :: "bootstrap_options \<Rightarrow> host_config" where
  "bootstrap_config opts =
     \<lparr>cfg_abi_version = DWRT_HOST_ABI_VERSION, cfg_flags = 1 OR 2 OR 4,
      cfg_runtime_path = Some (bo_runtime_path opts), cfg_server_module_name = Some (wide ''server.dll''),
      cfg_server_path = Some (bo_server_path opts), cfg_summary_path = Some (bo_output_path opts)\<rparr>"

text \<open>The ways out that shut the host down and free its library.\<close>

definition bootstrap_leave :: "'r host_env \<Rightarrow> ptr \<Rightarrow> nat \<Rightarrow> string \<Rightarrow> 'r host \<Rightarrow> 'r program_exit" where
  "bootstrap_leave env module n message h =
     (let h = snd (dwrt_host_shutdown env h) 
      in exits n message (if n = 0 then ''[dwrt-host-bootstrap-smoke] OK'' @ [newline] else [])
           (FreeLibrary module (win h)) (files h))"

definition bootstrap_session ::
  "'r host_env \<Rightarrow> bootstrap_options \<Rightarrow> ptr \<Rightarrow> 'r host \<Rightarrow> 'r program_exit option" where
  "bootstrap_session env opts module h =
     (let config = bootstrap_config opts
      in case dwrt_host_initialize env (Some config) h of
           None \<Rightarrow> None
         | Some (init_status, h) \<Rightarrow>
             if init_status \<noteq> 0
             then Some (bootstrap_leave env module 4
                    (''dwrt_host_initialize failed with status '' @ dec (unat init_status)) h)
             else
               (let (snapshot_status, out) = dwrt_host_snapshot (Some zero_host_snapshot) h;
                    s = the out
                in if snapshot_status \<noteq> 0
                   then Some (bootstrap_leave env module 5 ''dwrt_host_snapshot failed'' h)
                   else if snap_initialized s = 0 \<or> snap_runtime_loaded s = 0 \<or> snap_runtime_probe_ok s = 0 \<or>
                     snap_signatures_checked s = 0 \<or> snap_signature_required_failures s \<noteq> 0
                   then Some (bootstrap_leave env module 6
                          ''dwrt_host snapshot did not report a healthy initialized host'' h)
                   else
                     (case dwrt_host_initialize env (Some config) h of
                        None \<Rightarrow> None
                      | Some (second_init_status, h) \<Rightarrow>
                          if second_init_status \<noteq> 2
                          then Some (bootstrap_leave env module 7
                                 ''dwrt_host did not reject a second initialize call'' h)
                          else
                            (let (second_snapshot_status, out) = dwrt_host_snapshot (Some s) h
                             in if second_snapshot_status \<noteq> 0 \<or> snap_initialize_reentrant_rejects (the out) \<noteq> 1
                                then Some (bootstrap_leave env module 8
                                       ''dwrt_host did not record a reentrant initialize rejection'' h)
                                else Some (bootstrap_leave env module 0 [] h)))))"

definition bootstrap_main ::
  "'r host_env \<Rightarrow> (wstring \<Rightarrow> string) \<Rightarrow> wstring list \<Rightarrow> code_text \<Rightarrow> 'r process \<Rightarrow> 'r program_exit option" where
  "bootstrap_main env utf8 argv t p =
     (case bootstrap_parse_options utf8 argv of
        Inl e \<Rightarrow> Some (if e \<noteq> [] then exits 64 e [] p [] else exits 0 [] [] p [])
      | Inr opts \<Rightarrow>
          (let w = env_windows env;
               (module, p) = LoadLibraryW w (bo_host_path opts) p
           in if module = nullptr
              then Some (exits 1 (windows_error_message w ''failed to load dwrt_host.dll'' p) [] p [])
              else
                (let (abi, e) = required_proc w module ''dwrt_host_abi_version'' [];
                     (initialize, e) = required_proc w module ''dwrt_host_initialize'' e;
                     (snapshot, e) = required_proc w module ''dwrt_host_snapshot'' e;
                     (shutdown, e) = required_proc w module ''dwrt_host_shutdown'' e
                 in if abi = nullptr \<or> initialize = nullptr \<or> snapshot = nullptr \<or> shutdown = nullptr
                    then Some (exits 2 e [] (FreeLibrary module p) [])
                    else if dwrt_host_abi_version \<noteq> DWRT_HOST_ABI_VERSION
                    then Some (exits 3 ''unexpected dwrt_host ABI version'' [] (FreeLibrary module p) [])
                    else bootstrap_session env opts module (new_host w t p))))"

subsection \<open>What the command line means\<close>

datatype bootstrap_field = Host_Path | Runtime_Path | Server_Path | Output_Path

fun field_option :: "bootstrap_field \<Rightarrow> string" where
  "field_option Host_Path = ''--host''"
| "field_option Runtime_Path = ''--runtime''"
| "field_option Server_Path = ''--server''"
| "field_option Output_Path = ''--output''"

fun set_field :: "bootstrap_field \<times> wstring \<Rightarrow> bootstrap_options \<Rightarrow> bootstrap_options" where
  "set_field (Host_Path, v) opts = opts\<lparr>bo_host_path := v\<rparr>"
| "set_field (Runtime_Path, v) opts = opts\<lparr>bo_runtime_path := v\<rparr>"
| "set_field (Server_Path, v) opts = opts\<lparr>bo_server_path := v\<rparr>"
| "set_field (Output_Path, v) opts = opts\<lparr>bo_output_path := v\<rparr>"

definition field_arguments :: "(bootstrap_field \<times> wstring) list \<Rightarrow> wstring list" where
  "field_arguments fs = concat (map (\<lambda>(f, v). [wide (field_option f), v]) fs)"

lemma bootstrap_arguments_fields:
  "bootstrap_arguments utf8 (field_arguments fs @ args) opts =
   bootstrap_arguments utf8 args (fold set_field fs opts)"
proof (induction fs arbitrary: opts)
  case (Cons x fs)
  obtain f v where x: "x = (f, v)" by fastforce
  show ?case by (cases f) (use Cons in \<open>simp_all add: field_arguments_def x\<close>)
qed (simp add: field_arguments_def)

lemma bootstrap_arguments_Inr:
  "bootstrap_arguments utf8 args opts = Inr opts' \<Longrightarrow>
   \<exists>fs. args = field_arguments fs \<and> opts' = fold set_field fs opts"
proof (induction utf8 args opts rule: bootstrap_arguments.induct)
  case (1 utf8 opts)
  then show ?case by (intro exI [of _ "[]"]) (simp add: field_arguments_def)
next
  case (2 utf8 arg args opts)
  have step: "\<exists>fs. arg # args = field_arguments fs \<and> opts' = fold set_field fs opts"
    if "arg = wide (field_option f)" "args = v # rest"
      "\<exists>fs. rest = field_arguments fs \<and> opts' = fold set_field fs (set_field (f, v) opts)" for f v rest
  proof -
    from that(3) obtain fs where "rest = field_arguments fs" "opts' = fold set_field fs (set_field (f, v) opts)"
      by blast
    then show ?thesis using that(1,2) by (intro exI [of _ "(f, v) # fs"]) (simp add: field_arguments_def)
  qed
  show ?case
    using 2 step [of Host_Path] step [of Runtime_Path] step [of Server_Path] step [of Output_Path]
    by (auto split: if_splits list.splits)
qed

text \<open>C37. The command line is read exactly: \<open>parse_options\<close> accepts the sequences of option and value pairs
  with the four options, in any order and repeated at will, and nothing else; the last value of an
  option counts, and none of the four may be left empty.\<close>
theorem bootstrap_options_exact:
  "bootstrap_parse_options utf8 argv = Inr opts \<longleftrightarrow>
     (\<exists>fs. drop 1 argv = field_arguments fs \<and> opts = fold set_field fs no_bootstrap_options) \<and>
     bo_host_path opts \<noteq> [] \<and> bo_runtime_path opts \<noteq> [] \<and> bo_server_path opts \<noteq> [] \<and> bo_output_path opts \<noteq> []"
proof -
  have "bootstrap_arguments utf8 (drop 1 argv) no_bootstrap_options = Inr opts \<longleftrightarrow>
      (\<exists>fs. drop 1 argv = field_arguments fs \<and> opts = fold set_field fs no_bootstrap_options)"
    using bootstrap_arguments_Inr bootstrap_arguments_fields [of utf8 _ "[]"] by fastforce
  then show ?thesis by (auto simp: bootstrap_parse_options_def split: sum.splits)
qed

subsection \<open>A host that initializes is healthy\<close>

lemma start_runtime_required:
  assumes "start_runtime env config h = (0, h')" "cfg_flags config AND 1 \<noteq> 0"
  shows "hs_runtime_loaded (state h') \<and> hs_runtime_probe_ok (state h')"
  using assms by (auto simp: start_runtime_def Let_def split: if_splits prod.splits)

lemma start_runtime_testpoints:
  "start_runtime env config h = (status, h') \<Longrightarrow> testpoints h' = testpoints h"
  by (auto simp: start_runtime_def Let_def split: if_splits prod.splits)

text \<open>Resolution without hooks: what it keeps, and what a status of 0 says.\<close>

definition resolved_plainly :: "host_config \<Rightarrow> 'r host \<Rightarrow> u32 \<Rightarrow> 'r host \<Rightarrow> bool" where
  "resolved_plainly config h status h' \<longleftrightarrow>
     testpoints h' = testpoints h \<and>
     hs_runtime_loaded (state h') = hs_runtime_loaded (state h) \<and>
     hs_runtime_probe_ok (state h') = hs_runtime_probe_ok (state h) \<and>
     (status = 0 \<longrightarrow> hs_signatures_checked (state h') \<and>
       (cfg_flags config AND 2 \<noteq> 0 \<longrightarrow> hs_signature_required_failures (state h') = 0))"

lemma free_fallback_testpoints [simp]: "testpoints (free_fallback f h) = testpoints h"
  by (simp add: free_fallback_def)

lemma resolve_plainly:
  assumes r: "resolve_server_signatures env config h = Some (status, h')" and n: "cfg_flags config AND 16 = 0"
  shows "resolved_plainly config h status h'"
proof -
  have m: "resolve_in_module env config view f h = Some (status, h') \<Longrightarrow> resolved_plainly config h status h'" for view f h
    using n by (auto simp: resolve_in_module_def resolved_plainly_def Let_def split: option.splits if_splits)
  have v: "view_and_resolve env config md f path h = Some (status, h') \<Longrightarrow> resolved_plainly config h status h'" for md f path h
    using m by (fastforce simp: view_and_resolve_def resolved_plainly_def split: option.splits sum.splits)
  let ?w = "env_windows env"
  let ?name = "config_string_or (cfg_server_module_name config) ''server.dll''"
  let ?path = "the (cfg_server_path config)"
  obtain md p where g: "GetModuleHandleW ?w ?name (win h) = (md, p)" by fastforce
  obtain f q where l: "LoadLibraryExW ?w ?path p = (f, q)" by fastforce
  note unfold = resolve_server_signatures_def g l Let_def
  show ?thesis
  proof (cases "md = nullptr")
    case False
    then have "view_and_resolve env config md nullptr ?name
        (h\<lparr>win := p, state := (state h)\<lparr>hs_used_live_server_module := True\<rparr>\<rparr>) = Some (status, h')"
      using r by (simp add: unfold)
    from v [OF this] show ?thesis by (simp add: resolved_plainly_def)
  next
    case md: True
    show ?thesis
    proof (cases "cfg_flags config AND 4 \<noteq> 0 \<and> given (cfg_server_path config) \<and> f \<noteq> nullptr")
      case True
      then have "view_and_resolve env config f f ?path
          (h\<lparr>win := q, state := (state h)\<lparr>hs_used_mapped_file_fallback := True\<rparr>\<rparr>) = Some (status, h')"
        using r md by (simp add: unfold)
      from v [OF this] show ?thesis by (simp add: resolved_plainly_def)
    next
      case False
      then have "status = 7 \<and> (\<exists>p e. h' = h\<lparr>win := p, state := (state h)\<lparr>hs_last_error := e\<rparr>\<rparr>)"
        using r md by (auto simp: unfold split: if_splits)
      then show ?thesis by (auto simp: resolved_plainly_def)
    qed
  qed
qed

text \<open>The flags the program asks for, and what status 0 means under them.\<close>

lemma required_initialize:
  assumes i: "dwrt_host_initialize env (Some config) h = Some (0, h')"
    and f: "cfg_flags config AND 1 \<noteq> 0" "cfg_flags config AND 2 \<noteq> 0" "cfg_flags config AND 16 = 0"
  shows "hs_initialized (state h') \<and> hs_runtime_loaded (state h') \<and> hs_runtime_probe_ok (state h') \<and>
    hs_signatures_checked (state h') \<and> hs_signature_required_failures (state h') = 0 \<and>
    testpoints h' = record_initialize_call (testpoints h)"
  using i
proof (cases rule: initialize_cases)
  case (accepted c h1 rs h2 more)
  have c: "c = config" using accepted(2) by simp
  have "rs = 0"
  proof (rule ccontr)
    assume "rs \<noteq> 0"
    then have "dwrt_host_initialize env (Some config) h = Some (rs, h2)"
      using accepted(1,3,4,5) f(2)
      by (simp add: dwrt_host_initialize_def valid_config_def c Let_def counted_def [symmetric])
    then show False using i \<open>rs \<noteq> 0\<close> by simp
  qed
  then have r: "resolved_plainly config h1 0 h2" using resolve_plainly [OF accepted(5)] f(3) by (simp add: c)
  have s: "hs_runtime_loaded (state h1) \<and> hs_runtime_probe_ok (state h1)"
    using start_runtime_required [OF accepted(4)] f(1) by (simp add: c)
  have t: "testpoints h1 = record_initialize_call (testpoints h)"
    using start_runtime_testpoints [OF accepted(4)] by (simp add: counted_def)
  show ?thesis using r s t f(2) by (simp add: accepted(7) resolved_plainly_def)
qed simp_all

lemma second_initialize:
  assumes "hs_initialized (state h)"
  shows "dwrt_host_initialize env (Some (bootstrap_config opts)) h =
    Some (2, h\<lparr>testpoints := record_initialize_reentrant_reject (record_initialize_call (testpoints h))\<rparr>)"
  using assms by (simp add: dwrt_host_initialize_def bootstrap_config_def Let_def)

lemma bootstrap_config_flags:
  "cfg_flags (bootstrap_config opts) AND 1 \<noteq> 0" "cfg_flags (bootstrap_config opts) AND 2 \<noteq> 0"
  "cfg_flags (bootstrap_config opts) AND 16 = 0"
  by (simp_all add: bootstrap_config_def)

text \<open>The session on a new host: it succeeds as soon as the first initialization does.\<close>

lemma bootstrap_session_status:
  assumes "bootstrap_session env opts module (new_host w t p) = Some r"
  obtains (ok) h where "dwrt_host_initialize env (Some (bootstrap_config opts)) (new_host w t p) = Some (0, h)"
      "r = bootstrap_leave env module 0 []
         (h\<lparr>testpoints := record_initialize_reentrant_reject (record_initialize_call (testpoints h))\<rparr>)"
  | (failed) status h message where
      "dwrt_host_initialize env (Some (bootstrap_config opts)) (new_host w t p) = Some (status, h)"
      "status \<noteq> 0" "r = bootstrap_leave env module 4 message h"
proof -
  obtain status h where i: "dwrt_host_initialize env (Some (bootstrap_config opts)) (new_host w t p) = Some (status, h)"
    using assms by (auto simp: bootstrap_session_def Let_def split: option.splits)
  show ?thesis
  proof (cases "status = 0")
    case True
    note k = required_initialize [OF i [unfolded True] bootstrap_config_flags]
    have "testpoints (new_host w t p) = zero_testpoints" by (simp add: new_host_def)
    then have tp: "initialize_reentrant_rejects (take_testpoint_snapshot
        (record_initialize_reentrant_reject (record_initialize_call (testpoints h)))) = 1"
      using k by (simp add: take_testpoint_snapshot_def record_initialize_reentrant_reject_def
          record_initialize_call_def zero_testpoints_def)
    show ?thesis
      using assms i True k tp ok
      by (simp add: bootstrap_session_def second_initialize dwrt_host_snapshot_def Let_def)
  next
    case False
    then show ?thesis using assms i failed by (auto simp: bootstrap_session_def Let_def)
  qed
qed

lemma bootstrap_leave_refs:
  assumes "host_inv refs h"
  shows "library_refs (exit_process (bootstrap_leave env module n message h)) k = refs k - of_bool (k = module)"
  using shutdown_inv(4) [OF assms, of env] by (simp add: bootstrap_leave_def Let_def)

lemma host_inv_testpoints [simp]: "host_inv refs (h\<lparr>testpoints := x\<rparr>) = host_inv refs h"
  by (simp add: host_inv_def shim_ok_def no_hooks_def hooks_whole_def)

lemma new_host_inv: "host_inv (library_refs p) (new_host w t p)"
  using fresh_inv(1) [of t "library_refs p" "\<lparr>the_host = new_host w t p, memory = undefined, classifier_scope = undefined\<rparr>"]
  by (auto simp: fresh_def)

definition host_exports :: "windows \<Rightarrow> ptr \<Rightarrow> bool" where
  "host_exports w module \<longleftrightarrow>
     (\<forall>name \<in> {''dwrt_host_abi_version'', ''dwrt_host_initialize'', ''dwrt_host_snapshot'', ''dwrt_host_shutdown''}.
        get_proc_address w module name \<noteq> nullptr)"

lemma bootstrap_main_cases:
  assumes "bootstrap_main env utf8 argv t p = Some r"
  obtains (usage) e where "bootstrap_parse_options utf8 argv = Inl e" "exit_status r \<in> {0, 64}" "exit_process r = p"
  | (not_loaded) opts q where "bootstrap_parse_options utf8 argv = Inr opts" "exit_status r = 1"
      "LoadLibraryW (env_windows env) (bo_host_path opts) p = (nullptr, q)" "exit_process r = q"
  | (not_bound) opts module q where "bootstrap_parse_options utf8 argv = Inr opts" "exit_status r = 2"
      "LoadLibraryW (env_windows env) (bo_host_path opts) p = (module, q)" "module \<noteq> nullptr"
      "\<not> host_exports (env_windows env) module" "exit_process r = FreeLibrary module q"
  | (session) opts module q where "bootstrap_parse_options utf8 argv = Inr opts"
      "LoadLibraryW (env_windows env) (bo_host_path opts) p = (module, q)" "module \<noteq> nullptr"
      "host_exports (env_windows env) module"
      "bootstrap_session env opts module (new_host (env_windows env) t q) = Some r"
proof (cases "bootstrap_parse_options utf8 argv")
  case (Inl e)
  then show ?thesis using assms usage by (cases "e = []") (auto simp: bootstrap_main_def)
next
  case (Inr opts)
  let ?w = "env_windows env"
  obtain module q where l: "LoadLibraryW ?w (bo_host_path opts) p = (module, q)" by fastforce
  show ?thesis
  proof (cases "module = nullptr")
    case True
    then show ?thesis using assms Inr l not_loaded by (auto simp: bootstrap_main_def)
  next
    case m: False
    show ?thesis
    proof (cases "host_exports ?w module")
      case True
      then have "bootstrap_session env opts module (new_host ?w t q) = Some r"
        using assms Inr l m
        by (simp add: bootstrap_main_def required_proc_def host_exports_def dwrt_host_abi_version_def Let_def)
      then show ?thesis using session Inr l m True by blast
    next
      case False
      then have "exit_status r = 2" "exit_process r = FreeLibrary module q"
        using assms Inr l m
        by (auto simp: bootstrap_main_def required_proc_def host_exports_def Let_def)
      then show ?thesis using not_bound Inr l m False by blast
    qed
  qed
qed

text \<open>C19. The verdict of the bootstrap smoke program is that of the host: with a complete command line it ends
  with 0 exactly when the library loads, its exports are there and the first initialization
  succeeds; the later checks (the ABI version, the snapshot, the health of the host, the rejection
  of a second initialization and its count) never fail.  On every way out it has given back every
  library that was loaded on its behalf.\<close>
theorem bootstrap_smoke_verdict:
  assumes "bootstrap_main env utf8 argv t p = Some r" "length (env_detours env) = 7"
  shows "exit_status r \<in> {0, 1, 2, 4, 64} \<and> library_refs (exit_process r) = library_refs p \<and>
    (\<forall>opts. bootstrap_parse_options utf8 argv = Inr opts \<longrightarrow>
       (exit_status r = 0 \<longleftrightarrow>
         (case LoadLibraryW (env_windows env) (bo_host_path opts) p of (module, q) \<Rightarrow>
            module \<noteq> nullptr \<and> host_exports (env_windows env) module \<and>
            (\<exists>h. dwrt_host_initialize env (Some (bootstrap_config opts)) (new_host (env_windows env) t q) = Some (0, h)))))"
  using assms(1)
proof (cases rule: bootstrap_main_cases)
  case (not_loaded opts q)
  have "library_refs q = library_refs p" using not_loaded(3) by (auto simp: LoadLibraryW_def add_ref_def Let_def)
  then show ?thesis using not_loaded by auto
next
  case (not_bound opts module q)
  then have "library_refs q = (\<lambda>k. library_refs p k + of_bool (k = module \<and> module \<noteq> 0))"
    by (auto simp: LoadLibraryW_def library_refs_add_ref Let_def)
  then show ?thesis using not_bound by auto
next
  case (session opts module q)
  have q: "library_refs q = (\<lambda>k. library_refs p k + of_bool (k = module \<and> module \<noteq> 0))"
    using session(2) by (auto simp: LoadLibraryW_def library_refs_add_ref Let_def)
  have inv: "host_inv (library_refs q) h"
    if "dwrt_host_initialize env (Some (bootstrap_config opts)) (new_host (env_windows env) t q) = Some (status, h)" for status h
    by (rule initialize_inv(1) [OF that new_host_inv assms(2)])
  show ?thesis
    using session(5)
  proof (cases rule: bootstrap_session_status)
    case (ok h)
    have "library_refs (exit_process r) = library_refs p"
      unfolding ok(2) by (rule ext, subst bootstrap_leave_refs [of "library_refs q"]) (use inv [OF ok(1)] in \<open>simp_all add: q session(3)\<close>)
    then show ?thesis using ok session by (simp add: bootstrap_leave_def Let_def)
  next
    case (failed status h message)
    have "library_refs (exit_process r) = library_refs p"
      unfolding failed(3) by (rule ext, subst bootstrap_leave_refs [of "library_refs q"]) (use inv [OF failed(1)] in \<open>simp_all add: q session(3)\<close>)
    then show ?thesis using failed session by (simp add: bootstrap_leave_def Let_def)
  qed
qed auto

text \<open>A machine on which every library loads, and the server module from its file.\<close>

definition bootstrap_windows :: windows where
  "bootstrap_windows = example_windows
     \<lparr>load_library_w := (\<lambda>n path. 0x180000000), load_library_ex_w := (\<lambda>n path. live_base),
      get_proc_address := (\<lambda>h name. 0x180001000)\<rparr>"

definition bootstrap_argv :: "wstring list" where
  "bootstrap_argv = map wide [''smoke.exe'', ''--output'', ''out.json'', ''--host'', ''other.dll'',
     ''--runtime'', ''dwrt_runtime.dll'', ''--server'', ''server.dll'', ''--host'', ''dwrt_host.dll'']"

lemma bootstrap_argv_options:
  "bootstrap_parse_options utf8 bootstrap_argv = Inr
     \<lparr>bo_host_path = wide ''dwrt_host.dll'', bo_runtime_path = wide ''dwrt_runtime.dll'',
      bo_server_path = wide ''server.dll'', bo_output_path = wide ''out.json''\<rparr>"
  by (simp add: bootstrap_parse_options_def bootstrap_argv_def no_bootstrap_options_def)

lemma bootstrap_session_returns:
  assumes "dwrt_host_initialize env (Some (bootstrap_config opts)) (new_host w t p) = Some (0, h)"
  shows "\<exists>r. bootstrap_session env opts module (new_host w t p) = Some r"
  using assms required_initialize [OF assms bootstrap_config_flags]
  by (simp add: bootstrap_session_def second_initialize dwrt_host_snapshot_def Let_def)

lemma bootstrap_live_initialize:
  assumes "bo_runtime_path opts \<noteq> []" "bo_server_path opts \<noteq> []" "runtime_memory p = Map.empty"
  shows "\<exists>h. dwrt_host_initialize (live_env bootstrap_windows) (Some (bootstrap_config opts))
    (new_host bootstrap_windows live_text p) = Some (0, h)"
proof -
  have "runtime_found bootstrap_windows (bootstrap_config opts)"
    using assms(1) by (simp add: runtime_found_def bootstrap_config_def bootstrap_windows_def given_def)
  moreover have "server_mapped bootstrap_windows (bootstrap_config opts)"
    using assms(2) by (simp add: server_mapped_def bootstrap_config_def bootstrap_windows_def example_windows_def given_def)
  moreover have "cfg_abi_version (bootstrap_config opts) = DWRT_HOST_ABI_VERSION" by (simp add: bootstrap_config_def)
  ultimately show ?thesis using live_initialize assms(3) by blast
qed

lemma bootstrap_example:
  "\<exists>r. bootstrap_main (live_env bootstrap_windows) utf8 bootstrap_argv live_text (example_process Map.empty) = Some r \<and>
     exit_status r = 0"
proof -
  let ?opts = "\<lparr>bo_host_path = wide ''dwrt_host.dll'', bo_runtime_path = wide ''dwrt_runtime.dll'',
      bo_server_path = wide ''server.dll'', bo_output_path = wide ''out.json''\<rparr>"
  let ?q = "example_process Map.empty :: runtime_heap process"
  let ?p = "tick (add_ref 0x180000000 ?q)"
  obtain h where i: "dwrt_host_initialize (live_env bootstrap_windows) (Some (bootstrap_config ?opts))
      (new_host bootstrap_windows live_text ?p) = Some (0, h)"
    using bootstrap_live_initialize [of ?opts ?p] by (auto simp: wide_def example_process_def)
  obtain r where r: "bootstrap_session (live_env bootstrap_windows) ?opts 0x180000000
      (new_host bootstrap_windows live_text ?p) = Some r"
    using bootstrap_session_returns [OF i] by blast
  have "exit_status r = 0"
    using r by (cases rule: bootstrap_session_status) (use i in \<open>auto simp: bootstrap_leave_def Let_def\<close>)
  moreover have "LoadLibraryW bootstrap_windows path ?q = (0x180000000, ?p)" for path
    by (simp add: LoadLibraryW_def bootstrap_windows_def)
  moreover have "get_proc_address bootstrap_windows m x = 0x180001000" for m x by (simp add: bootstrap_windows_def)
  ultimately show ?thesis
    using r by (simp add: bootstrap_main_def bootstrap_argv_options required_proc_def dwrt_host_abi_version_def Let_def)
qed

theorem bootstrap_smoke_verdict_witness:
  "\<forall>utf8. \<exists>r. bootstrap_main (live_env bootstrap_windows) utf8 bootstrap_argv live_text (example_process Map.empty) = Some r \<and>
     exit_status r = 0 \<and> library_refs (exit_process r) = (\<lambda>h. 0)"
proof
  fix utf8
  obtain r where r: "bootstrap_main (live_env bootstrap_windows) utf8 bootstrap_argv live_text (example_process Map.empty) = Some r"
    "exit_status r = 0" using bootstrap_example by blast
  have "length (env_detours (live_env bootstrap_windows)) = 7" by simp
  from bootstrap_smoke_verdict [OF r(1) this] r
  show "\<exists>r. bootstrap_main (live_env bootstrap_windows) utf8 bootstrap_argv live_text (example_process Map.empty) = Some r \<and>
     exit_status r = 0 \<and> library_refs (exit_process r) = (\<lambda>h. 0)"
    by (auto simp: example_process_def)
qed

end
