(* ===== verification/Host_Smoke.thy ===== *)
theory Host_Smoke
  imports Command_Line Host_Summary
begin

section \<open>The host smoke program\<close>

text \<open>
  \<open>smoke.cpp\<close>: a program that loads the runtime and tries its probe functions, resolves the
  signatures of the manifest in the file \<open>server.dll\<close> and, when asked to, in the mapped module too,
  and writes a summary.  \<open>None\<close> is a run that does not end by itself: a read outside the image while
  its headers are parsed, a fault in the mapped module, or an exception of the file system.
\<close>

text \<open>
  What the program is given: Windows, the code of the runtime library, the conversions of wide text
  and of paths, what reading a file gives, the memory of the process, and the file system.
\<close>

record 'r smoke_env =
  se_windows :: windows
  se_runtime :: "'r runtime_code"
  se_utf8 :: "wstring \<Rightarrow> string"
  se_path_string :: "wstring \<Rightarrow> string"
  se_file :: "wstring \<Rightarrow> file_content option"
  se_memory :: engine_memory
  se_parent_path :: "wstring \<Rightarrow> wstring"
  se_create_directories :: "wstring \<Rightarrow> bool"
  se_open :: "wstring \<Rightarrow> bool"

subsection \<open>Options\<close>

definition kDefaultServerDll :: wstring where
  "kDefaultServerDll = wide (''C:'' @ concat (map (\<lambda>part. CHR 0x5C # part)
     [''Program Files (x86)'', ''Steam'', ''steamapps'', ''common'', ''Deadlock'', ''game'', ''citadel'',
      ''bin'', ''win64'', ''server.dll'']))"

record smoke_options =
  so_server_path :: wstring
  so_runtime_path :: wstring
  so_output_path :: wstring
  so_require_runtime :: bool
  so_allow_expected_rva_drift :: bool
  so_mapped_module_check :: bool

definition default_smoke_options :: smoke_options where
  "default_smoke_options =
     \<lparr>so_server_path = kDefaultServerDll, so_runtime_path = [], so_output_path = [],
      so_require_runtime = False, so_allow_expected_rva_drift = False, so_mapped_module_check = False\<rparr>"

text \<open>The loop over the arguments; \<open>Inl []\<close> is the request for help.\<close>

fun smoke_arguments :: "(wstring \<Rightarrow> string) \<Rightarrow> wstring list \<Rightarrow> smoke_options \<Rightarrow> string + smoke_options" where
  "smoke_arguments utf8 [] opts = Inr opts"
| "smoke_arguments utf8 (arg # args) opts =
     (if arg = wide ''--server'' then
        (case args of
           [] \<Rightarrow> Inl (missing_value utf8 ''--server'')
         | v # args \<Rightarrow> smoke_arguments utf8 args (opts\<lparr>so_server_path := v\<rparr>))
      else if arg = wide ''--runtime'' then
        (case args of
           [] \<Rightarrow> Inl (missing_value utf8 ''--runtime'')
         | v # args \<Rightarrow> smoke_arguments utf8 args (opts\<lparr>so_runtime_path := v\<rparr>))
      else if arg = wide ''--output'' then
        (case args of
           [] \<Rightarrow> Inl (missing_value utf8 ''--output'')
         | v # args \<Rightarrow> smoke_arguments utf8 args (opts\<lparr>so_output_path := v\<rparr>))
      else if arg = wide ''--require-runtime'' then
        smoke_arguments utf8 args (opts\<lparr>so_require_runtime := True\<rparr>)
      else if arg = wide ''--allow-expected-rva-drift'' then
        smoke_arguments utf8 args (opts\<lparr>so_allow_expected_rva_drift := True\<rparr>)
      else if arg = wide ''--mapped-module-check'' then
        smoke_arguments utf8 args (opts\<lparr>so_mapped_module_check := True\<rparr>)
      else if arg = wide ''--help'' \<or> arg = wide ''-h'' then Inl []
      else Inl (unknown_argument utf8 arg))"

definition smoke_parse_options :: "(wstring \<Rightarrow> string) \<Rightarrow> wstring list \<Rightarrow> string + smoke_options" where
  "smoke_parse_options utf8 argv = smoke_arguments utf8 (drop 1 argv) default_smoke_options"

subsection \<open>Resolving in the file\<close>

record resolved_signature =
  fs_descriptor :: signature_descriptor
  fs_error :: string
  fs_file_offsets :: "nat list"
  fs_rva :: "u32 option"
  fs_unique :: bool
  fs_expected_rva_ok :: bool

definition smoke_resolve_signature ::
  "pe_image_file \<Rightarrow> signature_descriptor \<Rightarrow> resolved_signature option" where
  "smoke_resolve_signature img descriptor =
     (let resolved = \<lparr>fs_descriptor = descriptor, fs_error = [], fs_file_offsets = [], fs_rva = None,
                      fs_unique = False, fs_expected_rva_ok = False\<rparr>
      in case compile_pattern (sd_pattern descriptor) of
           Inl error \<Rightarrow> Some (resolved\<lparr>fs_error := error\<rparr>)
         | Inr pattern \<Rightarrow>
             (case find_pattern (pi_bytes img) pattern 3 of
                None \<Rightarrow> None
              | Some offsets \<Rightarrow>
                  (let resolved = resolved\<lparr>fs_file_offsets := offsets, fs_unique := length offsets = 1\<rparr>
                   in Some
                     (if fs_unique resolved
                      then
                        (let rva = rva_from_file_offset img (offsets ! 0);
                             resolved = resolved\<lparr>fs_rva := rva,
                               fs_expected_rva_ok := sd_expected_rva descriptor = 0 \<or>
                                 (rva \<noteq> None \<and> the rva = sd_expected_rva descriptor)\<rparr>
                         in if rva = None
                            then resolved\<lparr>fs_error := ''unique match could not be converted to RVA''\<rparr>
                            else resolved)
                      else if offsets = [] then resolved\<lparr>fs_error := ''signature not found''\<rparr>
                      else resolved\<lparr>fs_error := ''signature matched more than once''\<rparr>))))"

definition file_signature_ok :: "bool \<Rightarrow> resolved_signature \<Rightarrow> bool" where
  "file_signature_ok drift sig \<longleftrightarrow>
     (let acceptable_rva = fs_expected_rva_ok sig \<or> drift
      in fs_unique sig \<and> fs_rva sig \<noteq> None \<and> acceptable_rva)"

fun smoke_resolve_all ::
  "pe_image_file \<Rightarrow> bool \<Rightarrow> signature_descriptor list \<Rightarrow> resolved_signature list \<times> nat
     \<Rightarrow> (resolved_signature list \<times> nat) option" where
  "smoke_resolve_all img drift [] acc = Some acc"
| "smoke_resolve_all img drift (d # ds) (resolved, failures) =
     (case smoke_resolve_signature img d of
        None \<Rightarrow> None
      | Some sig \<Rightarrow>
          smoke_resolve_all img drift ds
            (resolved @ [sig], if sd_required d \<and> \<not> file_signature_ok drift sig then failures + 1 else failures))"

subsection \<open>Resolving in the mapped module\<close>

record mapped_resolved_signature =
  ms_descriptor :: signature_descriptor
  ms_error :: string
  ms_rvas :: "u32 list"
  ms_rva :: "u32 option"
  ms_unique :: bool
  ms_expected_rva_ok :: bool

definition smoke_resolve_mapped_signature ::
  "engine_memory \<Rightarrow> pe_module_view \<Rightarrow> signature_descriptor \<Rightarrow> mapped_resolved_signature option" where
  "smoke_resolve_mapped_signature m view descriptor =
     (let resolved = \<lparr>ms_descriptor = descriptor, ms_error = [], ms_rvas = [], ms_rva = None,
                      ms_unique = False, ms_expected_rva_ok = False\<rparr>
      in case compile_pattern (sd_pattern descriptor) of
           Inl error \<Rightarrow> Some (resolved\<lparr>ms_error := error\<rparr>)
         | Inr pattern \<Rightarrow>
             (case find_pattern_rvas m view pattern 3 of
                None \<Rightarrow> None
              | Some rvas \<Rightarrow>
                  (let resolved = resolved\<lparr>ms_rvas := rvas, ms_unique := length rvas = 1\<rparr>
                   in Some
                     (if ms_unique resolved
                      then resolved\<lparr>ms_rva := Some (rvas ! 0),
                             ms_expected_rva_ok := sd_expected_rva descriptor = 0 \<or>
                               rvas ! 0 = sd_expected_rva descriptor\<rparr>
                      else if rvas = []
                      then resolved\<lparr>ms_error := ''signature not found in mapped module''\<rparr>
                      else resolved\<lparr>ms_error := ''signature matched more than once in mapped module''\<rparr>))))"

definition mapped_signature_ok :: "bool \<Rightarrow> mapped_resolved_signature \<Rightarrow> bool" where
  "mapped_signature_ok drift sig \<longleftrightarrow>
     (let acceptable_rva = ms_expected_rva_ok sig \<or> drift
      in ms_unique sig \<and> ms_rva sig \<noteq> None \<and> acceptable_rva)"

fun smoke_resolve_all_mapped ::
  "engine_memory \<Rightarrow> pe_module_view \<Rightarrow> bool \<Rightarrow> signature_descriptor list \<Rightarrow> mapped_resolved_signature list \<times> nat
     \<Rightarrow> (mapped_resolved_signature list \<times> nat) option" where
  "smoke_resolve_all_mapped m view drift [] acc = Some acc"
| "smoke_resolve_all_mapped m view drift (d # ds) (resolved, failures) =
     (case smoke_resolve_mapped_signature m view d of
        None \<Rightarrow> None
      | Some sig \<Rightarrow>
          smoke_resolve_all_mapped m view drift ds
            (resolved @ [sig], if sd_required d \<and> \<not> mapped_signature_ok drift sig then failures + 1 else failures))"

text \<open>Without a module every required signature has failed.\<close>

definition required_signatures :: nat where
  "required_signatures = fold (\<lambda>d n. if sd_required d then n + 1 else n) default_probe_signatures 0"

record mapped_check =
  mc_checked :: bool
  mc_loaded :: bool
  mc_error :: string
  mc_signatures :: "mapped_resolved_signature list"
  mc_required_failures :: nat

definition check_mapped_module ::
  "'r smoke_env \<Rightarrow> smoke_options \<Rightarrow> 'r process \<Rightarrow> (mapped_check \<times> 'r process) option" where
  "check_mapped_module env opts p =
     (let check = \<lparr>mc_checked = so_mapped_module_check opts, mc_loaded = False, mc_error = [],
                   mc_signatures = [], mc_required_failures = 0\<rparr>
      in if \<not> so_mapped_module_check opts then Some (check, p)
         else
           (let w = se_windows env; (mapped_module, p) = LoadLibraryExW w (so_server_path opts) p
            in if mapped_module = nullptr
               then Some (check\<lparr>mc_error :=
                        windows_error_message w ''failed to map server.dll for live-module resolver check'' p,
                      mc_required_failures := required_signatures\<rparr>, p)
               else
                 (let check = check\<lparr>mc_loaded := True\<rparr>
                  in case from_module_handle (se_memory env) mapped_module
                            (se_path_string env (so_server_path opts)) of
                       None \<Rightarrow> None
                     | Some (Inl module_error) \<Rightarrow>
                         Some (check\<lparr>mc_error := module_error, mc_required_failures := required_signatures\<rparr>,
                               FreeLibrary mapped_module p)
                     | Some (Inr view) \<Rightarrow>
                         (case smoke_resolve_all_mapped (se_memory env) view (so_allow_expected_rva_drift opts)
                                 default_probe_signatures ([], 0) of
                            None \<Rightarrow> None
                          | Some (sigs, failures) \<Rightarrow>
                              Some (check\<lparr>mc_signatures := sigs, mc_required_failures := failures\<rparr>,
                                    FreeLibrary mapped_module p)))))"

subsection \<open>Trying the runtime\<close>

definition smoke_probe ::
  "windows \<Rightarrow> 'r runtime_code \<Rightarrow> shadow_shim \<Rightarrow> 'r process \<Rightarrow> bool \<times> shadow_shim \<times> 'r process" where
  "smoke_probe w c s p =
     (let (no_interest, s, p) = probe_record_damage w c zero_damage s p;
          p = set_probe_mount_mask c (1 OR 2) s p;
          (damage_route, s, p) = probe_record_damage w c zero_damage s p;
          (input_route, s, p) = probe_record_entity_input w c zero_entity_io s p;
          (snapshot_ok, snapshot) = probe_snapshot c probe_new s p
      in (no_interest = 0 \<and> damage_route = 1 \<and> input_route = 1 \<and> snapshot_ok \<noteq> 0 \<and>
          damage_seen snapshot = 1 \<and> damage_counted snapshot = 1 \<and>
          entity_input_seen snapshot = 1 \<and> entity_input_counted snapshot = 1, s, p))"

record runtime_check =
  rc_loaded :: bool
  rc_abi_version :: u32
  rc_error :: string
  rc_probe_checked :: bool
  rc_probe_ok :: bool
  rc_probe_error :: string

definition no_runtime_check :: runtime_check where
  "no_runtime_check =
     \<lparr>rc_loaded = False, rc_abi_version = 0, rc_error = [], rc_probe_checked = False, rc_probe_ok = False,
      rc_probe_error = []\<rparr>"

text \<open>The part up to the image: an exit status and its message, or what was found out.\<close>

definition check_runtime ::
  "'r smoke_env \<Rightarrow> smoke_options \<Rightarrow> shadow_shim \<Rightarrow> 'r process
     \<Rightarrow> (nat \<times> string + runtime_check) \<times> shadow_shim \<times> 'r process" where
  "check_runtime env opts s p =
     (let w = se_windows env; c = se_runtime env; rc = no_runtime_check;
          failed = (\<lambda>n message rc. if so_require_runtime opts then Inl (n, message) else Inr rc)
      in if so_runtime_path opts \<noteq> []
         then
           (let (ok, error, s, p) = load w c (so_runtime_path opts) [] s p
            in if \<not> ok then (failed 1 error (rc\<lparr>rc_error := error\<rparr>), s, p)
               else
                 (let rc = rc\<lparr>rc_error := error, rc_loaded := True, rc_abi_version := abi_version c s\<rparr>
                  in if rc_abi_version rc \<noteq> 1
                     then (failed 2 ''unexpected DWRT ABI version''
                             (rc\<lparr>rc_error := ''unexpected DWRT ABI version''\<rparr>), s, p)
                     else
                       (let (made, error, s, p) = create_runtime c (rc_error rc) s p
                        in if \<not> made then (failed 3 error (rc\<lparr>rc_error := error\<rparr>), s, p)
                           else
                             (let (probe_ok, s, p) = smoke_probe w c s p;
                                  rc = rc\<lparr>rc_probe_checked := True, rc_probe_ok := probe_ok\<rparr>;
                                  mismatch = ''DWRT runtime probe ABI smoke mismatch''
                              in if \<not> probe_ok
                                 then (failed 8 mismatch (rc\<lparr>rc_probe_error := mismatch\<rparr>), s, p)
                                 else (Inr rc, s, p)))))
         else if so_require_runtime opts
         then (Inl (4, ''--require-runtime was specified without --runtime''), s, p)
         else (Inr rc, s, p))"

subsection \<open>The summary\<close>

definition optional_hex :: "u64 option \<Rightarrow> json" where
  "optional_hex v = (case v of None \<Rightarrow> JNull | Some v \<Rightarrow> JStr (hex_u64 v))"

definition mapped_signature_json :: "mapped_resolved_signature \<Rightarrow> json" where
  "mapped_signature_json sig =
     (let desc = ms_descriptor sig in JObj
       [(''name'', JStr (sd_name desc)),
        (''required'', JBool (sd_required desc)),
        (''matchCount'', JNum (length (ms_rvas sig))),
        (''unique'', JBool (ms_unique sig)),
        (''rva'', optional_hex (map_option ucast (ms_rva sig))),
        (''expectedRva'', JStr (hex_u64 (ucast (sd_expected_rva desc)))),
        (''expectedRvaOk'', JBool (ms_expected_rva_ok sig)),
        (''error'', JStr (ms_error sig))])"

definition file_signature_json :: "pe_image_file \<Rightarrow> resolved_signature \<Rightarrow> json" where
  "file_signature_json img sig =
     (let desc = fs_descriptor sig in JObj
       [(''name'', JStr (sd_name desc)),
        (''module'', JStr (sd_module desc)),
        (''surface'', JStr (sd_surface desc)),
        (''required'', JBool (sd_required desc)),
        (''matchCount'', JNum (length (fs_file_offsets sig))),
        (''unique'', JBool (fs_unique sig)),
        (''fileOffset'', optional_hex (if fs_unique sig then Some (of_nat (fs_file_offsets sig ! 0)) else None)),
        (''rva'', optional_hex (map_option ucast (fs_rva sig))),
        (''va'', optional_hex (map_option (\<lambda>rva. pi_image_base img + ucast rva) (fs_rva sig))),
        (''expectedRva'', JStr (hex_u64 (ucast (sd_expected_rva desc)))),
        (''expectedRvaOk'', JBool (fs_expected_rva_ok sig)),
        (''reference'', JStr (sd_reference desc)),
        (''error'', JStr (fs_error sig))])"

definition smoke_summary_ok :: "nat \<Rightarrow> mapped_check \<Rightarrow> runtime_check \<Rightarrow> bool" where
  "smoke_summary_ok required_failures mc rc \<longleftrightarrow>
     required_failures = 0 \<and> mc_required_failures mc = 0 \<and> (\<not> rc_probe_checked rc \<or> rc_probe_ok rc)"

definition smoke_summary_json ::
  "'r smoke_env \<Rightarrow> smoke_options \<Rightarrow> pe_image_file \<Rightarrow> resolved_signature list \<Rightarrow> mapped_check \<Rightarrow> runtime_check
     \<Rightarrow> nat \<Rightarrow> json" where
  "smoke_summary_json env opts img sigs mc rc required_failures = JObj
     [(''ok'', JBool (smoke_summary_ok required_failures mc rc)),
      (''requiredFailures'', JNum required_failures),
      (''mappedRequiredFailures'', JNum (mc_required_failures mc)),
      (''server'', JObj
        [(''path'', JStr (pi_path img)),
         (''sizeBytes'', JNum (length (pi_bytes img))),
         (''imageBase'', JStr (hex_u64 (pi_image_base img))),
         (''imageSize'', JStr (hex_u64 (ucast (pi_image_size img)))),
         (''timestamp'', JStr (hex_u64 (ucast (pi_timestamp img)))),
         (''fnv1a64'', JStr (hex_u64 (fnv1a64 (pi_bytes img))))]),
      (''runtime'', JObj
        [(''path'', JStr (se_path_string env (so_runtime_path opts))),
         (''loaded'', JBool (rc_loaded rc)),
         (''abiVersion'', number (rc_abi_version rc)),
         (''probeChecked'', JBool (rc_probe_checked rc)),
         (''probeOk'', JBool (rc_probe_ok rc)),
         (''probeError'', JStr (rc_probe_error rc)),
         (''error'', JStr (rc_error rc))]),
      (''mappedModule'', JObj
        [(''checked'', JBool (mc_checked mc)),
         (''loaded'', JBool (mc_loaded mc)),
         (''requiredFailures'', JNum (mc_required_failures mc)),
         (''error'', JStr (mc_error mc)),
         (''signatures'', JArr (map mapped_signature_json (mc_signatures mc)))]),
      (''signatures'', JArr (map (file_signature_json img) sigs))]"

definition build_json_summary ::
  "'r smoke_env \<Rightarrow> smoke_options \<Rightarrow> pe_image_file \<Rightarrow> resolved_signature list \<Rightarrow> mapped_check \<Rightarrow> runtime_check
     \<Rightarrow> nat \<Rightarrow> string" where
  "build_json_summary env opts img sigs mc rc required_failures =
     layout 0 (smoke_summary_json env opts img sigs mc rc required_failures) @ [newline]"

subsection \<open>The program\<close>

text \<open>Every way out after the options destroys the shim, which unloads the runtime.\<close>

definition smoke_leave ::
  "'r smoke_env \<Rightarrow> nat \<Rightarrow> string \<Rightarrow> string \<Rightarrow> (wstring \<times> string) list \<Rightarrow> shadow_shim \<Rightarrow> 'r process
     \<Rightarrow> 'r program_exit" where
  "smoke_leave env n message output fs s p =
     (let (s, p) = unload (se_runtime env) s p in exits n message output p fs)"

text \<open>Writing and printing the summary, and the verdict.\<close>

definition report ::
  "'r smoke_env \<Rightarrow> smoke_options \<Rightarrow> string \<Rightarrow> nat \<Rightarrow> mapped_check \<Rightarrow> shadow_shim \<Rightarrow> 'r process
     \<Rightarrow> 'r program_exit option" where
  "report env opts summary required_failures mc s p =
     (let path = so_output_path opts;
          finish = (\<lambda>fs.
            if required_failures \<noteq> 0
            then smoke_leave env 7 ''required signature validation failed'' summary fs s p
            else if mc_required_failures mc \<noteq> 0
            then smoke_leave env 9 ''mapped-module signature validation failed'' summary fs s p
            else smoke_leave env 0 [] (summary @ ''[dwrt-host-smoke] OK'' @ [newline]) fs s p)
      in if path \<noteq> []
         then
           (let parent = se_parent_path env path
            in if parent \<noteq> [] \<and> \<not> se_create_directories env parent then None
               else if \<not> se_open env path
               then Some (smoke_leave env 6 ''failed to open summary output path'' [] [] s p)
               else Some (finish [(path, summary)]))
         else Some (finish []))"

definition host_smoke_main :: "'r smoke_env \<Rightarrow> wstring list \<Rightarrow> 'r process \<Rightarrow> 'r program_exit option" where
  "host_smoke_main env argv p =
     (case smoke_parse_options (se_utf8 env) argv of
        Inl e \<Rightarrow> Some (if e \<noteq> [] then exits 64 e [] p [] else exits 0 [] [] p [])
      | Inr opts \<Rightarrow>
          (let (checked, s, p) = check_runtime env opts (new_shadow_shim (se_windows env)) p
           in case checked of
                Inl (n, message) \<Rightarrow> Some (smoke_leave env n message [] [] s p)
              | Inr rc \<Rightarrow>
                  (case pe_image_load (se_path_string env (so_server_path opts)) (se_file env (so_server_path opts)) of
                     None \<Rightarrow> None
                   | Some (Inl e) \<Rightarrow> Some (smoke_leave env 5 e [] [] s p)
                   | Some (Inr img) \<Rightarrow>
                       (case smoke_resolve_all img (so_allow_expected_rva_drift opts) default_probe_signatures ([], 0) of
                          None \<Rightarrow> None
                        | Some (sigs, required_failures) \<Rightarrow>
                            (case check_mapped_module env opts p of
                               None \<Rightarrow> None
                             | Some (mc, p) \<Rightarrow>
                                 report env opts
                                   (build_json_summary env opts img sigs mc rc required_failures)
                                   required_failures mc s p)))))"

end
