(* ===== verification/Host_Smoke_Properties.thy ===== *)
theory Host_Smoke_Properties
  imports Host_Smoke Host_Hook_Properties
begin

section \<open>What the host smoke program checks\<close>

text \<open>
  The exit status of \<open>smoke.cpp\<close> is characterized by a specification over the files and the module it
  looks at, the libraries it loads are given back, its summary is compared with its status, and its
  own resolver with the one of the host.
\<close>

subsection \<open>Signatures in the file\<close>

text \<open>A signature that is in the file: one place matches, it has an address, and the expected one.\<close>

definition signature_found :: "bool \<Rightarrow> pe_image_file \<Rightarrow> signature_descriptor \<Rightarrow> bool" where
  "signature_found drift img d \<longleftrightarrow>
     (\<exists>pattern off rva. compile_pattern (sd_pattern d) = Inr pattern \<and>
        pattern_offsets (pi_bytes img) (cp_bytes pattern) = [off] \<and>
        rva_from_file_offset img off = Some rva \<and> (sd_expected_rva d \<in> {0, rva} \<or> drift))"

lemma singleton_iff: "length xs = Suc 0 \<longleftrightarrow> (\<exists>x. xs = [x])"
  by (cases xs) auto

lemma smoke_resolve_signature_found:
  obtains sig where "smoke_resolve_signature img d = Some sig" "fs_descriptor sig = d"
    "file_signature_ok drift sig \<longleftrightarrow> signature_found drift img d"
proof (cases "compile_pattern (sd_pattern d)")
  case (Inl e)
  then show ?thesis
    using that by (simp add: smoke_resolve_signature_def file_signature_ok_def signature_found_def Let_def)
next
  case (Inr pattern)
  let ?offs = "pattern_offsets (pi_bytes img) (cp_bytes pattern)"
  obtain offs where f: "find_pattern (pi_bytes img) pattern 3 = Some offs" by (simp add: find_pattern_eq)
  have one: "length offs = Suc 0 \<longleftrightarrow> (\<exists>off. ?offs = [off] \<and> offs = [off])"
    using scanner.find_unique_iff [of 3 "pi_bytes img" pattern] f by (auto simp: singleton_iff)
  show ?thesis
  proof (cases "length offs = Suc 0")
    case True
    then obtain off where "?offs = [off]" "offs = [off]" using one by blast
    then show ?thesis
      using Inr f that
      by (cases "rva_from_file_offset img off")
         (auto simp: smoke_resolve_signature_def file_signature_ok_def signature_found_def Let_def)
  next
    case False
    then have "\<nexists>off. ?offs = [off]" using find_pattern_eq [of "pi_bytes img" pattern 3] f by auto
    then show ?thesis
      using Inr f False that
      by (simp add: smoke_resolve_signature_def file_signature_ok_def signature_found_def Let_def)
  qed
qed

text \<open>The loop counts the required signatures that are not found.\<close>

abbreviation missing :: "(signature_descriptor \<Rightarrow> bool) \<Rightarrow> signature_descriptor list \<Rightarrow> nat" where
  "missing found ds \<equiv> length (filter (\<lambda>d. sd_required d \<and> \<not> found d) ds)"

lemma smoke_resolve_all_count:
  "\<exists>new. smoke_resolve_all img drift ds (sigs, n) = Some (sigs @ new, n + missing (signature_found drift img) ds) \<and>
     map fs_descriptor new = ds"
proof (induction ds arbitrary: sigs n)
  case (Cons d ds)
  obtain sig where s: "smoke_resolve_signature img d = Some sig" "fs_descriptor sig = d"
    "file_signature_ok drift sig \<longleftrightarrow> signature_found drift img d"
    by (rule smoke_resolve_signature_found)
  let ?n = "if sd_required d \<and> \<not> file_signature_ok drift sig then n + 1 else n"
  from Cons.IH [of "sigs @ [sig]" ?n] obtain new where
    "smoke_resolve_all img drift ds (sigs @ [sig], ?n) =
       Some (sigs @ sig # new, ?n + missing (signature_found drift img) ds)" "map fs_descriptor new = ds" by auto
  then show ?case using s by (intro exI [of _ "sig # new"]) simp
qed simp

subsection \<open>Signatures in the module\<close>

definition mapped_signature_found :: "bool \<Rightarrow> engine_memory \<Rightarrow> pe_module_view \<Rightarrow> signature_descriptor \<Rightarrow> bool" where
  "mapped_signature_found drift m view d \<longleftrightarrow>
     (\<exists>pattern rva. compile_pattern (sd_pattern d) = Inr pattern \<and>
        find_pattern_rvas m view pattern 3 = Some [rva] \<and> (sd_expected_rva d \<in> {0, rva} \<or> drift))"

lemma smoke_resolve_mapped_signature_found:
  assumes "smoke_resolve_mapped_signature m view d = Some sig"
  shows "mapped_signature_ok drift sig \<longleftrightarrow> mapped_signature_found drift m view d"
  using assms
  by (auto simp: smoke_resolve_mapped_signature_def mapped_signature_ok_def mapped_signature_found_def Let_def singleton_iff
      split: sum.splits option.splits if_splits)

lemma smoke_resolve_all_mapped_count:
  assumes "smoke_resolve_all_mapped m view drift ds (sigs, n) = Some (sigs', n')"
  shows "n' = n + missing (mapped_signature_found drift m view) ds"
  using assms
proof (induction ds arbitrary: sigs n)
  case (Cons d ds)
  obtain sig where s: "smoke_resolve_mapped_signature m view d = Some sig"
    using Cons.prems by (auto split: option.splits)
  from Cons.IH Cons.prems smoke_resolve_mapped_signature_found [OF s, of drift] show ?case
    by (fastforce simp: s)
qed simp

text \<open>The resolver of the program and the one of the host.\<close>

definition as_host_signature :: "mapped_resolved_signature \<Rightarrow> host_resolved_signature" where
  "as_host_signature s =
     \<lparr>rs_descriptor = ms_descriptor s, rs_rvas = ms_rvas s, rs_rva = ms_rva s, rs_error = ms_error s,
      rs_unique = ms_unique s, rs_expected_rva_ok = ms_expected_rva_ok s\<rparr>"

lemma resolve_mapped_signature_agrees:
  "resolve_mapped_signature m view d = map_option as_host_signature (smoke_resolve_mapped_signature m view d)"
  by (simp add: resolve_mapped_signature_def smoke_resolve_mapped_signature_def as_host_signature_def Let_def
      split: sum.splits option.splits)

lemma signature_ok_agrees: "signature_ok flags (as_host_signature s) \<longleftrightarrow> mapped_signature_ok (flags AND 8 \<noteq> 0) s"
  by (simp add: signature_ok_def as_host_signature_def mapped_signature_ok_def Let_def)

text \<open>C18. The mapped module check of the smoke program decides what the host would: on the same module, with
  drift allowed when the host's flag allows it, it resolves every signature of a manifest as the
  host does and counts the same required failures, and faults when the host would.\<close>
theorem smoke_agrees_with_host:
  "resolve_all m view flags ds (map as_host_signature sigs, n) =
   map_option (\<lambda>(sigs, n). (map as_host_signature sigs, n))
     (smoke_resolve_all_mapped m view (flags AND 8 \<noteq> 0) ds (sigs, n))"
proof (induction ds arbitrary: sigs n)
  case (Cons d ds)
  show ?case
  proof (cases "smoke_resolve_mapped_signature m view d")
    case (Some sig)
    have "map as_host_signature sigs @ [as_host_signature sig] = map as_host_signature (sigs @ [sig])" by simp
    then show ?thesis
      using Some Cons.IH [of "sigs @ [sig]"]
      by (simp add: resolve_mapped_signature_agrees signature_ok_agrees del: map_append)
  qed (simp add: resolve_mapped_signature_agrees)
qed simp

text \<open>The check of the mapped module.\<close>

definition module_accepted :: "'r smoke_env \<Rightarrow> smoke_options \<Rightarrow> 'r process \<Rightarrow> bool" where
  "module_accepted env opts p \<longleftrightarrow>
     (let module = fst (LoadLibraryExW (se_windows env) (so_server_path opts) p)
      in module \<noteq> nullptr \<and>
        (\<exists>view. from_module_handle (se_memory env) module (se_path_string env (so_server_path opts)) = Some (Inr view) \<and>
           list_all (\<lambda>d. sd_required d \<longrightarrow> mapped_signature_found (so_allow_expected_rva_drift opts) (se_memory env) view d)
             default_probe_signatures))"

lemma missing_0_iff: "missing found ds = 0 \<longleftrightarrow> list_all (\<lambda>d. sd_required d \<longrightarrow> found d) ds"
  by (auto simp: list_all_iff filter_empty_conv)

lemma required_signatures_pos: "required_signatures > 0"
  by (simp add: required_signatures_def default_probe_signatures_def)

lemma LoadLibraryExW_refs:
  "LoadLibraryExW w path p = (h, q) \<Longrightarrow> library_refs q = (\<lambda>k. library_refs p k + of_bool (k = h \<and> h \<noteq> 0))"
  by (auto simp: LoadLibraryExW_def library_refs_add_ref Let_def)

lemma check_mapped_module_ok:
  assumes "check_mapped_module env opts p = Some (mc, p')"
  shows "mc_required_failures mc = 0 \<longleftrightarrow> so_mapped_module_check opts \<longrightarrow> module_accepted env opts p"
    and "library_refs p' = library_refs p"
proof -
  let ?path = "so_server_path opts"
  obtain h q where l: "LoadLibraryExW (se_windows env) ?path p = (h, q)" by fastforce
  note refs = LoadLibraryExW_refs [OF l]
  have "(mc_required_failures mc = 0 \<longleftrightarrow> so_mapped_module_check opts \<longrightarrow> module_accepted env opts p) \<and>
    library_refs p' = library_refs p"
  proof (cases "so_mapped_module_check opts \<and> h \<noteq> nullptr")
    case False
    then show ?thesis
      using assms required_signatures_pos refs
      by (cases "so_mapped_module_check opts") (auto simp: check_mapped_module_def l module_accepted_def Let_def)
  next
    case True
    then obtain r where m: "from_module_handle (se_memory env) h (se_path_string env ?path) = Some r"
      using assms by (auto simp: check_mapped_module_def l Let_def split: option.splits)
    show ?thesis
    proof (cases r)
      case (Inl e)
      then show ?thesis
        using assms True required_signatures_pos refs
        by (auto simp: check_mapped_module_def l m module_accepted_def Let_def)
    next
      case (Inr view)
      then obtain sigs n where a: "smoke_resolve_all_mapped (se_memory env) view (so_allow_expected_rva_drift opts)
          default_probe_signatures ([], 0) = Some (sigs, n)"
        using assms True by (auto simp: check_mapped_module_def l m Let_def split: option.splits)
      have "mc_required_failures mc = n" "p' = FreeLibrary h q"
        using assms True Inr a by (auto simp: check_mapped_module_def l m Let_def)
      then show ?thesis
        using True Inr refs smoke_resolve_all_mapped_count [OF a]
        by (auto simp: module_accepted_def l m Let_def missing_0_iff [symmetric])
    qed
  qed
  then show "mc_required_failures mc = 0 \<longleftrightarrow> so_mapped_module_check opts \<longrightarrow> module_accepted env opts p"
    "library_refs p' = library_refs p" by blast+
qed

subsection \<open>The runtime\<close>

lemma smoke_probe_inv:
  assumes "smoke_probe w c s p = (ok, s', p')" "shim_inv s"
  shows "shim_inv s' \<and> other_refs s' p' = other_refs s p"
proof -
  obtain x1 s1 p1 where c1: "probe_record_damage w c zero_damage s p = (x1, s1, p1)"
    by (cases "probe_record_damage w c zero_damage s p")
  let ?p2 = "set_probe_mount_mask c 3 s1 p1"
  obtain x3 s3 p3 where c3: "probe_record_damage w c zero_damage s1 ?p2 = (x3, s3, p3)"
    by (cases "probe_record_damage w c zero_damage s1 ?p2")
  obtain x4 s4 p4 where c4: "probe_record_entity_input w c zero_entity_io s3 p3 = (x4, s4, p4)"
    by (cases "probe_record_entity_input w c zero_entity_io s3 p3")
  have mask: "other_refs s (set_probe_mount_mask c b t q) = other_refs s q" for s t q b
    by (simp add: other_refs_def set_probe_mount_mask_def Let_def fun_eq_iff)
  have fwd: "shim_inv s' \<and> other_refs s' p' = other_refs s p"
    if "forwards f" "f s p = (x, s', p')" "shim_inv s" for f s p x s' p'
    using that unfolding forwards_def by blast
  note f1 = fwd [OF probes_forward(1) c1 assms(2)]
  note f3 = fwd [OF probes_forward(1) c3 conjunct1 [OF f1]]
  note f4 = fwd [OF probes_forward(2) c4 conjunct1 [OF f3]]
  have "s' = s4" "p' = p4"
    using assms(1) by (auto simp: smoke_probe_def c1 c3 c4 Let_def split: prod.splits)
  then show ?thesis using f1 f3 f4 by (simp add: mask)
qed

text \<open>What the first part of the program can come to.\<close>

definition runtime_outcome :: "smoke_options \<Rightarrow> nat \<times> string + runtime_check \<Rightarrow> bool" where
  "runtime_outcome opts r \<longleftrightarrow>
     (case r of
        Inl (n, message) \<Rightarrow> so_require_runtime opts \<and> n \<in> {1, 2, 3, 4, 8}
      | Inr rc \<Rightarrow>
          (rc_probe_checked rc \<longrightarrow> rc_loaded rc \<and> rc_abi_version rc = 1) \<and>
          (so_require_runtime opts \<longrightarrow> rc_probe_checked rc \<and> rc_probe_ok rc) \<and>
          (rc_probe_ok rc \<longrightarrow> rc_probe_checked rc))"

lemma check_runtime_ok:
  assumes "check_runtime env opts s p = (r, s', p')" "shim_inv s"
  shows "shim_inv s' \<and> other_refs s' p' = other_refs s p \<and> runtime_outcome opts r"
proof (cases "so_runtime_path opts = []")
  case True
  then show ?thesis
    using assms by (auto simp: check_runtime_def Let_def runtime_outcome_def no_runtime_check_def split: if_splits)
next
  case given: False
  let ?w = "se_windows env" and ?c = "se_runtime env"
  obtain ok error s1 p1 where l: "load ?w ?c (so_runtime_path opts) [] s p = (ok, error, s1, p1)"
    by (metis prod_cases4)
  note load = load_cases(2,6) [OF assms(2) l]
  show ?thesis
  proof (cases "ok \<and> abi_version ?c s1 = 1")
    case False
    then show ?thesis
      using assms load given
      by (auto simp: check_runtime_def l Let_def runtime_outcome_def no_runtime_check_def split: if_splits)
  next
    case True
    obtain made error2 s2 p2 where c: "create_runtime ?c error s1 p1 = (made, error2, s2, p2)"
      by (metis prod_cases4)
    note create = create_runtime_inv(1,2) [OF load(1) c]
    obtain pr s3 p3 where e: "smoke_probe ?w ?c s2 p2 = (pr, s3, p3)" by (metis prod_cases3)
    note probe = smoke_probe_inv [OF e create(1)]
    show ?thesis
      using assms load create probe given True
      by (auto simp: check_runtime_def l c e Let_def runtime_outcome_def no_runtime_check_def split: if_splits)
  qed
qed

subsection \<open>The verdict\<close>

lemma smoke_leave_simps [simp]:
  "exit_status (smoke_leave env n message out fs s p) = n"
  "exit_output (smoke_leave env n message out fs s p) = out"
  "exit_files (smoke_leave env n message out fs s p) = fs"
  by (simp_all add: smoke_leave_def split: prod.splits)

lemma smoke_leave_refs:
  "shim_inv s \<Longrightarrow> library_refs (exit_process (smoke_leave env n message out fs s p)) = other_refs s p"
  using unload_inv(5) [of s "se_runtime env" p]
  by (cases "unload (se_runtime env) s p") (simp add: smoke_leave_def fun_eq_iff)

definition image_accepted :: "'r smoke_env \<Rightarrow> smoke_options \<Rightarrow> bool" where
  "image_accepted env opts \<longleftrightarrow>
     (\<exists>img. pe_image_load (se_path_string env (so_server_path opts)) (se_file env (so_server_path opts)) = Some (Inr img) \<and>
        list_all (\<lambda>d. sd_required d \<longrightarrow> signature_found (so_allow_expected_rva_drift opts) img d) default_probe_signatures)"

text \<open>The ways a run with options can end; \<open>opened\<close> tells whether the summary could be written.\<close>

definition opened :: "'r smoke_env \<Rightarrow> smoke_options \<Rightarrow> bool" where
  "opened env opts \<longleftrightarrow> so_output_path opts = [] \<or> se_open env (so_output_path opts)"

lemma report_cases:
  assumes "report env opts summary k mc s p = Some r"
  shows "exit_status r =
      (if \<not> opened env opts then 6 else if k \<noteq> 0 then 7 else if mc_required_failures mc \<noteq> 0 then 9 else 0)"
    and "opened env opts \<Longrightarrow> exit_files r = (if so_output_path opts = [] then [] else [(so_output_path opts, summary)]) \<and>
      (\<exists>tail. exit_output r = summary @ tail)"
    and "shim_inv s \<Longrightarrow> library_refs (exit_process r) = other_refs s p"
  using assms smoke_leave_refs [of s env]
  by (auto simp: report_def opened_def Let_def split: if_splits)

lemma host_smoke_cases:
  assumes m: "host_smoke_main env argv p = Some r" and o: "smoke_parse_options (se_utf8 env) argv = Inr opts"
  obtains (no_runtime) n message s q where
      "check_runtime env opts (new_shadow_shim (se_windows env)) p = (Inl (n, message), s, q)"
      "exit_status r = n" "so_require_runtime opts" "n \<in> {1, 2, 3, 4, 8}" "library_refs (exit_process r) = library_refs p"
  | (no_image) e rc s q where
      "check_runtime env opts (new_shadow_shim (se_windows env)) p = (Inr rc, s, q)"
      "pe_image_load (se_path_string env (so_server_path opts)) (se_file env (so_server_path opts)) = Some (Inl e)"
      "exit_status r = 5" "library_refs (exit_process r) = library_refs p"
  | (reported) rc s q img sigs mc q' where
      "check_runtime env opts (new_shadow_shim (se_windows env)) p = (Inr rc, s, q)"
      "runtime_outcome opts (Inr rc)"
      "pe_image_load (se_path_string env (so_server_path opts)) (se_file env (so_server_path opts)) = Some (Inr img)"
      "check_mapped_module env opts q = Some (mc, q')"
      "report env opts (build_json_summary env opts img sigs mc rc
         (missing (signature_found (so_allow_expected_rva_drift opts) img) default_probe_signatures))
         (missing (signature_found (so_allow_expected_rva_drift opts) img) default_probe_signatures) mc s q' = Some r"
      "library_refs (exit_process r) = library_refs p"
proof -
  let ?s = "new_shadow_shim (se_windows env)" and ?drift = "so_allow_expected_rva_drift opts"
  obtain x s q where c: "check_runtime env opts ?s p = (x, s, q)" by (metis prod_cases3)
  have new: "other_refs ?s p = library_refs p" by (simp add: other_refs_def new_shadow_shim_def fun_eq_iff)
  note ok = check_runtime_ok [OF c new_shim_inv, unfolded new]
  show ?thesis
  proof (cases x)
    case (Inl nm)
    obtain n message where nm: "nm = (n, message)" by fastforce
    have "r = smoke_leave env n message [] [] s q"
      using m o c by (simp add: host_smoke_main_def Inl nm)
    moreover have "library_refs (exit_process r) = library_refs p"
      using ok smoke_leave_refs [of s env] by (simp add: calculation)
    moreover have "so_require_runtime opts" "n \<in> {1, 2, 3, 4, 8}"
      using ok by (simp_all add: Inl nm runtime_outcome_def)
    ultimately show ?thesis using no_runtime [of n message s q] c by (simp add: Inl nm)
  next
    case (Inr rc)
    obtain y where i: "pe_image_load (se_path_string env (so_server_path opts)) (se_file env (so_server_path opts)) = Some y"
      using m o c Inr by (auto simp: host_smoke_main_def split: option.splits)
    show ?thesis
    proof (cases y)
      case (Inl e)
      have "r = smoke_leave env 5 e [] [] s q" using m o c i by (simp add: host_smoke_main_def Inl Inr)
      moreover have "library_refs (exit_process r) = library_refs p"
        using ok smoke_leave_refs [of s env] by (simp add: calculation)
      ultimately show ?thesis using no_image [of rc s q e] c i by (simp add: Inl Inr)
    next
      case y: (Inr img)
      obtain sigs where a: "smoke_resolve_all img ?drift default_probe_signatures ([], 0) =
          Some (sigs, missing (signature_found ?drift img) default_probe_signatures)"
        using smoke_resolve_all_count [of img ?drift default_probe_signatures "[]" 0] by auto
      obtain mc q' where k: "check_mapped_module env opts q = Some (mc, q')"
        using m o c i a by (auto simp: host_smoke_main_def Inr y split: option.splits)
      have p: "report env opts (build_json_summary env opts img sigs mc rc
          (missing (signature_found ?drift img) default_probe_signatures))
          (missing (signature_found ?drift img) default_probe_signatures) mc s q' = Some r"
        using m o c i a k by (simp add: host_smoke_main_def Inr y)
      have "other_refs s q' = other_refs s q"
        using check_mapped_module_ok(2) [OF k] by (simp add: other_refs_def fun_eq_iff)
      then have "library_refs (exit_process r) = library_refs p" using report_cases(3) [OF p] ok by simp
      then show ?thesis using reported [OF _ _ _ k p] c i ok by (simp add: Inr y)
    qed
  qed
qed

definition smoke_accepts :: "'r smoke_env \<Rightarrow> smoke_options \<Rightarrow> 'r process \<Rightarrow> bool" where
  "smoke_accepts env opts p \<longleftrightarrow>
     (let (runtime, s, q) = check_runtime env opts (new_shadow_shim (se_windows env)) p
      in (so_require_runtime opts \<longrightarrow> (case runtime of Inl _ \<Rightarrow> False | Inr rc \<Rightarrow> rc_probe_ok rc)) \<and>
         image_accepted env opts \<and> (so_mapped_module_check opts \<longrightarrow> module_accepted env opts q) \<and> opened env opts)"

text \<open>C17. The smoke program ends with 0 exactly when what it was asked to check holds: the runtime, if
  required, loads and passes the probe test; the file is a PE image in which every required
  signature of the manifest matches at exactly one place, that place has an address, and it is the
  expected one unless drift is allowed; the same holds in the mapped module if that was asked for;
  and the summary could be written.  Whatever the verdict, every library it loaded is given back.\<close>
theorem host_smoke_verdict:
  assumes "host_smoke_main env argv p = Some r" "smoke_parse_options (se_utf8 env) argv = Inr opts"
  shows "(exit_status r = 0 \<longleftrightarrow> smoke_accepts env opts p) \<and> exit_status r \<in> {0..9} \<and>
    library_refs (exit_process r) = library_refs p"
  using assms
proof (cases rule: host_smoke_cases)
  case (no_runtime n message s q)
  then show ?thesis by (auto simp: smoke_accepts_def)
next
  case (no_image e rc s q)
  then show ?thesis by (auto simp: smoke_accepts_def image_accepted_def)
next
  case (reported rc s q img sigs mc q')
  have "image_accepted env opts \<longleftrightarrow>
      missing (signature_found (so_allow_expected_rva_drift opts) img) default_probe_signatures = 0"
    using reported(3) by (simp only: image_accepted_def missing_0_iff) simp
  then show ?thesis
    using reported(1,2,6) report_cases(1) [OF reported(5)] check_mapped_module_ok(1) [OF reported(4)]
    by (auto simp: smoke_accepts_def runtime_outcome_def)
qed

text \<open>C35. What the program prints and writes is a strict JSON document, and its \<open>ok\<close> is stronger than the exit
  status: it is true exactly when the program ends with 0 and the runtime, if its probe functions
  were tried at all, passed.  So without \<open>--require-runtime\<close> a run can end with 0 and report
  \<open>"ok": false\<close>.\<close>
theorem host_smoke_summary:
  assumes "host_smoke_main env argv p = Some r" "smoke_parse_options (se_utf8 env) argv = Inr opts"
    and "exit_status r \<in> {0, 7, 9}"
  shows "\<exists>summary tail fields rc.
    exit_output r = summary @ tail \<and>
    exit_files r = (if so_output_path opts = [] then [] else [(so_output_path opts, summary)]) \<and>
    fst (check_runtime env opts (new_shadow_shim (se_windows env)) p) = Inr rc \<and>
    parse_json summary = Some (JObj ((''ok'', JBool (exit_status r = 0 \<and> (rc_probe_checked rc \<longrightarrow> rc_probe_ok rc))) # fields))"
  using assms(1,2)
proof (cases rule: host_smoke_cases)
  case (reported rc s q img sigs mc q')
  let ?k = "missing (signature_found (so_allow_expected_rva_drift opts) img) default_probe_signatures"
  let ?summary = "build_json_summary env opts img sigs mc rc ?k"
  note status = report_cases(1) [OF reported(5)]
  have o: "opened env opts" using status assms(3) by (auto split: if_splits)
  have parse: "parse_json ?summary = Some (smoke_summary_json env opts img sigs mc rc ?k)"
    unfolding build_json_summary_def by (rule parse_json_layout)
  have ok: "smoke_summary_ok ?k mc rc \<longleftrightarrow> exit_status r = 0 \<and> (rc_probe_checked rc \<longrightarrow> rc_probe_ok rc)"
    using status o by (auto simp: smoke_summary_ok_def)
  have "\<exists>fields. smoke_summary_json env opts img sigs mc rc ?k = JObj ((''ok'', JBool (smoke_summary_ok ?k mc rc)) # fields)"
    by (simp add: smoke_summary_json_def)
  then show ?thesis using report_cases(2) [OF reported(5) o] reported(1) parse ok by fastforce
qed (use assms(3) in auto)

subsection \<open>A run\<close>

text \<open>A PE image without sections and without any of the signatures.\<close>

definition empty_image_bytes :: "u8 list" where
  "empty_image_bytes = [0x4D, 0x5A] @ replicate 58 0 @ [64, 0, 0, 0] @ [0x50, 0x45, 0, 0] @ replicate 20 0 @
     [0x0B, 0x02] @ replicate 238 0"

definition empty_image :: pe_image_file where
  "empty_image = \<lparr>pi_path = ''server.dll'', pi_bytes = empty_image_bytes, pi_image_base = 0, pi_image_size = 0,
     pi_timestamp = 0, pi_sections = []\<rparr>"

lemma empty_image_loads:
  "pe_image_load ''server.dll'' (Some \<lparr>fc_size = 328, fc_bytes = Some empty_image_bytes\<rparr>) = Some (Inr empty_image)"
  by code_simp

definition smoke_machine :: "unit runtime_code \<Rightarrow> unit smoke_env" where
  "smoke_machine c =
     \<lparr>se_windows = example_windows, se_runtime = c, se_utf8 = (\<lambda>s. []), se_path_string = (\<lambda>s. ''server.dll''),
      se_file = (\<lambda>path. if path = wide ''server.dll''
                  then Some \<lparr>fc_size = 328, fc_bytes = Some empty_image_bytes\<rparr> else None),
      se_memory = \<lparr>mem_byte = (\<lambda>a. None), mem_writable = (\<lambda>a. False)\<rparr>,
      se_parent_path = (\<lambda>path. []), se_create_directories = (\<lambda>path. True), se_open = (\<lambda>path. True)\<rparr>"

definition smoke_argv :: "wstring list" where
  "smoke_argv = map wide [''smoke.exe'', ''--server'', ''server.dll'', ''--output'', ''out.json'',
     ''--allow-expected-rva-drift'']"

definition smoke_argv_options :: smoke_options where
  "smoke_argv_options = default_smoke_options\<lparr>so_server_path := wide ''server.dll'',
     so_output_path := wide ''out.json'', so_allow_expected_rva_drift := True\<rparr>"

lemma smoke_argv_parse: "smoke_parse_options utf8 smoke_argv = Inr smoke_argv_options"
  by (simp add: smoke_parse_options_def smoke_argv_def smoke_argv_options_def)

lemma pattern_offsets_literal:
  assumes "off \<in> set (pattern_offsets h bytes)" "i < length bytes" "\<not> pb_wildcard (bytes ! i)"
  shows "pb_value (bytes ! i) \<in> set h"
proof -
  have m: "pattern_matches h bytes off" and n: "off + length bytes \<le> length h"
    using assms(1) pattern_offsets_bound by (auto simp: pattern_offsets_def split: if_splits)
  have "byte_agrees (bytes ! i) (take (length bytes) (drop off h) ! i)"
    using m assms(2) by (simp add: pattern_matches_def list_all2_conv_all_nth)
  then have "h ! (off + i) = pb_value (bytes ! i)"
    using assms(2,3) n by (simp add: byte_agrees_def)
  then show ?thesis using assms(2) n by (metis nth_mem add_less_cancel_left order_less_le_trans)
qed

lemma signature_not_in_empty_image:
  "\<not> signature_found drift empty_image (hd default_probe_signatures)"
proof
  assume "signature_found drift empty_image (hd default_probe_signatures)"
  then obtain pattern off where p: "compile_pattern (sd_pattern (hd default_probe_signatures)) = Inr pattern"
    "pattern_offsets (pi_bytes empty_image) (cp_bytes pattern) = [off]"
    by (auto simp: signature_found_def)
  have "case compile_pattern (sd_pattern (hd default_probe_signatures)) of Inl e \<Rightarrow> False
    | Inr pattern \<Rightarrow> 1 < length (cp_bytes pattern) \<and> \<not> pb_wildcard (cp_bytes pattern ! 1) \<and>
        pb_value (cp_bytes pattern ! 1) = 0x55"
    by code_simp
  then have "0x55 \<in> set (pi_bytes empty_image)"
    using p pattern_offsets_literal [of off "pi_bytes empty_image" "cp_bytes pattern" 1] by auto
  then show False by (simp add: empty_image_def empty_image_bytes_def)
qed


lemma smoke_example:
  "\<exists>r. host_smoke_main (smoke_machine c) smoke_argv (example_process ()) = Some r \<and> exit_status r = 7"
proof -
  let ?env = "smoke_machine c" and ?found = "signature_found True empty_image"
  have m: "missing ?found default_probe_signatures \<noteq> 0"
    using signature_not_in_empty_image [of True] by (simp only: missing_0_iff) (simp add: default_probe_signatures_def)
  obtain sigs where a: "smoke_resolve_all empty_image True default_probe_signatures ([], 0) =
      Some (sigs, missing ?found default_probe_signatures)"
    using smoke_resolve_all_count [of empty_image True default_probe_signatures "[]" 0] by auto
  show ?thesis
    using m
    by (simp add: host_smoke_main_def smoke_argv_parse smoke_machine_def check_runtime_def smoke_argv_options_def
        default_smoke_options_def empty_image_loads a check_mapped_module_def report_def Let_def)
qed

theorem host_smoke_verdict_witness:
  "\<forall>c. \<exists>r. host_smoke_main (smoke_machine c) smoke_argv (example_process ()) = Some r \<and>
     \<not> smoke_accepts (smoke_machine c) smoke_argv_options (example_process ()) \<and>
     library_refs (exit_process r) = (\<lambda>h. 0)"
proof
  fix c
  obtain r where r: "host_smoke_main (smoke_machine c) smoke_argv (example_process ()) = Some r" "exit_status r = 7"
    using smoke_example by blast
  from host_smoke_verdict [OF r(1) smoke_argv_parse] r
  show "\<exists>r. host_smoke_main (smoke_machine c) smoke_argv (example_process ()) = Some r \<and>
     \<not> smoke_accepts (smoke_machine c) smoke_argv_options (example_process ()) \<and>
     library_refs (exit_process r) = (\<lambda>h. 0)"
    by (auto simp: example_process_def)
qed

theorem host_smoke_summary_witness:
  "\<forall>c. \<exists>r summary tail fields. host_smoke_main (smoke_machine c) smoke_argv (example_process ()) = Some r \<and>
     exit_output r = summary @ tail \<and> exit_files r = [(wide ''out.json'', summary)] \<and>
     parse_json summary = Some (JObj ((''ok'', JBool False) # fields))"
proof
  fix c
  obtain r where r: "host_smoke_main (smoke_machine c) smoke_argv (example_process ()) = Some r" "exit_status r = 7"
    using smoke_example by blast
  have "exit_status r \<in> {0, 7, 9}" "so_output_path smoke_argv_options = wide ''out.json''"
    using r(2) by (simp_all add: smoke_argv_options_def)
  from host_smoke_summary [OF r(1) smoke_argv_parse this(1)] this(2) r
  show "\<exists>r summary tail fields. host_smoke_main (smoke_machine c) smoke_argv (example_process ()) = Some r \<and>
     exit_output r = summary @ tail \<and> exit_files r = [(wide ''out.json'', summary)] \<and>
     parse_json summary = Some (JObj ((''ok'', JBool False) # fields))"
    by fastforce
qed

end
