(* ===== verification/Injector_Summary.thy ===== *)
theory Injector_Summary
  imports Command_Line Host_Api
begin

section \<open>What the injector writes\<close>

text \<open>
  The two reports of \<open>inject_smoke.cpp\<close>: the summary, laid out like the host's, and the lines of the
  snapshot log, without white space.  The program has a \<open>json_escape\<close> of its own, which escapes less
  than the host's.  The numbers of the sections are those the host has written into the program's
  copies of its snapshots.
\<close>

type_synonym DwrtTargetProbeSnapshot = target_probe_state
type_synonym DwrtFriendlyFireSnapshot = friendly_fire_state

subsection \<open>Text\<close>

definition injector_escape_char :: "char \<Rightarrow> string" where
  "injector_escape_char ch =
     (if ch = CHR 0x5C then [CHR 0x5C, CHR 0x5C]
      else if ch = CHR 0x22 then [CHR 0x5C, CHR 0x22]
      else if ch = CHR 0x0A then [CHR 0x5C, CHR ''n'']
      else if ch = CHR 0x0D then [CHR 0x5C, CHR ''r'']
      else if ch = CHR 0x09 then [CHR 0x5C, CHR ''t'']
      else [ch])"

definition injector_json_escape :: "string \<Rightarrow> string" where
  "injector_json_escape value = concat (map injector_escape_char value)"

definition injector_quoted :: "string \<Rightarrow> string" where
  "injector_quoted s = quote # injector_json_escape s @ [quote]"

text \<open>The layout of the summary: a field a line, rows of numbers on one line.\<close>

fun injector_layout :: "nat \<Rightarrow> json \<Rightarrow> string"
and injector_layout_row :: "json list \<Rightarrow> string"
and injector_layout_items :: "nat \<Rightarrow> json list \<Rightarrow> string"
and injector_layout_fields :: "nat \<Rightarrow> (string \<times> json) list \<Rightarrow> string"
where
  "injector_layout n JNull = ''null''"
| "injector_layout n (JBool b) = (if b then ''true'' else ''false'')"
| "injector_layout n (JNum k) = dec k"
| "injector_layout n (JStr s) = injector_quoted s"
| "injector_layout n (JArr xs) =
     (if xs \<noteq> [] \<and> list_all is_number xs then ''['' @ injector_layout_row xs @ '']''
      else ''['' @ [newline] @ injector_layout_items (n + 2) xs @ indent n @ '']'')"
| "injector_layout n (JObj fs) = ''{'' @ [newline] @ injector_layout_fields (n + 2) fs @ indent n @ ''}''"
| "injector_layout_row [] = []"
| "injector_layout_row (x # xs) =
     injector_layout 0 x @ (if xs = [] then [] else '', '' @ injector_layout_row xs)"
| "injector_layout_items n [] = []"
| "injector_layout_items n (x # xs) =
     indent n @ injector_layout n x @
       (if xs = [] then [newline] else '','' @ [newline] @ injector_layout_items n xs)"
| "injector_layout_fields n [] = []"
| "injector_layout_fields n ((k, v) # fs) =
     indent n @ quote # k @ quote # '': '' @ injector_layout n v @
       (if fs = [] then [newline] else '','' @ [newline] @ injector_layout_fields n fs)"

text \<open>The layout of a line of the log.\<close>

fun compact :: "json \<Rightarrow> string"
and compact_items :: "json list \<Rightarrow> string"
and compact_fields :: "(string \<times> json) list \<Rightarrow> string"
where
  "compact JNull = ''null''"
| "compact (JBool b) = (if b then ''true'' else ''false'')"
| "compact (JNum k) = dec k"
| "compact (JStr s) = injector_quoted s"
| "compact (JArr xs) = ''['' @ compact_items xs @ '']''"
| "compact (JObj fs) = ''{'' @ compact_fields fs @ ''}''"
| "compact_items [] = []"
| "compact_items (x # xs) = compact x @ (if xs = [] then [] else '','' @ compact_items xs)"
| "compact_fields [] = []"
| "compact_fields ((k, v) # fs) =
     quote # k @ quote # '':'' @ compact v @ (if fs = [] then [] else '','' @ compact_fields fs)"

subsection \<open>Seconds as text\<close>

text \<open>
  \<open>static_cast<double>(ms) / 1000.0\<close> and what an output stream writes for it.  The quotient is the
  double nearest to \<open>ms / 1000\<close>, a significand of 53 bits over a power of two; the stream writes six
  significant digits, without trailing zeros, and from a million on with an exponent.
\<close>

definition div_half_even :: "nat \<Rightarrow> nat \<Rightarrow> nat" where
  "div_half_even a b =
     (let q = a div b; r = a mod b
      in if 2 * r > b \<or> (2 * r = b \<and> odd q) then q + 1 else q)"

text \<open>The significand and the binary exponent of the quotient, for \<open>0 < ms\<close>.\<close>

definition double_of_ms :: "nat \<Rightarrow> nat \<times> nat" where
  "double_of_ms ms =
     (let e = hd (filter (\<lambda>e. 2 ^ 52 * 1000 \<le> ms * 2 ^ e) [0..<64])
      in (div_half_even (ms * 2 ^ e) 1000, e))"

text \<open>The six significant digits, and the power of ten of the first, counted from -3.\<close>

definition six_digits :: "nat \<Rightarrow> nat \<Rightarrow> nat \<times> nat" where
  "six_digits m e =
     (let x = last (filter (\<lambda>x. 10 ^ x * 2 ^ e \<le> m * 1000) [0..<11]);
          d = div_half_even (m * 10 ^ 8) (2 ^ e * 10 ^ x)
      in if d = 10 ^ 6 then (10 ^ 5, x + 1) else (d, x))"

definition pad :: "nat \<Rightarrow> string \<Rightarrow> string" where
  "pad n s = replicate (n - length s) (CHR ''0'') @ s"

definition strip_zeros :: "string \<Rightarrow> string" where
  "strip_zeros s = rev (dropWhile (\<lambda>c. c = CHR ''0'') (rev s))"

definition with_fraction :: "string \<Rightarrow> string \<Rightarrow> string" where
  "with_fraction whole fraction =
     (let f = strip_zeros fraction in if f = [] then whole else whole @ ''.'' @ f)"

definition seconds_text :: "u32 \<Rightarrow> string" where
  "seconds_text ms =
     (if ms = 0 then ''0''
      else
        (let (m, e) = double_of_ms (unat ms); (d, x) = six_digits m e
         in if x \<ge> 9
            then with_fraction (dec (d div 10 ^ 5)) (pad 5 (dec (d mod 10 ^ 5))) @ ''e+'' @ pad 2 (dec (x - 3))
            else with_fraction (dec (d div 10 ^ (8 - x))) (pad (8 - x) (dec (d mod 10 ^ (8 - x))))))"

subsection \<open>The sections\<close>

definition injector_host_json :: "host_snapshot \<Rightarrow> json" where
  "injector_host_json s = JObj
     [
      (''initialized'', number (snap_initialized s)),
      (''runtimeLoaded'', number (snap_runtime_loaded s)),
      (''runtimeProbeOk'', number (snap_runtime_probe_ok s)),
      (''signaturesChecked'', number (snap_signatures_checked s)),
      (''signatureRequiredFailures'', number (snap_signature_required_failures s)),
      (''usedLiveServerModule'', number (snap_used_live_server_module s)),
      (''usedMappedFileFallback'', number (snap_used_mapped_file_fallback s)),
      (''hookInstallAttempts'', number (snap_hook_install_attempts s)),
      (''hooksInstalled'', number (snap_hooks_installed s)),
      (''hookInstallFailures'', number (snap_hook_install_failures s)),
      (''initializeCalls'', number (snap_initialize_calls s)),
      (''initializeReentrantRejects'', number (snap_initialize_reentrant_rejects s)),
      (''shutdownCalls'', number (snap_shutdown_calls s)),
      (''callbackEntries'', number (snap_callback_entries s)),
      (''callbackRecursiveEntries'', number (snap_callback_recursive_entries s)),
      (''callbackCurrentDepth'', number (snap_callback_current_depth s)),
      (''callbackMaxDepth'', number (snap_callback_max_depth s))
     ]"

definition injector_probe_json :: "probe_counters \<Rightarrow> json" where
  "injector_probe_json s = JObj
     [
      (''mountMask'', number (mount_mask s)),
      (''damageSeen'', number (damage_seen s)),
      (''damageCounted'', number (damage_counted s)),
      (''entityInputSeen'', number (entity_input_seen s)),
      (''entityInputCounted'', number (entity_input_counted s)),
      (''entityOutputSeen'', number (entity_output_seen s)),
      (''entityOutputCounted'', number (entity_output_counted s)),
      (''entityTouchSeen'', number (entity_touch_seen s)),
      (''entityTouchCounted'', number (entity_touch_counted s))
     ]"

definition injector_walker_patrol_json :: "walker_patrol_snapshot \<Rightarrow> json" where
  "injector_walker_patrol_json s = JObj
     [
      (''enabled'', number (ws_enabled s)),
      (''stride'', number (ws_stride s)),
      (''waypointCount'', number (ws_waypoint_count s)),
      (''mode'', number (ws_mode s)),
      (''damageCallbacks'', number (ws_damage_callbacks s)),
      (''candidateWalkers'', number (ws_candidate_walkers s)),
      (''nonWalkerVictims'', number (ws_non_walker_victims s)),
      (''skippedRecursive'', number (ws_skipped_recursive s)),
      (''missingIdentity'', number (ws_missing_identity s)),
      (''missingDesignerName'', number (ws_missing_designer_name s)),
      (''teleportAttempts'', number (ws_teleport_attempts s)),
      (''teleportCalls'', number (ws_teleport_calls s)),
      (''bodyComponentMissing'', number (ws_body_component_missing s)),
      (''sceneNodeMissing'', number (ws_scene_node_missing s)),
      (''originReadAttempts'', number (ws_origin_read_attempts s)),
      (''originReadSuccesses'', number (ws_origin_read_successes s)),
      (''originReadFailures'', number (ws_origin_read_failures s))
     ]"

definition injector_friendly_fire_json :: "DwrtFriendlyFireSnapshot \<Rightarrow> json" where
  "injector_friendly_fire_json s = JObj
     [
      (''enabled'', number (ff_enabled s)),
      (''mode'', number (ff_mode s)),
      (''scope'', number (ff_scope s)),
      (''localTeam'', number (ff_local_team s)),
      (''damageCallbacks'', number (ff_damage_callbacks s)),
      (''skippedRecursive'', number (ff_skipped_recursive s)),
      (''missingIdentity'', number (ff_missing_identity s)),
      (''missingDesignerName'', number (ff_missing_designer_name s)),
      (''nonObjectiveVictims'', number (ff_non_objective_victims s)),
      (''objectiveCandidates'', number (ff_objective_candidates s)),
      (''invalidTeam'', number (ff_invalid_team s)),
      (''teamSpoofAttempts'', number (ff_team_spoof_attempts s)),
      (''teamSpoofApplied'', number (ff_team_spoof_applied s)),
      (''teamSpoofRestored'', number (ff_team_spoof_restored s))
     ]"

definition injector_target_fields :: "DwrtTargetProbeSnapshot \<Rightarrow> (string \<times> json) list" where
  "injector_target_fields s =
     [
      (''enabled'', number (tp_enabled s)),
      (''sourceTeamSpoofEnabled'', number (tp_source_team_spoof_enabled s)),
      (''targetTeamSpoofEnabled'', number (tp_target_team_spoof_enabled s)),
      (''targetTeamSpoofTeam'', number (tp_target_team_spoof_team s)),
      (''targetBitsetAllowEnabled'', number (tp_target_bitset_allow_enabled s)),
      (''forceFilterSameTeamAllowEnabled'', number (tp_force_filter_same_team_allow_enabled s)),
      (''forceCallerSameTeamAllowEnabled'', number (tp_force_caller_same_team_allow_enabled s)),
      (''forceFilterObjectiveAllowEnabled'', number (tp_force_filter_objective_allow_enabled s)),
      (''forceCallerObjectiveAllowEnabled'', number (tp_force_caller_objective_allow_enabled s)),
      (''forceSecondaryAllowEnabled'', number (tp_force_secondary_allow_enabled s)),
      (''neutralSimulationEnabled'', number (tp_neutral_simulation_enabled s)),
      (''classifierSpoofEnabled'', number (tp_classifier_spoof_enabled s)),
      (''classifierSpoofBit'', number (tp_classifier_spoof_bit s)),
      (''globalNeutralizeEnabled'', number (tp_global_neutralize_enabled s)),
      (''globalNeutralizeTeam'', number (tp_global_neutralize_team s)),
      (''lastSourceTeam'', number (tp_last_source_team s)),
      (''lastTargetTeam'', number (tp_last_target_team s)),
      (''lastTargetUnitType'', number (tp_last_target_unit_type s)),
      (''lastFilterResult'', number (tp_last_filter_result s)),
      (''lastDamageVictimTeam'', number (tp_last_damage_victim_team s)),
      (''lastDamageVictimUnitType'', number (tp_last_damage_victim_unit_type s)),
      (''lastDamageAttackerHandle'', number (tp_last_damage_attacker_handle s)),
      (''lastDamageInflictorHandle'', number (tp_last_damage_inflictor_handle s)),
      (''lastDamageAttackerTeam'', number (tp_last_damage_attacker_team s)),
      (''lastDamageAttackerUnitType'', number (tp_last_damage_attacker_unit_type s)),
      (''filterCalls'', number (tp_filter_calls s)),
      (''filterAllowed'', number (tp_filter_allowed s)),
      (''filterDenied'', number (tp_filter_denied s)),
      (''filterSameTeamCalls'', number (tp_filter_same_team_calls s)),
      (''filterSameTeamAllowed'', number (tp_filter_same_team_allowed s)),
      (''filterSameTeamDenied'', number (tp_filter_same_team_denied s)),
      (''filterObjectiveTargetCalls'', number (tp_filter_objective_target_calls s)),
      (''filterObjectiveTargetAllowed'', number (tp_filter_objective_target_allowed s)),
      (''filterObjectiveTargetDenied'', number (tp_filter_objective_target_denied s)),
      (''filterNeutralTargetCalls'', number (tp_filter_neutral_target_calls s)),
      (''filterMidbossTargetCalls'', number (tp_filter_midboss_target_calls s)),
      (''filterInvalidSourceTeam'', number (tp_filter_invalid_source_team s)),
      (''filterInvalidTargetTeam'', number (tp_filter_invalid_target_team s)),
      (''sourceSpoofAttempts'', number (tp_source_spoof_attempts s)),
      (''sourceSpoofApplied'', number (tp_source_spoof_applied s)),
      (''sourceSpoofRestored'', number (tp_source_spoof_restored s)),
      (''sourceSpoofAllowed'', number (tp_source_spoof_allowed s)),
      (''sourceSpoofDenied'', number (tp_source_spoof_denied s)),
      (''targetSpoofAttempts'', number (tp_target_spoof_attempts s)),
      (''targetSpoofApplied'', number (tp_target_spoof_applied s)),
      (''targetSpoofRestored'', number (tp_target_spoof_restored s)),
      (''targetSpoofAllowed'', number (tp_target_spoof_allowed s)),
      (''targetSpoofDenied'', number (tp_target_spoof_denied s)),
      (''bitsetAllowAttempts'', number (tp_bitset_allow_attempts s)),
      (''bitsetAllowApplied'', number (tp_bitset_allow_applied s)),
      (''bitsetAllowFailures'', number (tp_bitset_allow_failures s)),
      (''classifierCalls'', number (tp_classifier_calls s)),
      (''classifierInvalid'', number (tp_classifier_invalid s)),
      (''classifierSpoofAttempts'', number (tp_classifier_spoof_attempts s)),
      (''classifierSpoofApplied'', number (tp_classifier_spoof_applied s)),
      (''classifierSpoofSkipped'', number (tp_classifier_spoof_skipped s)),
      (''lastClassifierOriginalBit'', number (tp_last_classifier_original_bit s)),
      (''lastClassifierFinalBit'', number (tp_last_classifier_final_bit s))
     ]"

definition injector_more_target_fields :: "DwrtTargetProbeSnapshot \<Rightarrow> (string \<times> json) list" where
  "injector_more_target_fields s =
     [
      (''globalNeutralizeAttempts'', number (tp_global_neutralize_attempts s)),
      (''globalNeutralizeApplied'', number (tp_global_neutralize_applied s)),
      (''globalNeutralizeAlready'', number (tp_global_neutralize_already s)),
      (''globalNeutralizeNull'', number (tp_global_neutralize_null s)),
      (''globalNeutralizeInvalidTeam'', number (tp_global_neutralize_invalid_team s)),
      (''globalNeutralizeWriteFailures'', number (tp_global_neutralize_write_failures s)),
      (''globalNeutralizeOriginalTeamOverflow'', number (tp_global_neutralize_original_team_overflow s)),
      (''globalNeutralizeOriginalTeamCounts'', number_row (tp_global_neutralize_original_team_counts s)),
      (''filterForcedAllowed'', number (tp_filter_forced_allowed s)),
      (''callerForcedAllowed'', number (tp_caller_forced_allowed s)),
      (''secondaryForcedAllowed'', number (tp_secondary_forced_allowed s)),
      (''secondaryCalls'', number (tp_secondary_calls s)),
      (''secondaryAllowed'', number (tp_secondary_allowed s)),
      (''secondaryDenied'', number (tp_secondary_denied s)),
      (''callerCalls'', number (tp_caller_calls s)),
      (''callerAllowed'', number (tp_caller_allowed s)),
      (''callerDenied'', number (tp_caller_denied s)),
      (''callerUnit0x1aBypassCandidates'', number (tp_caller_unit_0x1a_bypass_candidates s)),
      (''filterUnitTypeOverflow'', number (tp_filter_unit_type_overflow s)),
      (''filterUnitTypeCounts'', number_row (tp_filter_unit_type_counts s)),
      (''damageVictimCalls'', number (tp_damage_victim_calls s)),
      (''damageVictimObjective'', number (tp_damage_victim_objective s)),
      (''damageVictimNeutral'', number (tp_damage_victim_neutral s)),
      (''damageVictimMidboss'', number (tp_damage_victim_midboss s)),
      (''damageVictimInvalidTeam'', number (tp_damage_victim_invalid_team s)),
      (''damageVictimUnitTypeOverflow'', number (tp_damage_victim_unit_type_overflow s)),
      (''damageVictimUnitTypeCounts'', number_row (tp_damage_victim_unit_type_counts s)),
      (''damageAttackerHandleValid'', number (tp_damage_attacker_handle_valid s)),
      (''damageAttackerHandleInvalid'', number (tp_damage_attacker_handle_invalid s)),
      (''damageInflictorHandleValid'', number (tp_damage_inflictor_handle_valid s)),
      (''damageInflictorHandleInvalid'', number (tp_damage_inflictor_handle_invalid s)),
      (''damageAttackerSameTeam'', number (tp_damage_attacker_same_team s)),
      (''damageAttackerOpposingTeam'', number (tp_damage_attacker_opposing_team s)),
      (''damageAttackerOtherTeam'', number (tp_damage_attacker_other_team s)),
      (''damageAttackerSelf'', number (tp_damage_attacker_self s)),
      (''damageAttackerSameTeamObjective'', number (tp_damage_attacker_same_team_objective s)),
      (''damageAttackerUnitTypeOverflow'', number (tp_damage_attacker_unit_type_overflow s)),
      (''damageAttackerUnitTypeCounts'', number_row (tp_damage_attacker_unit_type_counts s)),
      (''damageSameTeamVictimUnitTypeOverflow'', number (tp_damage_same_team_victim_unit_type_overflow s)),
      (''damageSameTeamVictimUnitTypeCounts'', number_row (tp_damage_same_team_victim_unit_type_counts s))
     ]"

definition injector_target_probe_json :: "DwrtTargetProbeSnapshot \<Rightarrow> json" where
  "injector_target_probe_json s = JObj (injector_target_fields s @ injector_more_target_fields s)"

text \<open>The host's section in a line of the log is shorter.\<close>

definition jsonl_host_json :: "host_snapshot \<Rightarrow> json" where
  "jsonl_host_json s = JObj
     [
      (''initialized'', number (snap_initialized s)),
      (''runtimeLoaded'', number (snap_runtime_loaded s)),
      (''runtimeProbeOk'', number (snap_runtime_probe_ok s)),
      (''signaturesChecked'', number (snap_signatures_checked s)),
      (''signatureRequiredFailures'', number (snap_signature_required_failures s)),
      (''usedLiveServerModule'', number (snap_used_live_server_module s)),
      (''usedMappedFileFallback'', number (snap_used_mapped_file_fallback s)),
      (''hookInstallAttempts'', number (snap_hook_install_attempts s)),
      (''hooksInstalled'', number (snap_hooks_installed s)),
      (''hookInstallFailures'', number (snap_hook_install_failures s)),
      (''callbackEntries'', number (snap_callback_entries s)),
      (''callbackRecursiveEntries'', number (snap_callback_recursive_entries s)),
      (''callbackCurrentDepth'', number (snap_callback_current_depth s)),
      (''callbackMaxDepth'', number (snap_callback_max_depth s))
     ]"

subsection \<open>Options and variables\<close>

definition steam_path :: "string list \<Rightarrow> wstring" where
  "steam_path parts = wide (''C:'' @ concat (map (\<lambda>part. CHR 0x5C # part)
     ([''Program Files (x86)'', ''Steam'', ''steamapps'', ''common'', ''Deadlock'', ''game''] @ parts)))"

definition kDefaultServerExe :: wstring where
  "kDefaultServerExe = steam_path [''bin'', ''win64'', ''deadlock.exe'']"

definition injector_kDefaultServerDll :: wstring where
  "injector_kDefaultServerDll = steam_path [''citadel'', ''bin'', ''win64'', ''server.dll'']"

definition kDefaultServerArgs :: wstring where
  "kDefaultServerArgs = wide
     (''-dedicated -dev -insecure -allow_no_lobby_connect +tv_citadel_auto_record 0 '' @
      ''+spec_replay_enable 0 +tv_enable 0 +citadel_upload_replay_enabled 0 '' @
      ''+hostport 27068 +map dl_midtown'')"

record injector_options =
  io_server_exe :: wstring
  io_server_dll :: wstring
  io_host_dll :: wstring
  io_runtime_dll :: wstring
  io_host_summary_path :: wstring
  io_injector_summary_path :: wstring
  io_server_args :: wstring
  io_wait_server_module_seconds :: u32
  io_hold_seconds :: u32
  io_poll_seconds :: u32
  io_probe_mount_mask :: u32
  io_snapshot_jsonl_path :: wstring
  io_stop_file_path :: wstring
  io_install_probe_hooks :: bool
  io_allow_recursive_callbacks :: bool

definition default_injector_options :: injector_options where
  "default_injector_options =
     \<lparr>io_server_exe = kDefaultServerExe, io_server_dll = injector_kDefaultServerDll, io_host_dll = [],
      io_runtime_dll = [], io_host_summary_path = [], io_injector_summary_path = [],
      io_server_args = kDefaultServerArgs, io_wait_server_module_seconds = 60, io_hold_seconds = 5,
      io_poll_seconds = 0, io_probe_mount_mask = 0, io_snapshot_jsonl_path = [], io_stop_file_path = [],
      io_install_probe_hooks = False, io_allow_recursive_callbacks = False\<rparr>"

text \<open>The variables of \<open>wmain\<close> that its lambda \<open>finish\<close> reports on.\<close>

record injector_vars =
  iv_process_id :: u32
  iv_server_base :: ptr
  iv_host_base :: ptr
  iv_init_status :: u32
  iv_snapshot_status :: u32
  iv_probe_mount_status :: u32
  iv_probe_reset_status :: u32
  iv_probe_snapshot_status :: u32
  iv_walker_patrol_snapshot_status :: u32
  iv_friendly_fire_snapshot_status :: u32
  iv_target_probe_snapshot_status :: u32
  iv_host :: host_snapshot
  iv_probe :: probe_counters
  iv_walker_patrol :: walker_patrol_snapshot
  iv_friendly_fire :: DwrtFriendlyFireSnapshot
  iv_target_probe :: DwrtTargetProbeSnapshot
  iv_completion_reason :: string

definition zero_walker_patrol_snapshot :: walker_patrol_snapshot where
  "zero_walker_patrol_snapshot =
     \<lparr>ws_enabled = 0, ws_stride = 0, ws_waypoint_count = 0, ws_mode = 0, ws_damage_callbacks = 0,
      ws_candidate_walkers = 0, ws_non_walker_victims = 0, ws_skipped_recursive = 0,
      ws_missing_identity = 0, ws_missing_designer_name = 0, ws_teleport_attempts = 0,
      ws_teleport_calls = 0, ws_body_component_missing = 0, ws_scene_node_missing = 0,
      ws_origin_read_attempts = 0, ws_origin_read_successes = 0, ws_origin_read_failures = 0\<rparr>"

definition zero_friendly_fire_snapshot :: DwrtFriendlyFireSnapshot where
  "zero_friendly_fire_snapshot =
     \<lparr>ff_enabled = 0, ff_mode = 0, ff_scope = 0, ff_local_team = 0, ff_damage_callbacks = 0,
      ff_skipped_recursive = 0, ff_missing_identity = 0, ff_missing_designer_name = 0,
      ff_non_objective_victims = 0, ff_objective_candidates = 0, ff_invalid_team = 0,
      ff_team_spoof_attempts = 0, ff_team_spoof_applied = 0, ff_team_spoof_restored = 0\<rparr>"

definition zero_target_probe_snapshot :: DwrtTargetProbeSnapshot where
  "zero_target_probe_snapshot =
     \<lparr>tp_enabled = 0, tp_source_team_spoof_enabled = 0, tp_target_team_spoof_enabled = 0,
      tp_target_team_spoof_team = 0, tp_target_bitset_allow_enabled = 0,
      tp_force_filter_same_team_allow_enabled = 0, tp_force_caller_same_team_allow_enabled = 0,
      tp_force_filter_objective_allow_enabled = 0, tp_force_caller_objective_allow_enabled = 0,
      tp_force_secondary_allow_enabled = 0, tp_neutral_simulation_enabled = 0,
      tp_classifier_spoof_enabled = 0, tp_classifier_spoof_bit = 0, tp_global_neutralize_enabled = 0,
      tp_global_neutralize_team = 0, tp_last_source_team = 0, tp_last_target_team = 0,
      tp_last_target_unit_type = 0, tp_last_filter_result = 0, tp_last_damage_victim_team = 0,
      tp_last_damage_victim_unit_type = 0, tp_last_damage_attacker_handle = 0,
      tp_last_damage_inflictor_handle = 0, tp_last_damage_attacker_team = 0,
      tp_last_damage_attacker_unit_type = 0, tp_filter_calls = 0, tp_filter_allowed = 0,
      tp_filter_denied = 0, tp_filter_same_team_calls = 0, tp_filter_same_team_allowed = 0,
      tp_filter_same_team_denied = 0, tp_filter_objective_target_calls = 0,
      tp_filter_objective_target_allowed = 0, tp_filter_objective_target_denied = 0,
      tp_filter_neutral_target_calls = 0, tp_filter_midboss_target_calls = 0,
      tp_filter_invalid_source_team = 0, tp_filter_invalid_target_team = 0, tp_source_spoof_attempts = 0,
      tp_source_spoof_applied = 0, tp_source_spoof_restored = 0, tp_source_spoof_allowed = 0,
      tp_source_spoof_denied = 0, tp_target_spoof_attempts = 0, tp_target_spoof_applied = 0,
      tp_target_spoof_restored = 0, tp_target_spoof_allowed = 0, tp_target_spoof_denied = 0,
      tp_bitset_allow_attempts = 0, tp_bitset_allow_applied = 0, tp_bitset_allow_failures = 0,
      tp_classifier_calls = 0, tp_classifier_invalid = 0, tp_classifier_spoof_attempts = 0,
      tp_classifier_spoof_applied = 0, tp_classifier_spoof_skipped = 0,
      tp_last_classifier_original_bit = 0, tp_last_classifier_final_bit = 0,
      tp_global_neutralize_attempts = 0, tp_global_neutralize_applied = 0,
      tp_global_neutralize_already = 0, tp_global_neutralize_null = 0,
      tp_global_neutralize_invalid_team = 0, tp_global_neutralize_write_failures = 0,
      tp_global_neutralize_original_team_counts = replicate 8 0,
      tp_global_neutralize_original_team_overflow = 0, tp_filter_forced_allowed = 0,
      tp_caller_forced_allowed = 0, tp_secondary_forced_allowed = 0, tp_secondary_calls = 0,
      tp_secondary_allowed = 0, tp_secondary_denied = 0, tp_caller_calls = 0, tp_caller_allowed = 0,
      tp_caller_denied = 0, tp_caller_unit_0x1a_bypass_candidates = 0,
      tp_filter_unit_type_counts = replicate 32 0, tp_filter_unit_type_overflow = 0,
      tp_damage_victim_calls = 0, tp_damage_victim_objective = 0, tp_damage_victim_neutral = 0,
      tp_damage_victim_midboss = 0, tp_damage_victim_invalid_team = 0,
      tp_damage_victim_unit_type_counts = replicate 64 0, tp_damage_victim_unit_type_overflow = 0,
      tp_damage_attacker_handle_valid = 0, tp_damage_attacker_handle_invalid = 0,
      tp_damage_inflictor_handle_valid = 0, tp_damage_inflictor_handle_invalid = 0,
      tp_damage_attacker_same_team = 0, tp_damage_attacker_opposing_team = 0,
      tp_damage_attacker_other_team = 0, tp_damage_attacker_self = 0,
      tp_damage_attacker_same_team_objective = 0, tp_damage_attacker_unit_type_counts = replicate 64 0,
      tp_damage_attacker_unit_type_overflow = 0,
      tp_damage_same_team_victim_unit_type_counts = replicate 64 0,
      tp_damage_same_team_victim_unit_type_overflow = 0\<rparr>"

definition initial_injector_vars :: "u32 \<Rightarrow> injector_vars" where
  "initial_injector_vars pid =
     \<lparr>iv_process_id = pid, iv_server_base = 0, iv_host_base = 0, iv_init_status = 0, iv_snapshot_status = 0,
      iv_probe_mount_status = 0, iv_probe_reset_status = 0, iv_probe_snapshot_status = 0,
      iv_walker_patrol_snapshot_status = 0, iv_friendly_fire_snapshot_status = 0,
      iv_target_probe_snapshot_status = 0, iv_host = zero_host_snapshot, iv_probe = probe_new,
      iv_walker_patrol = zero_walker_patrol_snapshot, iv_friendly_fire = zero_friendly_fire_snapshot,
      iv_target_probe = zero_target_probe_snapshot, iv_completion_reason = ''completed''\<rparr>"

subsection \<open>The reports\<close>

definition injector_summary_json ::
  "(wstring \<Rightarrow> string) \<Rightarrow> (wstring \<Rightarrow> string) \<Rightarrow> injector_options \<Rightarrow> injector_vars \<Rightarrow> string \<Rightarrow> string \<Rightarrow> json" where
  "injector_summary_json utf8 path_string opts v finish_reason error = JObj
     [(''ok'', JBool (error = [])),
      (''processId'', number (iv_process_id v)),
      (''serverExe'', JStr (path_string (io_server_exe opts))),
      (''serverArgs'', JStr (narrow utf8 (io_server_args opts))),
      (''serverModuleBase'', JStr (hex_u64 (iv_server_base v))),
      (''hostModuleBase'', JStr (hex_u64 (iv_host_base v))),
      (''installProbeHooks'', JBool (io_install_probe_hooks opts)),
      (''allowRecursiveCallbacks'', JBool (io_allow_recursive_callbacks opts)),
      (''probeMountMask'', number (io_probe_mount_mask opts)),
      (''pollSeconds'', number (io_poll_seconds opts)),
      (''snapshotJsonl'', JStr (path_string (io_snapshot_jsonl_path opts))),
      (''stopFile'', JStr (path_string (io_stop_file_path opts))),
      (''finishReason'', JStr finish_reason),
      (''initStatus'', number (iv_init_status v)),
      (''snapshotStatus'', number (iv_snapshot_status v)),
      (''probeMountStatus'', number (iv_probe_mount_status v)),
      (''probeResetStatus'', number (iv_probe_reset_status v)),
      (''probeSnapshotStatus'', number (iv_probe_snapshot_status v)),
      (''walkerPatrolSnapshotStatus'', number (iv_walker_patrol_snapshot_status v)),
      (''friendlyFireSnapshotStatus'', number (iv_friendly_fire_snapshot_status v)),
      (''targetProbeSnapshotStatus'', number (iv_target_probe_snapshot_status v)),
      (''snapshot'', injector_host_json (iv_host v)),
      (''probeSnapshot'', injector_probe_json (iv_probe v)),
      (''walkerPatrol'', injector_walker_patrol_json (iv_walker_patrol v)),
      (''friendlyFire'', injector_friendly_fire_json (iv_friendly_fire v)),
      (''targetProbe'', injector_target_probe_json (iv_target_probe v)),
      (''error'', JStr error)]"

definition build_injector_summary ::
  "(wstring \<Rightarrow> string) \<Rightarrow> (wstring \<Rightarrow> string) \<Rightarrow> injector_options \<Rightarrow> injector_vars \<Rightarrow> string \<Rightarrow> string \<Rightarrow> string" where
  "build_injector_summary utf8 path_string opts v finish_reason error =
     injector_layout 0 (injector_summary_json utf8 path_string opts v finish_reason error) @ [newline]"

definition build_snapshot_jsonl :: "string \<Rightarrow> u32 \<Rightarrow> injector_vars \<Rightarrow> string" where
  "build_snapshot_jsonl phase elapsed_ms v =
     ''{'' @ quote # ''phase'' @ quote # '':'' @ injector_quoted phase @ '','' @
     quote # ''elapsedSeconds'' @ quote # '':'' @ seconds_text elapsed_ms @ '','' @
     compact_fields
       [(''host'', jsonl_host_json (iv_host v)),
        (''probe'', injector_probe_json (iv_probe v)),
        (''walkerPatrol'', injector_walker_patrol_json (iv_walker_patrol v)),
        (''friendlyFire'', injector_friendly_fire_json (iv_friendly_fire v)),
        (''targetProbe'', injector_target_probe_json (iv_target_probe v))] @ ''}'' @ [newline]"

end
