(* ===== verification/Injector_Summary_Properties.thy ===== *)
theory Injector_Summary_Properties
  imports Injector_Summary
begin

section \<open>Reading the reports of the injector\<close>

text \<open>
  The sections are the ones the host writes.  The summary is strict JSON exactly when no text in it
  has a control character other than a line feed, a carriage return or a tabulator, and a snapshot
  is one line of the log.
\<close>

subsection \<open>Sections\<close>

text \<open>The injector reports the walker patrol, the friendly fire experiment and the target probe under the
  names, in the order and with the values of the host's own summary.\<close>
theorem injector_sections_agree:
  "injector_walker_patrol_json ws = walker_patrol_json ws \<and>
   injector_friendly_fire_json ff = friendly_fire_json ff \<and>
   injector_target_probe_json tp = target_probe_json tp"
  by (simp add: injector_walker_patrol_json_def walker_patrol_json_def injector_friendly_fire_json_def
      friendly_fire_json_def injector_target_probe_json_def target_probe_json_def injector_target_fields_def
      target_probe_fields_def injector_more_target_fields_def target_probe_more_fields_def)

subsection \<open>Texts without control characters\<close>

definition stray :: "char \<Rightarrow> bool" where
  "stray c \<longleftrightarrow> of_char c < (32 :: nat) \<and> \<not> json_space c"

definition plain_text :: "string \<Rightarrow> bool" where
  "plain_text s \<longleftrightarrow> list_all (\<lambda>c. \<not> stray c) s"

lemma plain_text_simps [simp]:
  "plain_text []" "plain_text (c # s) \<longleftrightarrow> \<not> stray c \<and> plain_text s"
  "plain_text (s @ t) \<longleftrightarrow> plain_text s \<and> plain_text t"
  by (simp_all add: plain_text_def)

lemma not_stray [simp]: "\<not> stray newline" "\<not> stray quote" "\<not> stray (CHR '' '')"
  by (simp_all add: stray_def json_space_def)

lemma plain_char_escape: "\<not> stray c \<Longrightarrow> injector_escape_char c = json_escape_char c"
proof (cases "c \<in> {CHR 0x5C, CHR 0x22, CHR 0x0A, CHR 0x0D, CHR 0x09}")
  case True
  then show ?thesis by (elim insertE emptyE) (simp_all add: injector_escape_char_def json_escape_char_def)
next
  case False
  assume "\<not> stray c"
  then have "\<not> of_char c < (32 :: nat)"
    using False by (auto simp: stray_def json_space_def)
  then show ?thesis using False by (auto simp: injector_escape_char_def json_escape_char_def)
qed

lemma plain_escape: "plain_text s \<Longrightarrow> injector_json_escape s = json_escape s"
  by (induction s) (simp_all add: injector_json_escape_def json_escape_def plain_char_escape)

lemma escape_plain: "plain_text (injector_json_escape s) \<longleftrightarrow> plain_text s"
proof (induction s)
  case (Cons c s)
  have "plain_text (injector_escape_char c) \<longleftrightarrow> \<not> stray c"
    by (simp add: injector_escape_char_def) (auto simp: stray_def json_space_def)
  then show ?case using Cons by (simp add: injector_json_escape_def)
qed (simp add: injector_json_escape_def)

text \<open>Values whose texts are plain, under names that need no escape.\<close>

fun plain :: "json \<Rightarrow> bool" and plain_items :: "json list \<Rightarrow> bool" and plain_fields :: "(string \<times> json) list \<Rightarrow> bool" where
  "plain JNull = True"
| "plain (JBool b) = True"
| "plain (JNum k) = True"
| "plain (JStr s) = plain_text s"
| "plain (JArr xs) = plain_items xs"
| "plain (JObj fs) = plain_fields fs"
| "plain_items [] = True"
| "plain_items (x # xs) = (plain x \<and> plain_items xs)"
| "plain_fields [] = True"
| "plain_fields ((k, v) # fs) = (plain v \<and> plain_fields fs)"

fun named :: "json \<Rightarrow> bool" and named_items :: "json list \<Rightarrow> bool" and named_fields :: "(string \<times> json) list \<Rightarrow> bool" where
  "named (JArr xs) = named_items xs"
| "named (JObj fs) = named_fields fs"
| "named _ = True"
| "named_items [] = True"
| "named_items (x # xs) = (named x \<and> named_items xs)"
| "named_fields [] = True"
| "named_fields ((k, v) # fs) = (json_escape k = k \<and> named v \<and> named_fields fs)"

lemma injector_layout_plain:
  "plain j \<Longrightarrow> named j \<Longrightarrow> injector_layout n j = layout n j"
  "plain_items xs \<Longrightarrow> named_items xs \<Longrightarrow> injector_layout_row xs = layout_row xs"
  "plain_items xs \<Longrightarrow> named_items xs \<Longrightarrow> injector_layout_items n xs = layout_items n xs"
  "plain_fields fs \<Longrightarrow> named_fields fs \<Longrightarrow> injector_layout_fields n fs = layout_fields n fs"
  by (induction n j and xs and n xs and n fs
      rule: injector_layout_injector_layout_row_injector_layout_items_injector_layout_fields.induct)
     (simp_all add: injector_quoted_def quoted_def plain_escape)

lemma layout_reveals:
  "plain_text (injector_layout n j) \<Longrightarrow> plain j"
  "plain_text (injector_layout_row xs) \<Longrightarrow> plain_items xs"
  "plain_text (injector_layout_items n xs) \<Longrightarrow> plain_items xs"
  "plain_text (injector_layout_fields n fs) \<Longrightarrow> plain_fields fs"
  by (induction n j and xs and n xs and n fs
      rule: injector_layout_injector_layout_row_injector_layout_items_injector_layout_fields.induct)
     (auto simp: injector_quoted_def escape_plain split: if_splits)

subsection \<open>Strict JSON has no stray characters\<close>

lemma plain_hex: "hex_value c = Some n \<Longrightarrow> \<not> stray c"
  by (auto simp: hex_value_def stray_def Let_def split: if_splits)

lemma plain_hex4: "hex4_value (take 4 s) = Some n \<Longrightarrow> plain_text (take 4 s)"
  by (cases "take 4 s" rule: hex4_value.cases) (auto simp: plain_hex split: option.splits)

lemma plain_short: "short_escape e = Some ch \<Longrightarrow> \<not> stray e"
proof -
  assume "short_escape e = Some ch"
  then have "e \<in> {CHR 0x5C, CHR 0x22, CHR ''/'', CHR ''b'', CHR ''f'', CHR ''n'', CHR ''r'', CHR ''t''}"
    by (auto simp: short_escape_def split: if_splits)
  then show ?thesis by (elim insertE emptyE) (simp_all add: stray_def)
qed

lemma plain_unescape: "json_unescape b = Some t \<Longrightarrow> plain_text b"
proof (induction b arbitrary: t rule: json_unescape.induct)
  case (2 c r)
  show ?case
  proof (cases "c = CHR 0x5C")
    case False
    then show ?thesis using 2 by (auto simp: stray_def split: if_splits)
  next
    case True
    then obtain e r2 where r: "r = e # r2" using 2(4) by (auto split: list.splits)
    show ?thesis
    proof (cases "e = CHR ''u''")
      case u: True
      then obtain n t2 where "hex4_value (take 4 r2) = Some n" "json_unescape (drop 4 r2) = Some t2" "n < 256"
        using 2(4) True r by (auto split: option.splits if_splits)
      then have "plain_text (take 4 r2)" "plain_text (drop 4 r2)" using 2(1) [OF True r u] plain_hex4 by auto
      then have "plain_text r2" using plain_text_simps(3) [of "take 4 r2" "drop 4 r2"] by simp
      then show ?thesis using True u r by (simp add: stray_def)
    next
      case u: False
      then obtain ch t2 where "short_escape e = Some ch" "json_unescape r2 = Some t2"
        using 2(4) True r by (auto split: option.splits)
      then show ?thesis
        using 2(2) [OF True r u] True r plain_short by (simp add: stray_def)
    qed
  qed
qed simp

lemma raw_body_split: "raw_body s = Some (b, r) \<Longrightarrow> s = b @ quote # r"
  by (induction s arbitrary: b rule: raw_body.induct) (auto split: if_splits list.splits)

lemma plain_parse_string: "parse_string s = Some (t, r) \<Longrightarrow> plain_text r \<Longrightarrow> plain_text s"
  by (auto simp: parse_string_def split: option.splits dest!: raw_body_split dest: plain_unescape)

lemma plain_skip: "plain_text (skip s) \<longleftrightarrow> plain_text s"
  by (induction s) (auto simp: stray_def)

lemma plain_takeWhile: "plain_text (takeWhile is_digit s)"
  by (induction s) (auto simp: stray_def is_digit_def)

lemma plain_parse_scalar: "parse_scalar s = Some (v, r) \<Longrightarrow> plain_text r \<Longrightarrow> plain_text s"
proof -
  have p: "strip_prefix p s = Some r \<Longrightarrow> plain_text p \<Longrightarrow> plain_text r \<Longrightarrow> plain_text s" for p
    by (metis append_take_drop_id option.discI option.inject plain_text_simps(3) strip_prefix_def)
  have "plain_text ''null''" "plain_text ''true''" "plain_text ''false''"
    by (simp_all add: stray_def)
  moreover have "plain_text (dropWhile is_digit s) \<Longrightarrow> plain_text s"
    using plain_takeWhile by (metis plain_text_simps(3) takeWhile_dropWhile_id)
  ultimately show "parse_scalar s = Some (v, r) \<Longrightarrow> plain_text r \<Longrightarrow> plain_text s"
    using p by (fastforce simp: parse_scalar_def Let_def split: option.splits if_splits)
qed

lemma plain_first: "skip s = c # r \<Longrightarrow> \<not> stray c \<Longrightarrow> plain_text r \<Longrightarrow> plain_text s"
  by (metis plain_skip plain_text_simps(2))


lemma plain_parse:
  "parse_value n s = Some (v, r) \<Longrightarrow> plain_text r \<Longrightarrow> plain_text s"
  "parse_items n s = Some (vs, r) \<Longrightarrow> plain_text r \<Longrightarrow> plain_text s"
  "parse_fields n s = Some (fs, r) \<Longrightarrow> plain_text r \<Longrightarrow> plain_text s"
proof (induction n s and n s and n s arbitrary: v r and vs r and fs r
    rule: parse_value_parse_items_parse_fields.induct)
  case (2 n s)
  note [simp] = parse_value.simps(2)
  obtain c q where s: "skip s = c # q" using 2(3) by (auto split: list.splits)
  have one: "plain_text q \<Longrightarrow> \<not> stray c \<Longrightarrow> plain_text s" using s plain_first by blast
  consider (obj) "c = CHR ''{''" | (arr) "c = CHR ''[''" | (str) "c = quote"
    | (other) "c \<noteq> CHR ''{''" "c \<noteq> CHR ''[''" "c \<noteq> quote" by blast
  then show ?case
  proof cases
    case obj
    then obtain d q2 where q: "skip q = d # q2" using 2(3) s by (auto split: list.splits)
    have "plain_text (d # q2)"
    proof (cases "d = CHR ''}''")
      case True
      then show ?thesis using 2(3,4) s obj q by (simp add: stray_def)
    next
      case False
      then show ?thesis using 2(1) [OF s obj q False] 2(3,4) s obj q by auto
    qed
    then have "plain_text q" using q plain_skip by metis
    then show ?thesis using one obj by (simp add: stray_def)
  next
    case arr
    then obtain d q2 where q: "skip q = d # q2" using 2(3) s by (auto split: list.splits)
    have "plain_text (d # q2)"
    proof (cases "d = CHR '']''")
      case True
      then show ?thesis using 2(3,4) s arr q by (simp add: stray_def)
    next
      case False
      then show ?thesis using 2(2) [OF s _ arr q False] 2(3,4) s arr q by auto
    qed
    then have "plain_text q" using q plain_skip by metis
    then show ?thesis using one arr by (simp add: stray_def)
  next
    case str
    then obtain t where "parse_string q = Some (t, r)" using 2(3) s by auto
    then show ?thesis using plain_parse_string 2(4) one str by simp
  next
    case other
    then have "parse_scalar (c # q) = Some (v, r)" using 2(3) s by simp
    then have "plain_text (c # q)" using plain_parse_scalar 2(4) by blast
    then show ?thesis using s plain_skip by metis
  qed
next
  case (4 n s)
  note [simp] = parse_items.simps(2)
  obtain v q where v: "parse_value n s = Some (v, q)" using 4(3) by (auto split: option.splits)
  obtain c q2 where q: "skip q = c # q2" using 4(3) v by (auto split: list.splits)
  have "plain_text (c # q2)"
  proof (cases "c = CHR '']''")
    case True
    then show ?thesis using 4(3,4) v q by (simp add: stray_def)
  next
    case False
    then show ?thesis using 4(2) [OF v _ q False] 4(3,4) v q by (auto simp: stray_def split: if_splits)
  qed
  then have "plain_text q" using q plain_skip by metis
  then show ?case using 4(1) [OF v] by simp
next
  case (6 n s)
  note [simp] = parse_fields.simps(2)
  obtain q where s: "skip s = quote # q" using 6(3) by (auto split: list.splits if_splits)
  obtain k q1 where k: "parse_string q = Some (k, q1)" using 6(3) s by (auto split: option.splits)
  obtain q2 where q1: "skip q1 = CHR '':'' # q2" using 6(3) s k by (auto split: list.splits if_splits)
  obtain v q3 where v: "parse_value n q2 = Some (v, q3)" using 6(3) s k q1 by (auto split: option.splits)
  obtain c q4 where q3: "skip q3 = c # q4" using 6(3) s k q1 v by (auto split: list.splits)
  have "plain_text (c # q4)"
  proof (cases "c = CHR ''}''")
    case True
    then show ?thesis using 6(3,4) s k q1 v q3 by (simp add: stray_def)
  next
    case False
    then show ?thesis using 6(2) 6(3,4) s k q1 v q3 by (auto simp: stray_def split: if_splits)
  qed
  then have "plain_text q3" using q3 plain_skip by metis
  then have "plain_text q2" using 6(1) s k q1 v by auto
  then have "plain_text q1" using plain_first [OF q1] by (simp add: stray_def)
  then show ?case using plain_parse_string [OF k] plain_first [OF s] by simp
qed simp_all

lemma parse_json_plain: "parse_json s = Some v \<Longrightarrow> plain_text s"
proof -
  assume "parse_json s = Some v"
  then obtain r where r: "parse_value (length s) s = Some (v, r)" "skip r = []"
    by (auto simp: parse_json_def simp del: dropWhile_eq_Nil_conv split: option.splits if_splits)
  have "plain_text r" using plain_skip [of r] unfolding r(2) by simp
  then show "plain_text s" using plain_parse(1) [OF r(1)] by simp
qed


subsection \<open>The summary\<close>

lemma plain_numbers [simp]:
  "plain (number w)" "named (number w)" "plain (number_row ws)" "named (number_row ws)"
proof -
  have "plain_items (map number ws)" "named_items (map number ws)" for ws :: "'b::len word list"
    by (induction ws) (simp_all add: number_def)
  then show "plain (number w)" "named (number w)" "plain (number_row ws)" "named (number_row ws)"
    by (simp_all add: number_def number_row_def)
qed

lemma plain_fields_append [simp]:
  "plain_fields (fs @ gs) \<longleftrightarrow> plain_fields fs \<and> plain_fields gs"
  "named_fields (fs @ gs) \<longleftrightarrow> named_fields fs \<and> named_fields gs"
  by (induction fs) auto

lemma plain_hex_u64 [simp]: "plain_text (hex_u64 v)"
proof -
  have "\<not> stray (digit_char d)" if "d < 16" for d
    using that by (auto simp: digit_char_def stray_def)
  then have "plain_text (number_text 16 n)" for n
    using number_text_digits [of 16 _ n] by (fastforce simp: plain_text_def list_all_iff)
  then show ?thesis by (simp add: hex_u64_def stray_def)
qed

lemma json_escape_simps:
  "json_escape [] = []" "json_escape (c # s) = json_escape_char c @ json_escape s"
  by (simp_all add: json_escape_def)

lemma sections_plain [simp]:
  "plain (injector_host_json h)" "plain (injector_probe_json k)" "plain (injector_walker_patrol_json ws)"
  "plain (injector_friendly_fire_json ff)" "plain (injector_target_probe_json tp)" "plain (jsonl_host_json h)"
  by (simp_all add: injector_host_json_def injector_probe_json_def injector_walker_patrol_json_def
      injector_friendly_fire_json_def injector_target_probe_json_def injector_target_fields_def
      injector_more_target_fields_def jsonl_host_json_def)

lemma sections_named [simp]:
  "named (injector_host_json h)" "named (injector_probe_json k)" "named (injector_walker_patrol_json ws)"
  "named (injector_friendly_fire_json ff)" "named (injector_target_probe_json tp)" "named (jsonl_host_json h)"
  by (simp_all add: injector_host_json_def injector_probe_json_def injector_walker_patrol_json_def
      injector_friendly_fire_json_def injector_target_probe_json_def injector_target_fields_def
      injector_more_target_fields_def jsonl_host_json_def json_escape_simps json_escape_char_def)

text \<open>The texts of the summary that are not the program's own.\<close>

definition summary_texts ::
  "(wstring \<Rightarrow> string) \<Rightarrow> (wstring \<Rightarrow> string) \<Rightarrow> injector_options \<Rightarrow> string \<Rightarrow> string \<Rightarrow> string list" where
  "summary_texts utf8 path_string opts finish_reason error =
     [path_string (io_server_exe opts), narrow utf8 (io_server_args opts), path_string (io_snapshot_jsonl_path opts),
      path_string (io_stop_file_path opts), finish_reason, error]"

lemma summary_plain:
  "plain (injector_summary_json utf8 ps opts v reason error) \<longleftrightarrow>
   list_all plain_text (summary_texts utf8 ps opts reason error)"
  by (simp add: injector_summary_json_def summary_texts_def)

lemma summary_named: "named (injector_summary_json utf8 ps opts v reason error)"
  by (simp add: injector_summary_json_def json_escape_simps json_escape_char_def)

text \<open>C21. The injector's summary is read back value by value exactly when no path, argument or error text has a
  stray control character; with one, the program writes a file that is not JSON, because its
  \<open>json_escape\<close> lets the character through.\<close>
theorem injector_summary_reads_back:
  "parse_json (build_injector_summary utf8 ps opts v reason error) =
     (if list_all plain_text (summary_texts utf8 ps opts reason error)
      then Some (injector_summary_json utf8 ps opts v reason error) else None)"
proof (cases "plain (injector_summary_json utf8 ps opts v reason error)")
  case True
  then have "build_injector_summary utf8 ps opts v reason error =
      layout 0 (injector_summary_json utf8 ps opts v reason error) @ [newline]"
    by (simp only: build_injector_summary_def injector_layout_plain(1) summary_named)
  then show ?thesis using True parse_json_layout by (simp add: summary_plain)
next
  case False
  have "parse_json (build_injector_summary utf8 ps opts v reason error) = None"
  proof (rule ccontr)
    assume "parse_json (build_injector_summary utf8 ps opts v reason error) \<noteq> None"
    then have "plain_text (build_injector_summary utf8 ps opts v reason error)"
      using parse_json_plain by blast
    then show False using False layout_reveals(1) by (simp add: build_injector_summary_def)
  qed
  then show ?thesis using False by (simp add: summary_plain)
qed

subsection \<open>The log\<close>

lemma no_newline_escape: "newline \<notin> set (injector_json_escape s)" "newline \<notin> set (json_escape s)"
proof -
  show "newline \<notin> set (injector_json_escape s)"
    by (induction s) (simp_all add: injector_json_escape_def injector_escape_char_def)
  have "is_space newline" by (simp add: is_space_def)
  then have "newline \<noteq> hex_char n" if "n < 16" for n using hex_char_facts [OF that] by metis
  then have "newline \<notin> set (hex4 n)" for n by (simp add: hex4_def)
  then have "newline \<notin> set (json_escape_char c)" for c by (simp add: json_escape_char_def)
  then show "newline \<notin> set (json_escape s)" by (induction s) (simp_all add: json_escape_def)
qed

lemma no_newline_dec: "newline \<notin> set (dec n)"
  using dec_digits by (fastforce simp: is_digit_def)

lemma no_newline_compact:
  "named j \<Longrightarrow> newline \<notin> set (compact j)"
  "named_items xs \<Longrightarrow> newline \<notin> set (compact_items xs)"
  "named_fields fs \<Longrightarrow> newline \<notin> set (compact_fields fs)"
proof (induction j and xs and fs rule: compact_compact_items_compact_fields.induct)
  case (10 k v fs)
  have "newline \<notin> set k" using 10(3) no_newline_escape(2) by (metis named_fields.simps(2))
  then show ?case using 10 by simp
qed (simp_all add: no_newline_dec injector_quoted_def no_newline_escape)

lemma no_newline_seconds: "newline \<notin> set (seconds_text ms)"
proof -
  have "set (strip_zeros s) \<subseteq> set s" for s by (auto simp: strip_zeros_def dest: set_dropWhileD)
  then have f: "newline \<notin> set w \<Longrightarrow> newline \<notin> set s \<Longrightarrow> newline \<notin> set (with_fraction w s)" for w s
    by (auto simp: with_fraction_def Let_def)
  have "newline \<notin> set (pad n (dec k))" for n k by (simp add: pad_def no_newline_dec)
  then show ?thesis by (simp add: seconds_text_def no_newline_dec f split: prod.splits)
qed

text \<open>A snapshot is one line of the log: it ends with a line feed and has no other, whatever the numbers and
  the name of the phase are, so the lines of the file are the snapshots that were appended.\<close>
theorem snapshot_is_one_line:
  "\<exists>line. build_snapshot_jsonl phase ms v = line @ [newline] \<and> newline \<notin> set line"
proof -
  have "named_fields
      [(''host'', jsonl_host_json (iv_host v)), (''probe'', injector_probe_json (iv_probe v)),
       (''walkerPatrol'', injector_walker_patrol_json (iv_walker_patrol v)),
       (''friendlyFire'', injector_friendly_fire_json (iv_friendly_fire v)),
       (''targetProbe'', injector_target_probe_json (iv_target_probe v))]"
    by (simp add: json_escape_simps json_escape_char_def)
  from no_newline_compact(3) [OF this] show ?thesis
    by (simp add: build_snapshot_jsonl_def injector_quoted_def no_newline_escape no_newline_seconds)
qed

end
