(* ===== verification/Injector.thy ===== *)
theory Injector
  imports Injector_Summary
begin

section \<open>The injector\<close>

text \<open>
  \<open>inject_smoke.cpp\<close>: a program that starts the game server, loads the host into it through remote
  threads, initializes the host, checks its snapshot, mounts the probes, follows the counters for a
  while and tears everything down.  Windows and the server are the record \<open>machine\<close>: every call is
  answered as a function of the moment, the number of calls so far.  The state keeps what the
  program holds of the outside world: handles, libraries, blocks of memory in the server, the threads
  it has started there, and what it has written.  \<open>None\<close> is a run that does not end by itself: a loop
  whose condition never turns, or an exception of the file system.  What is printed on the console is
  left out.
\<close>

subsection \<open>Options\<close>

text \<open>The number \<open>std::wcstoul\<close> reads, in base 10 for the durations and in any base for the mask.\<close>

definition number_option :: "nat \<Rightarrow> wstring \<Rightarrow> u32" where
  "number_option base v = fst (wcstoul v base)"

text \<open>\<open>require_value\<close> and what is done with the value.\<close>

definition injector_option :: "wstring \<Rightarrow> (string \<times> (wstring \<Rightarrow> injector_options \<Rightarrow> injector_options)) option" where
  "injector_option arg = map_of
     [(wide ''--server-exe'', (''--server-exe'', \<lambda>v. io_server_exe_update (\<lambda>_. v))),
      (wide ''--server-dll'', (''--server-dll'', \<lambda>v. io_server_dll_update (\<lambda>_. v))),
      (wide ''--host'', (''--host'', \<lambda>v. io_host_dll_update (\<lambda>_. v))),
      (wide ''--runtime'', (''--runtime'', \<lambda>v. io_runtime_dll_update (\<lambda>_. v))),
      (wide ''--host-summary'', (''--host-summary'', \<lambda>v. io_host_summary_path_update (\<lambda>_. v))),
      (wide ''--injector-summary'', (''--injector-summary'', \<lambda>v. io_injector_summary_path_update (\<lambda>_. v))),
      (wide ''--server-args'', (''--server-args'', \<lambda>v. io_server_args_update (\<lambda>_. v))),
      (wide ''--wait-server-module-seconds'', (''--wait-server-module-seconds'',
         \<lambda>v. io_wait_server_module_seconds_update (\<lambda>_. number_option 10 v))),
      (wide ''--hold-seconds'', (''--hold-seconds'', \<lambda>v. io_hold_seconds_update (\<lambda>_. number_option 10 v))),
      (wide ''--poll-seconds'', (''--poll-seconds'', \<lambda>v. io_poll_seconds_update (\<lambda>_. number_option 10 v))),
      (wide ''--probe-mount-mask'', (''--probe-mount-mask'', \<lambda>v. io_probe_mount_mask_update (\<lambda>_. number_option 0 v))),
      (wide ''--snapshot-jsonl'', (''--snapshot-jsonl'', \<lambda>v. io_snapshot_jsonl_path_update (\<lambda>_. v))),
      (wide ''--stop-file'', (''--stop-file'', \<lambda>v. io_stop_file_path_update (\<lambda>_. v)))] arg"

fun injector_arguments ::
  "(wstring \<Rightarrow> string) \<Rightarrow> wstring list \<Rightarrow> injector_options \<Rightarrow> string + injector_options" where
  "injector_arguments utf8 [] opts = Inr opts"
| "injector_arguments utf8 (arg # args) opts =
     (case injector_option arg of
        Some (name, store) \<Rightarrow>
          (case args of
             [] \<Rightarrow> Inl (missing_value utf8 name)
           | v # args \<Rightarrow> injector_arguments utf8 args (store v opts))
      | None \<Rightarrow>
          if arg = wide ''--install-probe-hooks''
          then injector_arguments utf8 args (opts\<lparr>io_install_probe_hooks := True\<rparr>)
          else if arg = wide ''--allow-recursive-callbacks''
          then injector_arguments utf8 args (opts\<lparr>io_allow_recursive_callbacks := True\<rparr>)
          else if arg = wide ''--help'' \<or> arg = wide ''-h'' then Inl []
          else Inl (unknown_argument utf8 arg))"

definition injector_parse_options :: "(wstring \<Rightarrow> string) \<Rightarrow> wstring list \<Rightarrow> string + injector_options" where
  "injector_parse_options utf8 argv =
     (case injector_arguments utf8 (drop 1 argv) default_injector_options of
        Inl e \<Rightarrow> Inl e
      | Inr opts \<Rightarrow>
          if io_host_dll opts = [] \<or> io_runtime_dll opts = [] \<or> io_host_summary_path opts = [] \<or>
             io_injector_summary_path opts = []
          then Inl ''--host, --runtime, --host-summary, and --injector-summary are required''
          else Inr opts)"

subsection \<open>The machine and the session\<close>

text \<open>What is written into the server's memory, and its size.\<close>

datatype remote_value =
    Remote_Text wstring
  | Remote_Config u32 u32 ptr ptr ptr ptr
  | Remote_Zeros nat

fun remote_size :: "remote_value \<Rightarrow> nat" where
  "remote_size (Remote_Text s) = (length s + 1) * 2"
| "remote_size (Remote_Config _ _ _ _ _ _) = 40"
| "remote_size (Remote_Zeros n) = n"

record machine =
  mc_windows :: windows
  mc_utf8 :: "wstring \<Rightarrow> string"
  mc_path_string :: "wstring \<Rightarrow> string"
  mc_exists :: "nat \<Rightarrow> wstring \<Rightarrow> bool option"
  mc_exists_quiet :: "nat \<Rightarrow> wstring \<Rightarrow> bool"
  mc_parent_path :: "wstring \<Rightarrow> wstring"
  mc_create_directories :: "nat \<Rightarrow> wstring \<Rightarrow> bool"
  mc_open :: "nat \<Rightarrow> wstring \<Rightarrow> bool"
  mc_create_process :: "nat \<Rightarrow> wstring \<Rightarrow> wstring \<Rightarrow> wstring \<Rightarrow> (u32 \<times> ptr \<times> ptr) option"
  mc_create_job :: "nat \<Rightarrow> ptr"
  mc_limit_job :: "nat \<Rightarrow> ptr \<Rightarrow> bool"
  mc_assign_job :: "nat \<Rightarrow> ptr \<Rightarrow> ptr \<Rightarrow> bool"
  mc_toolhelp :: "nat \<Rightarrow> u32 \<Rightarrow> (ptr \<times> (wstring \<times> ptr) list) option"
  mc_clock :: "nat \<Rightarrow> nat \<Rightarrow> nat"
  mc_virtual_alloc :: "nat \<Rightarrow> nat \<Rightarrow> ptr"
  mc_write_memory :: "nat \<Rightarrow> ptr \<Rightarrow> nat \<Rightarrow> nat option"
  mc_create_remote_thread :: "nat \<Rightarrow> ptr \<Rightarrow> ptr \<Rightarrow> ptr"
  mc_wait :: "nat \<Rightarrow> ptr \<Rightarrow> u32 \<Rightarrow> u32"
  mc_thread_exit_code :: "nat \<Rightarrow> ptr \<Rightarrow> u32 option"
  mc_read_host :: "nat \<Rightarrow> ptr \<Rightarrow> host_snapshot option"
  mc_read_probe :: "nat \<Rightarrow> ptr \<Rightarrow> probe_counters option"
  mc_read_walker_patrol :: "nat \<Rightarrow> ptr \<Rightarrow> walker_patrol_snapshot option"
  mc_read_friendly_fire :: "nat \<Rightarrow> ptr \<Rightarrow> DwrtFriendlyFireSnapshot option"
  mc_read_target_probe :: "nat \<Rightarrow> ptr \<Rightarrow> DwrtTargetProbeSnapshot option"

text \<open>
  The clock gives the milliseconds at a moment after so many of them were slept.  \<open>ij_owned\<close> are the
  \<open>RemoteAllocation\<close> objects that are alive, newest first, and \<open>ij_error\<close> is the program's \<open>error\<close>.
\<close>

record session =
  ij_process :: "unit process"
  ij_slept :: nat
  ij_handles :: "ptr \<Rightarrow> int"
  ij_blocks :: "ptr \<Rightarrow> int"
  ij_values :: "ptr \<Rightarrow> remote_value option"
  ij_owned :: "ptr list"
  ij_threads :: "(ptr \<times> ptr) list"
  ij_killed :: bool
  ij_written :: "(wstring \<times> bool \<times> string) list"
  ij_error :: string
  ij_vars :: injector_vars

definition new_session :: "unit process \<Rightarrow> session" where
  "new_session p =
     \<lparr>ij_process = p, ij_slept = 0, ij_handles = (\<lambda>_. 0), ij_blocks = (\<lambda>_. 0), ij_values = (\<lambda>_. None),
      ij_owned = [], ij_threads = [], ij_killed = False, ij_written = [], ij_error = [],
      ij_vars = initial_injector_vars 0\<rparr>"

definition at :: "session \<Rightarrow> nat" where
  "at s = moment (ij_process s)"

definition advance :: "session \<Rightarrow> session" where
  "advance s = s\<lparr>ij_process := tick (ij_process s)\<rparr>"

definition set_vars :: "(injector_vars \<Rightarrow> injector_vars) \<Rightarrow> session \<Rightarrow> session" where
  "set_vars f s = s\<lparr>ij_vars := f (ij_vars s)\<rparr>"

definition windows_error :: "machine \<Rightarrow> string \<Rightarrow> session \<Rightarrow> session" where
  "windows_error mc prefix s = s\<lparr>ij_error := windows_error_message (mc_windows mc) prefix (ij_process s)\<rparr>"

definition GetTickCount :: "machine \<Rightarrow> session \<Rightarrow> u32 \<times> session" where
  "GetTickCount mc s = (of_nat (mc_clock mc (at s) (ij_slept s)), advance s)"

definition Sleep :: "nat \<Rightarrow> session \<Rightarrow> session" where
  "Sleep ms s = advance (s\<lparr>ij_slept := ij_slept s + ms\<rparr>)"

definition open_handle :: "ptr \<Rightarrow> session \<Rightarrow> session" where
  "open_handle h s = s\<lparr>ij_handles := (ij_handles s)(h := ij_handles s h + 1)\<rparr>"

definition CloseHandle :: "ptr \<Rightarrow> session \<Rightarrow> session" where
  "CloseHandle h s = advance (s\<lparr>ij_handles := (ij_handles s)(h := ij_handles s h - 1)\<rparr>)"

definition VirtualFreeEx :: "ptr \<Rightarrow> session \<Rightarrow> session" where
  "VirtualFreeEx a s = advance (s\<lparr>ij_blocks := (ij_blocks s)(a := ij_blocks s a - 1)\<rparr>)"

subsection \<open>Files\<close>

definition file_exists :: "machine \<Rightarrow> wstring \<Rightarrow> session \<Rightarrow> (bool \<times> session) option" where
  "file_exists mc path s =
     (case mc_exists mc (at s) path of
        None \<Rightarrow> None
      | Some True \<Rightarrow> Some (True, advance s)
      | Some False \<Rightarrow> Some (False, (advance s)\<lparr>ij_error := ''missing path: '' @ mc_path_string mc path\<rparr>))"

text \<open>\<open>write_text_file\<close> and \<open>append_text_file\<close>, which differ in the mode and the error text.\<close>

definition put_text_file ::
  "bool \<Rightarrow> string \<Rightarrow> machine \<Rightarrow> wstring \<Rightarrow> string \<Rightarrow> session \<Rightarrow> (bool \<times> session) option" where
  "put_text_file appending failure mc path content s =
     (let parent = mc_parent_path mc path
      in if parent \<noteq> [] \<and> \<not> mc_create_directories mc (at s) parent then None
         else
           (let s = (if parent \<noteq> [] then advance s else s)
            in if \<not> mc_open mc (at s) path
               then Some (False, (advance s)\<lparr>ij_error := failure @ mc_path_string mc path\<rparr>)
               else Some (True, (advance s)\<lparr>ij_written := ij_written s @ [(path, appending, content)]\<rparr>)))"

definition write_text_file :: "machine \<Rightarrow> wstring \<Rightarrow> string \<Rightarrow> session \<Rightarrow> (bool \<times> session) option" where
  "write_text_file = put_text_file False ''failed to open output path: ''"

definition append_text_file :: "machine \<Rightarrow> wstring \<Rightarrow> string \<Rightarrow> session \<Rightarrow> (bool \<times> session) option" where
  "append_text_file = put_text_file True ''failed to open append path: ''"

subsection \<open>Modules of the server\<close>

definition module_base_in_process :: "machine \<Rightarrow> u32 \<Rightarrow> string \<Rightarrow> session \<Rightarrow> ptr \<times> session" where
  "module_base_in_process mc pid name s =
     (case mc_toolhelp mc (at s) pid of
        None \<Rightarrow> (0, advance s)
      | Some (h, entries) \<Rightarrow>
          (case find (\<lambda>e. wcsicmp_eq (fst e) name) entries of None \<Rightarrow> 0 | Some e \<Rightarrow> snd e,
           CloseHandle h (open_handle h (advance s))))"

partial_function (option) wait_loop ::
  "machine \<Rightarrow> u32 \<Rightarrow> string \<Rightarrow> u32 \<Rightarrow> u32 \<Rightarrow> session \<Rightarrow> (ptr \<times> session) option" where
  "wait_loop mc pid name start timeout_ms s =
     (let (t, s) = GetTickCount mc s
      in if \<not> t - start < timeout_ms then Some (0, s)
         else
           (let (base, s) = module_base_in_process mc pid name s
            in if base \<noteq> 0 then Some (base, s) else wait_loop mc pid name start timeout_ms (Sleep 250 s)))"

definition wait_for_module :: "machine \<Rightarrow> u32 \<Rightarrow> string \<Rightarrow> u32 \<Rightarrow> session \<Rightarrow> (ptr \<times> session) option" where
  "wait_for_module mc pid name timeout_ms s =
     (let (start, s) = GetTickCount mc s in wait_loop mc pid name start timeout_ms s)"

subsection \<open>Memory and threads of the server\<close>

text \<open>
  A null result is the \<open>nullopt\<close> of the code; the destructor has freed the block then.  The handle of a
  server that \<open>CreateProcessW\<close> has started is not null, so the guard of \<open>RemoteAllocation::reset\<close> on it
  is left out.
\<close>

definition remote_alloc_write :: "machine \<Rightarrow> remote_value \<Rightarrow> session \<Rightarrow> ptr \<times> session" where
  "remote_alloc_write mc data s =
     (let remote = mc_virtual_alloc mc (at s) (remote_size data); s = advance s
      in if remote = nullptr then (nullptr, windows_error mc ''VirtualAllocEx failed'' s)
         else
           (let s = s\<lparr>ij_blocks := (ij_blocks s)(remote := ij_blocks s remote + 1)\<rparr>;
                written = mc_write_memory mc (at s) remote (remote_size data);
                s = advance s
            in if written \<noteq> Some (remote_size data)
               then (nullptr, VirtualFreeEx remote (windows_error mc ''WriteProcessMemory failed'' s))
               else (remote, s\<lparr>ij_values := (ij_values s)(remote \<mapsto> data), ij_owned := remote # ij_owned s\<rparr>)))"

definition remote_alloc_string :: "machine \<Rightarrow> wstring \<Rightarrow> session \<Rightarrow> ptr \<times> session" where
  "remote_alloc_string mc value = remote_alloc_write mc (Remote_Text value)"

text \<open>The exit code of the thread, or \<open>None\<close> when there is none.\<close>

definition run_remote_thread :: "machine \<Rightarrow> ptr \<Rightarrow> ptr \<Rightarrow> u32 \<Rightarrow> session \<Rightarrow> u32 option \<times> session" where
  "run_remote_thread mc function_address parameter timeout_ms s =
     (let thread = mc_create_remote_thread mc (at s) function_address parameter; s = advance s
      in if thread = nullptr then (None, windows_error mc ''CreateRemoteThread failed'' s)
         else
           (let s = (open_handle thread s)\<lparr>ij_threads := ij_threads s @ [(function_address, parameter)]\<rparr>;
                waited = mc_wait mc (at s) thread timeout_ms;
                s = advance s
            in if waited \<noteq> 0 then (None, (CloseHandle thread s)\<lparr>ij_error := ''remote thread timed out''\<rparr>)
               else
                 (let exit_code = mc_thread_exit_code mc (at s) thread; s = CloseHandle thread (advance s)
                  in (exit_code, if exit_code = None then windows_error mc ''GetExitCodeThread failed'' s else s))))"

text \<open>A null result is an address that could not be computed.\<close>

definition remote_export_address ::
  "machine \<Rightarrow> u32 \<Rightarrow> string \<Rightarrow> wstring \<Rightarrow> string \<Rightarrow> session \<Rightarrow> ptr \<times> session" where
  "remote_export_address mc pid module_name local_module_path export_name s =
     (let w = mc_windows mc;
          (local_module, p) = LoadLibraryW w local_module_path (ij_process s);
          s = s\<lparr>ij_process := p\<rparr>
      in if local_module = nullptr
         then (nullptr, windows_error mc ''LoadLibraryW for local export inspection failed'' s)
         else
           (let local_export = get_proc_address w local_module export_name;
                s = s\<lparr>ij_process := FreeLibrary local_module (ij_process s)\<rparr>
            in if local_export = nullptr then (nullptr, s\<lparr>ij_error := ''missing export: '' @ export_name\<rparr>)
               else
                 (let export_rva = local_export - local_module;
                      (remote_base, s) = module_base_in_process mc pid module_name s
                  in if remote_base = 0
                     then (nullptr, s\<lparr>ij_error := ''remote module not found while resolving export''\<rparr>)
                     else (remote_base + export_rva, s))))"

definition remote_kernel32_export :: "machine \<Rightarrow> u32 \<Rightarrow> string \<Rightarrow> session \<Rightarrow> ptr \<times> session" where
  "remote_kernel32_export mc pid export_name s =
     (let w = mc_windows mc;
          (local_kernel32, p) = GetModuleHandleW w (wide ''kernel32.dll'') (ij_process s);
          s = s\<lparr>ij_process := p\<rparr>
      in if local_kernel32 = nullptr then (nullptr, s\<lparr>ij_error := ''kernel32.dll not loaded locally''\<rparr>)
         else
           (let local_export = get_proc_address w local_kernel32 export_name
            in if local_export = nullptr
               then (nullptr, s\<lparr>ij_error := ''missing kernel32 export: '' @ export_name\<rparr>)
               else
                 (let export_rva = local_export - local_kernel32;
                      (remote_base, s) = module_base_in_process mc pid ''kernel32.dll'' s
                  in if remote_base = 0
                     then (nullptr, s\<lparr>ij_error := ''kernel32.dll not found in remote process''\<rparr>)
                     else (remote_base + export_rva, s))))"

text \<open>The job that kills the server when its handle is closed; null when it could not be set up.\<close>

definition assign_kill_on_close_job :: "machine \<Rightarrow> ptr \<Rightarrow> session \<Rightarrow> ptr \<times> session" where
  "assign_kill_on_close_job mc process s =
     (let job = mc_create_job mc (at s); s = advance s
      in if job = nullptr then (nullptr, windows_error mc ''CreateJobObjectW failed'' s)
         else
           (let s = open_handle job s; limited = mc_limit_job mc (at s) job; s = advance s
            in if \<not> limited
               then (nullptr, CloseHandle job (windows_error mc ''SetInformationJobObject failed'' s))
               else
                 (let assigned = mc_assign_job mc (at s) job process; s = advance s
                  in if \<not> assigned
                     then (nullptr, CloseHandle job (windows_error mc ''AssignProcessToJobObject failed'' s))
                     else (job, s))))"

end
