(* ===== verification/Injector_Session.thy ===== *)
theory Injector_Session
  imports Injector
begin

section \<open>A session of the injector\<close>

text \<open>
  \<open>wmain\<close> of \<open>inject_smoke.cpp\<close>.  An attempt is a part of it that may leave by \<open>return finish(code,
  message)\<close>: \<open>Inl\<close> of the two, or \<open>Inr\<close> of what it has found; \<open>None\<close> is a part that does not end.
  The parts run one after the other, and \<open>finish\<close> comes last on every way.
\<close>

type_synonym 'a attempt = "session \<Rightarrow> ((nat \<times> string + 'a) \<times> session) option"

definition attempt :: "'a attempt \<Rightarrow> ('a \<Rightarrow> 'b attempt) \<Rightarrow> 'b attempt" where
  "attempt f g s =
     (case f s of
        None \<Rightarrow> None
      | Some (Inl e, s) \<Rightarrow> Some (Inl e, s)
      | Some (Inr x, s) \<Rightarrow> g x s)"

definition succeed :: "'a \<Rightarrow> 'a attempt" where
  "succeed x s = Some (Inr x, s)"

definition leave :: "nat \<Rightarrow> string \<Rightarrow> 'a attempt" where
  "leave exit message s = Some (Inl (exit, message), s)"

text \<open>\<open>if (address == 0) return finish(code, error)\<close>, and the same for a call that returns false.\<close>

definition must_have :: "nat \<Rightarrow> (session \<Rightarrow> ptr \<times> session) \<Rightarrow> ptr attempt" where
  "must_have exit f s = (let (a, s) = f s in if a = nullptr then leave exit (ij_error s) s else succeed a s)"

definition must :: "nat \<Rightarrow> (session \<Rightarrow> bool \<times> session) \<Rightarrow> unit attempt" where
  "must exit f s = (let (ok, s) = f s in if \<not> ok then leave exit (ij_error s) s else succeed () s)"

definition must_file :: "nat \<Rightarrow> (session \<Rightarrow> (bool \<times> session) option) \<Rightarrow> unit attempt" where
  "must_file exit f s =
     (case f s of None \<Rightarrow> None | Some (ok, s) \<Rightarrow> if \<not> ok then leave exit (ij_error s) s else succeed () s)"

text \<open>\<open>run_remote_thread\<close> with 30 seconds and a variable for the exit code.\<close>

definition remote_call ::
  "machine \<Rightarrow> ptr \<Rightarrow> ptr \<Rightarrow> (u32 \<Rightarrow> injector_vars \<Rightarrow> injector_vars) \<Rightarrow> session \<Rightarrow> bool \<times> session" where
  "remote_call mc f parameter store s =
     (case run_remote_thread mc f parameter 30000 s of
        (None, s) \<Rightarrow> (False, s)
      | (Some exit_code, s) \<Rightarrow> (True, set_vars (store exit_code) s))"

definition returned :: "string \<Rightarrow> u32 \<Rightarrow> string" where
  "returned name status = name @ '' returned '' @ dec (unat status)"

subsection \<open>Loading the host\<close>

definition wait_module_step ::
  "machine \<Rightarrow> u32 \<Rightarrow> string \<Rightarrow> u32 \<Rightarrow> (ptr \<Rightarrow> injector_vars \<Rightarrow> injector_vars) \<Rightarrow> nat \<Rightarrow> string \<Rightarrow> unit attempt" where
  "wait_module_step mc pid name timeout_ms store exit message s =
     (case wait_for_module mc pid name timeout_ms s of
        None \<Rightarrow> None
      | Some (base, s) \<Rightarrow>
          (let s = set_vars (store base) s in if base = 0 then leave exit message s else succeed () s))"

definition load_host :: "machine \<Rightarrow> injector_options \<Rightarrow> u32 \<Rightarrow> unit attempt" where
  "load_host mc opts pid =
     attempt (wait_module_step mc pid ''server.dll'' (io_wait_server_module_seconds opts * 1000)
                (\<lambda>base. iv_server_base_update (\<lambda>_. base)) 4 ''server.dll did not load before timeout'') (\<lambda>_.
     attempt (must_have 5 (remote_alloc_string mc (io_host_dll opts))) (\<lambda>host_path.
     attempt (must_have 6 (remote_kernel32_export mc pid ''LoadLibraryW'')) (\<lambda>load_library.
     attempt (must 7 (remote_call mc load_library host_path (\<lambda>_ v. v))) (\<lambda>_.
     wait_module_step mc pid ''dwrt_host.dll'' 10000 (\<lambda>base. iv_host_base_update (\<lambda>_. base)) 8
       ''dwrt_host.dll did not appear in remote module list after LoadLibraryW''))))"

subsection \<open>Initializing it\<close>

definition injector_flags :: "injector_options \<Rightarrow> u32" where
  "injector_flags opts = (let flags = 1 OR 2 in if io_install_probe_hooks opts then flags OR 16 else flags)"

definition host_export :: "machine \<Rightarrow> injector_options \<Rightarrow> u32 \<Rightarrow> string \<Rightarrow> session \<Rightarrow> ptr \<times> session" where
  "host_export mc opts pid name = remote_export_address mc pid ''dwrt_host.dll'' (io_host_dll opts) name"

definition initialize_host :: "machine \<Rightarrow> injector_options \<Rightarrow> u32 \<Rightarrow> unit attempt" where
  "initialize_host mc opts pid =
     attempt (must_have 9 (remote_alloc_string mc (io_runtime_dll opts))) (\<lambda>runtime_path.
     attempt (must_have 10 (remote_alloc_string mc (io_server_dll opts))) (\<lambda>server_path.
     attempt (must_have 11 (remote_alloc_string mc (io_host_summary_path opts))) (\<lambda>summary_path.
     attempt (must_have 12 (remote_alloc_string mc (wide ''server.dll''))) (\<lambda>module_name.
     attempt (must_have 13 (remote_alloc_write mc
                (Remote_Config DWRT_HOST_ABI_VERSION (injector_flags opts) runtime_path module_name server_path
                   summary_path))) (\<lambda>config.
     attempt (must_have 14 (host_export mc opts pid ''dwrt_host_initialize'')) (\<lambda>initialize.
     attempt (must 15 (remote_call mc initialize config (\<lambda>exit. iv_init_status_update (\<lambda>_. exit)))) (\<lambda>_ s.
       let status = iv_init_status (ij_vars s)
       in if status \<noteq> 0 then leave 16 (returned ''dwrt_host_initialize'' status) s else succeed () s)))))))"

subsection \<open>Buffers and exports\<close>

record host_access =
  ha_snapshot_buffer :: ptr
  ha_probe_buffer :: ptr
  ha_walker_patrol_buffer :: ptr
  ha_friendly_fire_buffer :: ptr
  ha_target_probe_buffer :: ptr
  ha_snapshot :: ptr
  ha_set_probe_mount :: ptr
  ha_reset_probe_counters :: ptr
  ha_probe_snapshot :: ptr
  ha_walker_patrol_snapshot :: ptr
  ha_friendly_fire_snapshot :: ptr
  ha_target_probe_snapshot :: ptr

definition access_host :: "machine \<Rightarrow> injector_options \<Rightarrow> u32 \<Rightarrow> host_access attempt" where
  "access_host mc opts pid =
     attempt (must_have 17 (remote_alloc_write mc (Remote_Zeros 96))) (\<lambda>snapshot_buffer.
     attempt (must_have 18 (remote_alloc_write mc (Remote_Zeros 72))) (\<lambda>probe_buffer.
     attempt (must_have 19 (remote_alloc_write mc (Remote_Zeros 120))) (\<lambda>walker_buffer.
     attempt (must_have 19 (remote_alloc_write mc (Remote_Zeros 96))) (\<lambda>friendly_buffer.
     attempt (must_have 19 (remote_alloc_write mc (Remote_Zeros 2512))) (\<lambda>target_buffer.
     attempt (must_have 19 (host_export mc opts pid ''dwrt_host_snapshot'')) (\<lambda>snapshot.
     attempt (must_have 20 (host_export mc opts pid ''dwrt_host_set_probe_mount_mask'')) (\<lambda>set_mount.
     attempt (must_have 21 (host_export mc opts pid ''dwrt_host_reset_probe_counters'')) (\<lambda>reset_counters.
     attempt (must_have 22 (host_export mc opts pid ''dwrt_host_probe_snapshot'')) (\<lambda>probe.
     attempt (must_have 23 (host_export mc opts pid ''dwrt_host_walker_patrol_snapshot'')) (\<lambda>walker.
     attempt (must_have 23 (host_export mc opts pid ''dwrt_host_friendly_fire_snapshot'')) (\<lambda>friendly.
     attempt (must_have 23 (host_export mc opts pid ''dwrt_host_target_probe_snapshot'')) (\<lambda>target.
     succeed
       \<lparr>ha_snapshot_buffer = snapshot_buffer, ha_probe_buffer = probe_buffer,
        ha_walker_patrol_buffer = walker_buffer, ha_friendly_fire_buffer = friendly_buffer,
        ha_target_probe_buffer = target_buffer, ha_snapshot = snapshot, ha_set_probe_mount = set_mount,
        ha_reset_probe_counters = reset_counters, ha_probe_snapshot = probe,
        ha_walker_patrol_snapshot = walker, ha_friendly_fire_snapshot = friendly,
        ha_target_probe_snapshot = target\<rparr>))))))))))))"

subsection \<open>Snapshots\<close>

text \<open>
  The five lambdas \<open>refresh_\<dots>\<close> have one shape: run the export on the buffer, check the status it
  leaves in its variable, read the buffer.
\<close>

definition refresh ::
  "machine \<Rightarrow> string \<Rightarrow> string \<Rightarrow> ptr \<Rightarrow> ptr \<Rightarrow> (u32 \<Rightarrow> injector_vars \<Rightarrow> injector_vars) \<Rightarrow> (injector_vars \<Rightarrow> u32)
     \<Rightarrow> (nat \<Rightarrow> ptr \<Rightarrow> 'a option) \<Rightarrow> ('a \<Rightarrow> injector_vars \<Rightarrow> injector_vars) \<Rightarrow> session \<Rightarrow> bool \<times> session" where
  "refresh mc name what f buffer store_status status read store s =
     (let (ran, s) = remote_call mc f buffer store_status s
      in if \<not> ran then (False, s)
         else if status (ij_vars s) \<noteq> 0 then (False, s\<lparr>ij_error := returned name (status (ij_vars s))\<rparr>)
         else
           (let x = read (at s) buffer; s = advance s
            in case x of
                 None \<Rightarrow> (False, windows_error mc (''ReadProcessMemory for '' @ what @ '' failed'') s)
               | Some x \<Rightarrow> (True, set_vars (store x) s)))"

definition refresh_host_snapshot :: "machine \<Rightarrow> host_access \<Rightarrow> session \<Rightarrow> bool \<times> session" where
  "refresh_host_snapshot mc a =
     refresh mc ''dwrt_host_snapshot'' ''host snapshot'' (ha_snapshot a) (ha_snapshot_buffer a)
       (\<lambda>c. iv_snapshot_status_update (\<lambda>_. c)) iv_snapshot_status (mc_read_host mc) (\<lambda>x. iv_host_update (\<lambda>_. x))"

definition refresh_probe_snapshot :: "machine \<Rightarrow> host_access \<Rightarrow> session \<Rightarrow> bool \<times> session" where
  "refresh_probe_snapshot mc a =
     refresh mc ''dwrt_host_probe_snapshot'' ''probe snapshot'' (ha_probe_snapshot a) (ha_probe_buffer a)
       (\<lambda>c. iv_probe_snapshot_status_update (\<lambda>_. c)) iv_probe_snapshot_status (mc_read_probe mc)
       (\<lambda>x. iv_probe_update (\<lambda>_. x))"

definition refresh_walker_patrol_snapshot :: "machine \<Rightarrow> host_access \<Rightarrow> session \<Rightarrow> bool \<times> session" where
  "refresh_walker_patrol_snapshot mc a =
     refresh mc ''dwrt_host_walker_patrol_snapshot'' ''walker patrol snapshot'' (ha_walker_patrol_snapshot a)
       (ha_walker_patrol_buffer a) (\<lambda>c. iv_walker_patrol_snapshot_status_update (\<lambda>_. c))
       iv_walker_patrol_snapshot_status (mc_read_walker_patrol mc) (\<lambda>x. iv_walker_patrol_update (\<lambda>_. x))"

definition refresh_friendly_fire_snapshot :: "machine \<Rightarrow> host_access \<Rightarrow> session \<Rightarrow> bool \<times> session" where
  "refresh_friendly_fire_snapshot mc a =
     refresh mc ''dwrt_host_friendly_fire_snapshot'' ''friendly fire snapshot'' (ha_friendly_fire_snapshot a)
       (ha_friendly_fire_buffer a) (\<lambda>c. iv_friendly_fire_snapshot_status_update (\<lambda>_. c))
       iv_friendly_fire_snapshot_status (mc_read_friendly_fire mc) (\<lambda>x. iv_friendly_fire_update (\<lambda>_. x))"

definition refresh_target_probe_snapshot :: "machine \<Rightarrow> host_access \<Rightarrow> session \<Rightarrow> bool \<times> session" where
  "refresh_target_probe_snapshot mc a =
     refresh mc ''dwrt_host_target_probe_snapshot'' ''target probe snapshot'' (ha_target_probe_snapshot a)
       (ha_target_probe_buffer a) (\<lambda>c. iv_target_probe_snapshot_status_update (\<lambda>_. c))
       iv_target_probe_snapshot_status (mc_read_target_probe mc) (\<lambda>x. iv_target_probe_update (\<lambda>_. x))"

text \<open>\<open>!refresh_\<dots>(error) || !refresh_\<dots>(error) || \<dots>\<close>, with and without the host's own snapshot.\<close>

definition refresh_counters :: "machine \<Rightarrow> host_access \<Rightarrow> nat \<Rightarrow> unit attempt" where
  "refresh_counters mc a exit =
     attempt (must exit (refresh_probe_snapshot mc a)) (\<lambda>_.
     attempt (must exit (refresh_walker_patrol_snapshot mc a)) (\<lambda>_.
     attempt (must exit (refresh_friendly_fire_snapshot mc a)) (\<lambda>_.
     must exit (refresh_target_probe_snapshot mc a))))"

definition refresh_all :: "machine \<Rightarrow> host_access \<Rightarrow> nat \<Rightarrow> unit attempt" where
  "refresh_all mc a exit =
     attempt (must exit (refresh_host_snapshot mc a)) (\<lambda>_. refresh_counters mc a exit)"

text \<open>The gates on the first snapshot of the host.\<close>

definition live_server_gates :: "injector_options \<Rightarrow> host_snapshot \<Rightarrow> bool" where
  "live_server_gates opts s \<longleftrightarrow>
     \<not> (snap_initialized s = 0 \<or> snap_runtime_loaded s = 0 \<or>
        snap_runtime_probe_ok s = 0 \<or> snap_signatures_checked s = 0 \<or>
        snap_signature_required_failures s \<noteq> 0 \<or>
        snap_used_live_server_module s = 0 \<or>
        snap_used_mapped_file_fallback s \<noteq> 0 \<or>
        (io_install_probe_hooks opts \<and>
           (snap_hook_install_attempts s \<noteq> 7 \<or> snap_hooks_installed s \<noteq> 7 \<or> snap_hook_install_failures s \<noteq> 0)) \<or>
        (\<not> io_install_probe_hooks opts \<and> (snap_hook_install_attempts s \<noteq> 0 \<or> snap_hooks_installed s \<noteq> 0)) \<or>
        snap_initialize_calls s \<noteq> 1 \<or>
        snap_initialize_reentrant_rejects s \<noteq> 0 \<or>
        snap_callback_recursive_entries s \<noteq> 0)"

text \<open>A remote call whose status must be 0.\<close>

definition call_checked ::
  "machine \<Rightarrow> string \<Rightarrow> ptr \<Rightarrow> ptr \<Rightarrow> (u32 \<Rightarrow> injector_vars \<Rightarrow> injector_vars) \<Rightarrow> (injector_vars \<Rightarrow> u32) \<Rightarrow> nat
     \<Rightarrow> unit attempt" where
  "call_checked mc name f parameter store status exit =
     attempt (must exit (remote_call mc f parameter store)) (\<lambda>_ s.
       if status (ij_vars s) \<noteq> 0 then leave (exit + 1) (returned name (status (ij_vars s))) s else succeed () s)"

definition mount_probes :: "machine \<Rightarrow> injector_options \<Rightarrow> host_access \<Rightarrow> unit attempt" where
  "mount_probes mc opts a =
     attempt (must 23 (refresh_host_snapshot mc a)) (\<lambda>_.
     attempt (\<lambda>s. if \<not> live_server_gates opts (iv_host (ij_vars s))
                 then leave 24 ''host snapshot failed live-server validation gates'' s else succeed () s) (\<lambda>_.
     attempt (call_checked mc ''dwrt_host_set_probe_mount_mask'' (ha_set_probe_mount a)
                (ucast (io_probe_mount_mask opts)) (\<lambda>c. iv_probe_mount_status_update (\<lambda>_. c)) iv_probe_mount_status 25) (\<lambda>_.
     attempt (call_checked mc ''dwrt_host_reset_probe_counters'' (ha_reset_probe_counters a) nullptr
                (\<lambda>c. iv_probe_reset_status_update (\<lambda>_. c)) iv_probe_reset_status 27) (\<lambda>_.
     refresh_counters mc a 29))))"

subsection \<open>Holding the session\<close>

definition append_snapshot :: "machine \<Rightarrow> injector_options \<Rightarrow> u32 \<Rightarrow> string \<Rightarrow> session \<Rightarrow> (bool \<times> session) option" where
  "append_snapshot mc opts session_start_tick phase s =
     (if io_snapshot_jsonl_path opts = [] then Some (True, s)
      else
        (let (t, s) = GetTickCount mc s
         in append_text_file mc (io_snapshot_jsonl_path opts)
              (build_snapshot_jsonl phase (t - session_start_tick) (ij_vars s)) s))"

text \<open>
  One turn of the loop, up to \<open>Sleep\<close>: \<open>None\<close> when the loop ends, else the next time to poll.
\<close>

definition hold_turn ::
  "machine \<Rightarrow> injector_options \<Rightarrow> ptr \<Rightarrow> host_access \<Rightarrow> u32 \<Rightarrow> u32 \<Rightarrow> u32 \<Rightarrow> u32 \<Rightarrow> u32 option attempt" where
  "hold_turn mc opts process a session_start_tick hold_ms poll_ms next_poll_ms s =
     (let (t, s) = GetTickCount mc s
      in if \<not> t - session_start_tick < hold_ms then succeed None s
         else
           (let exited = (mc_wait mc (at s) process 0 = 0); s = advance s
            in if exited then leave 31 ''server process exited during hold'' s
               else
                 (let path = io_stop_file_path opts;
                      stop = (path \<noteq> [] \<and> mc_exists_quiet mc (at s) path);
                      s = (if path \<noteq> [] then advance s else s)
                  in if stop then succeed None (set_vars (iv_completion_reason_update (\<lambda>_. ''stop-file'')) s)
                     else
                       (let (t, s) = GetTickCount mc s; elapsed_ms = t - session_start_tick
                        in if poll_ms \<noteq> 0 \<and> elapsed_ms \<ge> next_poll_ms
                           then
                             attempt (refresh_all mc a 32) (\<lambda>_.
                             attempt (must_file 33 (append_snapshot mc opts session_start_tick ''poll'')) (\<lambda>_.
                             succeed (Some (next_poll_ms + poll_ms)))) s
                           else succeed (Some next_poll_ms) s))))"

partial_function (option) hold_loop ::
  "machine \<Rightarrow> injector_options \<Rightarrow> ptr \<Rightarrow> host_access \<Rightarrow> u32 \<Rightarrow> u32 \<Rightarrow> u32 \<Rightarrow> u32 \<Rightarrow> session
     \<Rightarrow> ((nat \<times> string + unit) \<times> session) option" where
  "hold_loop mc opts process a start hold_ms poll_ms next_poll_ms s =
     (case hold_turn mc opts process a start hold_ms poll_ms next_poll_ms s of
        None \<Rightarrow> None
      | Some (r, s) \<Rightarrow>
          (case r of
             Inl e \<Rightarrow> Some (Inl e, s)
           | Inr None \<Rightarrow> Some (Inr (), s)
           | Inr (Some next) \<Rightarrow> hold_loop mc opts process a start hold_ms poll_ms next (Sleep 250 s)))"

definition hold_session :: "machine \<Rightarrow> injector_options \<Rightarrow> ptr \<Rightarrow> host_access \<Rightarrow> unit attempt" where
  "hold_session mc opts process a s =
     (let (start, s) = GetTickCount mc s;
          hold_ms = io_hold_seconds opts * 1000;
          poll_ms = (if io_poll_seconds opts = 0 then 0 else io_poll_seconds opts * 1000)
      in attempt (must_file 30 (append_snapshot mc opts start ''initial'')) (\<lambda>_.
         attempt (hold_loop mc opts process a start hold_ms poll_ms poll_ms) (\<lambda>_.
         attempt (\<lambda>s. succeed () (if iv_completion_reason (ij_vars s) = ''completed''
                    then set_vars (iv_completion_reason_update (\<lambda>_. ''duration-elapsed'')) s else s)) (\<lambda>_.
         attempt (refresh_all mc a 34) (\<lambda>_.
         attempt (must_file 35 (append_snapshot mc opts start ''final'')) (\<lambda>_ s.
           if \<not> io_allow_recursive_callbacks opts \<and> snap_callback_recursive_entries (iv_host (ij_vars s)) \<noteq> 0
           then leave 36 ''unexpected recursive callback entries during hold'' s else succeed () s))))) s)"

definition session_body :: "machine \<Rightarrow> injector_options \<Rightarrow> u32 \<Rightarrow> ptr \<Rightarrow> unit attempt" where
  "session_body mc opts pid process =
     attempt (load_host mc opts pid) (\<lambda>_.
     attempt (initialize_host mc opts pid) (\<lambda>_.
     attempt (access_host mc opts pid) (\<lambda>a.
     attempt (mount_probes mc opts a) (\<lambda>_.
     hold_session mc opts process a))))"

subsection \<open>The end\<close>

text \<open>Shutting the host down, if its module was seen, and ending the server.\<close>

definition end_server ::
  "machine \<Rightarrow> injector_options \<Rightarrow> u32 \<Rightarrow> ptr \<Rightarrow> ptr \<Rightarrow> session \<Rightarrow> session" where
  "end_server mc opts pid process job s =
     (let s = (if iv_host_base (ij_vars s) \<noteq> 0
               then (let (shutdown, s) = host_export mc opts pid ''dwrt_host_shutdown'' s
                     in if shutdown \<noteq> nullptr then snd (run_remote_thread mc shutdown nullptr 10000 s) else s)
               else s);
          s = (if process \<noteq> nullptr then advance (s\<lparr>ij_killed := True\<rparr>) else s)
      in if job \<noteq> nullptr then CloseHandle job s else s)"

text \<open>The lambda \<open>finish\<close>.  Its local error texts go to the same variable, which nothing reads any more.\<close>

definition finish ::
  "machine \<Rightarrow> injector_options \<Rightarrow> u32 \<Rightarrow> ptr \<Rightarrow> ptr \<Rightarrow> nat \<Rightarrow> string \<Rightarrow> session \<Rightarrow> (nat \<times> string \<times> session) option" where
  "finish mc opts pid process job exit finish_error s =
     (let finish_reason = (if finish_error = [] then iv_completion_reason (ij_vars s) else ''error'');
          summary = build_injector_summary (mc_utf8 mc) (mc_path_string mc) opts (ij_vars s) finish_reason finish_error
      in case write_text_file mc (io_injector_summary_path opts) summary s of
           None \<Rightarrow> None
         | Some (_, s) \<Rightarrow>
             Some (if finish_error \<noteq> [] then exit else 0, finish_error, end_server mc opts pid process job s))"

text \<open>The destructors of the allocations that are alive, newest first.\<close>

definition release_allocations :: "session \<Rightarrow> session" where
  "release_allocations s = (fold VirtualFreeEx (ij_owned s) s)\<lparr>ij_owned := []\<rparr>"

text \<open>The session with a server that has been started.\<close>

definition run_session ::
  "machine \<Rightarrow> injector_options \<Rightarrow> u32 \<Rightarrow> ptr \<Rightarrow> session \<Rightarrow> (nat \<times> string \<times> session) option" where
  "run_session mc opts pid process s =
     (let (job, s) = assign_kill_on_close_job mc process s;
          s = set_vars (\<lambda>_. initial_injector_vars pid) s
      in case session_body mc opts pid process s of
           None \<Rightarrow> None
         | Some (r, s) \<Rightarrow>
             (let (exit, message) = (case r of Inl e \<Rightarrow> e | Inr _ \<Rightarrow> (0, []))
              in map_option (\<lambda>(exit, message, s). (exit, message, release_allocations s))
                   (finish mc opts pid process job exit message s)))"

definition injector_main :: "machine \<Rightarrow> wstring list \<Rightarrow> unit process \<Rightarrow> (nat \<times> string \<times> session) option" where
  "injector_main mc argv p =
     (case injector_parse_options (mc_utf8 mc) argv of
        Inl e \<Rightarrow> Some (if e \<noteq> [] then 64 else 0, e, new_session p)
      | Inr opts \<Rightarrow>
          (case attempt (must_file 1 (file_exists mc (io_server_exe opts))) (\<lambda>_.
                attempt (must_file 1 (file_exists mc (io_server_dll opts))) (\<lambda>_.
                attempt (must_file 1 (file_exists mc (io_host_dll opts))) (\<lambda>_.
                must_file 1 (file_exists mc (io_runtime_dll opts))))) (new_session p) of
             None \<Rightarrow> None
           | Some (Inl (exit, message), s) \<Rightarrow> Some (exit, message, s)
           | Some (Inr _, s) \<Rightarrow>
               (let exe = io_server_exe opts;
                    command_line = wide [CHR 0x22] @ exe @ wide (CHR 0x22 # '' '') @ io_server_args opts;
                    created = mc_create_process mc (at s) exe command_line (mc_parent_path mc exe);
                    s = advance s
                in case created of
                     None \<Rightarrow>
                       (let s = windows_error mc ''CreateProcessW failed'' s in Some (2, ij_error s, s))
                   | Some (pid, process, main_thread) \<Rightarrow>
                       run_session mc opts pid process (open_handle main_thread (open_handle process s)))))"

end
