(* ===== verification/Injector_Example.thy ===== *)
theory Injector_Example
  imports Injector_Session
begin

section \<open>An example run of the injector\<close>

text \<open>
  A machine on which every call succeeds and a run of the injector on it, which ends with status 0.
  Each moment takes five seconds, the time the injector holds its session by default.
\<close>

definition sample_snapshot :: host_snapshot where
  "sample_snapshot = zero_host_snapshot\<lparr>snap_initialized := 1, snap_runtime_loaded := 1, snap_runtime_probe_ok := 1,
     snap_signatures_checked := 12, snap_used_live_server_module := 1, snap_initialize_calls := 1\<rparr>"

definition sample_windows :: windows where
  "sample_windows =
     \<lparr>load_library_w = (\<lambda>m path. 4096), load_library_ex_w = (\<lambda>m path. 4096), get_module_handle_w = (\<lambda>m name. 8192),
      get_proc_address = (\<lambda>l name. l + 16), get_last_error = (\<lambda>m. 5), performance_counter = (\<lambda>m. 0),
      performance_frequency = None\<rparr>"

definition sample_machine :: machine where
  "sample_machine =
     \<lparr>mc_windows = sample_windows, mc_utf8 = (\<lambda>s. ''text''), mc_path_string = (\<lambda>s. ''path''),
      mc_exists = (\<lambda>m path. Some True), mc_exists_quiet = (\<lambda>m path. False), mc_parent_path = (\<lambda>path. []),
      mc_create_directories = (\<lambda>m path. True), mc_open = (\<lambda>m path. True),
      mc_create_process = (\<lambda>m exe command cwd. Some (7, 100, 101)), mc_create_job = (\<lambda>m. 102),
      mc_limit_job = (\<lambda>m job. True), mc_assign_job = (\<lambda>m job process. True),
      mc_toolhelp = (\<lambda>m pid. Some (103, [(wide ''server.dll'', 65536), (wide ''dwrt_host.dll'', 131072),
        (wide ''kernel32.dll'', 196608)])),
      mc_clock = (\<lambda>m slept. 5000 * m + slept), mc_virtual_alloc = (\<lambda>m n. 16384), mc_write_memory = (\<lambda>m a n. Some n),
      mc_create_remote_thread = (\<lambda>m f x. 104), mc_wait = (\<lambda>m h n. if h = 104 then 0 else 258),
      mc_thread_exit_code = (\<lambda>m h. Some 0), mc_read_host = (\<lambda>m a. Some sample_snapshot),
      mc_read_probe = (\<lambda>m a. Some probe_new), mc_read_walker_patrol = (\<lambda>m a. Some zero_walker_patrol_snapshot),
      mc_read_friendly_fire = (\<lambda>m a. Some zero_friendly_fire_snapshot),
      mc_read_target_probe = (\<lambda>m a. Some zero_target_probe_snapshot)\<rparr>"

definition sample_argv :: "wstring list" where
  "sample_argv = map wide [''inject.exe'', ''--host'', ''h.dll'', ''--runtime'', ''r.dll'', ''--host-summary'', ''h.json'',
     ''--injector-summary'', ''i.json'']"

definition sample_options :: injector_options where
  "sample_options = default_injector_options\<lparr>io_host_dll := wide ''h.dll'', io_runtime_dll := wide ''r.dll'',
     io_host_summary_path := wide ''h.json'', io_injector_summary_path := wide ''i.json''\<rparr>"

definition sample_process :: "unit process" where
  "sample_process = \<lparr>moment = 0, library_refs = (\<lambda>h. 0), runtime_memory = ()\<rparr>"

lemma sample_parse: "injector_parse_options utf8 sample_argv = Inr sample_options"
  by (simp add: injector_parse_options_def sample_argv_def sample_options_def injector_option_def wide_def
      default_injector_options_def)

text \<open>An attempt that succeeds from every state, and the calls that do.\<close>

definition succeeds :: "'a attempt \<Rightarrow> bool" where
  "succeeds f \<longleftrightarrow> (\<forall>s. \<exists>x s'. f s = Some (Inr x, s'))"

lemma succeeds_attempt: "succeeds f \<Longrightarrow> (\<And>x. succeeds (g x)) \<Longrightarrow> succeeds (attempt f g)"
  unfolding succeeds_def attempt_def by (metis (no_types, lifting) option.simps(5) prod.case sum.simps(6))

lemma sample_fields [simp]:
  "mc_windows sample_machine = sample_windows"
  "mc_toolhelp sample_machine = (\<lambda>m pid. Some (103, [(wide ''server.dll'', 65536), (wide ''dwrt_host.dll'', 131072),
     (wide ''kernel32.dll'', 196608)]))"
  "mc_clock sample_machine = (\<lambda>m slept. 5000 * m + slept)"
  "mc_virtual_alloc sample_machine = (\<lambda>m n. 16384)" "mc_write_memory sample_machine = (\<lambda>m a n. Some n)"
  "mc_create_remote_thread sample_machine = (\<lambda>m f x. 104)"
  "mc_wait sample_machine = (\<lambda>m h n. if h = 104 then 0 else 258)"
  "mc_thread_exit_code sample_machine = (\<lambda>m h. Some 0)"
  "mc_read_host sample_machine = (\<lambda>m a. Some sample_snapshot)"
  "mc_read_probe sample_machine = (\<lambda>m a. Some probe_new)"
  "mc_read_walker_patrol sample_machine = (\<lambda>m a. Some zero_walker_patrol_snapshot)"
  "mc_read_friendly_fire sample_machine = (\<lambda>m a. Some zero_friendly_fire_snapshot)"
  "mc_read_target_probe sample_machine = (\<lambda>m a. Some zero_target_probe_snapshot)"
  by (simp_all add: sample_machine_def)

lemma succeeds_must_have:
  assumes "\<And>s. \<exists>a s'. f s = (a, s') \<and> a \<noteq> nullptr"
  shows "succeeds (must_have n f)"
proof -
  have "\<exists>x s'. must_have n f s = Some (Inr x, s')" for s
    using assms [of s] by (auto simp: must_have_def succeed_def)
  then show ?thesis by (simp add: succeeds_def)
qed

lemma sample_modules:
  "name \<in> {''server.dll'', ''dwrt_host.dll'', ''kernel32.dll''} \<Longrightarrow>
   \<exists>base s'. module_base_in_process sample_machine pid name s = (base, s') \<and> base \<noteq> 0 \<and> base + 16 \<noteq> 0"
  by (auto simp: module_base_in_process_def wcsicmp_eq_def wide_def)

lemma sample_thread:
  "\<exists>s'. run_remote_thread sample_machine f x timeout_ms s = (Some 0, s') \<and> ij_vars s' = ij_vars s"
  by (simp add: run_remote_thread_def CloseHandle_def open_handle_def advance_def Let_def)

lemma sample_alloc: "succeeds (must_have n (remote_alloc_write sample_machine x))"
  by (simp add: succeeds_def must_have_def remote_alloc_write_def succeed_def Let_def)

lemma sample_exports:
  "succeeds (must_have n (host_export sample_machine opts pid name))"
  "succeeds (must_have n (remote_kernel32_export sample_machine pid name))"
proof -
  have "\<exists>base s'. host_export sample_machine opts pid name s = (base, s') \<and> base \<noteq> 0" for s
    using sample_modules [of "''dwrt_host.dll''" pid "s\<lparr>ij_process := FreeLibrary 4096 (tick (add_ref 4096 (ij_process s)))\<rparr>"]
    by (auto simp: host_export_def remote_export_address_def LoadLibraryW_def sample_windows_def Let_def)
  then show "succeeds (must_have n (host_export sample_machine opts pid name))"
    by (rule succeeds_must_have)
  have "\<exists>base s'. remote_kernel32_export sample_machine pid name s = (base, s') \<and> base \<noteq> 0" for s
    using sample_modules [of "''kernel32.dll''" pid "s\<lparr>ij_process := tick (ij_process s)\<rparr>"]
    by (auto simp: remote_kernel32_export_def GetModuleHandleW_def sample_windows_def Let_def)
  then show "succeeds (must_have n (remote_kernel32_export sample_machine pid name))"
    by (rule succeeds_must_have)
qed

lemma sample_call: "\<exists>s'. remote_call sample_machine f x store s = (True, s') \<and> ij_vars s' = store 0 (ij_vars s)"
  using sample_thread [of f x 30000 s] by (auto simp: remote_call_def set_vars_def)

lemma sample_checked:
  assumes "\<And>v. status (store 0 v) = 0"
  shows "succeeds (attempt (must n (remote_call sample_machine f x store))
    (\<lambda>_ s. if status (ij_vars s) \<noteq> 0 then leave k (message (ij_vars s)) s else succeed () s))"
  unfolding succeeds_def
proof
  fix s
  obtain s1 where "remote_call sample_machine f x store s = (True, s1)" "ij_vars s1 = store 0 (ij_vars s)"
    using sample_call by blast
  then show "\<exists>u s'. attempt (must n (remote_call sample_machine f x store))
    (\<lambda>_ s. if status (ij_vars s) \<noteq> 0 then leave k (message (ij_vars s)) s else succeed () s) s = Some (Inr u, s')"
    using assms by (simp add: attempt_def must_def succeed_def)
qed

lemma sample_refresh:
  assumes "\<And>v. status (store_status 0 v) = 0" "\<And>k. read k buffer = Some x"
  shows "\<exists>s'. must n (refresh sample_machine name what f buffer store_status status read store) s = Some (Inr (), s') \<and>
    ij_vars s' = store x (store_status 0 (ij_vars s))"
proof -
  obtain s1 where "remote_call sample_machine f buffer store_status s = (True, s1)"
    "ij_vars s1 = store_status 0 (ij_vars s)"
    using sample_call by blast
  then show ?thesis using assms by (simp add: refresh_def set_vars_def advance_def must_def succeed_def)
qed

definition keeps_host :: "unit attempt \<Rightarrow> bool" where
  "keeps_host f \<longleftrightarrow> (\<forall>s. \<exists>s'. f s = Some (Inr (), s') \<and> iv_host (ij_vars s') = iv_host (ij_vars s))"

lemma keeps_hostE:
  assumes "keeps_host f"
  obtains s' where "f s = Some (Inr (), s')" "iv_host (ij_vars s') = iv_host (ij_vars s)"
  using assms unfolding keeps_host_def by blast

lemma keeps_host_attempt:
  assumes f: "keeps_host f" and g: "keeps_host g"
  shows "keeps_host (attempt f (\<lambda>_. g))"
  unfolding keeps_host_def
proof
  fix s
  obtain s1 where 1: "f s = Some (Inr (), s1)" "iv_host (ij_vars s1) = iv_host (ij_vars s)" using f by (rule keeps_hostE)
  obtain s2 where "g s1 = Some (Inr (), s2)" "iv_host (ij_vars s2) = iv_host (ij_vars s1)" using g by (rule keeps_hostE)
  with 1 show "\<exists>s'. attempt f (\<lambda>_. g) s = Some (Inr (), s') \<and> iv_host (ij_vars s') = iv_host (ij_vars s)"
    by (simp add: attempt_def)
qed

lemma keeps_host_refresh:
  assumes "\<And>v. status (store_status 0 v) = 0" "\<And>k. read k buffer = Some x"
    "\<And>v. iv_host (store x (store_status 0 v)) = iv_host v"
  shows "keeps_host (must n (refresh sample_machine name what f buffer store_status status read store))"
  using sample_refresh [of status store_status read buffer x n name what f store, OF assms(1,2)] assms(3)
  unfolding keeps_host_def by metis

lemma sample_counters: "keeps_host (refresh_counters sample_machine a n)"
  unfolding refresh_counters_def refresh_probe_snapshot_def refresh_walker_patrol_snapshot_def
    refresh_friendly_fire_snapshot_def refresh_target_probe_snapshot_def
  by (intro keeps_host_attempt keeps_host_refresh; simp)

lemma sample_host:
  "\<exists>s'. must n (refresh_host_snapshot sample_machine a) s = Some (Inr (), s') \<and> iv_host (ij_vars s') = sample_snapshot"
proof -
  have "iv_snapshot_status (iv_snapshot_status_update (\<lambda>_. 0) v) = 0" for v by simp
  from sample_refresh [of iv_snapshot_status "\<lambda>c. iv_snapshot_status_update (\<lambda>_. c)" "mc_read_host sample_machine"
      "ha_snapshot_buffer a" sample_snapshot n "''dwrt_host_snapshot''" "''host snapshot''" "ha_snapshot a"
      "\<lambda>x. iv_host_update (\<lambda>_. x)" s, OF this]
  obtain s' where "must n (refresh_host_snapshot sample_machine a) s = Some (Inr (), s')"
    "ij_vars s' = iv_host_update (\<lambda>_. sample_snapshot) (iv_snapshot_status_update (\<lambda>_. 0) (ij_vars s))"
    unfolding refresh_host_snapshot_def sample_fields by blast
  then show ?thesis by simp
qed

lemma sample_all:
  "\<exists>s'. refresh_all sample_machine a n s = Some (Inr (), s') \<and> iv_host (ij_vars s') = sample_snapshot"
proof -
  obtain s1 where 1: "must n (refresh_host_snapshot sample_machine a) s = Some (Inr (), s1)"
    "iv_host (ij_vars s1) = sample_snapshot" using sample_host by blast
  obtain s2 where "refresh_counters sample_machine a n s1 = Some (Inr (), s2)"
    "iv_host (ij_vars s2) = iv_host (ij_vars s1)" by (rule keeps_hostE [OF sample_counters])
  with 1 show ?thesis by (simp add: refresh_all_def attempt_def)
qed

text \<open>The parts of the session.\<close>

lemma sample_wait:
  assumes "name \<in> {''server.dll'', ''dwrt_host.dll''}" "timeout_ms \<in> {60000, 10000}"
  shows "succeeds (wait_module_step sample_machine pid name timeout_ms store n message)"
proof -
  have "\<exists>base s'. wait_for_module sample_machine pid name timeout_ms s = Some (base, s') \<and> base \<noteq> 0" for s
  proof -
    obtain base s1 where "module_base_in_process sample_machine pid name (advance (advance s)) = (base, s1)" "base \<noteq> 0"
      using sample_modules [of name pid] assms(1) by blast
    moreover have "at (advance s) = at s + 1" "ij_slept (advance s) = ij_slept s"
      by (simp_all add: at_def advance_def tick_def)
    moreover have "of_nat (5000 * (at s + 1) + ij_slept s) - of_nat (5000 * at s + ij_slept s) < timeout_ms"
    proof -
      have "of_nat (5000 * (at s + 1) + ij_slept s) - of_nat (5000 * at s + ij_slept s) = (5000 :: u32)"
        by (simp add: algebra_simps)
      moreover have "(5000 :: u32) < 60000" "(5000 :: u32) < 10000" by simp_all
      ultimately show ?thesis using assms(2) by fastforce
    qed
    ultimately show ?thesis
      by (simp add: wait_for_module_def GetTickCount_def wait_loop.simps [of _ _ _ _ _ "advance s"])
  qed
  then show ?thesis
    unfolding succeeds_def
  proof (intro allI)
    fix s
    obtain base s' where "wait_for_module sample_machine pid name timeout_ms s = Some (base, s')" "base \<noteq> 0"
      using \<open>\<And>s. \<exists>base s'. wait_for_module sample_machine pid name timeout_ms s = Some (base, s') \<and> base \<noteq> 0\<close> by blast
    then show "\<exists>x s'. wait_module_step sample_machine pid name timeout_ms store n message s = Some (Inr x, s')"
      by (simp add: wait_module_step_def succeed_def)
  qed
qed

lemma sample_must_call: "succeeds (must n (remote_call sample_machine f x store))"
  unfolding succeeds_def
proof
  fix s
  obtain s' where "remote_call sample_machine f x store s = (True, s')" using sample_call by blast
  then show "\<exists>u s'. must n (remote_call sample_machine f x store) s = Some (Inr u, s')"
    by (simp add: must_def succeed_def)
qed

lemma sample_load: "succeeds (load_host sample_machine sample_options pid)"
  unfolding load_host_def remote_alloc_string_def
  by (intro succeeds_attempt sample_wait sample_alloc sample_exports sample_must_call)
    (simp_all add: sample_options_def default_injector_options_def)

lemma sample_initialize: "succeeds (initialize_host sample_machine sample_options pid)"
  unfolding initialize_host_def remote_alloc_string_def Let_def
  by (intro succeeds_attempt sample_alloc sample_exports sample_checked) simp

lemma sample_access: "succeeds (access_host sample_machine sample_options pid)"
  unfolding access_host_def
  by (intro succeeds_attempt sample_alloc sample_exports) (simp add: succeeds_def succeed_def)

lemma sample_gates: "live_server_gates sample_options sample_snapshot"
  by (simp add: live_server_gates_def sample_options_def default_injector_options_def sample_snapshot_def
      zero_host_snapshot_def)

lemma sample_mount: "succeeds (mount_probes sample_machine sample_options a)"
  unfolding succeeds_def
proof
  fix s
  let ?rest = "attempt (call_checked sample_machine ''dwrt_host_set_probe_mount_mask'' (ha_set_probe_mount a)
      (ucast (io_probe_mount_mask sample_options)) (\<lambda>c. iv_probe_mount_status_update (\<lambda>_. c)) iv_probe_mount_status 25) (\<lambda>_.
    attempt (call_checked sample_machine ''dwrt_host_reset_probe_counters'' (ha_reset_probe_counters a) nullptr
      (\<lambda>c. iv_probe_reset_status_update (\<lambda>_. c)) iv_probe_reset_status 27) (\<lambda>_. refresh_counters sample_machine a 29))"
  obtain s1 where 1: "must 23 (refresh_host_snapshot sample_machine a) s = Some (Inr (), s1)"
    "iv_host (ij_vars s1) = sample_snapshot" using sample_host by blast
  have "succeeds (refresh_counters sample_machine a 29)"
    using sample_counters unfolding keeps_host_def succeeds_def by blast
  then have "succeeds ?rest"
    unfolding call_checked_def by (intro succeeds_attempt sample_checked; simp)
  then have "\<exists>u s'. ?rest s1 = Some (Inr u, s')" by (simp add: succeeds_def)
  with 1 show "\<exists>u s'. mount_probes sample_machine sample_options a s = Some (Inr u, s')"
    by (simp add: mount_probes_def attempt_def [of "must 23 (refresh_host_snapshot sample_machine a)"] succeed_def
        attempt_def [of "\<lambda>s. if \<not> live_server_gates sample_options (iv_host (ij_vars s)) then leave 24 m s else succeed () s" for m]
        sample_gates)
qed

lemma sample_hold: "succeeds (hold_session sample_machine sample_options process a)"
  unfolding succeeds_def
proof
  fix s
  have o: "io_snapshot_jsonl_path sample_options = []" "io_hold_seconds sample_options = 5"
    "io_poll_seconds sample_options = 0"
    by (simp_all add: sample_options_def default_injector_options_def)
  have quiet: "must_file n (append_snapshot sample_machine sample_options t phase) s = Some (Inr (), s)" for n t phase s
    by (simp add: must_file_def append_snapshot_def o succeed_def)
  have "of_nat (5000 * (at s + 1) + ij_slept s) - of_nat (5000 * at s + ij_slept s) = (5000 :: u32)"
    by (simp add: algebra_simps)
  moreover have "at (advance s) = at s + 1" "ij_slept (advance s) = ij_slept s"
    by (simp_all add: at_def advance_def tick_def)
  moreover define t :: u32 where "t = of_nat (5000 * at s + ij_slept s)"
  ultimately have over: "hold_loop sample_machine sample_options process a t 5000 0 0 (advance s) =
      Some (Inr (), advance (advance s))" and t: "GetTickCount sample_machine s = (t, advance s)"
    by (simp_all add: hold_loop.simps [of _ _ _ _ _ _ _ _ "advance s"] hold_turn_def GetTickCount_def succeed_def)
  define s1 where "s1 = (if iv_completion_reason (ij_vars (advance (advance s))) = ''completed''
      then set_vars (iv_completion_reason_update (\<lambda>_. ''duration-elapsed'')) (advance (advance s)) else advance (advance s))"
  obtain s2 where "refresh_all sample_machine a 34 s1 = Some (Inr (), s2)" "iv_host (ij_vars s2) = sample_snapshot"
    using sample_all by blast
  moreover have "snap_callback_recursive_entries sample_snapshot = 0"
    by (simp add: sample_snapshot_def zero_host_snapshot_def)
  ultimately show "\<exists>u s'. hold_session sample_machine sample_options process a s = Some (Inr u, s')"
    by (simp add: hold_session_def t o attempt_def quiet over succeed_def s1_def [symmetric] Let_def)
qed

lemma sample_session: "succeeds (session_body sample_machine sample_options pid process)"
  unfolding session_body_def
  by (intro succeeds_attempt sample_load sample_initialize sample_access sample_mount sample_hold)

text \<open>The whole run.\<close>

lemma sample_run:
  "\<exists>s. injector_main sample_machine sample_argv sample_process = Some (0, [], s)"
proof -
  let ?files = "attempt (must_file 1 (file_exists sample_machine (io_server_exe sample_options))) (\<lambda>_.
    attempt (must_file 1 (file_exists sample_machine (io_server_dll sample_options))) (\<lambda>_.
    attempt (must_file 1 (file_exists sample_machine (io_host_dll sample_options))) (\<lambda>_.
    must_file 1 (file_exists sample_machine (io_runtime_dll sample_options)))))"
  have "succeeds ?files"
    by (intro succeeds_attempt) (simp_all add: succeeds_def must_file_def file_exists_def sample_machine_def succeed_def)
  then obtain s1 where f: "?files (new_session sample_process) = Some (Inr (), s1)"
    unfolding succeeds_def by (metis (full_types) unit.exhaust)
  let ?s1 = "open_handle 101 (open_handle 100 (advance s1))"
  obtain job s2 where j: "assign_kill_on_close_job sample_machine 100 ?s1 = (job, s2)" by fastforce
  obtain s3 where b: "session_body sample_machine sample_options 7 100 (set_vars (\<lambda>_. initial_injector_vars 7) s2) = Some (Inr (), s3)"
    using sample_session [of 7 100] unfolding succeeds_def by (metis (full_types) unit.exhaust)
  have "\<exists>s4. finish sample_machine sample_options 7 100 job 0 [] s3 = Some (0, [], s4)"
    by (simp add: finish_def write_text_file_def put_text_file_def sample_machine_def Let_def)
  then have "\<exists>s4. run_session sample_machine sample_options 7 100 ?s1 = Some (0, [], s4)"
    using b by (auto simp: run_session_def j)
  then show ?thesis
    using f by (simp add: injector_main_def sample_parse Let_def) (simp add: sample_machine_def)
qed

end
