(* ===== verification/Injector_Contract.thy ===== *)
theory Injector_Contract
  imports Injector_Session
begin

section \<open>The contract of the injector's calls\<close>

text \<open>
  The calls a session is made of share a contract, the locale \<open>session_contract\<close>: each keeps a
  relation between the states before and after.  Everything between the start of the server and
  \<open>finish\<close> then keeps it too.  The relation of interest, \<open>tidy\<close>, says that no handle, library or block
  of memory is left over; with it the whole program cleans up.
\<close>

definition keeps :: "(session \<Rightarrow> session \<Rightarrow> bool) \<Rightarrow> (session \<Rightarrow> ('a \<times> session) option) \<Rightarrow> bool" where
  "keeps R f \<longleftrightarrow> (\<forall>s r s'. f s = Some (r, s') \<longrightarrow> R s s')"

definition always_keeps :: "(session \<Rightarrow> session \<Rightarrow> bool) \<Rightarrow> (session \<Rightarrow> 'a \<times> session) \<Rightarrow> bool" where
  "always_keeps R f \<longleftrightarrow> (\<forall>s. R s (snd (f s)))"

lemma keepsI: "(\<And>s r s'. f s = Some (r, s') \<Longrightarrow> R s s') \<Longrightarrow> keeps R f"
  by (simp add: keeps_def)

lemma keepsD: "keeps R f \<Longrightarrow> f s = Some (r, s') \<Longrightarrow> R s s'"
  by (simp add: keeps_def)

lemma always_keepsD: "always_keeps R f \<Longrightarrow> f s = (r, s') \<Longrightarrow> R s s'"
  by (metis always_keeps_def snd_conv)

lemma GetTickCount_state [simp]: "snd (GetTickCount mc s) = advance s"
  by (simp add: GetTickCount_def)

locale session_contract =
  fixes R :: "session \<Rightarrow> session \<Rightarrow> bool" and mc :: machine
  assumes refl: "R s s"
    and trans: "R s s' \<Longrightarrow> R s' s'' \<Longrightarrow> R s s''"
    and advance: "R s (advance s)"
    and sleep: "R s (Sleep n s)"
    and vars: "R s (set_vars f s)"
    and error: "R s (s\<lparr>ij_error := e\<rparr>)"
    and wrote: "R s (s\<lparr>ij_written := w\<rparr>)"
    and modules: "always_keeps R (module_base_in_process mc pid name)"
    and alloc: "always_keeps R (remote_alloc_write mc data)"
    and thread: "always_keeps R (run_remote_thread mc g parameter timeout_ms)"
    and export: "always_keeps R (remote_export_address mc pid name path x)"
    and kernel: "always_keeps R (remote_kernel32_export mc pid x)"
begin

lemma windows_error: "R s (windows_error mc prefix s)"
  by (simp add: windows_error_def error)

lemma succeed: "keeps R (succeed x)"
  by (rule keepsI) (simp add: succeed_def refl)

lemma leave: "keeps R (leave n message)"
  by (rule keepsI) (simp add: leave_def refl)

lemma attempt:
  assumes "keeps R f" "\<And>x. keeps R (g x)"
  shows "keeps R (attempt f g)"
proof (rule keepsI)
  fix s r s' assume "attempt f g s = Some (r, s')"
  then obtain y s1 where f: "f s = Some (y, s1)" and y: "(case y of Inl e \<Rightarrow> Some (Inl e, s1) | Inr x \<Rightarrow> g x s1) = Some (r, s')"
    by (auto simp: attempt_def split: option.splits sum.splits)
  have "R s1 s'" using y keepsD [OF assms(2)] refl by (cases y) auto
  then show "R s s'" using trans keepsD [OF assms(1) f] by blast
qed

lemma must_have: "always_keeps R f \<Longrightarrow> keeps R (must_have n f)"
  by (rule keepsI) (auto simp: must_have_def leave_def succeed_def dest: always_keepsD split: prod.splits if_splits)

lemma must: "always_keeps R f \<Longrightarrow> keeps R (must n f)"
  by (rule keepsI) (auto simp: must_def leave_def succeed_def dest: always_keepsD split: prod.splits if_splits)

lemma must_file: "keeps R f \<Longrightarrow> keeps R (must_file n f)"
  by (rule keepsI) (auto simp: must_file_def leave_def succeed_def dest: keepsD split: option.splits prod.splits if_splits)

lemma call: "always_keeps R (remote_call mc g parameter store)"
proof -
  have "R s (snd (remote_call mc g parameter store s))" for s
  proof -
    obtain r s1 where t: "run_remote_thread mc g parameter 30000 s = (r, s1)" by fastforce
    have "R s s1" by (rule always_keepsD [OF thread t])
    then show ?thesis by (cases r) (auto simp: remote_call_def t intro: trans vars)
  qed
  then show ?thesis by (simp add: always_keeps_def)
qed

lemma put: "keeps R (put_text_file appending failure mc path content)"
proof (rule keepsI)
  fix s r s' assume p: "put_text_file appending failure mc path content s = Some (r, s')"
  have a: "R s (if b then advance s else s)" for b by (simp add: advance refl)
  have "R s1 ((advance s1)\<lparr>ij_error := e\<rparr>)" "R s1 ((advance s1)\<lparr>ij_written := w\<rparr>)" for s1 e w
    using trans advance error wrote by blast+
  then show "R s s'"
    using p trans [OF a [of "mc_parent_path mc path \<noteq> []"]]
    by (auto simp: put_text_file_def Let_def split: if_splits)
qed

lemma wait_loop_keeps:
  assumes "wait_loop mc pid name start timeout_ms s = Some (base, s')"
  shows "R s s'"
proof -
  have "m = mc \<longrightarrow> R s (snd r)" if "wait_loop m pid name start timeout_ms s = Some r" for m r
  using that
  proof (induction rule: wait_loop.raw_induct [rotated, consumes 1])
    case (1 loop m pid name start timeout_ms s r)
    show ?case
    proof
      assume m: "m = mc"
      obtain t where t: "GetTickCount mc s = (t, advance s)" by (simp add: GetTickCount_def)
      obtain base s1 where b: "module_base_in_process mc pid name (advance s) = (base, s1)" by fastforce
      have s1: "R s s1" using trans advance always_keepsD [OF modules b] by blast
      show "R s (snd r)"
      proof (cases "t - start < timeout_ms \<and> base = 0")
        case True
        then have "loop m pid name start timeout_ms (Sleep 250 s1) = Some r" using 1(2) by (simp add: m t b)
        from 1(1) [OF this] have "R (Sleep 250 s1) (snd r)" using m by blast
        then show ?thesis using s1 sleep trans by blast
      next
        case False
        then show ?thesis using 1(2) s1 advance by (auto simp: m t b split: if_splits)
      qed
    qed
  qed
  from this [OF assms] show ?thesis by simp
qed

lemma wait_step: "keeps R (wait_module_step mc pid name timeout_ms store n message)"
proof (rule keepsI)
  fix s r s' assume w: "wait_module_step mc pid name timeout_ms store n message s = Some (r, s')"
  obtain t where t: "GetTickCount mc s = (t, advance s)" by (simp add: GetTickCount_def)
  obtain base s1 where l: "wait_loop mc pid name t timeout_ms (advance s) = Some (base, s1)"
    using w by (auto simp: wait_module_step_def wait_for_module_def t split: option.splits)
  have "R s s1" using trans advance wait_loop_keeps [OF l] by blast
  moreover have "s' = set_vars (store base) s1"
    using w by (auto simp: wait_module_step_def wait_for_module_def t l leave_def succeed_def Let_def split: if_splits)
  ultimately show "R s s'" using trans vars by blast
qed

lemma alloc_string: "always_keeps R (remote_alloc_string mc t)"
  unfolding remote_alloc_string_def by (rule alloc)

lemma host_exports: "always_keeps R (host_export mc opts pid name)"
  unfolding host_export_def by (rule export)

lemma status_check: "keeps R (\<lambda>s. if b s then leave n (e s) s else succeed () s)"
  by (rule keepsI) (auto simp: leave_def succeed_def refl split: if_splits)

lemma refreshes: "always_keeps R (refresh mc name what f buffer store_status status read store)"
proof -
  have "R s (snd (refresh mc name what f buffer store_status status read store s))" for s
  proof -
    obtain ran s1 where c: "remote_call mc f buffer store_status s = (ran, s1)" by fastforce
    have "R s s1" by (rule always_keepsD [OF call c])
    moreover have "R s1 (windows_error mc e (advance s1))" "R s1 (set_vars g (advance s1))" for e g
      using trans advance windows_error vars by blast+
    ultimately show ?thesis
      using trans error by (auto simp: refresh_def c Let_def split: option.splits)
  qed
  then show ?thesis by (simp add: always_keeps_def)
qed

lemma snapshots:
  "always_keeps R (refresh_host_snapshot mc a)" "always_keeps R (refresh_probe_snapshot mc a)"
  "always_keeps R (refresh_walker_patrol_snapshot mc a)" "always_keeps R (refresh_friendly_fire_snapshot mc a)"
  "always_keeps R (refresh_target_probe_snapshot mc a)"
  by (simp_all add: refresh_host_snapshot_def refresh_probe_snapshot_def refresh_walker_patrol_snapshot_def
      refresh_friendly_fire_snapshot_def refresh_target_probe_snapshot_def refreshes)

lemma refresh_counters: "keeps R (refresh_counters mc a n)"
  unfolding refresh_counters_def by (intro attempt must snapshots)

lemma refresh_all: "keeps R (refresh_all mc a n)"
  unfolding refresh_all_def by (intro attempt must snapshots refresh_counters)

lemma append: "keeps R (append_snapshot mc opts start phase)"
proof (rule keepsI)
  fix s r s' assume "append_snapshot mc opts start phase s = Some (r, s')"
  then show "R s s'"
    using refl trans [OF advance] keepsD [OF put]
    by (auto simp: append_snapshot_def append_text_file_def GetTickCount_def split: if_splits)
qed

lemma hold_turn: "keeps R (hold_turn mc opts process a start hold_ms poll_ms next)"
proof (rule keepsI)
  fix s r s' assume h: "hold_turn mc opts process a start hold_ms poll_ms next s = Some (r, s')"
  let ?poll = "attempt (refresh_all mc a 32) (\<lambda>_. attempt (must_file 33 (append_snapshot mc opts start ''poll''))
      (\<lambda>_. succeed (Some (next + poll_ms))))"
  let ?s2 = "advance (advance s)"
  define s3 where "s3 = (if io_stop_file_path opts \<noteq> [] then advance ?s2 else ?s2)"
  have two: "R s ?s2" using trans [OF advance advance] .
  have r3: "R s s3" "R s ?s2" by (simp_all add: s3_def two trans [OF two advance])
  have k: "keeps R ?poll" by (intro attempt refresh_all must_file append succeed)
  have poll: "R (advance s3) s'" if "?poll (advance s3) = Some (r, s')" by (rule keepsD [OF k that])
  obtain t where t: "GetTickCount mc s = (t, advance s)" by (simp add: GetTickCount_def)
  obtain t3 where t3: "GetTickCount mc s3 = (t3, advance s3)" by (simp add: GetTickCount_def)
  note unfold = hold_turn_def t t3 s3_def [symmetric] succeed_def leave_def Let_def prod.case
  show "R s s'"
  proof (cases "t - start < hold_ms")
    case False
    then have "s' = advance s" using h by (simp add: unfold)
    then show ?thesis using advance by simp
  next
    case before: True
    show ?thesis
    proof (cases "mc_wait mc (at (advance s)) process 0 = 0")
      case True
      then have "s' = ?s2" using h before by (simp add: unfold)
      then show ?thesis using r3 by simp
    next
      case alive: False
      show ?thesis
      proof (cases "io_stop_file_path opts \<noteq> [] \<and> mc_exists_quiet mc (at ?s2) (io_stop_file_path opts)")
        case True
        then have "s3 = advance ?s2" by (simp add: s3_def)
        with True have "s' = set_vars (iv_completion_reason_update (\<lambda>_. ''stop-file'')) s3"
          using h before alive by (simp add: hold_turn_def t succeed_def Let_def)
        then show ?thesis using trans [OF r3(1) vars] by simp
      next
        case no_stop: False
        show ?thesis
        proof (cases "poll_ms \<noteq> 0 \<and> t3 - start \<ge> next")
          case True
          have "?poll (advance s3) = Some (r, s')"
            using h before alive no_stop True by (simp add: hold_turn_def t t3 s3_def [symmetric] Let_def)
          then show ?thesis using trans [OF trans [OF r3(1) advance] poll] by blast
        next
          case False
          have "s' = advance s3"
            using h before alive no_stop False by (auto simp: unfold)
          then show ?thesis using trans [OF r3(1) advance] by simp
        qed
      qed
    qed
  qed
qed

lemma hold_loop_keeps:
  assumes "hold_loop mc opts process a start hold_ms poll_ms next s = Some (x, s')"
  shows "R s s'"
proof -
  have "m = mc \<longrightarrow> R s (snd r)" if "hold_loop m opts process a start hold_ms poll_ms next s = Some r" for m r
  using that
  proof (induction rule: hold_loop.raw_induct [rotated, consumes 1])
    case (1 loop m opts process a start hold_ms poll_ms due s r)
    show ?case
    proof
      assume m: "m = mc"
      obtain x s1 where t: "hold_turn mc opts process a start hold_ms poll_ms due s = Some (x, s1)"
        using 1(2) by (auto simp: m split: option.splits)
      have s1: "R s s1" by (rule keepsD [OF hold_turn t])
      show "R s (snd r)"
      proof (cases "\<exists>n. x = Inr (Some n)")
        case True
        then obtain n where "loop m opts process a start hold_ms poll_ms n (Sleep 250 s1) = Some r"
          using 1(2) by (auto simp: m t)
        from 1(1) [OF this] have "R (Sleep 250 s1) (snd r)" using m by blast
        then show ?thesis using s1 sleep trans by blast
      next
        case False
        then show ?thesis using 1(2) s1 by (auto simp: m t split: sum.splits option.splits)
      qed
    qed
  qed
  from this [OF assms] show ?thesis by simp
qed

lemma hold_loops: "keeps R (hold_loop mc opts process a start hold_ms poll_ms next)"
  using hold_loop_keeps by (auto intro: keepsI)

lemma checked: "keeps R (call_checked mc name f parameter store status n)"
  unfolding call_checked_def by (intro attempt must call status_check)

lemma load_host_keeps: "keeps R (load_host mc opts pid)"
  unfolding load_host_def by (intro attempt wait_step must_have must alloc_string kernel call)

lemma initialize_host_keeps: "keeps R (initialize_host mc opts pid)"
  unfolding initialize_host_def Let_def
  by (intro attempt must_have must alloc alloc_string host_exports call status_check)

lemma access_host_keeps: "keeps R (access_host mc opts pid)"
  unfolding access_host_def by (intro attempt must_have alloc host_exports succeed)

lemma mount_probes_keeps: "keeps R (mount_probes mc opts a)"
  unfolding mount_probes_def by (intro attempt must snapshots status_check checked refresh_counters)

lemma hold_session_keeps: "keeps R (hold_session mc opts process a)"
proof (rule keepsI)
  fix s r s' assume h: "hold_session mc opts process a s = Some (r, s')"
  obtain t where t: "GetTickCount mc s = (t, advance s)" by (simp add: GetTickCount_def)
  have reason: "keeps R (\<lambda>s. succeed () (if b s then set_vars f s else s))" for b :: "session \<Rightarrow> bool" and f
    by (rule keepsI) (auto simp: succeed_def vars refl split: if_splits)
  have "R (advance s) s'"
  proof (rule keepsD)
    show "attempt (must_file 30 (append_snapshot mc opts t ''initial'')) (\<lambda>_.
         attempt (hold_loop mc opts process a t (io_hold_seconds opts * 1000)
           (if io_poll_seconds opts = 0 then 0 else io_poll_seconds opts * 1000)
           (if io_poll_seconds opts = 0 then 0 else io_poll_seconds opts * 1000)) (\<lambda>_.
         attempt (\<lambda>s. succeed () (if iv_completion_reason (ij_vars s) = ''completed''
                    then set_vars (iv_completion_reason_update (\<lambda>_. ''duration-elapsed'')) s else s)) (\<lambda>_.
         attempt (refresh_all mc a 34) (\<lambda>_.
         attempt (must_file 35 (append_snapshot mc opts t ''final'')) (\<lambda>_ s.
           if \<not> io_allow_recursive_callbacks opts \<and> snap_callback_recursive_entries (iv_host (ij_vars s)) \<noteq> 0
           then leave 36 ''unexpected recursive callback entries during hold'' s else succeed () s))))) (advance s)
      = Some (r, s')"
      using h by (simp add: hold_session_def t Let_def)
  qed (intro attempt must_file append hold_loops reason refresh_all status_check)
  then show "R s s'" using trans advance by blast
qed

lemma session_keeps: "keeps R (session_body mc opts pid process)"
  unfolding session_body_def
  by (intro attempt load_host_keeps initialize_host_keeps access_host_keeps mount_probes_keeps hold_session_keeps)

end

subsection \<open>Nothing is left over\<close>

text \<open>
  Handles and libraries are as before, the server is alive or dead as before, and the blocks of its
  memory beyond those of the live \<open>RemoteAllocation\<close> objects are the same.
\<close>

definition loose_blocks :: "session \<Rightarrow> ptr \<Rightarrow> int" where
  "loose_blocks s a = ij_blocks s a - int (count_list (ij_owned s) a)"

definition tidy :: "session \<Rightarrow> session \<Rightarrow> bool" where
  "tidy s s' \<longleftrightarrow>
     ij_handles s' = ij_handles s \<and> library_refs (ij_process s') = library_refs (ij_process s) \<and>
     ij_killed s' = ij_killed s \<and> loose_blocks s' = loose_blocks s"

lemma session_simps [simp]:
  "ij_handles (advance s) = ij_handles s" "library_refs (ij_process (advance s)) = library_refs (ij_process s)"
  "ij_killed (advance s) = ij_killed s" "ij_blocks (advance s) = ij_blocks s" "ij_owned (advance s) = ij_owned s"
  "ij_vars (advance s) = ij_vars s" "ij_written (advance s) = ij_written s" "ij_error (advance s) = ij_error s"
  "ij_slept (advance s) = ij_slept s" "ij_threads (advance s) = ij_threads s"
  by (simp_all add: advance_def)

lemma tidy_error [simp]: "tidy s (s'\<lparr>ij_error := e\<rparr>) = tidy s s'"
  by (simp add: tidy_def loose_blocks_def fun_eq_iff)

lemma tidy_windows_error [simp]: "tidy s (windows_error mc prefix s') = tidy s s'"
  by (simp add: windows_error_def)

lemma tidy_advance [simp]: "tidy s (advance s') = tidy s s'"
  by (simp add: tidy_def loose_blocks_def fun_eq_iff)

lemma tidy_refl: "tidy s s"
  by (simp add: tidy_def)

lemma tidy_trans: "tidy s s' \<Longrightarrow> tidy s' s'' \<Longrightarrow> tidy s s''"
  by (simp add: tidy_def)

lemma tidy_modules: "always_keeps tidy (module_base_in_process mc pid name)"
  by (auto simp: always_keeps_def module_base_in_process_def tidy_refl CloseHandle_def open_handle_def
      split: option.splits) (auto simp: tidy_def loose_blocks_def fun_eq_iff)

lemma tidy_alloc: "always_keeps tidy (remote_alloc_write mc data)"
proof -
  have "tidy s (s\<lparr>ij_blocks := (ij_blocks s)(a := ij_blocks s a + 1), ij_values := v, ij_owned := a # ij_owned s\<rparr>)" for s a v
    by (simp add: tidy_def loose_blocks_def fun_eq_iff)
  then show ?thesis
    by (auto simp: always_keeps_def remote_alloc_write_def tidy_refl VirtualFreeEx_def Let_def)
      (auto simp: tidy_def loose_blocks_def windows_error_def fun_eq_iff)
qed

lemma tidy_thread: "always_keeps tidy (run_remote_thread mc g parameter timeout_ms)"
proof -
  have k: "tidy s (CloseHandle h (advance (advance ((open_handle h s)\<lparr>ij_threads := t\<rparr>))))"
    "tidy s (CloseHandle h (advance ((open_handle h s)\<lparr>ij_threads := t\<rparr>)))" for s h t
    by (simp_all add: tidy_def loose_blocks_def CloseHandle_def open_handle_def fun_eq_iff)
  have "tidy s (snd (run_remote_thread mc g parameter timeout_ms s))" for s
    using tidy_trans [of s "advance s"] k [of "advance s"] by (simp add: run_remote_thread_def tidy_refl Let_def)
  then show ?thesis by (simp add: always_keeps_def)
qed

lemma LoadLibraryW_refs:
  "LoadLibraryW w path p = (h, q) \<Longrightarrow> library_refs q = (\<lambda>k. library_refs p k + of_bool (k = h \<and> h \<noteq> 0))"
  by (auto simp: LoadLibraryW_def library_refs_add_ref Let_def)

lemma tidy_export: "always_keeps tidy (remote_export_address mc pid name path x)"
proof -
  have "tidy s (snd (remote_export_address mc pid name path x s))" for s
  proof -
    obtain h q where l: "LoadLibraryW (mc_windows mc) path (ij_process s) = (h, q)" by fastforce
    note refs = LoadLibraryW_refs [OF l]
    let ?t = "s\<lparr>ij_process := FreeLibrary h q\<rparr>"
    obtain base s1 where b: "module_base_in_process mc pid name ?t = (base, s1)" by fastforce
    have t: "h \<noteq> 0 \<Longrightarrow> tidy s ?t" "h = 0 \<Longrightarrow> tidy s (s\<lparr>ij_process := q\<rparr>)"
      using refs by (simp_all add: tidy_def loose_blocks_def fun_eq_iff)
    have "tidy ?t s1" by (rule always_keepsD [OF tidy_modules b])
    then show ?thesis
      using t tidy_trans [of s ?t s1] by (simp add: remote_export_address_def l b Let_def)
  qed
  then show ?thesis by (simp add: always_keeps_def)
qed

lemma tidy_kernel: "always_keeps tidy (remote_kernel32_export mc pid x)"
proof -
  have "tidy s (snd (remote_kernel32_export mc pid x s))" for s
  proof -
    obtain h q where l: "GetModuleHandleW (mc_windows mc) (wide ''kernel32.dll'') (ij_process s) = (h, q)" by fastforce
    let ?t = "s\<lparr>ij_process := q\<rparr>"
    have t: "tidy s ?t"
      using l by (auto simp: GetModuleHandleW_def tidy_def loose_blocks_def fun_eq_iff)
    obtain base s1 where b: "module_base_in_process mc pid ''kernel32.dll'' ?t = (base, s1)" by fastforce
    have "tidy ?t s1" by (rule always_keepsD [OF tidy_modules b])
    then show ?thesis
      using t tidy_trans [of s ?t s1] by (simp add: remote_kernel32_export_def l b Let_def)
  qed
  then show ?thesis by (simp add: always_keeps_def)
qed

interpretation tidy: session_contract tidy mc for mc
proof
  show "tidy s (Sleep n s)" "tidy s (set_vars f s)" "tidy s (s\<lparr>ij_written := w\<rparr>)" for s n f w
    by (simp_all add: tidy_def loose_blocks_def Sleep_def set_vars_def fun_eq_iff)
qed (simp_all add: tidy_refl tidy_modules tidy_alloc tidy_thread tidy_export tidy_kernel,
    blast intro: tidy_trans)

subsection \<open>The end of a session\<close>

lemma job_handles:
  assumes "assign_kill_on_close_job mc process s = (job, s')"
  shows "ij_handles s' = (\<lambda>h. ij_handles s h + of_bool (h = job \<and> job \<noteq> nullptr))"
    "library_refs (ij_process s') = library_refs (ij_process s)" "ij_killed s' = ij_killed s"
    "ij_blocks s' = ij_blocks s" "ij_owned s' = ij_owned s"
  using assms
  by (auto simp: assign_kill_on_close_job_def open_handle_def CloseHandle_def windows_error_def Let_def fun_eq_iff
      split: if_splits)

lemma released:
  "ij_blocks (release_allocations s) a = loose_blocks s a" "ij_owned (release_allocations s) = []"
  "ij_handles (release_allocations s) = ij_handles s" "ij_killed (release_allocations s) = ij_killed s"
  "library_refs (ij_process (release_allocations s)) = library_refs (ij_process s)"
  "ij_written (release_allocations s) = ij_written s" "ij_vars (release_allocations s) = ij_vars s"
proof -
  have step: "ij_blocks (VirtualFreeEx x s) a = ij_blocks s a - of_bool (x = a)"
    "ij_handles (VirtualFreeEx x s) = ij_handles s" "ij_killed (VirtualFreeEx x s) = ij_killed s"
    "library_refs (ij_process (VirtualFreeEx x s)) = library_refs (ij_process s)"
    "ij_written (VirtualFreeEx x s) = ij_written s" "ij_vars (VirtualFreeEx x s) = ij_vars s" for x s
    by (simp_all add: VirtualFreeEx_def)
  have "ij_blocks (fold VirtualFreeEx xs s) a = ij_blocks s a - int (count_list xs a) \<and>
      ij_handles (fold VirtualFreeEx xs s) = ij_handles s \<and> ij_killed (fold VirtualFreeEx xs s) = ij_killed s \<and>
      library_refs (ij_process (fold VirtualFreeEx xs s)) = library_refs (ij_process s) \<and>
      ij_written (fold VirtualFreeEx xs s) = ij_written s \<and> ij_vars (fold VirtualFreeEx xs s) = ij_vars s" for xs
    by (induction xs arbitrary: s) (simp_all add: step)
  then show "ij_blocks (release_allocations s) a = loose_blocks s a" "ij_owned (release_allocations s) = []"
    "ij_handles (release_allocations s) = ij_handles s" "ij_killed (release_allocations s) = ij_killed s"
    "library_refs (ij_process (release_allocations s)) = library_refs (ij_process s)"
    "ij_written (release_allocations s) = ij_written s" "ij_vars (release_allocations s) = ij_vars s"
    by (simp_all add: release_allocations_def loose_blocks_def)
qed

text \<open>What \<open>finish\<close> does, whatever it is told.\<close>

lemma end_server_effect:
  "ij_handles (end_server mc opts pid process job s) = (\<lambda>h. ij_handles s h - of_bool (h = job \<and> job \<noteq> nullptr))"
  "library_refs (ij_process (end_server mc opts pid process job s)) = library_refs (ij_process s)"
  "loose_blocks (end_server mc opts pid process job s) = loose_blocks s"
  "ij_killed (end_server mc opts pid process job s) \<longleftrightarrow> ij_killed s \<or> process \<noteq> nullptr"
proof -
  obtain a sa where x: "host_export mc opts pid ''dwrt_host_shutdown'' s = (a, sa)" by fastforce
  obtain r sb where t: "run_remote_thread mc a nullptr 10000 sa = (r, sb)" by fastforce
  let ?s = "if iv_host_base (ij_vars s) \<noteq> 0 then if a \<noteq> nullptr then sb else sa else s"
  have "tidy s sa" "tidy sa sb"
    by (rule always_keepsD [OF tidy.host_exports x]) (rule always_keepsD [OF tidy_thread t])
  then have s: "tidy s ?s" using tidy_trans [of s sa sb] by (simp add: tidy_refl)
  have e: "end_server mc opts pid process job s =
      (let s = (if process \<noteq> nullptr then advance (?s\<lparr>ij_killed := True\<rparr>) else ?s)
       in if job \<noteq> nullptr then CloseHandle job s else s)"
    by (simp add: end_server_def x t Let_def)
  obtain s2 where s2: "?s = s2" by blast
  note s = s [unfolded s2] and e = e [unfolded s2]
  show "ij_handles (end_server mc opts pid process job s) = (\<lambda>h. ij_handles s h - of_bool (h = job \<and> job \<noteq> nullptr))"
    "library_refs (ij_process (end_server mc opts pid process job s)) = library_refs (ij_process s)"
    "loose_blocks (end_server mc opts pid process job s) = loose_blocks s"
    "ij_killed (end_server mc opts pid process job s) \<longleftrightarrow> ij_killed s \<or> process \<noteq> nullptr"
    using s by (auto simp: e tidy_def CloseHandle_def loose_blocks_def fun_eq_iff Let_def)
qed

lemma finish_effect:
  assumes "finish mc opts pid process job n message s = Some (c, m, s')"
  shows "c = (if message \<noteq> [] then n else 0)" "m = message"
    "ij_handles s' = (\<lambda>h. ij_handles s h - of_bool (h = job \<and> job \<noteq> nullptr))"
    "library_refs (ij_process s') = library_refs (ij_process s)" "loose_blocks s' = loose_blocks s"
    "ij_killed s' \<longleftrightarrow> ij_killed s \<or> process \<noteq> nullptr"
proof -
  obtain doc b s1 where w: "write_text_file mc (io_injector_summary_path opts) doc s = Some (b, s1)"
    and e: "(c, m, s') = (if message \<noteq> [] then n else 0, message, end_server mc opts pid process job s1)"
    using assms by (auto simp: finish_def Let_def split: option.splits)
  have "tidy s s1" by (rule keepsD [OF tidy.put w [unfolded write_text_file_def]])
  then show "c = (if message \<noteq> [] then n else 0)" "m = message"
    "ij_handles s' = (\<lambda>h. ij_handles s h - of_bool (h = job \<and> job \<noteq> nullptr))"
    "library_refs (ij_process s') = library_refs (ij_process s)" "loose_blocks s' = loose_blocks s"
    "ij_killed s' \<longleftrightarrow> ij_killed s \<or> process \<noteq> nullptr"
    using e by (simp_all add: end_server_effect tidy_def)
qed

lemma run_session_tidy:
  assumes "run_session mc opts pid process s = Some (c, m, s')"
  shows "ij_handles s' = ij_handles s \<and> library_refs (ij_process s') = library_refs (ij_process s) \<and>
    ij_blocks s' = loose_blocks s \<and> ij_owned s' = [] \<and> (ij_killed s' \<longleftrightarrow> ij_killed s \<or> process \<noteq> nullptr)"
proof -
  obtain job s1 where j: "assign_kill_on_close_job mc process s = (job, s1)" by fastforce
  let ?s1 = "set_vars (\<lambda>_. initial_injector_vars pid) s1"
  obtain r s2 where b: "session_body mc opts pid process ?s1 = Some (r, s2)"
    using assms by (auto simp: run_session_def j Let_def split: option.splits)
  obtain n message where r: "(case r of Inl e \<Rightarrow> e | Inr _ \<Rightarrow> (0, [])) = (n, message)" by fastforce
  obtain s3 where f: "finish mc opts pid process job n message s2 = Some (c, m, s3)" "s' = release_allocations s3"
    using assms by (auto simp: run_session_def j b r Let_def)
  have "tidy s1 s2" using keepsD [OF tidy.session_keeps b] tidy.vars tidy_trans by blast
  then show ?thesis
    using job_handles [OF j] finish_effect [OF f(1)] f(2)
    by (auto simp: tidy_def released loose_blocks_def fun_eq_iff)
qed

lemma files_first:
  assumes "attempt (must_file 1 (file_exists mc f1)) (\<lambda>_. attempt (must_file 1 (file_exists mc f2)) (\<lambda>_.
    attempt (must_file 1 (file_exists mc f3)) (\<lambda>_. must_file 1 (file_exists mc f4)))) s = Some (r, s')"
  shows "tidy s s' \<and> ij_owned s' = ij_owned s \<and> (\<forall>n message. r = Inl (n, message) \<longrightarrow> n = 1 \<and> message \<noteq> [])"
proof -
  have one: "must_file n (file_exists mc f) s = Some (r, s') \<Longrightarrow> tidy s s' \<and> ij_owned s' = ij_owned s \<and>
      (\<forall>n' message. r = Inl (n', message) \<longrightarrow> n' = n \<and> message \<noteq> [])" for f s r s' n
    by (auto simp: must_file_def file_exists_def leave_def succeed_def tidy_refl split: option.splits bool.splits)
  show ?thesis
    using assms unfolding attempt_def
    by (auto split: option.splits sum.splits dest!: one intro: tidy_trans) (metis tidy_trans)+
qed

end
