(* ===== verification/Injector_Properties.thy ===== *)
theory Injector_Properties
  imports Injector_Summary_Properties Injector_Example Injector_Contract
begin

section \<open>The injector cleans up, and its verdict\<close>

text \<open>
  Every run that ends leaves no handle, library or block of memory behind, apart from the two handles
  of the server, and ends the server it has started.  Its exit status, its error text and its
  summary agree.
\<close>

subsection \<open>Cleaning up\<close>

text \<open>The ways a run can end.\<close>

lemma injector_cases:
  assumes main: "injector_main mc argv p = Some (n, message, s)"
  obtains (no_options) e where "injector_parse_options (mc_utf8 mc) argv = Inl e"
      "n = (if e \<noteq> [] then 64 else 0)" "message = e" "s = new_session p"
  | (not_started) opts where "injector_parse_options (mc_utf8 mc) argv = Inr opts"
      "n \<in> {1, 2}" "message \<noteq> []" "tidy (new_session p) s" "ij_owned s = []"
  | (session) opts m command cwd pid process main_thread s1 where
      "injector_parse_options (mc_utf8 mc) argv = Inr opts"
      "mc_create_process mc m (io_server_exe opts) command cwd = Some (pid, process, main_thread)"
      "tidy (new_session p) s1" "ij_owned s1 = []"
      "run_session mc opts pid process (open_handle main_thread (open_handle process s1)) = Some (n, message, s)"
proof (cases "injector_parse_options (mc_utf8 mc) argv")
  case (Inl e)
  then show ?thesis using main no_options by (cases "e = []") (auto simp: injector_main_def)
next
  case parsed: (Inr opts)
  let ?files = "attempt (must_file 1 (file_exists mc (io_server_exe opts))) (\<lambda>_.
    attempt (must_file 1 (file_exists mc (io_server_dll opts))) (\<lambda>_.
    attempt (must_file 1 (file_exists mc (io_host_dll opts))) (\<lambda>_.
    must_file 1 (file_exists mc (io_runtime_dll opts))))) (new_session p)"
  obtain r s1 where f: "?files = Some (r, s1)"
    using main by (auto simp: injector_main_def parsed split: option.splits)
  note s1 = files_first [OF f]
  have owned: "ij_owned (new_session p) = []" by (simp add: new_session_def)
  show ?thesis
  proof (cases r)
    case failed: (Inl e)
    obtain k msg where e: "e = (k, msg)" by fastforce
    have "injector_main mc argv p = Some (k, msg, s1)" using f by (simp add: injector_main_def parsed failed e)
    then show ?thesis using not_started [OF parsed] main s1 failed e owned by simp
  next
    case r: (Inr u)
    let ?exe = "io_server_exe opts"
    let ?command = "wide [CHR 0x22] @ ?exe @ wide (CHR 0x22 # '' '') @ io_server_args opts"
    show ?thesis
    proof (cases "mc_create_process mc (at s1) ?exe ?command (mc_parent_path mc ?exe)")
      case None
      then have "n = 2" "s = windows_error mc ''CreateProcessW failed'' (advance s1)" "message = ij_error s"
        using main f by (auto simp: injector_main_def parsed r Let_def)
      then show ?thesis
        using not_started [OF parsed] s1 owned by (simp add: windows_error_def windows_error_message_def)
    next
      case (Some x)
      obtain pid process main_thread where x: "x = (pid, process, main_thread)" by (cases x) auto
      have "run_session mc opts pid process (open_handle main_thread (open_handle process (advance s1))) =
          Some (n, message, s)"
        using main f Some by (simp add: injector_main_def parsed r x Let_def)
      moreover have "tidy (new_session p) (advance s1)" "ij_owned (advance s1) = []" using s1 owned by simp_all
      ultimately show ?thesis using session [OF parsed Some [unfolded x]] by blast
    qed
  qed
qed

text \<open>C6. Whatever Windows and the server answer, a run of the injector that ends has given back every library
  it loaded, has freed every block it allocated in the server, has closed every thread, snapshot and
  job handle, and has terminated the server if it started one.  The two handles of the server's
  process and main thread are the only ones it leaves open.\<close>
theorem injector_cleans_up:
  assumes "injector_main mc argv p = Some (n, message, s)"
  shows "library_refs (ij_process s) = library_refs p \<and> ij_blocks s = (\<lambda>a. 0) \<and> ij_owned s = [] \<and>
    ((n \<in> {1, 2, 64} \<or> injector_parse_options (mc_utf8 mc) argv = Inl []) \<and> ij_handles s = (\<lambda>h. 0) \<and> \<not> ij_killed s \<or>
     (\<exists>m command cwd pid process main_thread.
        mc_create_process mc m (io_server_exe (projr (injector_parse_options (mc_utf8 mc) argv))) command cwd =
          Some (pid, process, main_thread) \<and>
        ij_handles s = (\<lambda>h. of_bool (h = process) + of_bool (h = main_thread)) \<and>
        (ij_killed s \<longleftrightarrow> process \<noteq> nullptr)))"
  using assms
proof (cases rule: injector_cases)
  case (no_options e)
  then show ?thesis by (auto simp: new_session_def)
next
  case (not_started opts)
  then show ?thesis by (auto simp: tidy_def loose_blocks_def new_session_def fun_eq_iff)
next
  case (session opts m command cwd pid process main_thread s1)
  let ?s = "open_handle main_thread (open_handle process s1)"
  have "ij_handles ?s = (\<lambda>h. of_bool (h = process) + of_bool (h = main_thread))"
    "library_refs (ij_process ?s) = library_refs p" "loose_blocks ?s = (\<lambda>a. 0)" "\<not> ij_killed ?s"
    using session(3,4) by (auto simp: open_handle_def tidy_def loose_blocks_def new_session_def fun_eq_iff)
  with run_session_tidy [OF session(5)] have rest:
    "library_refs (ij_process s) = library_refs p" "ij_blocks s = (\<lambda>a. 0)" "ij_owned s = []"
    "ij_handles s = (\<lambda>h. of_bool (h = process) + of_bool (h = main_thread))"
    "ij_killed s \<longleftrightarrow> process \<noteq> nullptr" by simp_all
  have "mc_create_process mc m (io_server_exe (projr (injector_parse_options (mc_utf8 mc) argv))) command cwd =
      Some (pid, process, main_thread)"
    using session(1,2) by simp
  with rest show ?thesis by blast
qed

theorem injector_cleans_up_witness:
  "\<exists>s. injector_main sample_machine sample_argv sample_process = Some (0, [], s) \<and> ij_killed s \<and>
     ij_blocks s = (\<lambda>a. 0) \<and> ij_handles s = (\<lambda>h. of_bool (h = 100) + of_bool (h = 101))"
proof -
  obtain s where "injector_main sample_machine sample_argv sample_process = Some (0, [], s)" using sample_run by blast
  from this injector_cleans_up [OF this] show ?thesis by (auto simp: sample_parse sample_machine_def)
qed

subsection \<open>Every failure explains itself\<close>

text \<open>
  A failed attempt has an error text.  One corner is left to the machine: an export whose address in
  the server would be null.
\<close>

definition exports_sound :: "machine \<Rightarrow> bool" where
  "exports_sound mc \<longleftrightarrow>
     (\<forall>m pid h modules x l name. mc_toolhelp mc m pid = Some (h, modules) \<longrightarrow> x \<in> set modules \<longrightarrow> snd x \<noteq> 0 \<longrightarrow>
        get_proc_address (mc_windows mc) l name \<noteq> nullptr \<longrightarrow>
        snd x + (get_proc_address (mc_windows mc) l name - l) \<noteq> nullptr)"

definition explains :: "'a attempt \<Rightarrow> bool" where
  "explains f \<longleftrightarrow> (\<forall>s n message s'. f s = Some (Inl (n, message), s') \<longrightarrow> n \<in> {4..36} \<and> message \<noteq> [])"

definition errors_told :: "('a \<Rightarrow> bool) \<Rightarrow> (session \<Rightarrow> 'a \<times> session) \<Rightarrow> bool" where
  "errors_told failed f \<longleftrightarrow> (\<forall>s r s'. f s = (r, s') \<longrightarrow> failed r \<longrightarrow> ij_error s' \<noteq> [])"

lemma explains_attempt: "explains f \<Longrightarrow> (\<And>x. explains (g x)) \<Longrightarrow> explains (attempt f g)"
  by (fastforce simp: explains_def attempt_def split: option.splits sum.splits)

lemma explains_succeed: "explains (succeed x)"
  by (simp add: explains_def succeed_def)

lemma explains_must_have: "n \<in> {4..36} \<Longrightarrow> errors_told (\<lambda>a. a = nullptr) f \<Longrightarrow> explains (must_have n f)"
  by (auto simp: explains_def must_have_def leave_def succeed_def errors_told_def split: prod.splits if_splits)

lemma explains_must: "n \<in> {4..36} \<Longrightarrow> errors_told Not f \<Longrightarrow> explains (must n f)"
  by (auto simp: explains_def must_def leave_def succeed_def errors_told_def split: prod.splits if_splits)

lemma explains_append:
  "n \<in> {4..36} \<Longrightarrow> explains (must_file n (append_snapshot mc opts start phase))"
  by (auto simp: explains_def must_file_def append_snapshot_def append_text_file_def put_text_file_def leave_def
      succeed_def Let_def split: option.splits prod.splits if_splits)

lemma explains_check:
  "n \<in> {4..36} \<Longrightarrow> (\<And>s. e s \<noteq> []) \<Longrightarrow> explains (\<lambda>s. if b s then leave n (e s) s else succeed () s)"
  by (auto simp: explains_def leave_def succeed_def split: if_splits)

lemma explains_wait_step:
  "n \<in> {4..36} \<Longrightarrow> message \<noteq> [] \<Longrightarrow> explains (wait_module_step mc pid name timeout_ms store n message)"
  by (auto simp: explains_def wait_module_step_def leave_def succeed_def Let_def split: option.splits if_splits)

lemma windows_error_told [simp]: "ij_error (windows_error mc prefix s) \<noteq> []"
  by (simp add: windows_error_def windows_error_message_def)

lemma told_alloc: "errors_told (\<lambda>a. a = nullptr) (remote_alloc_write mc data)"
  by (auto simp: errors_told_def remote_alloc_write_def VirtualFreeEx_def Let_def split: if_splits)

lemma told_thread: "errors_told (\<lambda>r. r = None) (run_remote_thread mc g parameter timeout_ms)"
  by (auto simp: errors_told_def run_remote_thread_def Let_def split: if_splits)

lemma told_call: "errors_told Not (remote_call mc g parameter store)"
  using told_thread by (fastforce simp: errors_told_def remote_call_def split: prod.splits option.splits)

lemma module_base_listed:
  "module_base_in_process mc pid name s = (base, s') \<Longrightarrow> base \<noteq> 0 \<Longrightarrow>
   \<exists>m h modules x. mc_toolhelp mc m pid = Some (h, modules) \<and> x \<in> set modules \<and> snd x = base"
proof -
  assume m: "module_base_in_process mc pid name s = (base, s')" "base \<noteq> 0"
  then obtain h modules x where t: "mc_toolhelp mc (at s) pid = Some (h, modules)"
    "find (\<lambda>e. wcsicmp_eq (fst e) name) modules = Some x" "snd x = base"
    by (auto simp: module_base_in_process_def split: option.splits)
  then have "x \<in> set modules" by (auto simp: find_Some_iff)
  then show ?thesis using t by blast
qed

lemma told_exports:
  assumes "exports_sound mc"
  shows "errors_told (\<lambda>a. a = nullptr) (remote_export_address mc pid name path x)"
    "errors_told (\<lambda>a. a = nullptr) (remote_kernel32_export mc pid x)"
proof -
  have "base + (get_proc_address (mc_windows mc) l y - l) \<noteq> nullptr"
    if "module_base_in_process mc pid n s = (base, s')" "base \<noteq> 0" "get_proc_address (mc_windows mc) l y \<noteq> nullptr"
    for base l y n s s'
    using module_base_listed [OF that(1,2)] that assms unfolding exports_sound_def by blast
  then show "errors_told (\<lambda>a. a = nullptr) (remote_export_address mc pid name path x)"
    "errors_told (\<lambda>a. a = nullptr) (remote_kernel32_export mc pid x)"
    by (auto simp: errors_told_def remote_export_address_def remote_kernel32_export_def Let_def
        split: prod.splits if_splits)
qed

lemma told_refresh: "errors_told Not (refresh mc name what f buffer store_status status read store)"
  using told_call
  by (fastforce simp: errors_told_def refresh_def returned_def Let_def split: prod.splits if_splits option.splits)


lemma explains_refreshes: "n \<in> {4..36} \<Longrightarrow> explains (refresh_counters mc a n)" "n \<in> {4..36} \<Longrightarrow> explains (refresh_all mc a n)"
  unfolding refresh_counters_def refresh_all_def refresh_host_snapshot_def refresh_probe_snapshot_def
    refresh_walker_patrol_snapshot_def refresh_friendly_fire_snapshot_def refresh_target_probe_snapshot_def
  by (intro explains_attempt explains_must told_refresh; assumption)+

lemma explains_checked:
  "n \<in> {4..36} \<Longrightarrow> n + 1 \<in> {4..36} \<Longrightarrow> explains (call_checked mc name f parameter store status n)"
  unfolding call_checked_def
  by (intro explains_attempt explains_must told_call explains_check) (simp_all add: returned_def)

lemma explains_hold_turn: "explains (hold_turn mc opts process a start hold_ms poll_ms due)"
proof -
  have "explains (attempt (refresh_all mc a 32) (\<lambda>_. attempt (must_file 33 (append_snapshot mc opts start ''poll''))
      (\<lambda>_. succeed (Some (due + poll_ms)))))"
    by (intro explains_attempt explains_refreshes explains_append explains_succeed) simp_all
  then show ?thesis
    by (auto simp: explains_def hold_turn_def leave_def succeed_def Let_def split: prod.splits if_splits)
qed

lemma explains_hold_loop: "explains (hold_loop mc opts process a start hold_ms poll_ms due)"
proof -
  have "\<forall>n message. fst r = Inl (n, message) \<longrightarrow> n \<in> {4..36} \<and> message \<noteq> []"
    if "hold_loop mc opts process a start hold_ms poll_ms due s = Some r" for s r
    using that
  proof (induction rule: hold_loop.raw_induct [rotated, consumes 1])
    case (1 loop mc opts process a start hold_ms poll_ms due s r)
    obtain x s1 where t: "hold_turn mc opts process a start hold_ms poll_ms due s = Some (x, s1)"
      using 1(2) by (auto split: option.splits)
    show ?case
    proof (cases x)
      case (Inl e)
      then show ?thesis using 1(2) t explains_hold_turn unfolding explains_def by fastforce
    next
      case (Inr d)
      then show ?thesis using 1 t by (cases d) auto
    qed
  qed
  then show ?thesis by (fastforce simp: explains_def)
qed

lemma explains_session:
  assumes "exports_sound mc"
  shows "explains (session_body mc opts pid process)"
proof -
  note told = told_exports [OF assms]
  have "explains (load_host mc opts pid)"
    unfolding load_host_def remote_alloc_string_def
    by (intro explains_attempt explains_wait_step explains_must_have explains_must told_alloc told told_call) simp_all
  moreover have "explains (initialize_host mc opts pid)"
    unfolding initialize_host_def remote_alloc_string_def host_export_def Let_def
    by (intro explains_attempt explains_must_have explains_must told_alloc told told_call explains_check)
      (simp_all add: returned_def)
  moreover have "explains (access_host mc opts pid)"
    unfolding access_host_def host_export_def
    by (intro explains_attempt explains_must_have told_alloc told explains_succeed) simp_all
  moreover have "explains (mount_probes mc opts a)" for a
    unfolding mount_probes_def refresh_host_snapshot_def
    by (intro explains_attempt explains_must told_refresh explains_check explains_checked explains_refreshes) simp_all
  moreover have "explains (hold_session mc opts process a)" for a
  proof -
    have tail: "explains (attempt (must_file 30 (append_snapshot mc opts t ''initial'')) (\<lambda>_.
         attempt (hold_loop mc opts process a t h p p) (\<lambda>_.
         attempt (\<lambda>s. succeed () (if iv_completion_reason (ij_vars s) = ''completed''
                    then set_vars (iv_completion_reason_update (\<lambda>_. ''duration-elapsed'')) s else s)) (\<lambda>_.
         attempt (refresh_all mc a 34) (\<lambda>_.
         attempt (must_file 35 (append_snapshot mc opts t ''final'')) (\<lambda>_ s.
           if \<not> io_allow_recursive_callbacks opts \<and> snap_callback_recursive_entries (iv_host (ij_vars s)) \<noteq> 0
           then leave 36 ''unexpected recursive callback entries during hold'' s else succeed () s))))))" for t h p
    proof -
      have "explains (\<lambda>s. succeed () (g s))" for g by (simp add: explains_def succeed_def)
      then show ?thesis
        by (intro explains_attempt explains_append explains_hold_loop explains_refreshes explains_check) simp_all
    qed
    then show ?thesis by (simp add: explains_def hold_session_def Let_def split: prod.splits)
  qed
  ultimately show ?thesis
    unfolding session_body_def by (intro explains_attempt)
qed

subsection \<open>The verdict\<close>

text \<open>What a call that has succeeded has stored.\<close>

lemma attempt_ok:
  assumes "attempt f g s = Some (Inr y, s')"
  obtains x s1 where "f s = Some (Inr x, s1)" "g x s1 = Some (Inr y, s')"
  using assms by (auto simp: attempt_def split: option.splits sum.splits)

lemma must_ok: "must n f s = Some (Inr u, s') \<Longrightarrow> f s = (True, s')"
  by (auto simp: must_def leave_def succeed_def split: prod.splits if_splits)

lemma must_file_ok: "must_file n f s = Some (Inr u, s') \<Longrightarrow> f s = Some (True, s')"
  by (auto simp: must_file_def leave_def succeed_def split: option.splits prod.splits if_splits)

lemma thread_vars: "run_remote_thread mc g parameter timeout_ms s = (r, s') \<Longrightarrow> ij_vars s' = ij_vars s"
  by (auto simp: run_remote_thread_def windows_error_def open_handle_def CloseHandle_def Let_def split: if_splits)

lemma refresh_ok:
  assumes "refresh mc name what f buffer store_status status read store s = (True, s')"
  obtains c x where "ij_vars s' = store x (store_status c (ij_vars s))" "status (store_status c (ij_vars s)) = 0"
proof -
  obtain r s1 where t: "run_remote_thread mc f buffer 30000 s = (r, s1)" by fastforce
  then obtain c where r: "r = Some c" using assms by (cases r) (auto simp: refresh_def remote_call_def)
  let ?s2 = "set_vars (store_status c) s1"
  obtain x where "read (at ?s2) buffer = Some x" "status (ij_vars ?s2) = 0" "s' = set_vars (store x) (advance ?s2)"
    using assms by (auto simp: refresh_def remote_call_def t r Let_def split: if_splits option.splits)
  then show ?thesis using that thread_vars [OF t] by (simp add: set_vars_def)
qed

lemma refresh_all_ok:
  assumes "refresh_all mc a n s = Some (Inr u, s')"
  shows "iv_snapshot_status (ij_vars s') = 0 \<and> iv_probe_snapshot_status (ij_vars s') = 0 \<and>
    iv_walker_patrol_snapshot_status (ij_vars s') = 0 \<and> iv_friendly_fire_snapshot_status (ij_vars s') = 0 \<and>
    iv_target_probe_snapshot_status (ij_vars s') = 0 \<and>
    iv_completion_reason (ij_vars s') = iv_completion_reason (ij_vars s)"
  using assms unfolding refresh_all_def refresh_counters_def refresh_host_snapshot_def refresh_probe_snapshot_def
    refresh_walker_patrol_snapshot_def refresh_friendly_fire_snapshot_def refresh_target_probe_snapshot_def
  by (elim attempt_ok) (auto dest!: must_ok elim!: refresh_ok)

lemma put_vars:
  "put_text_file appending failure mc path content s = Some (b, s') \<Longrightarrow> ij_vars s' = ij_vars s"
  by (auto simp: put_text_file_def Let_def split: if_splits)

lemma append_vars: "append_snapshot mc opts start phase s = Some (b, s') \<Longrightarrow> ij_vars s' = ij_vars s"
  by (auto simp: append_snapshot_def append_text_file_def GetTickCount_def dest!: put_vars split: if_splits)

lemma hold_session_ok:
  assumes "hold_session mc opts process a s = Some (Inr u, s')"
  shows "iv_snapshot_status (ij_vars s') = 0 \<and> iv_probe_snapshot_status (ij_vars s') = 0 \<and>
    iv_walker_patrol_snapshot_status (ij_vars s') = 0 \<and> iv_friendly_fire_snapshot_status (ij_vars s') = 0 \<and>
    iv_target_probe_snapshot_status (ij_vars s') = 0 \<and> iv_completion_reason (ij_vars s') \<noteq> ''completed'' \<and>
    (io_allow_recursive_callbacks opts \<or> snap_callback_recursive_entries (iv_host (ij_vars s')) = 0)"
proof -
  show ?thesis
    using assms unfolding hold_session_def Let_def GetTickCount_def prod.case
    by (elim attempt_ok)
      (auto dest!: must_file_ok append_vars refresh_all_ok simp: succeed_def leave_def set_vars_def split: if_splits)
qed

lemma host_export_vars: "host_export mc opts pid name s = (a, s') \<Longrightarrow> ij_vars s' = ij_vars s \<and> ij_written s' = ij_written s"
  by (auto simp: host_export_def remote_export_address_def module_base_in_process_def windows_error_def
      open_handle_def CloseHandle_def Let_def split: prod.splits option.splits if_splits)

lemma thread_written: "run_remote_thread mc g parameter timeout_ms s = (r, s') \<Longrightarrow> ij_written s' = ij_written s"
  by (auto simp: run_remote_thread_def windows_error_def open_handle_def CloseHandle_def Let_def split: if_splits)

lemma end_server_record:
  "ij_vars (end_server mc opts pid process job s) = ij_vars s"
  "ij_written (end_server mc opts pid process job s) = ij_written s"
proof -
  obtain a sa where x: "host_export mc opts pid ''dwrt_host_shutdown'' s = (a, sa)" by fastforce
  obtain r sb where t: "run_remote_thread mc a nullptr 10000 sa = (r, sb)" by fastforce
  show "ij_vars (end_server mc opts pid process job s) = ij_vars s"
    "ij_written (end_server mc opts pid process job s) = ij_written s"
    using host_export_vars [OF x] thread_vars [OF t] thread_written [OF t]
    by (simp_all add: end_server_def x t CloseHandle_def Let_def)
qed

lemma finish_summary:
  assumes "finish mc opts pid process job n message s = Some (c, m, s')"
  shows "ij_vars s' = ij_vars s \<and>
    ((\<exists>k. \<not> mc_open mc k (io_injector_summary_path opts)) \<or>
     (\<exists>earlier. ij_written s' = earlier @ [(io_injector_summary_path opts, False,
        build_injector_summary (mc_utf8 mc) (mc_path_string mc) opts (ij_vars s)
          (if message = [] then iv_completion_reason (ij_vars s) else ''error'') message)]))"
  using assms
  by (auto simp: finish_def write_text_file_def put_text_file_def end_server_record Let_def
      split: option.splits if_splits)

lemma session_ok:
  "session_body mc opts pid process s = Some (Inr u, s') \<Longrightarrow>
   \<exists>a s1. hold_session mc opts process a s1 = Some (Inr u, s')"
  unfolding session_body_def by (elim attempt_ok) blast

text \<open>The verdict of a session, whatever it starts from.\<close>

lemma run_session_verdict:
  assumes run: "run_session mc opts pid process s0 = Some (n, message, s)" and sound: "exports_sound mc"
  shows "(n = 0 \<longleftrightarrow> message = []) \<and>
    (n = 0 \<longrightarrow>
       iv_snapshot_status (ij_vars s) = 0 \<and> iv_probe_snapshot_status (ij_vars s) = 0 \<and>
       iv_walker_patrol_snapshot_status (ij_vars s) = 0 \<and> iv_friendly_fire_snapshot_status (ij_vars s) = 0 \<and>
       iv_target_probe_snapshot_status (ij_vars s) = 0 \<and> iv_completion_reason (ij_vars s) \<noteq> ''completed'' \<and>
       (io_allow_recursive_callbacks opts \<or> snap_callback_recursive_entries (iv_host (ij_vars s)) = 0)) \<and>
    ((\<exists>k. \<not> mc_open mc k (io_injector_summary_path opts)) \<or>
     (\<exists>earlier. ij_written s = earlier @ [(io_injector_summary_path opts, False,
        build_injector_summary (mc_utf8 mc) (mc_path_string mc) opts (ij_vars s)
          (if n = 0 then iv_completion_reason (ij_vars s) else ''error'') message)]))"
proof -
  obtain job s3 where j: "assign_kill_on_close_job mc process s0 = (job, s3)" by fastforce
  let ?s3 = "set_vars (\<lambda>_. initial_injector_vars pid) s3"
  obtain x s4 where b: "session_body mc opts pid process ?s3 = Some (x, s4)"
    using run by (auto simp: run_session_def j Let_def split: option.splits)
  obtain k msg where x: "(case x of Inl e \<Rightarrow> e | Inr _ \<Rightarrow> (0, [])) = (k, msg)" by fastforce
  obtain s5 where f: "finish mc opts pid process job k msg s4 = Some (n, message, s5)" "s = release_allocations s5"
    using run by (auto simp: run_session_def j b x Let_def)
  have "(k = 0 \<longleftrightarrow> msg = []) \<and> (msg = [] \<longrightarrow> x = Inr ())"
    using explains_session [OF sound] b x unfolding explains_def by (cases x) fastforce+
  moreover have "iv_snapshot_status (ij_vars s4) = 0 \<and> iv_probe_snapshot_status (ij_vars s4) = 0 \<and>
     iv_walker_patrol_snapshot_status (ij_vars s4) = 0 \<and> iv_friendly_fire_snapshot_status (ij_vars s4) = 0 \<and>
     iv_target_probe_snapshot_status (ij_vars s4) = 0 \<and> iv_completion_reason (ij_vars s4) \<noteq> ''completed'' \<and>
     (io_allow_recursive_callbacks opts \<or> snap_callback_recursive_entries (iv_host (ij_vars s4)) = 0)"
    if "x = Inr ()"
    using session_ok [OF b [unfolded that]] hold_session_ok by blast
  moreover have "n = (if msg \<noteq> [] then k else 0)" "message = msg" using finish_effect [OF f(1)] by simp_all
  moreover have "ij_vars s = ij_vars s4" using finish_summary [OF f(1)] f(2) by (simp add: released)
  moreover note finish_summary [OF f(1)]
  ultimately show ?thesis using f(2) by (cases "msg = []") (auto simp: released)
qed

text \<open>C8. The exit status is 0 exactly when there is no error text.  A run with status 0 that had
  arguments to work with has read all five snapshots with status 0 at its end, has a reason for its
  end, and has seen no callback enter itself unless that was allowed.  A run that has started the server and ends has written, as
  the last file, the summary of exactly these variables with exactly this error text, unless its file could not be opened.\<close>
theorem injector_verdict:
  assumes main: "injector_main mc argv p = Some (n, message, s)"
    and sound: "exports_sound mc"
    and parsed: "injector_parse_options (mc_utf8 mc) argv = Inr opts"
  shows "(n = 0 \<longleftrightarrow> message = []) \<and>
    (n = 0 \<longrightarrow>
       iv_snapshot_status (ij_vars s) = 0 \<and> iv_probe_snapshot_status (ij_vars s) = 0 \<and>
       iv_walker_patrol_snapshot_status (ij_vars s) = 0 \<and> iv_friendly_fire_snapshot_status (ij_vars s) = 0 \<and>
       iv_target_probe_snapshot_status (ij_vars s) = 0 \<and> iv_completion_reason (ij_vars s) \<noteq> ''completed'' \<and>
       (io_allow_recursive_callbacks opts \<or> snap_callback_recursive_entries (iv_host (ij_vars s)) = 0)) \<and>
    (n \<notin> {1, 2} \<longrightarrow>
       (\<exists>k. \<not> mc_open mc k (io_injector_summary_path opts)) \<or>
       (\<exists>earlier. ij_written s = earlier @ [(io_injector_summary_path opts, False,
          build_injector_summary (mc_utf8 mc) (mc_path_string mc) opts (ij_vars s)
            (if n = 0 then iv_completion_reason (ij_vars s) else ''error'') message)]))"
  using main
proof (cases rule: injector_cases)
  case (not_started opts')
  then show ?thesis by auto
next
  case (session opts' m command cwd pid process main_thread s1)
  have o: "opts' = opts" using session(1) parsed by simp
  from run_session_verdict [OF session(5) [unfolded o] sound] show ?thesis by blast
qed (simp add: parsed)

theorem injector_verdict_witness:
  "\<exists>s. injector_main sample_machine sample_argv sample_process = Some (0, [], s) \<and>
     iv_snapshot_status (ij_vars s) = 0 \<and>
     (\<exists>earlier. ij_written s = earlier @ [(wide ''i.json'', False, build_injector_summary (\<lambda>s. ''text'') (\<lambda>s. ''path'')
        sample_options (ij_vars s) (iv_completion_reason (ij_vars s)) [])])"
proof -
  obtain s where s: "injector_main sample_machine sample_argv sample_process = Some (0, [], s)" using sample_run by blast
  have "exports_sound sample_machine"
    by (auto simp: exports_sound_def sample_windows_def)
  from injector_verdict [OF s this sample_parse] s show ?thesis
    by (auto simp: sample_machine_def sample_options_def)
qed

end
