(* ===== verification/Injector_Termination.thy ===== *)
theory Injector_Termination
  imports Injector_Example Injector_Contract
begin

section \<open>The injector comes to an end\<close>

text \<open>
  The two loops of the injector, waiting for a module and holding the session, look at a 32-bit
  clock.  Both end when the clock never runs backwards, no single call takes longer than \<open>D\<close>
  milliseconds, and the time to wait leaves room for one more turn below \<open>2 ^ 32\<close>: the elapsed time,
  a difference of clock readings modulo \<open>2 ^ 32\<close>, then passes the limit before it can wrap.
\<close>

definition steady :: "nat \<Rightarrow> machine \<Rightarrow> bool" where
  "steady D mc \<longleftrightarrow>
     (\<forall>m k d. mc_clock mc m k + d \<le> mc_clock mc (Suc m) (k + d) \<and> mc_clock mc (Suc m) (k + d) \<le> mc_clock mc m k + d + D)"

definition time :: "machine \<Rightarrow> session \<Rightarrow> nat" where
  "time mc s = mc_clock mc (at s) (ij_slept s)"

text \<open>At most \<open>n\<close> moments from one state to the other, and no sleep.\<close>

definition within :: "nat \<Rightarrow> session \<Rightarrow> session \<Rightarrow> bool" where
  "within n s s' \<longleftrightarrow> at s \<le> at s' \<and> at s' \<le> at s + n \<and> ij_slept s' = ij_slept s"

lemma clock_between:
  "steady D mc \<Longrightarrow> mc_clock mc m k \<le> mc_clock mc (m + n) k \<and> mc_clock mc (m + n) k \<le> mc_clock mc m k + n * D"
proof (induction n)
  case (Suc n)
  have "mc_clock mc (m + n) k \<le> mc_clock mc (Suc (m + n)) k \<and> mc_clock mc (Suc (m + n)) k \<le> mc_clock mc (m + n) k + D"
    using Suc.prems unfolding steady_def by (metis add.right_neutral)
  then show ?case using Suc by simp
qed simp

lemma time_within: "steady D mc \<Longrightarrow> within n s s' \<Longrightarrow> time mc s \<le> time mc s' \<and> time mc s' \<le> time mc s + n * D"
proof -
  assume c: "steady D mc" and w: "within n s s'"
  then have "at s' = at s + (at s' - at s)" and d: "(at s' - at s) * D \<le> n * D" by (auto simp: within_def)
  then show ?thesis
    using clock_between [OF c, of "at s" "ij_slept s" "at s' - at s"] w le_trans [OF _ add_left_mono [OF d]]
    by (simp add: time_def within_def)
qed

lemma time_sleep: "steady D mc \<Longrightarrow> time mc s + d \<le> time mc (Sleep d s) \<and> time mc (Sleep d s) \<le> time mc s + d + D"
  by (simp add: steady_def time_def Sleep_def at_def advance_def tick_def)

lemma at_simps [simp]:
  "at (advance s) = at s + 1" "at (set_vars f s) = at s" "at (s\<lparr>ij_error := e\<rparr>) = at s" "at (s\<lparr>ij_written := w\<rparr>) = at s"
  "at (open_handle h s) = at s" "at (CloseHandle h s) = at s + 1" "at (windows_error mc x s) = at s"
  "at (s\<lparr>ij_threads := t\<rparr>) = at s" "ij_slept (set_vars f s) = ij_slept s" "ij_slept (open_handle h s) = ij_slept s"
  "ij_slept (CloseHandle h s) = ij_slept s" "ij_slept (windows_error mc x s) = ij_slept s"
  by (simp_all add: at_def advance_def tick_def set_vars_def open_handle_def CloseHandle_def windows_error_def)

lemma within_trans: "within m s s' \<Longrightarrow> within n s' s'' \<Longrightarrow> within (m + n) s s''"
  by (auto simp: within_def)

lemma within_mono: "within m s s' \<Longrightarrow> m \<le> n \<Longrightarrow> within n s s'"
  by (auto simp: within_def)

subsection \<open>Waiting for a module\<close>

lemma module_base_within: "module_base_in_process mc pid name s = (base, s') \<Longrightarrow> within 2 s s'"
  by (auto simp: module_base_in_process_def within_def split: option.splits)

text \<open>Elapsed time is read exactly below the wrap-around.\<close>

lemma elapsed_exact:
  "T \<le> t \<Longrightarrow> t - T < 2 ^ 32 \<Longrightarrow> (of_nat t :: u32) - of_nat T < limit \<longleftrightarrow> t - T < unat limit"
proof -
  assume t: "T \<le> t" "t - T < 2 ^ 32"
  then have "(of_nat t :: u32) - of_nat T = of_nat (t - T)" by (simp only: of_nat_diff)
  moreover have "unat (of_nat (t - T) :: u32) = t - T" using t by (simp only: unat_of_nat) simp
  ultimately show ?thesis by (simp only: word_less_nat_alt)
qed

lemma wait_loop_ends:
  assumes c: "steady D mc" and room: "unat timeout_ms + 250 + 4 * D < 2 ^ 32"
  shows "T \<le> time mc s \<Longrightarrow> time mc s - T \<le> unat timeout_ms + 250 + 4 * D \<Longrightarrow>
    \<exists>r. wait_loop mc pid name (of_nat T) timeout_ms s = Some r"
proof (induction "unat timeout_ms - (time mc s - T)" arbitrary: s rule: less_induct)
  case less
  obtain base s1 where b: "module_base_in_process mc pid name (advance s) = (base, s1)" by fastforce
  have tick: "GetTickCount mc s = (of_nat (time mc s), advance s)" by (simp add: GetTickCount_def time_def)
  have "(of_nat (time mc s) :: u32) - of_nat T < timeout_ms \<longleftrightarrow> time mc s - T < unat timeout_ms"
    using less.prems room by (intro elapsed_exact) simp_all
  note loop = wait_loop.simps [of mc pid name "of_nat T" timeout_ms s, unfolded tick Let_def prod.case b this]
  show ?case
  proof (cases "time mc s - T < unat timeout_ms \<and> base = 0")
    case False
    then show ?thesis using loop by auto
  next
    case True
    have "within 3 s s1"
      using module_base_within [OF b] within_trans [of 1 s "advance s" 2 s1] by (simp add: within_def)
    from time_within [OF c this] time_sleep [OF c, of s1 250]
    have t: "time mc s + 250 \<le> time mc (Sleep 250 s1)" "time mc (Sleep 250 s1) \<le> time mc s + 250 + 4 * D" by simp_all
    then have "\<exists>r. wait_loop mc pid name (of_nat T) timeout_ms (Sleep 250 s1) = Some r"
      using True less.prems by (intro less.hyps) linarith+
    then show ?thesis using loop True by simp
  qed
qed

lemma wait_for_module_ends:
  assumes c: "steady D mc" and room: "unat timeout_ms + 250 + 4 * D < 2 ^ 32"
  shows "\<exists>r. wait_for_module mc pid name timeout_ms s = Some r"
proof -
  have "within 1 s (advance s)" by (simp add: within_def)
  from time_within [OF c this] have "\<exists>r. wait_loop mc pid name (of_nat (time mc s)) timeout_ms (advance s) = Some r"
    by (intro wait_loop_ends [OF c room]) linarith+
  then show ?thesis by (simp add: wait_for_module_def GetTickCount_def time_def)
qed

subsection \<open>Holding the session\<close>

text \<open>A part that ends, with at most \<open>n\<close> moments and no sleep.\<close>

definition ends :: "nat \<Rightarrow> (session \<Rightarrow> ('a \<times> session) option) \<Rightarrow> bool" where
  "ends n f \<longleftrightarrow> (\<forall>s. \<exists>r s'. f s = Some (r, s') \<and> within n s s')"

definition costs :: "nat \<Rightarrow> (session \<Rightarrow> 'a \<times> session) \<Rightarrow> bool" where
  "costs n f \<longleftrightarrow> (\<forall>s r s'. f s = (r, s') \<longrightarrow> within n s s')"

lemma ends_attempt:
  assumes f: "ends m f" and g: "\<And>x. ends n (g x)"
  shows "ends (m + n) (attempt f g)"
  unfolding ends_def
proof
  fix s
  obtain r s1 where 1: "f s = Some (r, s1)" "within m s s1" using f unfolding ends_def by blast
  show "\<exists>r s'. attempt f g s = Some (r, s') \<and> within (m + n) s s'"
  proof (cases r)
    case (Inl e)
    then show ?thesis using 1 within_mono [OF 1(2)] by (simp add: attempt_def)
  next
    case (Inr x)
    obtain r2 s2 where "g x s1 = Some (r2, s2)" "within n s1 s2" using g unfolding ends_def by blast
    then show ?thesis using 1 Inr within_trans [OF 1(2)] by (simp add: attempt_def)
  qed
qed

lemma ends_must: "costs n f \<Longrightarrow> ends n (must k f)"
  by (fastforce simp: ends_def costs_def must_def leave_def succeed_def split: prod.splits)

lemma ends_must_file: "ends n f \<Longrightarrow> ends n (must_file k f)"
  unfolding ends_def must_file_def leave_def succeed_def by (fastforce split: option.splits)

lemma ends_succeed: "ends 0 (succeed x)"
  by (simp add: ends_def succeed_def within_def)

lemma call_costs: "costs 4 (remote_call mc f x store)"
  by (auto simp: costs_def remote_call_def run_remote_thread_def within_def Let_def split: prod.splits option.splits if_splits)

lemma refresh_costs: "costs 5 (refresh mc name what f buffer store_status status read store)"
  unfolding costs_def
proof (intro allI impI)
  fix s r s' assume r: "refresh mc name what f buffer store_status status read store s = (r, s')"
  obtain ran s1 where c: "remote_call mc f buffer store_status s = (ran, s1)" by fastforce
  then have "within 4 s s1" using call_costs unfolding costs_def by blast
  moreover have "within 1 s1 s'"
    using r c by (auto simp: refresh_def within_def Let_def split: if_splits option.splits)
  ultimately have "within (4 + 1) s s'" by (rule within_trans)
  then show "within 5 s s'" by simp
qed

lemma refresh_all_ends: "ends 25 (refresh_all mc a n)"
proof -
  have "ends (5 + (5 + (5 + (5 + 5)))) (refresh_all mc a n)"
    unfolding refresh_all_def refresh_counters_def refresh_host_snapshot_def refresh_probe_snapshot_def
      refresh_walker_patrol_snapshot_def refresh_friendly_fire_snapshot_def refresh_target_probe_snapshot_def
    by (intro ends_attempt ends_must refresh_costs)
  then show ?thesis by simp
qed

definition directories_made :: "machine \<Rightarrow> bool" where
  "directories_made mc \<longleftrightarrow> (\<forall>m path. mc_create_directories mc m path)"

lemma put_ends: "directories_made mc \<Longrightarrow> ends 2 (put_text_file appending failure mc path content)"
  by (auto simp: directories_made_def ends_def put_text_file_def within_def Let_def)

lemma append_ends: "directories_made mc \<Longrightarrow> ends 3 (append_snapshot mc opts start phase)"
  unfolding ends_def
proof
  assume d: "directories_made mc"
  fix s
  show "\<exists>r s'. append_snapshot mc opts start phase s = Some (r, s') \<and> within 3 s s'"
  proof (cases "io_snapshot_jsonl_path opts = []")
    case False
    let ?f = "append_text_file mc (io_snapshot_jsonl_path opts)
      (build_snapshot_jsonl phase (fst (GetTickCount mc s) - start) (ij_vars (advance s)))"
    obtain r s' where "?f (advance s) = Some (r, s')" "within 2 (advance s) s'"
      using put_ends [OF d] unfolding append_text_file_def ends_def by blast
    moreover have "within 1 s (advance s)" by (simp add: within_def)
    ultimately have "?f (advance s) = Some (r, s')" "within (1 + 2) s s'" using within_trans by blast+
    then have "?f (advance s) = Some (r, s')" "within 3 s s'" by (auto elim: within_mono)
    then show ?thesis using False by (simp add: append_snapshot_def GetTickCount_def)
  next
    case True
    then have "append_snapshot mc opts start phase s = Some (True, s)" by (simp add: append_snapshot_def)
    then show ?thesis by (auto simp: within_def)
  qed
qed

lemma hold_turn_ends:
  assumes "directories_made mc"
  shows "ends 32 (hold_turn mc opts process a start hold_ms poll_ms due)"
  unfolding ends_def
proof
  fix s
  let ?poll = "attempt (refresh_all mc a 32) (\<lambda>_. attempt (must_file 33 (append_snapshot mc opts start ''poll''))
      (\<lambda>_. succeed (Some (due + poll_ms))))"
  define s3 where "s3 = (if io_stop_file_path opts \<noteq> [] then advance (advance (advance s)) else advance (advance s))"
  have "ends (25 + (3 + 0)) ?poll"
    by (intro ends_attempt refresh_all_ends ends_must_file append_ends assms ends_succeed)
  then obtain r s4 where poll: "?poll (advance s3) = Some (r, s4)" "within 28 (advance s3) s4"
    unfolding ends_def by force
  have s3: "within 4 s (advance s3)" "within 4 s s3" by (simp_all add: s3_def within_def)
  have "within 32 s s4" using within_trans [OF s3(1) poll(2)] by simp
  moreover have "within 32 s (advance s3)" "within 32 s s3" using s3 by (auto elim: within_mono)
  moreover have "within 32 s (advance s)" "within 32 s (advance (advance s))" "within n s' (set_vars f s'') = within n s' s''"
    for n s' s'' f by (simp_all add: within_def)
  ultimately show "\<exists>r s'. hold_turn mc opts process a start hold_ms poll_ms due s = Some (r, s') \<and> within 32 s s'"
    using poll(1)
    by (auto simp: hold_turn_def GetTickCount_def s3_def leave_def succeed_def Let_def simp del: at_simps)
qed

lemma hold_loop_ends:
  assumes c: "steady D mc" and d: "directories_made mc" and room: "unat hold_ms + 250 + 33 * D < 2 ^ 32"
  shows "T \<le> time mc s \<Longrightarrow> time mc s - T \<le> unat hold_ms + 250 + 33 * D \<Longrightarrow>
    \<exists>r. hold_loop mc opts process a (of_nat T) hold_ms poll_ms due s = Some r"
proof (induction "unat hold_ms - (time mc s - T)" arbitrary: s due rule: less_induct)
  case less
  obtain x s1 where t: "hold_turn mc opts process a (of_nat T) hold_ms poll_ms due s = Some (x, s1)" "within 32 s s1"
    using hold_turn_ends [OF d] unfolding ends_def by blast
  have loop: "hold_loop mc opts process a (of_nat T) hold_ms poll_ms due s =
      (case x of Inl e \<Rightarrow> Some (Inl e, s1) | Inr None \<Rightarrow> Some (Inr (), s1)
       | Inr (Some n) \<Rightarrow> hold_loop mc opts process a (of_nat T) hold_ms poll_ms n (Sleep 250 s1))"
    by (subst hold_loop.simps) (simp add: t)
  show ?case
  proof (cases "\<exists>n. x = Inr (Some n)")
    case False
    then show ?thesis using loop by (auto split: sum.splits option.splits)
  next
    case True
    then obtain n where x: "x = Inr (Some n)" by blast
    have "(of_nat (time mc s) :: u32) - of_nat T < hold_ms \<longleftrightarrow> time mc s - T < unat hold_ms"
      using less.prems room by (intro elapsed_exact) simp_all
    then have e: "time mc s - T < unat hold_ms"
      using t(1) x by (auto simp: hold_turn_def GetTickCount_def time_def succeed_def split: if_splits)
    from time_within [OF c t(2)] time_sleep [OF c, of s1 250]
    have "time mc s + 250 \<le> time mc (Sleep 250 s1)" "time mc (Sleep 250 s1) \<le> time mc s + 250 + 33 * D" by simp_all
    then have "\<exists>r. hold_loop mc opts process a (of_nat T) hold_ms poll_ms n (Sleep 250 s1) = Some r"
      using e less.prems by (intro less.hyps) linarith+
    then show ?thesis using loop x by simp
  qed
qed

subsection \<open>The program\<close>

text \<open>A part that ends, however long it takes.\<close>

definition returns :: "(session \<Rightarrow> ('a \<times> session) option) \<Rightarrow> bool" where
  "returns f \<longleftrightarrow> (\<forall>s. f s \<noteq> None)"

lemma returns_attempt: "returns f \<Longrightarrow> (\<And>x. returns (g x)) \<Longrightarrow> returns (attempt f g)"
  by (auto simp: returns_def attempt_def split: option.splits sum.splits)

lemma returns_steps:
  "returns (must_have n h)" "returns (must n b)" "returns (succeed x)" "returns (leave n m)"
  "returns (\<lambda>s. succeed () (g s))" "returns (\<lambda>s. if p s then leave n (e s) s else succeed () s)"
  by (auto simp: returns_def must_have_def must_def succeed_def leave_def split: prod.splits)

lemma returns_must_file: "returns f \<Longrightarrow> returns (must_file n f)"
  by (auto simp: returns_def must_file_def succeed_def leave_def split: option.splits)

lemma returns_ends: "ends n f \<Longrightarrow> returns f"
  by (force simp: returns_def ends_def)

lemma returns_wait:
  assumes "steady D mc" "unat timeout_ms + 250 + 4 * D < 2 ^ 32"
  shows "returns (wait_module_step mc pid name timeout_ms store n message)"
  using wait_for_module_ends [OF assms, of pid name]
  by (fastforce simp: returns_def wait_module_step_def leave_def succeed_def Let_def split: option.splits)

lemma returns_hold:
  assumes c: "steady D mc" and d: "directories_made mc"
    and room: "unat (io_hold_seconds opts * 1000) + 250 + 33 * D < 2 ^ 32"
  shows "returns (hold_session mc opts process a)"
  unfolding returns_def
proof
  fix s
  let ?hold = "io_hold_seconds opts * 1000"
  define poll where "poll = (if io_poll_seconds opts = 0 then 0 else io_poll_seconds opts * 1000)"
  let ?T = "of_nat (time mc s) :: u32"
  let ?rest = "attempt (\<lambda>s. succeed () (if iv_completion_reason (ij_vars s) = ''completed''
      then set_vars (iv_completion_reason_update (\<lambda>_. ''duration-elapsed'')) s else s)) (\<lambda>_.
    attempt (refresh_all mc a 34) (\<lambda>_.
    attempt (must_file 35 (append_snapshot mc opts ?T ''final'')) (\<lambda>_ s.
      if \<not> io_allow_recursive_callbacks opts \<and> snap_callback_recursive_entries (iv_host (ij_vars s)) \<noteq> 0
      then leave 36 ''unexpected recursive callback entries during hold'' s else succeed () s)))"
  have e: "returns ?rest"
    by (intro returns_attempt returns_steps returns_ends [OF refresh_all_ends] returns_must_file
        returns_ends [OF append_ends [OF d]])
  have "ends 3 (must_file 30 (append_snapshot mc opts ?T ''initial''))" by (intro ends_must_file append_ends d)
  then obtain r s1 where 1: "must_file 30 (append_snapshot mc opts ?T ''initial'') (advance s) = Some (r, s1)"
    "within 3 (advance s) s1"
    unfolding ends_def by blast
  have "within 1 s (advance s)" by (simp add: within_def)
  from time_within [OF c within_trans [OF this 1(2)]]
  have "time mc s \<le> time mc s1" "time mc s1 \<le> time mc s + 4 * D" by simp_all
  then have "\<exists>r. hold_loop mc opts process a ?T ?hold poll poll s1 = Some r"
    by (intro hold_loop_ends [OF c d room]) linarith+
  then obtain y s2 where "hold_loop mc opts process a ?T ?hold poll poll s1 = Some (y, s2)" by auto
  moreover have "?rest s2 \<noteq> None" using e unfolding returns_def by blast
  moreover have "GetTickCount mc s = (?T, advance s)" by (simp add: GetTickCount_def time_def)
  ultimately show "hold_session mc opts process a s \<noteq> None"
    using 1(1) by (simp add: hold_session_def poll_def [symmetric] attempt_def [of "must_file 30 f" for f]
        attempt_def [of "hold_loop mc opts process a b h p q" for b h p q] split: sum.splits)
qed

lemma returns_session:
  assumes c: "steady D mc" and d: "directories_made mc" and D: "D \<le> 100000000"
    and room: "unat (io_hold_seconds opts * 1000) + 250 + 33 * D < 2 ^ 32"
      "unat (io_wait_server_module_seconds opts * 1000) + 250 + 4 * D < 2 ^ 32"
  shows "returns (session_body mc opts pid process)"
proof -
  have "returns (load_host mc opts pid)"
    unfolding load_host_def
    by (intro returns_attempt returns_steps returns_wait [OF c]) (use room D in simp_all)
  moreover have "returns (initialize_host mc opts pid)"
    unfolding initialize_host_def Let_def by (intro returns_attempt returns_steps)
  moreover have "returns (access_host mc opts pid)"
    unfolding access_host_def by (intro returns_attempt returns_steps)
  moreover have "returns (mount_probes mc opts a)" for a
    unfolding mount_probes_def call_checked_def refresh_counters_def by (intro returns_attempt returns_steps)
  ultimately show ?thesis
    unfolding session_body_def by (intro returns_attempt returns_hold [OF c d room(1)])
qed

text \<open>C7. The injector comes to an end, whatever Windows and the server answer, if the file system raises no
  exception, the clock does not run backwards and no single call takes longer than \<open>D\<close> milliseconds, and the
  two times to wait, taken modulo \<open>2 ^ 32\<close> as the code computes them, leave room for one more turn of their
  loop.\<close>
theorem injector_returns:
  assumes "steady D mc" "D \<le> 100000000" "directories_made mc"
    and "\<And>m path. mc_exists mc m path \<noteq> None"
    and "\<And>opts. injector_parse_options (mc_utf8 mc) argv = Inr opts \<Longrightarrow>
      unat (io_hold_seconds opts * 1000) + 250 + 33 * D < 2 ^ 32 \<and>
      unat (io_wait_server_module_seconds opts * 1000) + 250 + 4 * D < 2 ^ 32"
  shows "\<exists>n message s. injector_main mc argv p = Some (n, message, s)"
proof (cases "injector_parse_options (mc_utf8 mc) argv")
  case (Inl e)
  then show ?thesis by (simp add: injector_main_def)
next
  case (Inr opts)
  have exists: "returns (file_exists mc path)" for path
    using assms(4) by (fastforce simp: returns_def file_exists_def split: option.splits bool.splits)
  let ?files = "attempt (must_file 1 (file_exists mc (io_server_exe opts))) (\<lambda>_.
    attempt (must_file 1 (file_exists mc (io_server_dll opts))) (\<lambda>_.
    attempt (must_file 1 (file_exists mc (io_host_dll opts))) (\<lambda>_.
    must_file 1 (file_exists mc (io_runtime_dll opts)))))"
  have "returns ?files" by (intro returns_attempt returns_must_file exists)
  then obtain r s1 where f: "?files (new_session p) = Some (r, s1)" unfolding returns_def by fast
  have run: "run_session mc opts pid process s \<noteq> None" for pid process s
  proof -
    obtain job s2 where j: "assign_kill_on_close_job mc process s = (job, s2)" by fastforce
    have "returns (session_body mc opts pid process)"
      using assms(5) [OF Inr] by (intro returns_session [OF assms(1,3,2)]) simp_all
    then obtain x s3 where "session_body mc opts pid process (set_vars (\<lambda>_. initial_injector_vars pid) s2) = Some (x, s3)"
      unfolding returns_def by fast
    moreover have "finish mc opts pid process job k msg s3 \<noteq> None" for k msg
      using assms(3) by (simp add: finish_def write_text_file_def put_text_file_def directories_made_def Let_def)
    ultimately show ?thesis by (auto simp: run_session_def j split: prod.splits)
  qed
  show ?thesis
    using f run
    by (fastforce simp: injector_main_def Inr Let_def split: sum.splits option.splits prod.splits)
qed

theorem injector_returns_witness:
  "\<exists>n message s. injector_main sample_machine sample_argv sample_process = Some (n, message, s)"
proof (rule injector_returns)
  show "steady 5000 sample_machine" "directories_made sample_machine" "(5000 :: nat) \<le> 100000000"
    "mc_exists sample_machine m path \<noteq> None" for m path
    by (simp_all add: steady_def directories_made_def sample_machine_def)
  show "unat (io_hold_seconds opts * 1000) + 250 + 33 * 5000 < 2 ^ 32 \<and>
      unat (io_wait_server_module_seconds opts * 1000) + 250 + 4 * 5000 < 2 ^ 32"
    if "injector_parse_options (mc_utf8 sample_machine) sample_argv = Inr opts" for opts
  proof -
    have "opts = sample_options" using that sample_parse by simp
    then have "io_hold_seconds opts = 5" "io_wait_server_module_seconds opts = 60"
      by (simp_all add: sample_options_def default_injector_options_def)
    then show ?thesis by simp
  qed
qed

end
