(* ===== verification/Injector_Host.thy ===== *)
theory Injector_Host
  imports Bootstrap_Smoke Injector_Session
begin

section \<open>The injector and the host\<close>

text \<open>
  What the host's \<open>dwrt_host_initialize\<close> promises and what the injector checks on the first snapshot.
  The injector asks for a runtime and for the required signatures, never for the mapped file, so a host
  that accepts stands on the live module; its gates then hold, whatever the callbacks have done in
  between, unless one has entered itself.
\<close>

text \<open>Resolution with the injector's flags: status 0 leaves what the gates look for.\<close>

definition resolved_live :: "host_config \<Rightarrow> 'r host \<Rightarrow> 'r host \<Rightarrow> bool" where
  "resolved_live config h h' \<longleftrightarrow>
     testpoints h' = testpoints h \<and>
     hs_runtime_loaded (state h') = hs_runtime_loaded (state h) \<and>
     hs_runtime_probe_ok (state h') = hs_runtime_probe_ok (state h) \<and>
     hs_used_mapped_file_fallback (state h') = hs_used_mapped_file_fallback (state h) \<and>
     hs_used_live_server_module (state h') \<and> hs_signatures_checked (state h') \<and>
     hs_signature_required_failures (state h') = 0 \<and>
     (if cfg_flags config AND 16 \<noteq> 0
      then hs_hook_install_attempts (state h') = 7 \<and> hs_hooks_installed (state h') = 7 \<and> hs_hook_install_failures (state h') = 0
      else hs_hook_install_attempts (state h') = hs_hook_install_attempts (state h) \<and>
        hs_hooks_installed (state h') = hs_hooks_installed (state h))"

lemma resolve_in_module_live:
  assumes r: "resolve_in_module env config view nullptr h = Some (0, h')"
    and d: "length (env_detours env) = 7" and n: "hs_hooks (state h) = []"
    and f: "cfg_flags config AND 2 \<noteq> 0" and live: "hs_used_live_server_module (state h)"
  shows "resolved_live config h h'"
proof -
  let ?f = "cfg_flags config"
  obtain sigs failures where s: "resolve_all (code_view env (code h)) view ?f default_probe_signatures ([], 0) = Some (sigs, failures)"
    and none: "failures = 0"
    using r f by (auto simp: resolve_in_module_def Let_def split: option.splits if_splits prod.splits)
  let ?hs = "(state h)\<lparr>hs_signatures := sigs, hs_signature_required_failures := 0, hs_signatures_checked := True\<rparr>"
  show ?thesis
  proof (cases "?f AND 16 = 0")
    case True
    then have "h' = h\<lparr>state := ?hs\<rparr>" using r s none by (simp add: resolve_in_module_def free_fallback_def Let_def)
    then show ?thesis using live True by (simp add: resolved_live_def)
  next
    case False
    obtain st hs orig t where i: "install_probe_hooks (env_hooks env) view (env_detours env) (?hs, originals h, code h) =
        (st, hs, orig, t)" by (metis prod_cases4)
    have h': "h' = h\<lparr>state := hs, originals := orig, code := t\<rparr>" "st = 0"
      using r s none False by (auto simp: resolve_in_module_def i Let_def free_fallback_def split: if_splits)
    have e: "hs_hooks ?hs = []" using n by simp
    note install = install_probe_hooks_cases [OF i d e]
    have "hs_hook_install_attempts hs = 7" "hs_runtime_loaded hs = hs_runtime_loaded (state h)"
      "hs_runtime_probe_ok hs = hs_runtime_probe_ok (state h)"
      "hs_used_mapped_file_fallback hs = hs_used_mapped_file_fallback (state h)"
      "hs_used_live_server_module hs = hs_used_live_server_module (state h)" "hs_signatures_checked hs"
      "hs_signature_required_failures hs = 0"
      by (subst install(1), simp)+
    then show ?thesis using install(2) h' live False by (simp add: resolved_live_def hooks_installed_whole_def)
  qed
qed

lemma resolve_live:
  assumes r: "resolve_server_signatures env config h = Some (0, h')"
    and d: "length (env_detours env) = 7" and n: "hs_hooks (state h) = []"
    and f: "cfg_flags config AND 2 \<noteq> 0" "cfg_flags config AND 4 = 0"
  shows "resolved_live config h h'"
proof -
  obtain m p where g: "GetModuleHandleW (env_windows env) (config_string_or (cfg_server_module_name config) ''server.dll'')
      (win h) = (m, p)" by fastforce
  let ?live = "h\<lparr>win := p, state := (state h)\<lparr>hs_used_live_server_module := True\<rparr>\<rparr>"
  have "m \<noteq> nullptr" using r f(2) by (auto simp: resolve_server_signatures_def g Let_def)
  then obtain path where "view_and_resolve env config m nullptr path ?live = Some (0, h')"
    using r by (auto simp: resolve_server_signatures_def g Let_def)
  then obtain view where "resolve_in_module env config view nullptr ?live = Some (0, h')"
    by (auto simp: view_and_resolve_def split: option.splits sum.splits)
  from resolve_in_module_live [OF this d _ f(1)] n show ?thesis by (simp add: resolved_live_def)
qed

lemma start_runtime_frame:
  "start_runtime env config h = (status, h') \<Longrightarrow>
   hs_hooks (state h') = hs_hooks (state h) \<and> hs_hook_install_attempts (state h') = hs_hook_install_attempts (state h) \<and>
   hs_hooks_installed (state h') = hs_hooks_installed (state h) \<and>
   hs_used_mapped_file_fallback (state h') = hs_used_mapped_file_fallback (state h)"
  by (auto simp: start_runtime_def Let_def split: if_splits prod.splits)

lemma injector_flag_bits:
  "injector_flags opts AND 1 \<noteq> 0" "injector_flags opts AND 2 \<noteq> 0" "injector_flags opts AND 4 = 0"
  "injector_flags opts AND 16 \<noteq> 0 \<longleftrightarrow> io_install_probe_hooks opts"
  by (simp_all add: injector_flags_def)

lemma injected_host:
  assumes i: "dwrt_host_initialize env (Some config) (new_host w t p) = Some (0, h')"
    and d: "length (env_detours env) = 7" and f: "cfg_flags config = injector_flags opts"
  shows "hs_initialized (state h') \<and> hs_runtime_loaded (state h') \<and> hs_runtime_probe_ok (state h') \<and>
    hs_used_live_server_module (state h') \<and> \<not> hs_used_mapped_file_fallback (state h') \<and>
    hs_signatures_checked (state h') \<and> hs_signature_required_failures (state h') = 0 \<and>
    (if io_install_probe_hooks opts
     then hs_hook_install_attempts (state h') = 7 \<and> hs_hooks_installed (state h') = 7 \<and> hs_hook_install_failures (state h') = 0
     else hs_hook_install_attempts (state h') = 0 \<and> hs_hooks_installed (state h') = 0) \<and>
    testpoints h' = record_initialize_call zero_testpoints"
  using i
proof (cases rule: initialize_cases)
  case (accepted c h1 rs h2 more)
  have c: "c = config" using accepted(2) by simp
  have "rs = 0"
  proof (rule ccontr)
    assume "rs \<noteq> 0"
    then have "dwrt_host_initialize env (Some config) (new_host w t p) = Some (rs, h2)"
      using accepted(1,3,4,5) injector_flag_bits(2) [of opts]
      by (simp add: dwrt_host_initialize_def valid_config_def c f Let_def counted_def [symmetric])
    then show False using i \<open>rs \<noteq> 0\<close> by simp
  qed
  note start = start_runtime_frame [OF accepted(4)] start_runtime_testpoints [OF accepted(4)]
  have n: "hs_hooks (state h1) = []" using start by simp
  have "resolved_live config h1 h2"
    using resolve_live [OF accepted(5) [unfolded \<open>rs = 0\<close> c] d n] injector_flag_bits [of opts] f by simp
  moreover have "hs_runtime_loaded (state h1) \<and> hs_runtime_probe_ok (state h1)"
    using start_runtime_required [OF accepted(4)] injector_flag_bits(1) [of opts] by (simp add: c f)
  ultimately show ?thesis
    using start injector_flag_bits(4) [of opts]
    by (auto simp: accepted(7) resolved_live_def f clear_status_def counted_def new_host_def)
qed simp_all

lemma callbacks_keep:
  "g_initialize_calls (run_callback c s) = g_initialize_calls s \<and>
   g_initialize_reentrant_rejects (run_callback c s) = g_initialize_reentrant_rejects s"
  "g_initialize_calls (run_callbacks cs s) = g_initialize_calls s \<and>
   g_initialize_reentrant_rejects (run_callbacks cs s) = g_initialize_reentrant_rejects s"
proof (induction c s and cs s rule: run_callback_run_callbacks.induct)
  case (1 pid inner s)
  then show ?case
    by (simp add: callback_leave_def enter_as_after_calls after_calls_def)
qed simp_all

text \<open>C9. A new host that accepts the injector's flags passes the injector's gates: with status 0 the first
  snapshot is accepted exactly when no callback was entered inside another, whatever callbacks have run in between; with
  any other status but 9, a summary that could not be written, the host stays uninitialized.\<close>
theorem injected_host_passes_gates:
  assumes "length (env_detours env) = 7" and "cfg_flags config = injector_flags opts"
  shows "case dwrt_host_initialize env (Some config) (new_host w t p) of
      None \<Rightarrow> True
    | Some (status, h) \<Rightarrow>
        if status = 0
        then \<forall>cs. live_server_gates opts (the (snd (dwrt_host_snapshot (Some zero_host_snapshot)
               (h\<lparr>testpoints := run_callbacks cs (testpoints h)\<rparr>)))) \<longleftrightarrow>
               g_callback_recursive_entries (run_callbacks cs (testpoints h)) = 0
        else hs_initialized (state h) = (status = 9)"
proof (cases "dwrt_host_initialize env (Some config) (new_host w t p)")
  case (Some r)
  obtain status h where r: "r = (status, h)" by (cases r)
  note i = Some [unfolded r]
  show ?thesis
  proof (cases "status = 0")
    case True
    note injected_host [OF i [unfolded True] assms]
    then show ?thesis
      by (cases "io_install_probe_hooks opts") (simp_all add: i True live_server_gates_def dwrt_host_snapshot_def take_testpoint_snapshot_def callbacks_keep Let_def
          record_initialize_call_def zero_testpoints_def)
  next
    case False
    note inv = initialize_inv(2,3) [OF i new_host_inv assms(1)]
    have "hs_initialized (state h) = (status = 9)"
      using i
    proof (cases rule: initialize_cases)
      case (no_runtime c)
      then show ?thesis using inv(1) start_runtime_status [OF no_runtime(5)] by auto
    next
      case (unresolved c h1)
      then show ?thesis using inv(1) resolve_status [OF unresolved(5)] by auto
    qed (use inv(2) False in \<open>auto simp: new_host_def\<close>)
    then show ?thesis using i False by simp
  qed
qed simp

theorem injected_host_passes_gates_witness:
  "let opts = default_injector_options\<lparr>io_install_probe_hooks := True\<rparr> in
   \<exists>h. dwrt_host_initialize (live_env live_windows) (Some (live_config (injector_flags opts))) live_host = Some (0, h) \<and>
     hs_hooks (state h) \<noteq> [] \<and>
     live_server_gates opts (the (snd (dwrt_host_snapshot (Some zero_host_snapshot) h)))"
proof -
  let ?opts = "default_injector_options\<lparr>io_install_probe_hooks := True\<rparr>"
  let ?c = "live_config (injector_flags ?opts)"
  obtain h where i: "dwrt_host_initialize (live_env live_windows) (Some ?c) live_host = Some (0, h)"
    "hooks_as_asked ?c h" using live_host_initialize by blast
  have "length (env_detours (live_env live_windows)) = 7" "cfg_flags ?c = injector_flags ?opts" by simp_all
  from injected_host_passes_gates [OF this, of live_windows live_text "example_process Map.empty"] i(1)
  have "live_server_gates ?opts (the (snd (dwrt_host_snapshot (Some zero_host_snapshot)
      (h\<lparr>testpoints := run_callbacks [] (testpoints h)\<rparr>)))) \<longleftrightarrow>
      g_callback_recursive_entries (run_callbacks [] (testpoints h)) = 0"
    unfolding live_host_def by (auto dest!: spec [of _ "[]"])
  moreover have "g_callback_recursive_entries (testpoints h) = 0"
    using injected_host [OF i(1) [unfolded live_host_def] _ \<open>cfg_flags ?c = _\<close>]
    by (simp add: record_initialize_call_def zero_testpoints_def)
  moreover have "hs_hooks (state h) \<noteq> []"
    using i(2) by (auto simp: hooks_as_asked_def injector_flag_bits probe_hooks_def)
  ultimately show ?thesis using i(1) by (auto simp: Let_def)
qed

end
