(* ===== verification/Host_Restart.thy ===== *)
theory Host_Restart
  imports Host_Api_Properties
begin

section \<open>Starting again\<close>

text \<open>
  What \<open>dwrt_host_shutdown\<close> leaves is as good as a host that has just been loaded.  Two hosts that
  differ only in what they have counted, in their experiments, test points and files, cannot be told
  apart by \<open>dwrt_host_initialize\<close>: it gives both the same status.
\<close>

subsection \<open>The counters of the shim do not matter\<close>

definition shim_like :: "shadow_shim \<Rightarrow> shadow_shim \<Rightarrow> bool" where
  "shim_like s s' \<longleftrightarrow> shim_module s = shim_module s' \<and> shim_runtime s = shim_runtime s' \<and>
     timing_enabled s = timing_enabled s' \<and> bindings s = bindings s'"

text \<open>Results that agree in everything but the counters.\<close>

definition alike :: "'a \<times> shadow_shim \<times> 'r process \<Rightarrow> 'a \<times> shadow_shim \<times> 'r process \<Rightarrow> bool" where
  "alike r r' \<longleftrightarrow> fst r = fst r' \<and> shim_like (fst (snd r)) (fst (snd r')) \<and> snd (snd r) = snd (snd r')"

lemma alikeE:
  assumes "alike r r'" "r = (x, s, p)"
  obtains s' where "r' = (x, s', p)" "shim_like s s'"
  using assms by (cases r') (auto simp: alike_def)

lemma forward_route_alike:
  "shim_like s s' \<Longrightarrow> alike (forward_route w g call cnt dur s p) (forward_route w g call cnt dur s' p)"
  by (auto simp: forward_route_def shim_like_def alike_def Let_def split: prod.splits)

lemma probes_alike:
  assumes "shim_like s s'"
  shows "alike (probe_record_damage w c e s p) (probe_record_damage w c e s' p)"
    "alike (probe_record_entity_input w c io s p) (probe_record_entity_input w c io s' p)"
  using assms forward_route_alike [OF assms]
  by (simp_all add: probe_record_damage_def probe_record_entity_input_def shim_like_def)

lemma process_alike:
  assumes "shim_like s s'"
  shows "set_probe_mount_mask c b s p = set_probe_mount_mask c b s' p"
    "probe_reset_counters c s p = probe_reset_counters c s' p"
    "probe_snapshot c out s p = probe_snapshot c out s' p"
    "abi_version c s = abi_version c s'"
  using assms
  by (simp_all add: set_probe_mount_mask_def probe_reset_counters_def probe_snapshot_def abi_version_def shim_like_def Let_def)

lemma unload_alike:
  assumes "shim_like s s'"
  shows "shim_like (fst (unload c s p)) (fst (unload c s' p))" "snd (unload c s p) = snd (unload c s' p)"
  using assms by (auto simp: unload_def destroy_runtime_def shim_like_def Let_def)

lemma load_alike:
  assumes "shim_like s s'" "load w c path e s p = (ok, e', s1, p1)"
  shows "\<exists>s1'. load w c path e s' p = (ok, e', s1', p1) \<and> shim_like s1 s1'"
proof -
  obtain u q where u: "unload c s p = (u, q)" by fastforce
  then obtain u' where u': "unload c s' p = (u', q)" "shim_like u u'"
    using unload_alike [OF assms(1), of c p] by (cases "unload c s' p") auto
  then have "bindings u = bindings u'" by (simp add: shim_like_def)
  then show ?thesis
    using assms(2) u u' by (auto simp: load_def Let_def split: prod.splits if_splits) (auto simp: shim_like_def)
qed

lemma create_alike:
  assumes "shim_like s s'" "create_runtime c e s p = (ok, e', s1, p1)"
  shows "\<exists>s1'. create_runtime c e s' p = (ok, e', s1', p1) \<and> shim_like s1 s1'"
  using assms
  by (auto simp: create_runtime_def destroy_runtime_def shim_like_def Let_def split: prod.splits if_splits)

lemma exercise_alike:
  assumes "shim_like s s'" "exercise_probe_abi w c s p = (ok, s1, p1)"
  shows "\<exists>s1'. exercise_probe_abi w c s' p = (ok, s1', p1) \<and> shim_like s1 s1'"
proof -
  obtain x1 s1 p1 where c1: "probe_record_damage w c zero_damage s p = (x1, s1, p1)" by (metis prod_cases3)
  obtain s1' where d1: "probe_record_damage w c zero_damage s' p = (x1, s1', p1)" "shim_like s1 s1'"
    using alikeE [OF probes_alike(1) [OF assms(1)] c1] .
  let ?p2 = "set_probe_mount_mask c 3 s1 p1"
  obtain x3 s3 p3 where c3: "probe_record_damage w c zero_damage s1 ?p2 = (x3, s3, p3)" by (metis prod_cases3)
  obtain s3' where d3: "probe_record_damage w c zero_damage s1' ?p2 = (x3, s3', p3)" "shim_like s3 s3'"
    using alikeE [OF probes_alike(1) [OF d1(2)] c3] .
  obtain x4 s4 p4 where c4: "probe_record_entity_input w c zero_entity_io s3 p3 = (x4, s4, p4)" by (metis prod_cases3)
  obtain s4' where d4: "probe_record_entity_input w c zero_entity_io s3' p3 = (x4, s4', p4)" "shim_like s4 s4'"
    using alikeE [OF probes_alike(2) [OF d3(2)] c4] .
  have m: "set_probe_mount_mask c 3 s1' p1 = ?p2" by (rule process_alike(1) [OF d1(2), symmetric])
  show ?thesis
    using assms(2) d4(2)
    by (simp add: exercise_probe_abi_def c1 d1(1) c3 d3(1) c4 d4(1) m process_alike [OF d4(2)] Let_def split: prod.splits)
qed

subsection \<open>Two hosts that cannot be told apart\<close>

definition host_like :: "'r host \<Rightarrow> 'r host \<Rightarrow> bool" where
  "host_like h h' \<longleftrightarrow> win h = win h' \<and> code h = code h' \<and> originals h = originals h' \<and>
     shim_like (hs_runtime (state h)) (hs_runtime (state h')) \<and>
     state h' = (state h)\<lparr>hs_runtime := hs_runtime (state h')\<rparr>"

lemma host_likeE:
  assumes "host_like h h'"
  obtains s where "state h' = (state h)\<lparr>hs_runtime := s\<rparr>" "shim_like (hs_runtime (state h)) s"
    "win h' = win h" "code h' = code h" "originals h' = originals h"
  using assms unfolding host_like_def by metis

lemma start_runtime_alike:
  assumes "host_like h h'" "start_runtime env config h = (status, h1)"
  shows "\<exists>h1'. start_runtime env config h' = (status, h1') \<and> host_like h1 h1'"
proof -
  let ?w = "env_windows env" and ?c = "env_runtime env"
  obtain s' where h': "state h' = (state h)\<lparr>hs_runtime := s'\<rparr>" "shim_like (hs_runtime (state h)) s'"
    "win h' = win h" "code h' = code h" "originals h' = originals h"
    using host_likeE [OF assms(1)] .
  show ?thesis
  proof (cases "given (cfg_runtime_path config)")
    case False
    then show ?thesis using assms(2) h' by (auto simp: start_runtime_def host_like_def Let_def split: if_splits)
  next
    case given: True
    obtain ok e1 s1 p1 where l: "load ?w ?c (the (cfg_runtime_path config)) (hs_last_error (state h))
        (hs_runtime (state h)) (win h) = (ok, e1, s1, p1)" by (metis prod_cases4)
    obtain s1' where l': "load ?w ?c (the (cfg_runtime_path config)) (hs_last_error (state h)) s' (win h) = (ok, e1, s1', p1)"
      "shim_like s1 s1'" using load_alike [OF h'(2) l] by blast
    obtain made e2 s2 p2 where c: "create_runtime ?c e1 s1 p1 = (made, e2, s2, p2)" by (metis prod_cases4)
    obtain s2' where c': "create_runtime ?c e1 s1' p1 = (made, e2, s2', p2)" "shim_like s2 s2'"
      using create_alike [OF l'(2) c] by blast
    obtain good s3 p3 where x: "exercise_probe_abi ?w ?c s2 p2 = (good, s3, p3)" by (metis prod_cases3)
    obtain s3' where x': "exercise_probe_abi ?w ?c s2' p2 = (good, s3', p3)" "shim_like s3 s3'"
      using exercise_alike [OF c'(2) x] by blast
    have v: "abi_version ?c s1' = abi_version ?c s1" by (rule process_alike(4) [OF l'(2), symmetric])
    show ?thesis
      using assms(2) given h' l'(2) c'(2) x'(2)
      by (auto simp: start_runtime_def l l'(1) c c'(1) x x'(1) v host_like_def Let_def split: if_splits)
  qed
qed

lemma install_one_runtime:
  "install_one henv view p (hs\<lparr>hs_runtime := s\<rparr>, orig, t) =
     (case install_one henv view p (hs, orig, t) of (hs', orig', t') \<Rightarrow> (hs'\<lparr>hs_runtime := s\<rparr>, orig', t'))"
proof -
  have "resolved_target_address view (hs\<lparr>hs_runtime := s\<rparr>) = resolved_target_address view hs"
    using resolved_target_signatures [of "hs\<lparr>hs_runtime := s\<rparr>" hs view] by simp
  then show ?thesis by (simp add: install_one_def Let_def split: prod.splits)
qed

lemma install_fold_runtime:
  "fold (install_one henv view) ps (hs\<lparr>hs_runtime := s\<rparr>, orig, t) =
     (case fold (install_one henv view) ps (hs, orig, t) of (hs', orig', t') \<Rightarrow> (hs'\<lparr>hs_runtime := s\<rparr>, orig', t'))"
  by (induction ps arbitrary: hs orig t) (auto simp: install_one_runtime split: prod.splits)

lemma install_probe_hooks_runtime:
  "install_probe_hooks henv view ds (hs\<lparr>hs_runtime := s\<rparr>, orig, t) =
     (case install_probe_hooks henv view ds (hs, orig, t) of (status, hs', orig', t') \<Rightarrow>
        (status, hs'\<lparr>hs_runtime := s\<rparr>, orig', t'))"
proof -
  obtain t0 where r: "hooks_reset (hs_hooks hs) t = ([], t0)" by (metis hooks_reset_fst prod.collapse)
  let ?hs = "hs\<lparr>hs_hook_install_attempts := 7, hs_hook_install_failures := 0, hs_hooks_installed := 0, hs_hooks := []\<rparr>"
  obtain hs1 o1 t1 where f: "fold (install_one henv view) (zip probe_hooks ds) (?hs, no_originals, t0) = (hs1, o1, t1)"
    by (metis prod_cases3)
  let ?hs' = "hs\<lparr>hs_runtime := s, hs_hook_install_attempts := 7, hs_hook_install_failures := 0, hs_hooks_installed := 0, hs_hooks := []\<rparr>"
  have swap: "?hs' = ?hs\<lparr>hs_runtime := s\<rparr>" by simp
  have f': "fold (install_one henv view) (zip probe_hooks ds) (?hs', no_originals, t0) = (hs1\<lparr>hs_runtime := s\<rparr>, o1, t1)"
    unfolding swap install_fold_runtime f by simp
  show ?thesis
    by (simp add: install_probe_hooks_def r f f' Let_def split: prod.splits)
qed

text \<open>Outcomes that agree in the status and leave hosts that cannot be told apart.\<close>

definition outcome_like :: "(u32 \<times> 'r host) option \<Rightarrow> (u32 \<times> 'r host) option \<Rightarrow> bool" where
  "outcome_like r r' \<longleftrightarrow>
     (case (r, r') of
        (None, None) \<Rightarrow> True
      | (Some (status, h), Some (status', h')) \<Rightarrow> status = status' \<and> host_like h h'
      | _ \<Rightarrow> False)"

lemma outcome_like_simps [simp]:
  "outcome_like None None" "outcome_like (Some (a, h)) (Some (b, h')) \<longleftrightarrow> a = b \<and> host_like h h'"
  by (simp_all add: outcome_like_def)

lemma host_like_status:
  assumes "host_like h h'" "\<And>hs s. f (hs\<lparr>hs_runtime := s\<rparr>) = (f hs)\<lparr>hs_runtime := s\<rparr>" "\<And>hs. hs_runtime (f hs) = hs_runtime hs"
  shows "host_like (h\<lparr>state := f (state h)\<rparr>) (h'\<lparr>state := f (state h')\<rparr>)"
proof -
  obtain s where h': "state h' = (state h)\<lparr>hs_runtime := s\<rparr>" "shim_like (hs_runtime (state h)) s"
    "win h' = win h" "code h' = code h" "originals h' = originals h"
    using host_likeE [OF assms(1)] .
  then show ?thesis by (simp add: host_like_def assms(2,3))
qed

lemma host_like_win: "host_like h h' \<Longrightarrow> host_like (h\<lparr>win := p\<rparr>) (h'\<lparr>win := p\<rparr>)"
  by (simp add: host_like_def)

lemma free_fallback_alike: "host_like h h' \<Longrightarrow> host_like (free_fallback f h) (free_fallback f h')"
  by (simp add: free_fallback_def host_like_def)

lemma resolve_in_module_alike:
  assumes "host_like h h'"
  shows "outcome_like (resolve_in_module env config view f h) (resolve_in_module env config view f h')"
proof (cases "resolve_all (code_view env (code h)) view (cfg_flags config) default_probe_signatures ([], 0)")
  case None
  then show ?thesis using assms by (simp add: resolve_in_module_def host_like_def)
next
  case (Some r)
  obtain sigs failures where r: "r = (sigs, failures)" by fastforce
  obtain s where h': "state h' = (state h)\<lparr>hs_runtime := s\<rparr>" "shim_like (hs_runtime (state h)) s"
    "win h' = win h" "code h' = code h" "originals h' = originals h"
    using host_likeE [OF assms] .
  let ?hs = "(state h)\<lparr>hs_signatures := sigs, hs_signature_required_failures := failures, hs_signatures_checked := True\<rparr>"
  obtain st hs1 o1 t1 where i: "install_probe_hooks (env_hooks env) view (env_detours env) (?hs, originals h, code h) = (st, hs1, o1, t1)"
    by (metis prod_cases4)
  let ?hs' = "(state h)\<lparr>hs_runtime := s, hs_signatures := sigs, hs_signature_required_failures := failures, hs_signatures_checked := True\<rparr>"
  have "?hs' = ?hs\<lparr>hs_runtime := s\<rparr>" by simp
  then have i': "install_probe_hooks (env_hooks env) view (env_detours env) (?hs', originals h, code h) =
      (st, hs1\<lparr>hs_runtime := s\<rparr>, o1, t1)"
    by (simp only: install_probe_hooks_runtime i prod.case)
  have "hs1 = hs1\<lparr>hs_runtime := hs_runtime (state h)\<rparr>"
    using install_probe_hooks_runtime [of "env_hooks env" view "env_detours env" "hs_runtime (state h)" ?hs "originals h" "code h"]
    by (simp add: i)
  from arg_cong [OF this, of hs_runtime] have rt: "hs_runtime hs1 = hs_runtime (state h)" by simp
  show ?thesis
    using h'(2) i i' by (auto simp: resolve_in_module_def Some r h' Let_def host_like_def free_fallback_def rt)
qed

lemma view_and_resolve_alike:
  assumes "host_like h h'"
  shows "outcome_like (view_and_resolve env config handle f path h) (view_and_resolve env config handle f path h')"
proof -
  have "code h' = code h" using assms by (simp add: host_like_def)
  then show ?thesis
    using resolve_in_module_alike [OF assms]
      free_fallback_alike [OF host_like_status [OF assms, of "\<lambda>hs. hs\<lparr>hs_last_error := _\<rparr>"]]
    by (auto simp: view_and_resolve_def split: option.splits sum.splits)
qed

lemma resolve_server_signatures_alike:
  assumes "host_like h h'"
  shows "outcome_like (resolve_server_signatures env config h) (resolve_server_signatures env config h')"
proof -
  have w: "win h' = win h" using assms by (simp add: host_like_def)
  have step: "host_like (h\<lparr>win := p, state := f (state h)\<rparr>) (h'\<lparr>win := p, state := f (state h')\<rparr>)"
    if "\<And>hs s. f (hs\<lparr>hs_runtime := s\<rparr>) = (f hs)\<lparr>hs_runtime := s\<rparr>" "\<And>hs. hs_runtime (f hs) = hs_runtime hs" for f p
    using host_like_status [OF host_like_win [OF assms], of f p] that by simp
  show ?thesis
    using view_and_resolve_alike [OF step [of "\<lambda>hs. hs\<lparr>hs_used_live_server_module := True\<rparr>"]]
      view_and_resolve_alike [OF step [of "\<lambda>hs. hs\<lparr>hs_used_mapped_file_fallback := True\<rparr>"]]
      step [of "\<lambda>hs. hs\<lparr>hs_last_error := _\<rparr>"]
    by (auto simp: resolve_server_signatures_def w Let_def split: prod.splits)
qed

subsection \<open>Initializing two hosts\<close>

text \<open>Only the fields that survive the preparation matter.\<close>

lemma initialize_same_status:
  assumes "\<not> hs_initialized (state h)" "\<not> hs_initialized (state h')"
    and "host_like (prepare env (counted h)) (prepare env (counted h'))"
  shows "map_option fst (dwrt_host_initialize env config h) = map_option fst (dwrt_host_initialize env config h')"
proof (cases "valid_config config")
  case False
  then show ?thesis
    by (auto simp: dwrt_host_initialize_def valid_config_def Let_def split: option.splits)
next
  case True
  then obtain c where c: "config = Some c" "cfg_abi_version c = DWRT_HOST_ABI_VERSION" by (auto simp: valid_config_def)
  obtain st h1 where s: "start_runtime env c (prepare env (counted h)) = (st, h1)" by fastforce
  obtain h1' where s': "start_runtime env c (prepare env (counted h')) = (st, h1')" and l: "host_like h1 h1'"
    using start_runtime_alike [OF assms(3) s] by blast
  have r: "outcome_like (resolve_server_signatures env c h1) (resolve_server_signatures env c h1')"
    by (rule resolve_server_signatures_alike [OF l])
  have summary: "map_option fst (write_summary_if_requested env c k) = map_option fst (write_summary_if_requested env c k')"
    if "win k = win k'" for k k'
    using that by (simp add: write_summary_if_requested_def Let_def)
  have i: "dwrt_host_initialize env config k =
      (if st \<noteq> 0 then Some (st, k1)
       else case resolve_server_signatures env c k1 of
           None \<Rightarrow> None
         | Some (rs, k2) \<Rightarrow> if rs \<noteq> 0 \<and> cfg_flags c AND 2 \<noteq> 0 then Some (rs, k2)
             else write_summary_if_requested env c (k2\<lparr>state := (state k2)\<lparr>hs_initialized := True\<rparr>\<rparr>))"
    if "start_runtime env c (prepare env (counted k)) = (st, k1)" "\<not> hs_initialized (state k)" for k k1
    using that by (simp add: dwrt_host_initialize_def counted_def [symmetric] c Let_def)
  show ?thesis
  proof (cases "resolve_server_signatures env c h1")
    case None
    then have "resolve_server_signatures env c h1' = None"
      using r by (simp add: outcome_like_def split: option.splits prod.splits)
    then show ?thesis by (simp add: i [OF s assms(1)] i [OF s' assms(2)] None)
  next
    case (Some x)
    obtain rs h2 where x: "x = (rs, h2)" by fastforce
    obtain h2' where x': "resolve_server_signatures env c h1' = Some (rs, h2')" "host_like h2 h2'"
      using r by (auto simp: Some x outcome_like_def split: option.splits prod.splits)
    have "win h2 = win h2'" using x'(2) by (simp add: host_like_def)
    then show ?thesis
      using summary [of "h2\<lparr>state := (state h2)\<lparr>hs_initialized := True\<rparr>\<rparr>"
          "h2'\<lparr>state := (state h2')\<lparr>hs_initialized := True\<rparr>\<rparr>"]
      by (simp add: i [OF s assms(1)] i [OF s' assms(2)] Some x x')
  qed
qed

subsection \<open>The host never times its probes\<close>

lemma install_keeps_runtime:
  assumes "install_probe_hooks henv view ds (hs, orig, t) = (status, hs', orig', t')"
  shows "hs_runtime hs' = hs_runtime hs"
proof -
  have "hs' = hs'\<lparr>hs_runtime := hs_runtime hs\<rparr>"
    using install_probe_hooks_runtime [of henv view ds "hs_runtime hs" hs orig t] by (simp add: assms)
  from arg_cong [OF this, of hs_runtime] show ?thesis by simp
qed

lemma resolve_keeps_runtime:
  assumes "resolve_server_signatures env config h = Some (status, h')"
  shows "hs_runtime (state h') = hs_runtime (state h)"
proof -
  have m: "resolve_in_module env config view f k = Some (st, k') \<Longrightarrow> hs_runtime (state k') = hs_runtime (state k)"
    for view f k st k'
    by (auto simp: resolve_in_module_def Let_def dest: install_keeps_runtime split: option.splits if_splits prod.splits)
  have v: "view_and_resolve env config handle f path k = Some (st, k') \<Longrightarrow> hs_runtime (state k') = hs_runtime (state k)"
    for handle f path k st k'
    by (auto simp: view_and_resolve_def dest: m split: option.splits sum.splits)
  show ?thesis
    using assms by (auto simp: resolve_server_signatures_def Let_def dest: v split: if_splits prod.splits)
qed

lemma timing_kept:
  "timing_enabled (fst (unload c s p)) = timing_enabled s"
  "load w c path e s p = (ok, e', s', p') \<Longrightarrow> timing_enabled s' = timing_enabled s"
  "create_runtime c e s p = (ok, e', s', p') \<Longrightarrow> timing_enabled s' = timing_enabled s"
proof -
  show u: "timing_enabled (fst (unload c s p)) = timing_enabled s" for c s p
    by (simp add: unload_def destroy_runtime_def Let_def)
  obtain s0 p0 where "unload c s p = (s0, p0)" by fastforce
  then show "load w c path e s p = (ok, e', s', p') \<Longrightarrow> timing_enabled s' = timing_enabled s"
    using u [of c s p] by (auto simp: load_def Let_def split: prod.splits if_splits)
  show "create_runtime c e s p = (ok, e', s', p') \<Longrightarrow> timing_enabled s' = timing_enabled s"
    by (auto simp: create_runtime_def destroy_runtime_def Let_def split: prod.splits if_splits)
qed

lemma exercise_timing:
  assumes "exercise_probe_abi w c s p = (ok, s', p')"
  shows "timing_enabled s' = timing_enabled s"
proof -
  have fwd: "timing_enabled s' = timing_enabled s"
    if "forwards f" "f s p = (x, s', p')" for f s p x s' p'
    using that unfolding forwards_def by blast
  show ?thesis
    using assms
    by (auto simp: exercise_probe_abi_def Let_def split: prod.splits dest!: fwd [OF probes_forward(1)] fwd [OF probes_forward(2)])
qed

lemma start_runtime_timing:
  assumes "start_runtime env config h = (status, h')"
  shows "timing_enabled (hs_runtime (state h')) = timing_enabled (hs_runtime (state h))"
  using assms
  by (auto simp: start_runtime_def Let_def split: if_splits prod.splits dest!: timing_kept(2,3) exercise_timing)

definition untimed :: "'r host \<Rightarrow> bool" where
  "untimed h \<longleftrightarrow> \<not> timing_enabled (hs_runtime (state h))"

lemma initialize_untimed:
  assumes "dwrt_host_initialize env config h = Some (status, h')"
  shows "untimed h' = untimed h"
  using assms
proof (cases rule: initialize_cases)
  case (no_runtime c)
  then show ?thesis using start_runtime_timing by (fastforce simp: untimed_def)
next
  case (unresolved c h1)
  then show ?thesis using start_runtime_timing [OF unresolved(4)] resolve_keeps_runtime [OF unresolved(5)] by (simp add: untimed_def)
next
  case (accepted c h1 rs h2 more)
  then show ?thesis using start_runtime_timing [OF accepted(4)] resolve_keeps_runtime [OF accepted(5)] by (simp add: untimed_def)
qed (simp_all add: untimed_def counted_def)

lemma host_step_untimed:
  assumes "host_step env e w = Some w'"
  shows "untimed (the_host w') = untimed (the_host w)"
proof (cases e)
  case (Initialize config)
  then show ?thesis using assms by (auto dest: initialize_untimed)
next
  case (Engine_Runs eng c)
  then show ?thesis using engine_run_inv [OF assms [unfolded Engine_Runs]] by (simp add: same_hooks_def untimed_def)
next
  case Shutdown
  let ?h = "the_host w"
  obtain s p where "unload (env_runtime env) (hs_runtime (state ?h)) (win ?h) = (s, p)" by fastforce
  then show ?thesis
    using assms timing_kept(1) [of "env_runtime env" "hs_runtime (state ?h)" "win ?h"] Shutdown
    by (auto simp: dwrt_host_shutdown_def untimed_def Let_def)
qed (use assms in \<open>auto simp: dwrt_host_set_probe_mount_mask_def dwrt_host_reset_probe_counters_def untimed_def split: if_splits\<close>)

lemma host_run_untimed: "host_run es w = Some w' \<Longrightarrow> untimed (the_host w') = untimed (the_host w)"
  by (induction es w rule: host_run.induct) (auto dest: host_step_untimed split: option.splits)

subsection \<open>Properties\<close>

lemma prepared_state:
  "state (prepare env h) = (state (new_host w t p))\<lparr>hs_runtime := hs_runtime (state h), hs_initialized := hs_initialized (state h)\<rparr>"
  by (cases "state h") (simp add: clear_status_def new_host_def)

lemma shutdown_like_new:
  assumes "host_inv refs h" "untimed h" "code_kept t h"
  shows "host_like (prepare env (counted (snd (dwrt_host_shutdown env0 h))))
    (prepare env (counted (new_host wn t (win (snd (dwrt_host_shutdown env0 h))))))"
proof -
  let ?h = "snd (dwrt_host_shutdown env0 h)"
  note down = shutdown_inv(2,3) [OF assms(1), of env0]
  obtain s p where u: "unload (env_runtime env0) (hs_runtime (state h)) (win h) = (s, p)" by fastforce
  have rt: "hs_runtime (state ?h) = s" by (simp add: dwrt_host_shutdown_def u Let_def)
  have "shim_inv (hs_runtime (state h))" using assms(1) by (simp add: host_inv_def shim_ok_def)
  from unload_inv(2-4) [OF this, of "env_runtime env0" "win h", unfolded u] timing_kept(1) [of "env_runtime env0" "hs_runtime (state h)" "win h", unfolded u] assms(2)
  have like: "shim_like s (new_shadow_shim wn)"
    by (simp add: shim_like_def new_shadow_shim_def untimed_def)
  have t: "snd (hooks_reset (hs_hooks (state ?h)) (code ?h)) = t"
    using down(1) shutdown_inv(5) [OF assms(1,3), of env0] by (simp add: no_hooks_def)
  show ?thesis
    using like t down(2) rt prepared_state [of env "counted ?h" wn t p]
    by (simp add: host_like_def prepared_state [of env _ wn t p] new_host_def) (simp add: clear_status_def)
qed

text \<open>C39. The host can always be started again: after any run in which hooks are only asked for with
  signatures required and no drift allowed, and SafetyHook replaces no more bytes than it saved and
  moves at most 28, shutting the host down leaves one that initializes like one that has just been
  loaded in the same process: with any configuration and in any environment both return the same status,
  and if one does not return neither does the other.\<close>
theorem restart_like_new:
  assumes "fresh t refs w" "host_run es w = Some w'" "\<forall>x\<in>set es. event_ok x \<and> event_strict x"
  shows "let h = snd (dwrt_host_shutdown env0 (the_host w')) in
    map_option fst (dwrt_host_initialize env config h) =
    map_option fst (dwrt_host_initialize env config (new_host wn t (win h)))"
proof -
  let ?h = "snd (dwrt_host_shutdown env0 (the_host w'))"
  have ok: "\<forall>x\<in>set es. event_ok x" and strict: "\<forall>x\<in>set es. event_strict x" using assms(3) by auto
  note run = host_run_inv [OF assms(2) fresh_inv(1) [OF assms(1)] ok, of t]
  have i: "host_inv refs (the_host w')" and k: "code_kept t (the_host w')"
    using run strict fresh_inv(2) [OF assms(1)] by blast+
  have u: "untimed (the_host w')"
    using host_run_untimed [OF assms(2)] assms(1) by (auto simp: fresh_def untimed_def new_host_def new_shadow_shim_def)
  have "\<not> hs_initialized (state ?h)" using shutdown_inv(3) [OF i] by simp
  moreover have "\<not> hs_initialized (state (new_host wn t (win ?h)))" by (simp add: new_host_def)
  ultimately show ?thesis
    using initialize_same_status [OF _ _ shutdown_like_new [OF i u k]] by (simp add: Let_def)
qed

theorem restart_like_new_witness:
  "\<exists>w'. host_run live_start live_world = Some w' \<and> hs_hooks (state (the_host w')) \<noteq> [] \<and>
     map_option fst (dwrt_host_initialize (live_env live_windows) (Some ((live_config 18)\<lparr>cfg_runtime_path := None\<rparr>))
       (snd (dwrt_host_shutdown (live_env live_windows) (the_host w')))) = Some 0"
proof -
  let ?c = "(live_config 18)\<lparr>cfg_runtime_path := None\<rparr>" and ?e = "live_env live_windows"
  obtain w' where r: "host_run live_start live_world = Some w'" "hs_hooks (state (the_host w')) \<noteq> []"
    using live_started by blast
  let ?h = "snd (dwrt_host_shutdown ?e (the_host w'))"
  have ok: "\<forall>x\<in>set live_start. event_ok x \<and> event_strict x" using live_events_ok(2) by (simp add: live_run_def)
  have "\<exists>k. dwrt_host_initialize ?e (Some ?c) (new_host live_windows live_text (win ?h)) = Some (0, k)"
    using live_initialize_bare [of ?c live_windows "win ?h"]
    by (auto simp: live_config_def DWRT_HOST_ABI_VERSION_def server_live_def live_windows_def)
  then show ?thesis
    using restart_like_new [OF live_fresh r(1) ok, of ?e ?e "Some ?c" live_windows] r by (auto simp: Let_def)
qed

end
