(* ===== verification/Host_Race.thy ===== *)
theory Host_Race
  imports Host_Api_Properties
begin

section \<open>Shutdown beside running detours\<close>

text \<open>
  The exported functions hold the mutex of the host, the detours do not: they read the originals and
  the shim while \<open>dwrt_host_shutdown\<close> writes them on another thread.  Here the shutdown is taken apart
  into its statements and a detour into its accesses to what they share; any interleaving of the two
  is a run of the step relation.  A thread is a stack of detours, because an original may run hooked
  functions again.  It crashes when it calls a null original or is inside an export of a library that
  has been freed.  The removal of the hooks is one step: what lies between the removal of two hooks can
  only be entered through hooks that are still there, as it could before.
\<close>

subsection \<open>Shutdown, statement by statement\<close>

definition unload_runtime :: "'r host_env \<Rightarrow> 'r host \<Rightarrow> 'r host" where
  "unload_runtime env h =
     (let (s, p) = unload (env_runtime env) (hs_runtime (state h)) (win h)
      in h\<lparr>state := (state h)\<lparr>hs_runtime := s\<rparr>, win := p\<rparr>)"

definition shutdown_steps :: "'r host_env \<Rightarrow> ('r host \<Rightarrow> 'r host) list" where
  "shutdown_steps env =
     (\<lambda>h. let (none, t) = hooks_reset (hs_hooks (state h)) (code h) in h\<lparr>state := (state h)\<lparr>hs_hooks := none\<rparr>, code := t\<rparr>)
     # map (\<lambda>(name, get, set) h. h\<lparr>originals := set nullptr (originals h)\<rparr>) probe_hooks
     @ [unload_runtime env,
        \<lambda>h. h\<lparr>state := (clear_status (state h))\<lparr>hs_initialized := False\<rparr>,
              walker_patrol := reset_walker_patrol_counters (walker_patrol h)\<rparr>]"

lemma all_originals_cleared:
  "fold (\<lambda>(name, get, set) orig. set nullptr orig) probe_hooks orig = no_originals"
  by (cases orig) (simp add: probe_hooks_def no_originals_def)

lemma fold_originals:
  "fold (\<lambda>f h. f h) (map (\<lambda>(name, get, set) h. h\<lparr>originals := set nullptr (originals h)\<rparr>) ps) h =
     h\<lparr>originals := fold (\<lambda>(name, get, set) orig. set nullptr orig) ps (originals h)\<rparr>"
  by (induction ps arbitrary: h) auto

lemma shutdown_in_steps:
  "snd (dwrt_host_shutdown env h) =
     fold (\<lambda>f h. f h) (shutdown_steps env) (h\<lparr>testpoints := record_shutdown_call (testpoints h)\<rparr>)"
  by (simp add: shutdown_steps_def fold_originals all_originals_cleared dwrt_host_shutdown_def remove_hooks_def
      unload_runtime_def clear_status_def Let_def split: prod.splits)

subsection \<open>A detour, access by access\<close>

text \<open>
  Detour \<open>i\<close> is that of the \<open>i\<close>th probe hook; the first three call the runtime.  \<open>In_Runtime i m\<close> is
  inside an export of the library \<open>m\<close>; \<open>Checked i\<close> is between \<open>if (g_original != nullptr)\<close> and the call,
  which reads the global again.
\<close>

datatype detour_point =
    Entered nat
  | In_Runtime nat ptr
  | Probed nat
  | Checked nat
  | In_Original nat

datatype engine_thread = Running "detour_point list" | Crashed

definition hook_in_place :: "'r host \<Rightarrow> nat \<Rightarrow> bool" where
  "hook_in_place h i \<longleftrightarrow> list_ex (\<lambda>r. record_name r = fst (probe_hooks ! i)) (hs_hooks (state h))"

definition hook_original :: "'r host \<Rightarrow> nat \<Rightarrow> ptr" where
  "hook_original h i = fst (snd (probe_hooks ! i)) (originals h)"

definition probe_export :: "shadow_shim \<Rightarrow> nat \<Rightarrow> ptr" where
  "probe_export s i =
     (if i = 0 then probe_record_damage_fn (bindings s)
      else if i = 1 then probe_record_entity_input_fn (bindings s)
      else if i = 2 then probe_record_entity_output_fn (bindings s) else nullptr)"

definition entries :: "'r host \<Rightarrow> detour_point list \<Rightarrow> engine_thread list" where
  "entries h st = map (\<lambda>i. Running (Entered i # st)) (filter (hook_in_place h) [0..<7])"

text \<open>The next points of a thread.  A detour skips the runtime when it is entered recursively.\<close>

fun thread_moves :: "'r host \<Rightarrow> engine_thread \<Rightarrow> engine_thread list" where
  "thread_moves h Crashed = []"
| "thread_moves h (Running []) = entries h []"
| "thread_moves h (Running (Entered i # st)) =
     (let s = hs_runtime (state h)
      in [Running ((if st = [] \<and> shim_runtime s \<noteq> nullptr \<and> probe_export s i \<noteq> nullptr
                    then In_Runtime i (shim_module s) else Probed i) # st)])"
| "thread_moves h (Running (In_Runtime i m # st)) =
     [if shim_module (hs_runtime (state h)) = m then Running (Probed i # st) else Crashed]"
| "thread_moves h (Running (Probed i # st)) =
     [Running (if hook_original h i \<noteq> nullptr then Checked i # st else st)]"
| "thread_moves h (Running (Checked i # st)) =
     [if hook_original h i \<noteq> nullptr then Running (In_Original i # st) else Crashed]"
| "thread_moves h (Running (In_Original i # st)) = Running st # entries h (In_Original i # st)"

record 'r race =
  race_host :: "'r host"
  race_todo :: "('r host \<Rightarrow> 'r host) list"
  race_threads :: "engine_thread list"

definition race_before :: "'r host_env \<Rightarrow> 'r host \<Rightarrow> engine_thread list \<Rightarrow> 'r race" where
  "race_before env h ts = \<lparr>race_host = h, race_todo = shutdown_steps env, race_threads = ts\<rparr>"

text \<open>With \<open>quiet\<close>, the shutdown only begins while no thread is inside a detour.\<close>

inductive race_step :: "bool \<Rightarrow> 'r host_env \<Rightarrow> 'r race \<Rightarrow> 'r race \<Rightarrow> bool" for quiet env where
  thread_step: "k < length ts \<Longrightarrow> t \<in> set (thread_moves h (ts ! k)) \<Longrightarrow>
    race_step quiet env \<lparr>race_host = h, race_todo = fs, race_threads = ts\<rparr>
      \<lparr>race_host = h, race_todo = fs, race_threads = ts[k := t]\<rparr>"
| shutdown_step: "(quiet \<and> Suc (length fs) = length (shutdown_steps env) \<longrightarrow> list_all ((=) (Running [])) ts) \<Longrightarrow>
    race_step quiet env \<lparr>race_host = h, race_todo = f # fs, race_threads = ts\<rparr>
      \<lparr>race_host = f h, race_todo = fs, race_threads = ts\<rparr>"

subsection \<open>A shutdown that waits is safe\<close>

definition originals_bound :: "'r host \<Rightarrow> bool" where
  "originals_bound h \<longleftrightarrow> (\<forall>i<7. hook_in_place h i \<longrightarrow> hook_original h i \<noteq> nullptr)"

fun point_ok :: "'r host \<Rightarrow> detour_point \<Rightarrow> bool" where
  "point_ok h (In_Runtime i m) \<longleftrightarrow> shim_module (hs_runtime (state h)) = m \<and> hook_original h i \<noteq> nullptr"
| "point_ok h (Entered i) \<longleftrightarrow> hook_original h i \<noteq> nullptr"
| "point_ok h (Probed i) \<longleftrightarrow> hook_original h i \<noteq> nullptr"
| "point_ok h (Checked i) \<longleftrightarrow> hook_original h i \<noteq> nullptr"
| "point_ok h (In_Original i) \<longleftrightarrow> True"

definition thread_ok :: "'r host \<Rightarrow> engine_thread \<Rightarrow> bool" where
  "thread_ok h t \<longleftrightarrow> (\<exists>st. t = Running st \<and> list_all (point_ok h) st)"

lemma entries_ok:
  "t \<in> set (entries h st) \<Longrightarrow> originals_bound h \<Longrightarrow> list_all (point_ok h) st \<Longrightarrow> thread_ok h t"
  by (auto simp: entries_def originals_bound_def thread_ok_def)

lemma thread_moves_ok:
  assumes "originals_bound h" "thread_ok h t" "t' \<in> set (thread_moves h t)"
  shows "thread_ok h t'"
  using assms
  by (cases "(h, t)" rule: thread_moves.cases)
     (auto simp: thread_ok_def Let_def dest!: entries_ok [unfolded thread_ok_def] split: if_splits)

text \<open>Before the first statement everything is as it was; after it no hook can be entered.\<close>

definition race_inv :: "'r host_env \<Rightarrow> 'r host \<Rightarrow> 'r race \<Rightarrow> bool" where
  "race_inv env h0 r \<longleftrightarrow>
     race_todo r = shutdown_steps env \<and> race_host r = h0 \<and> list_all (thread_ok h0) (race_threads r) \<or>
     (\<exists>n>0. race_todo r = drop n (shutdown_steps env)) \<and> hs_hooks (state (race_host r)) = [] \<and>
     list_all ((=) (Running [])) (race_threads r)"

lemma steps_keep_no_hooks:
  "f \<in> set (tl (shutdown_steps env)) \<Longrightarrow> hs_hooks (state h) = [] \<Longrightarrow> hs_hooks (state (f h)) = []"
  by (auto simp: shutdown_steps_def unload_runtime_def clear_status_def Let_def split: prod.splits)

lemma list_all_update: "list_all P xs \<Longrightarrow> P x \<Longrightarrow> list_all P (xs[k := x])"
  by (auto simp: list_all_iff dest: set_update_subset_insert [THEN subsetD])

lemma race_inv_step:
  assumes "race_step True env r r'" "race_inv env h0 r" "originals_bound h0"
  shows "race_inv env h0 r'"
  using assms(1)
proof (cases rule: race_step.cases)
  case (thread_step k ts t h fs)
  show ?thesis
  proof (cases "race_todo r = shutdown_steps env \<and> race_host r = h0 \<and> list_all (thread_ok h0) (race_threads r)")
    case True
    then have "thread_ok h0 (ts ! k)" using thread_step by (simp add: list_all_iff)
    then have "thread_ok h0 t" using thread_moves_ok [OF assms(3)] thread_step True by simp
    then show ?thesis using True thread_step by (simp add: race_inv_def list_all_update)
  next
    case False
    then have r: "hs_hooks (state h) = []" "list_all ((=) (Running [])) ts" using assms(2) thread_step by (auto simp: race_inv_def)
    then have "ts ! k = Running []" using thread_step by (simp add: list_all_length)
    then show ?thesis using r thread_step by (simp add: entries_def hook_in_place_def)
  qed
next
  case (shutdown_step fs ts h f)
  show ?thesis
  proof (cases "race_todo r = shutdown_steps env \<and> race_host r = h0 \<and> list_all (thread_ok h0) (race_threads r)")
    case True
    then have "f # fs = shutdown_steps env" "list_all ((=) (Running [])) ts" using shutdown_step by (auto dest: arg_cong [of _ _ length])
    moreover from this have "hs_hooks (state (f h)) = []" "fs = drop 1 (shutdown_steps env)"
      by (auto simp: shutdown_steps_def hooks_reset_def Let_def)
    ultimately show ?thesis using shutdown_step by (auto simp: race_inv_def)
  next
    case False
    then obtain n where n: "n > 0" "f # fs = drop n (shutdown_steps env)" "hs_hooks (state h) = []"
      "list_all ((=) (Running [])) ts" using assms(2) shutdown_step by (auto simp: race_inv_def)
    then have "fs = drop (Suc n) (shutdown_steps env)" by (metis drop_Suc list.sel(3) tl_drop)
    moreover have "f \<in> set (tl (shutdown_steps env))"
      using n(1,2) by (cases n) (auto simp: drop_Suc, metis in_set_dropD list.set_intros(1))
    ultimately show ?thesis using n shutdown_step steps_keep_no_hooks by (auto simp: race_inv_def)
  qed
qed

lemma quiet_race_safe:
  assumes "(race_step True env)\<^sup>*\<^sup>* (race_before env h (replicate n (Running []))) r" "originals_bound h"
  shows "Crashed \<notin> set (race_threads r)"
proof -
  have "race_inv env h r"
    using assms(1)
  proof (induction rule: rtranclp_induct)
    case base
    show ?case by (simp add: race_inv_def race_before_def thread_ok_def list_all_iff)
  next
    case (step r r')
    then show ?case using race_inv_step assms(2) by blast
  qed
  then show ?thesis by (auto simp: race_inv_def thread_ok_def list_all_iff)
qed

subsection \<open>A shutdown that does not wait is not\<close>

lemma shutdown_runs:
  "(race_step False env)\<^sup>*\<^sup>* \<lparr>race_host = h, race_todo = fs, race_threads = ts\<rparr>
     \<lparr>race_host = fold (\<lambda>f h. f h) fs h, race_todo = [], race_threads = ts\<rparr>"
proof (induction fs arbitrary: h)
  case (Cons f fs)
  have "race_step False env \<lparr>race_host = h, race_todo = f # fs, race_threads = ts\<rparr>
      \<lparr>race_host = f h, race_todo = fs, race_threads = ts\<rparr>" by (rule shutdown_step) simp
  then show ?case using Cons.IH [of "f h"] by (simp add: converse_rtranclp_into_rtranclp)
qed simp

lemma shutdown_clears_originals: "originals (fold (\<lambda>f h. f h) (shutdown_steps env) h) = no_originals"
  by (simp add: shutdown_steps_def fold_originals all_originals_cleared unload_runtime_def Let_def split: prod.splits)

lemma no_original: "i < 7 \<Longrightarrow> fst (snd (probe_hooks ! i)) no_originals = nullptr"
  by (auto simp: less_Suc_eq numeral_eq_Suc probe_hooks_def no_originals_def)

text \<open>A thread moves on its own.\<close>

lemma thread_moves_on:
  assumes "t' \<in> set (thread_moves h t)"
  shows "race_step quiet env \<lparr>race_host = h, race_todo = fs, race_threads = [t]\<rparr>
    \<lparr>race_host = h, race_todo = fs, race_threads = [t']\<rparr>"
  using thread_step [of 0 "[t]" t' h quiet env fs] assms by simp

text \<open>
  Any thread that has just checked its original when \<open>dwrt_host_shutdown\<close> runs calls a null pointer: the
  check and the call read the global separately, and the detours do not hold the mutex.
\<close>

theorem shutdown_race_crashes:
  assumes "i < 7" "hook_in_place h i" "hook_original h i \<noteq> nullptr"
  shows "\<exists>r. (race_step False env)\<^sup>*\<^sup>* (race_before env h [Running []]) r \<and> race_todo r = [] \<and> race_threads r = [Crashed]"
proof -
  let ?at = "\<lambda>h fs t. \<lparr>race_host = h, race_todo = fs, race_threads = [t]\<rparr>" and ?fs = "shutdown_steps env"
  let ?gone = "fold (\<lambda>f h. f h) ?fs h" and ?s = "hs_runtime (state h)"
  note go = thread_moves_on [of _ h _ False env ?fs]
  have "race_step False env (?at h ?fs (Running [])) (?at h ?fs (Running [Entered i]))"
    using assms(1,2) by (intro go) (auto simp: entries_def)
  also have "(race_step False env)\<^sup>*\<^sup>* (?at h ?fs (Running [Entered i])) (?at h ?fs (Running [Probed i]))"
  proof (cases "shim_runtime ?s \<noteq> nullptr \<and> probe_export ?s i \<noteq> nullptr")
    case True
    then have "race_step False env (?at h ?fs (Running [Entered i])) (?at h ?fs (Running [In_Runtime i (shim_module ?s)]))"
      by (intro go) (simp add: Let_def)
    moreover have "race_step False env (?at h ?fs (Running [In_Runtime i (shim_module ?s)])) (?at h ?fs (Running [Probed i]))"
      by (intro go) simp
    ultimately show ?thesis by (meson converse_rtranclp_into_rtranclp r_into_rtranclp)
  next
    case False
    then have "race_step False env (?at h ?fs (Running [Entered i])) (?at h ?fs (Running [Probed i]))"
      by (intro go) (auto simp: Let_def)
    then show ?thesis by blast
  qed
  also have "race_step False env (?at h ?fs (Running [Probed i])) (?at h ?fs (Running [Checked i]))"
    using assms(3) by (intro go) simp
  also have "(race_step False env)\<^sup>*\<^sup>* (?at h ?fs (Running [Checked i])) (?at ?gone [] (Running [Checked i]))"
    by (rule shutdown_runs)
  also have "race_step False env (?at ?gone [] (Running [Checked i])) (?at ?gone [] Crashed)"
    using no_original [OF assms(1)] by (intro thread_moves_on) (simp add: hook_original_def shutdown_clears_originals)
  finally show ?thesis by (auto simp: race_before_def)
qed

end
