(* ===== verification/Spec2Isabelle.thy ===== *)
theory Spec2Isabelle
  imports Host_Api_Properties Target_Probe_Properties Walker_Patrol_Properties Bootstrap_Smoke
    Host_Smoke_Properties Injector_Properties Injector_Termination Injector_Host Host_Restart Host_Race
begin

text \<open>
  A verification library for the native code of dwrt: the host that is loaded into a running game
  server, the shim between it and the Rust runtime, the part of the Rust runtime behind the shim, and
  the programs that load, drive and check the host.

  \<^bold>\<open>The program.\<close>  \<open>inject_smoke.cpp\<close> starts the game server, loads \<open>dwrt_host.dll\<close> into it with remote
  threads and calls the exports of \<open>dwrt_host_api.hpp\<close>.  \<open>dwrt_host.cpp\<close> loads the runtime through
  \<open>DwrtShadowShim\<close>, resolves the signatures of the probe manifest in the live \<open>server.dll\<close> (or in a file
  mapped for reading), and installs seven inline hooks.  The engine then runs the detours, which open a
  callback scope, run the experiments (friendly fire, walker patrol, target probe) on the engine's
  objects, report the outermost callback to the runtime, and call the original.

  \<^bold>\<open>Theories and sources\<close> (all under \<open>native/\<close> unless a crate is named).
  \<^item> \<open>Dwrt_Prelude\<close>: the machine types, named collections and shared facts.
  \<^item> \<open>Engine_Memory\<close>, \<open>Entity_Access\<close>, \<open>Memory_Scopes\<close>: the memory of the server as a parameter, the
    unprotected accesses of the probes, and the contract of opening and closing a change of it.
  \<^item> \<open>Signature_Scanner\<close>, \<open>Pe_Image\<close>: \<open>dwrt_signature_scanner.cpp\<close>; \<open>Probe_Manifest\<close>: the table of
    \<open>dwrt_probe_manifest.cpp\<close>; \<open>Hook_Backend\<close>: \<open>dwrt_hook_backend.cpp\<close> and the \<open>InlineHook\<close> of
    \<open>vendor/safetyhook.cpp\<close> on the bytes of the code.
  \<^item> \<open>Environment_Config\<close>, \<open>Float32\<close>: the environment readers and the \<open>float\<close> arithmetic of the probes;
    \<open>Friendly_Fire\<close>, \<open>Walker_Patrol\<close>, \<open>Target_Probe_State\<close>, \<open>Target_Probe\<close>: one file \<open>dwrt_*.cpp\<close> each;
    \<open>Target_Filter_Scope\<close>, \<open>Target_Probe_Counters\<close>, \<open>Target_Probe_Properties\<close> and
    \<open>Walker_Patrol_Properties\<close> prove what they do.
  \<^item> \<open>Win_Process\<close>: the loader and the performance counter; \<open>Shadow_Shim\<close>: \<open>dwrt_shadow_shim.cpp\<close>;
    \<open>Runtime_Core\<close>: the crates \<open>dwrt-core\<close> and \<open>dwrt-runtime\<close> behind \<open>dwrt_runtime.h\<close>; \<open>Probe_Abi\<close>: the
    handshake of the host and \<open>dwrt-shim/smoke.cpp\<close>, with the promise of the runtime as a locale.
  \<^item> \<open>Host_Testpoints\<close>: \<open>dwrt_host_testpoints.cpp\<close>, as one thread sees it and as any number of threads
    interleave on its atomics; \<open>Text_Output\<close>, \<open>Json_Text\<close>: output streams and JSON with a reference parser.
  \<^item> \<open>Host_State\<close>, \<open>Host_Summary\<close>, \<open>Host_Api\<close>, \<open>Host_Detours\<close>: \<open>dwrt_host.cpp\<close>; \<open>Host_Hook_Properties\<close>,
    \<open>Host_Detour_Properties\<close>, \<open>Host_Api_Properties\<close>: the facts about its parts, about runs of the engine
    and about histories of API calls; \<open>Host_Restart\<close>: a host that was shut down starts again like a new
    one; \<open>Host_Race\<close>: the steps of a shutdown beside the steps of a detour on another thread.
  \<^item> \<open>Pe_Layout\<close>, \<open>Live_Module\<close>, \<open>Live_Server\<close>, \<open>Live_Host\<close>: a concrete server for the witnesses: an image
    written field by field that \<open>parse_image\<close> reads back, a text section in which every signature of the
    manifest matches exactly once and at its expected address, and an initialization on it that
    requires signatures and ends with status 0 and seven hooks.
  \<^item> \<open>Command_Line\<close>, \<open>Bootstrap_Smoke\<close>, \<open>Host_Smoke\<close>, \<open>Host_Smoke_Properties\<close>: the two smoke programs of the
    host, on top of the model of the host they load.
  \<^item> \<open>Injector_Summary\<close>, \<open>Injector\<close>, \<open>Injector_Session\<close>: \<open>inject_smoke.cpp\<close>, its reports, its primitives and
    \<open>wmain\<close>; \<open>Injector_Contract\<close>: the contract its calls share; \<open>Injector_Example\<close>: a complete run;
    \<open>Injector_Summary_Properties\<close>, \<open>Injector_Properties\<close>, \<open>Injector_Termination\<close>, \<open>Injector_Host\<close>: the facts.

  \<^bold>\<open>State and errors.\<close>  A C++ object or group of globals is a record with the source's fields; an
  operation maps the state to a result and a new state.  Status codes are words, error texts are the
  left side of a sum, and \<open>None\<close> is a call that does not return: an access violation outside a handler,
  a read outside a buffer, an exception that leaves the function, or a loop that does not end.  Atomics
  are words that wrap at their width.

  \<^bold>\<open>Parameters.\<close>  Windows, the file system, the engine's functions and memory, the trampoline builder of
  SafetyHook (which rests on the Zydis disassembler), the code behind the exports of an unknown runtime
  library, and the game server of the injector are arguments of the definitions.  Windows answers as
  a function of the moment, the number of calls so far, so every sequence of answers is covered.  What a
  theorem relies on is a hypothesis by name: \<open>safe_hooks\<close> (SafetyHook moves at most 28 bytes and replaces no
  more than it saved), \<open>exports_sound\<close> (no export of a loaded module has the address 0), \<open>steady\<close> (a clock that
  does not run backwards and calls that take at most \<open>D\<close> milliseconds), \<open>directories_made\<close>.

  \<^bold>\<open>What is shown.\<close>  The hooks are installed all together or not at all, every library is given back
  and, when hooks are installed only with signatures required and no drift, the code of the server is
  restored, over every history of API calls and runs of the engine; after a shutdown the host
  starts again like a new one; with the experiments off the hooks cannot be observed; every nest of callbacks is counted as one event and
  leaves the depth as it was; the experiments restore the memory they change at every nesting.  The
  scanner, the manifest, the image parser, the routing tables, the walker schedule and the counters meet
  their specifications; the summaries are JSON that reads back.  The programs end with the status
  their specification gives, the injector cleans up, ends, and accepts exactly the hosts that keep
  the host's promise.

  \<^bold>\<open>Bounds and fuel.\<close>  The JSON parser runs on fuel, the length of the text, which \<open>parse_json_layout\<close> shows
  to be enough.  The loops of the injector are \<open>partial_function (option)\<close>; \<open>Injector_Termination\<close> shows
  that they return when the time to wait plus 250 milliseconds and 33 calls stays below \<open>2 ^ 32\<close>.
  Every other recursion is structural or has a measure.

  \<^bold>\<open>Interfaces.\<close>  The locales are \<open>restorable_cell\<close>, \<open>memory_scope\<close>, \<open>pattern_finder\<close>, \<open>undoable\<close>, \<open>probe_abi\<close> and
  \<open>session_contract\<close>; each is interpreted on the definitions of the component that provides it.

  \<^bold>\<open>Not modelled.\<close>  Console output and usage texts, \<open>DllMain\<close>; the mutex of
  the host (its functions hold it from their first access to the state, so each is one step; the detours do not
  take it, and \<open>shutdown_race_crashes\<close> shows a schedule in which a shutdown takes the runtime from
  under a detour that has already tested for it); the
  calling conventions and struct layouts the compiler checks; the rest of SafetyHook (mid-function
  and VMT hooks, allocator, thread traps) and Zydis, which are vendored; the Rust crates that no native code
  calls: \<open>dwrt-engine\<close>, \<open>dwrt-entity\<close>, \<open>dwrt-hooks\<close>, \<open>dwrt-memory\<close>, \<open>dwrt-trace\<close> and \<open>dwrt-bench\<close>; the scripts
  and the research notes.  Next in line are \<open>dwrt-hooks\<close> (the registry) and \<open>dwrt-trace\<close> (the comparison of
  route decisions).
\<close>

end
